(* ===== verification/Prelude.thy ===== *)
theory Prelude
  imports Main "HOL-Library.Word" "HOL-Library.AList"
begin

text \<open>
  What every component shares: bytes, the error values a thrown exception becomes, the result
  type of code that may throw, little- and big-endian byte strings, the decimal strings of
  \<^verbatim>\<open>BigInt\<close> and \<^verbatim>\<open>toString\<close>, and the record of the third-party functions the code calls.
\<close>

section \<open>Automation\<close>

named_theorems res_simps \<open>how results with errors are taken apart\<close>
named_theorems const_defs \<open>the numeric constants of the source\<close>
named_theorems bytes_simps \<open>lengths and round trips of byte strings\<close>

section \<open>Bytes\<close>

type_synonym byte = "8 word"
type_synonym bytes = "byte list"

abbreviation zero_bytes :: "nat \<Rightarrow> bytes" where
  "zero_bytes n \<equiv> replicate n 0"

section \<open>Errors and results\<close>

text \<open>
  A \<^verbatim>\<open>throw\<close> of the source is a value of type \<open>error\<close>. A \<^verbatim>\<open>TypeError\<close> or \<^verbatim>\<open>RangeError\<close> keeps the
  name its message starts with; a \<^verbatim>\<open>WireError\<close> and an \<^verbatim>\<open>InvoiceError\<close> keep the path and the
  reason; a refusal keeps its wire code and a label of the rule that refused.
\<close>

datatype signer_error_code = unknown_channel | malformed | stale_state | policy_refusal

datatype error =
    TypeErr string
  | RangeErr string
  | OtherErr string
  | WireErr string string
  | InvoiceErr string string
  | PolicyRefusalErr signer_error_code string
  | HostErr string

type_synonym 'a res = "error + 'a"

definition bindR :: "'a res \<Rightarrow> ('a \<Rightarrow> 'b res) \<Rightarrow> 'b res" where
  "bindR m f = (case m of Inl e \<Rightarrow> Inl e | Inr x \<Rightarrow> f x)"

definition check :: "bool \<Rightarrow> error \<Rightarrow> unit res" where
  "check b e = (if b then Inr () else Inl e)"

lemma bindR_simps [simp]:
  "bindR (Inr x) f = f x"
  "bindR (Inl e) f = Inl e"
  by (simp_all add: bindR_def)

lemma check_simps [simp]:
  "check True e = Inr ()"
  "check False e = Inl e"
  by (simp_all add: check_def)

lemma bindR_Inr_iff [res_simps]: "bindR m f = Inr y \<longleftrightarrow> (\<exists>x. m = Inr x \<and> f x = Inr y)"
  by (cases m) auto

lemma bindR_unit_Inr_iff: "bindR (m :: unit res) f = Inr y \<longleftrightarrow> m = Inr () \<and> f () = Inr y"
  by (cases m) auto

lemma bindR_Inl_iff [res_simps]:
  "bindR m f = Inl e \<longleftrightarrow> m = Inl e \<or> (\<exists>x. m = Inr x \<and> f x = Inl e)"
  by (cases m) auto

lemma check_Inr_iff [res_simps]: "check b e = Inr u \<longleftrightarrow> b"
  by (simp add: check_def)

lemma check_Inl_iff [res_simps]: "check b e = Inl e' \<longleftrightarrow> \<not> b \<and> e = e'"
  by (auto simp: check_def)

lemma bindR_check: "bindR (check b e) f = (if b then f () else Inl e)"
  by (simp add: check_def)

lemma bindR_assoc: "bindR (bindR m f) g = bindR m (\<lambda>x. bindR (f x) g)"
  by (cases m) simp_all

lemma bindR_cong [fundef_cong]:
  "m = m' \<Longrightarrow> (\<And>x. m' = Inr x \<Longrightarrow> f x = f' x) \<Longrightarrow> bindR m f = bindR m' f'"
  by (cases m') auto

text \<open>\<^verbatim>\<open>list.map(f)\<close> where \<open>f\<close> may throw: the first failure, from the left, is the whole one.\<close>

fun mapR :: "('a \<Rightarrow> 'b res) \<Rightarrow> 'a list \<Rightarrow> 'b list res" where
  "mapR f [] = Inr []"
| "mapR f (x # xs) = bindR (f x) (\<lambda>y. bindR (mapR f xs) (\<lambda>ys. Inr (y # ys)))"

lemma mapR_length: "mapR f xs = Inr ys \<Longrightarrow> length ys = length xs"
  by (induction xs arbitrary: ys) (auto simp: res_simps)

lemma mapR_Inr_list_all2: "mapR f xs = Inr ys \<longleftrightarrow> list_all2 (\<lambda>x y. f x = Inr y) xs ys"
  by (induction xs arbitrary: ys) (auto simp: res_simps list_all2_Cons1)

lemma mapR_map: "mapR f (map g xs) = mapR (\<lambda>x. f (g x)) xs"
  by (induction xs) simp_all

lemma mapR_all_Inr: "(\<And>x. x \<in> set xs \<Longrightarrow> f x = Inr (g x)) \<Longrightarrow> mapR f xs = Inr (map g xs)"
  by (induction xs) auto

lemma mapR_cong [fundef_cong]:
  "xs = ys \<Longrightarrow> (\<And>x. x \<in> set ys \<Longrightarrow> f x = g x) \<Longrightarrow> mapR f xs = mapR g ys"
  by (induction ys arbitrary: xs) auto

text \<open>\<^verbatim>\<open>for (const x of list) f(x)\<close> where \<open>f\<close> may throw.\<close>

definition forR :: "('a \<Rightarrow> unit res) \<Rightarrow> 'a list \<Rightarrow> unit res" where
  "forR f xs = bindR (mapR f xs) (\<lambda>_. Inr ())"

lemma forR_Inr_iff [res_simps]: "forR f xs = Inr u \<longleftrightarrow> (\<forall>x\<in>set xs. f x = Inr ())"
  by (induction xs) (auto simp: forR_def res_simps)

text \<open>A list with each item's index, \<^verbatim>\<open>list.entries()\<close>.\<close>

definition entries :: "'a list \<Rightarrow> (nat \<times> 'a) list" where
  "entries xs = zip [0..<length xs] xs"

lemma entries_simps [simp]: "length (entries xs) = length xs" "map snd (entries xs) = xs"
  by (simp_all add: entries_def)

lemma set_entries: "p \<in> set (entries xs) \<longleftrightarrow> fst p < length xs \<and> snd p = xs ! fst p"
  by (cases p) (force simp: entries_def set_zip)

section \<open>Plain objects\<close>

text \<open>
  A JavaScript object used as a map is an association list in insertion order; \<^verbatim>\<open>{ ...o, [k]: v }\<close>
  replaces the value in place or appends the pair, and a missing key reads as \<^const>\<open>None\<close>.
\<close>

type_synonym ('k, 'v) object = "('k \<times> 'v) list"

abbreviation get :: "('k, 'v) object \<Rightarrow> 'k \<Rightarrow> 'v option" where
  "get \<equiv> map_of"

definition put :: "'k \<Rightarrow> 'v \<Rightarrow> ('k, 'v) object \<Rightarrow> ('k, 'v) object" where
  "put = AList.update"

lemma put_simps [simp, code]:
  "put k v [] = [(k, v)]"
  "put k v (p # ps) = (if fst p = k then (k, v) # ps else p # put k v ps)"
  by (simp_all add: put_def split: prod.splits)

lemma get_put: "get (put k v m) k' = (if k' = k then Some v else get m k')"
  by (simp add: put_def update_conv')

lemma get_put_same [simp]: "get (put k v m) k = Some v"
  by (simp add: get_put)

lemma get_put_other [simp]: "k' \<noteq> k \<Longrightarrow> get (put k v m) k' = get m k'"
  by (simp add: get_put)

lemma keys_put: "fst ` set (put k v m) = insert k (fst ` set m)"
  by (induction m) auto

lemma distinct_keys_put: "distinct (map fst m) \<Longrightarrow> distinct (map fst (put k v m))"
  by (simp add: put_def distinct_update)

section \<open>Lists of chunks\<close>

lemma length_concat_chunks: "\<forall>x\<in>set xs. length x = n \<Longrightarrow> length (concat xs) = n * length xs"
  by (induction xs) simp_all

lemma nth_chunk:
  "\<forall>x\<in>set xs. length x = n \<Longrightarrow> i < length xs \<Longrightarrow> take n (drop (n * i) (concat xs @ rest)) = xs ! i"
proof (induction xs arbitrary: i)
  case (Cons x xs)
  then show ?case
    by (cases i) (simp_all add: algebra_simps)
qed simp

lemma concat_chunks: "concat (map (\<lambda>i. take n (drop (n * i) b)) [0..<k]) = take (n * k) b"
  by (induction k) (simp_all add: take_add [symmetric] algebra_simps)

lemma drop_concat_take: "drop (length (concat (take i xs))) (concat xs) = concat (drop i xs)"
  by (metis append_eq_conv_conj append_take_drop_id concat_append)

lemma take_concat_drop: "i < length xs \<Longrightarrow> take (length (xs ! i)) (concat (drop i xs)) = xs ! i"
  by (simp add: Cons_nth_drop_Suc [symmetric])

lemma length_concat_take_Suc:
  "i < length xs \<Longrightarrow> length (concat (take (Suc i) xs)) = length (concat (take i xs)) + length (xs ! i)"
  by (simp add: take_Suc_conv_app_nth)

lemma sorted_wrt_snoc:
  "sorted_wrt (<) (xs @ [x :: 'a :: linorder]) \<longleftrightarrow> sorted_wrt (<) xs \<and> (xs = [] \<or> last xs < x)"
proof (induction xs)
  case (Cons a xs)
  show ?case
  proof (cases "xs = []")
    case False
    then have "last xs \<in> set xs" by simp
    with Cons False show ?thesis by (auto dest: order.strict_trans)
  qed simp
qed simp

section \<open>Encoders and codecs\<close>

text \<open>
  The contract of a pair of functions that write and read a format. An encoder's reader undoes its
  writer; a codec's reader also accepts nothing the writer does not write, so the two are inverse
  partial functions and a value has one byte form.
\<close>

locale encoder =
  fixes enc :: "'a \<Rightarrow> 'b res"
    and dec :: "'b \<Rightarrow> 'a res"
  assumes dec_enc: "enc x = Inr b \<Longrightarrow> dec b = Inr x"
begin

lemma enc_inj: "enc x = Inr b \<Longrightarrow> enc y = Inr b \<Longrightarrow> x = y"
  by (drule dec_enc)+ simp

lemma mapR_dec_enc: "mapR enc xs = Inr bs \<Longrightarrow> mapR dec bs = Inr xs"
  by (induction xs arbitrary: bs) (auto simp: res_simps dec_enc)

end

locale codec = encoder +
  assumes enc_dec: "dec b = Inr x \<Longrightarrow> enc x = Inr b"
begin

lemma dec_iff: "dec b = Inr x \<longleftrightarrow> enc x = Inr b"
  using dec_enc enc_dec by blast

lemma dec_inj: "dec b = Inr x \<Longrightarrow> dec c = Inr x \<Longrightarrow> b = c"
  by (drule enc_dec)+ simp

lemma mapR_dec_iff: "mapR dec bs = Inr xs \<longleftrightarrow> mapR enc xs = Inr bs"
  unfolding mapR_Inr_list_all2 dec_iff
  by (simp add: list_all2_conv_all_nth) (metis)

end

section \<open>Little- and big-endian integers\<close>

primrec le_bytes :: "nat \<Rightarrow> nat \<Rightarrow> bytes" where
  "le_bytes 0 v = []"
| "le_bytes (Suc n) v = word_of_nat (v mod 256) # le_bytes n (v div 256)"

primrec le_val :: "bytes \<Rightarrow> nat" where
  "le_val [] = 0"
| "le_val (b # bs) = unat b + 256 * le_val bs"

definition be_bytes :: "nat \<Rightarrow> nat \<Rightarrow> bytes" where
  "be_bytes n v = rev (le_bytes n v)"

definition be_val :: "bytes \<Rightarrow> nat" where
  "be_val bs = le_val (rev bs)"

lemma length_le_bytes [simp, bytes_simps]: "length (le_bytes n v) = n"
  by (induction n arbitrary: v) simp_all

lemma length_be_bytes [simp, bytes_simps]: "length (be_bytes n v) = n"
  by (simp add: be_bytes_def)

lemma unat_byte_of_nat: "unat (word_of_nat (v mod 256) :: byte) = v mod 256"
  by (simp add: unat_of_nat)

lemma unat_byte_small: "n < 256 \<Longrightarrow> unat (word_of_nat n :: byte) = n"
  by (simp add: unat_of_nat)

lemma le_val_le_bytes: "le_val (le_bytes n v) = v mod 256 ^ n"
proof (induction n arbitrary: v)
  case (Suc n)
  have "le_val (le_bytes (Suc n) v) = v mod 256 + 256 * (v div 256 mod 256 ^ n)"
    by (simp add: Suc.IH unat_byte_of_nat)
  also have "\<dots> = v mod (256 * 256 ^ n)"
    by (simp add: mod_mult2_eq)
  finally show ?case by simp
qed simp

lemma le_val_zero [simp]: "le_val (zero_bytes n) = 0"
  by (induction n) simp_all

lemma le_val_le_bytes_id [bytes_simps]: "v < 256 ^ n \<Longrightarrow> le_val (le_bytes n v) = v"
  by (simp add: le_val_le_bytes)

lemma be_val_be_bytes_id [bytes_simps]: "v < 256 ^ n \<Longrightarrow> be_val (be_bytes n v) = v"
  by (simp add: be_val_def be_bytes_def le_val_le_bytes)

lemma byte_less_256: "unat (b :: byte) < 256"
  using unsigned_less [of b, where 'a = nat] by simp

lemma le_val_bound: "le_val bs < 256 ^ length bs"
proof (induction bs)
  case (Cons b bs)
  have "unat b + 256 * le_val bs < 256 * (le_val bs + 1)"
    using byte_less_256 [of b] by simp
  also have "\<dots> \<le> 256 * 256 ^ length bs"
    using Cons by simp
  finally show ?case by simp
qed simp

lemma le_bytes_le_val [bytes_simps]: "le_bytes (length bs) (le_val bs) = bs"
proof (induction bs)
  case (Cons b bs)
  have "(unat b + 256 * le_val bs) mod 256 = unat b"
    using byte_less_256 [of b] by simp
  moreover have "(unat b + 256 * le_val bs) div 256 = le_val bs"
    using byte_less_256 [of b] by simp
  ultimately show ?case by (simp add: Cons)
qed simp

lemma be_bytes_be_val: "be_bytes (length bs) (be_val bs) = bs"
  using le_bytes_le_val [of "rev bs"] by (simp add: be_bytes_def be_val_def)

lemma le_bytes_inj: "v < 256 ^ n \<Longrightarrow> w < 256 ^ n \<Longrightarrow> le_bytes n v = le_bytes n w \<longleftrightarrow> v = w"
  by (metis le_val_le_bytes_id)

lemma be_bytes_inj: "v < 256 ^ n \<Longrightarrow> w < 256 ^ n \<Longrightarrow> be_bytes n v = be_bytes n w \<longleftrightarrow> v = w"
  by (simp add: be_bytes_def le_bytes_inj)

section \<open>Decimal strings\<close>

text \<open>
  \<^verbatim>\<open>n.toString()\<close> and \<^verbatim>\<open>`${n}`\<close> on integers, and \<^verbatim>\<open>BigInt(s)\<close> on the decimal strings the code hands
  it (a string that is no decimal throws in JavaScript; every string the code converts has been
  checked, so the reader is total here).
\<close>

definition digit_char :: "nat \<Rightarrow> char" where
  "digit_char d = char_of (48 + d)"

definition char_digit :: "char \<Rightarrow> nat" where
  "char_digit c = of_char c - 48"

fun dec_nat :: "nat \<Rightarrow> string" where
  "dec_nat n = (if n < 10 then [digit_char n] else dec_nat (n div 10) @ [digit_char (n mod 10)])"

declare dec_nat.simps [simp del]

definition nat_of_dec :: "string \<Rightarrow> nat" where
  "nat_of_dec s = foldl (\<lambda>a c. 10 * a + char_digit c) 0 s"

definition toString :: "int \<Rightarrow> string" where
  "toString i = (if i < 0 then CHR ''-'' # dec_nat (nat (- i)) else dec_nat (nat i))"

definition bigInt :: "string \<Rightarrow> int" where
  "bigInt s = (case s of [] \<Rightarrow> 0
     | c # cs \<Rightarrow> if c = CHR ''-'' then - int (nat_of_dec cs) else int (nat_of_dec s))"

lemma of_char_digit_char: "d < 10 \<Longrightarrow> of_char (digit_char d) = 48 + d"
  by (simp add: digit_char_def)

lemma char_digit_digit_char [simp]: "d < 10 \<Longrightarrow> char_digit (digit_char d) = d"
  by (simp add: char_digit_def digit_char_def)

lemma digit_char_not_minus: "d < 10 \<Longrightarrow> digit_char d \<noteq> CHR ''-''"
proof
  assume "d < 10" and "digit_char d = CHR ''-''"
  then have "48 + d = of_char (CHR ''-'')"
    by (metis of_char_digit_char)
  then show False by simp
qed

lemma nat_of_dec_dec_nat [simp]: "nat_of_dec (dec_nat n) = n"
proof (induction n rule: dec_nat.induct)
  case (1 n)
  show ?case
  proof (cases "n < 10")
    case True
    then show ?thesis by (simp add: dec_nat.simps [of n] nat_of_dec_def)
  next
    case False
    with 1 have "nat_of_dec (dec_nat (n div 10)) = n div 10" by simp
    with False show ?thesis by (simp add: dec_nat.simps [of n] nat_of_dec_def)
  qed
qed

lemma dec_nat_nonempty [simp]: "dec_nat n \<noteq> []"
  by (subst dec_nat.simps) simp

lemma set_dec_nat: "c \<in> set (dec_nat n) \<Longrightarrow> \<exists>d < 10. c = digit_char d"
proof (induction n rule: dec_nat.induct)
  case (1 n)
  show ?case
  proof (cases "n < 10")
    case True
    then show ?thesis using "1.prems" by (auto simp: dec_nat.simps [of n])
  next
    case False
    with "1.prems" have "c \<in> set (dec_nat (n div 10)) \<or> c = digit_char (n mod 10)"
      by (auto simp: dec_nat.simps [of n])
    moreover have "n mod 10 < 10" by simp
    ultimately show ?thesis using "1.IH" [OF False] by blast
  qed
qed

lemma dec_nat_inj [simp]: "dec_nat m = dec_nat n \<longleftrightarrow> m = n"
  by (metis nat_of_dec_dec_nat)

lemma hd_dec_nat: "hd (dec_nat n) \<noteq> CHR ''-''"
  using set_dec_nat [of "hd (dec_nat n)" n] digit_char_not_minus by (metis hd_in_set dec_nat_nonempty)

lemma bigInt_dec_nat [simp]: "bigInt (dec_nat n) = int n"
proof -
  obtain c cs where c: "dec_nat n = c # cs"
    by (cases "dec_nat n") auto
  then have "c \<noteq> CHR ''-''"
    using hd_dec_nat [of n] by simp
  then have "bigInt (dec_nat n) = int (nat_of_dec (dec_nat n))"
    by (simp add: bigInt_def c)
  then show ?thesis by simp
qed

lemma bigInt_toString [simp]: "bigInt (toString i) = i"
  by (simp add: toString_def) (simp add: bigInt_def)

text \<open>Evaluation runs on binary integers: the same conversions without a unary number in between.\<close>

function dec_int :: "int \<Rightarrow> string" where
  "dec_int i = (if i < 10 then [char_of (48 + i)] else dec_int (i div 10) @ [char_of (48 + i mod 10)])"
  by auto

termination
  by (relation "measure nat") auto

declare dec_int.simps [simp del]

definition int_of_dec :: "string \<Rightarrow> int" where
  "int_of_dec s = foldl (\<lambda>a c. 10 * a + max (of_char c - 48) 0) 0 s"

lemma char_of_int: "0 \<le> i \<Longrightarrow> (char_of (i :: int)) = char_of (nat i)"
  by (metis char_of_nat int_nat_eq of_char_of of_nat_of_char)

lemma dec_int_nat: "0 \<le> i \<Longrightarrow> dec_int i = dec_nat (nat i)"
proof (induction i rule: dec_int.induct)
  case (1 i)
  have c: "char_of (48 + d) = digit_char (nat d)" if "0 \<le> d" for d :: int
    using that by (simp add: digit_char_def char_of_int nat_add_distrib)
  show ?case
  proof (cases "i < 10")
    case True
    with "1.prems" show ?thesis
      by (simp add: dec_int.simps [of i] dec_nat.simps [of "nat i"] c nat_less_iff)
  next
    case False
    with 1 have "dec_int (i div 10) = dec_nat (nat i div 10)"
      by (simp add: nat_div_distrib)
    with False show ?thesis
      by (simp add: dec_int.simps [of i] dec_nat.simps [of "nat i"] c nat_less_iff nat_mod_distrib)
  qed
qed

lemma char_digit_int: "max (of_char c - 48) 0 = int (char_digit c)"
proof -
  have "of_char c = int (of_char c)" by (simp only: of_nat_of_char)
  then show ?thesis unfolding char_digit_def by linarith
qed

lemma int_of_dec_nat: "int_of_dec s = int (nat_of_dec s)"
proof -
  have "foldl (\<lambda>a c. 10 * a + int (char_digit c)) (int n) s = int (foldl (\<lambda>a c. 10 * a + char_digit c) n s)" for n
  proof (induction s arbitrary: n)
    case (Cons c s)
    then show ?case using Cons [of "10 * n + char_digit c"] by simp
  qed simp
  from this [of 0] show ?thesis
    by (simp add: int_of_dec_def nat_of_dec_def char_digit_int)
qed

lemma toString_code [code]:
  "toString i = (if i < 0 then CHR ''-'' # dec_int (- i) else dec_int i)"
  by (simp add: toString_def dec_int_nat)

lemma bigInt_code [code]:
  "bigInt s = (case s of [] \<Rightarrow> 0 | c # cs \<Rightarrow> if c = CHR ''-'' then - int_of_dec cs else int_of_dec s)"
  by (simp add: bigInt_def int_of_dec_nat split: list.split)

primrec le_bytes_int :: "nat \<Rightarrow> int \<Rightarrow> bytes" where
  "le_bytes_int 0 v = []"
| "le_bytes_int (Suc n) v = word_of_int (v mod 256) # le_bytes_int n (v div 256)"

lemma le_bytes_nat: "0 \<le> v \<Longrightarrow> le_bytes n (nat v) = le_bytes_int n v"
proof (induction n arbitrary: v)
  case (Suc n)
  have "word_of_nat (nat v mod 256) = (word_of_int (v mod 256) :: byte)"
    using Suc.prems by (metis int_nat_eq mod_int_pos_iff nat_mod_distrib of_int_of_nat_eq pos_mod_sign zero_le_numeral nat_numeral zero_less_numeral nat_0_le)
  with Suc show ?case
    using Suc.IH [of "v div 256"] by (simp add: nat_div_distrib)
qed simp

lemma toString_inj [simp]: "toString i = toString j \<longleftrightarrow> i = j"
  by (metis bigInt_toString)

lemma colon_notin_toString [simp]: "CHR '':'' \<notin> set (toString i)"
proof
  assume "CHR '':'' \<in> set (toString i)"
  then obtain n where "CHR '':'' \<in> set (dec_nat n)"
    by (auto simp: toString_def split: if_splits)
  then obtain d where d: "d < 10" "digit_char d = CHR '':''"
    using set_dec_nat by force
  then have "48 + d = of_char (CHR '':'')"
    by (metis of_char_digit_char)
  with d(1) show False by simp
qed

section \<open>Third-party functions\<close>

text \<open>
  The functions of the packages the code imports (\<^verbatim>\<open>@noble/hashes\<close>, \<^verbatim>\<open>@noble/curves\<close>,
  \<^verbatim>\<open>@scure/btc-signer\<close>), which are no part of the repository: parameters, collected in one record
  that every definition using one takes. \<^verbatim>\<open>concatBytes\<close> and \<^verbatim>\<open>equalBytes\<close> are list append and
  equality on the byte lists themselves.
\<close>

record lib =
  bytesToHex :: "bytes \<Rightarrow> string"
  hexToBytes :: "string \<Rightarrow> bytes"
  blake2b :: "bytes \<Rightarrow> bytes"       \<comment> \<open>32 bytes, personalised \<^verbatim>\<open>ckb-default-hash\<close>\<close>
  sha256 :: "bytes \<Rightarrow> bytes"
  getPublicKey :: "bytes \<Rightarrow> bytes res" \<comment> \<open>compressed; throws on a secret that is no scalar\<close>
  pointFromBytes :: "bytes \<Rightarrow> bool"  \<comment> \<open>whether \<^verbatim>\<open>secp256k1.Point.fromBytes\<close> returns\<close>
  keyAggExport :: "bytes list \<Rightarrow> bytes res" \<comment> \<open>\<^verbatim>\<open>keyAggExport(keyAggregate(keys))\<close>\<close>
  curveOrder :: nat                   \<comment> \<open>\<^verbatim>\<open>secp256k1.Point.Fn.ORDER\<close>\<close>
  pointAddBaseMultiple :: "bytes \<Rightarrow> nat \<Rightarrow> bytes res"
    \<comment> \<open>\<^verbatim>\<open>Point.fromBytes(key).add(BASE.multiply(tweak)).toBytes(true)\<close>\<close>
  hdPrivateKey :: "bytes \<Rightarrow> string \<Rightarrow> bytes res" \<comment> \<open>\<^verbatim>\<open>HDKey.fromMasterSeed(seed).derive(path)\<close>\<close>

text \<open>
  The documented behaviour of the hex pair: two lowercase digits per byte, and the reader
  inverts the writer on lowercase hex of whole bytes.
\<close>

definition is_hex_char :: "char \<Rightarrow> bool" where
  "is_hex_char c \<longleftrightarrow> c \<in> set ''0123456789abcdef''"

definition hex_laws :: "lib \<Rightarrow> bool" where
  "hex_laws L \<longleftrightarrow>
     (\<forall>bs. length (bytesToHex L bs) = 2 * length bs \<and> list_all is_hex_char (bytesToHex L bs)
           \<and> hexToBytes L (bytesToHex L bs) = bs) \<and>
     (\<forall>s. list_all is_hex_char s \<longrightarrow> even (length s) \<longrightarrow>
           length (hexToBytes L s) = length s div 2 \<and> bytesToHex L (hexToBytes L s) = s)"

text \<open>
  A concrete instance, on which the witnesses evaluate: real hexadecimal, and for the rest
  functions as simple as the hypotheses allow.
\<close>

definition hex_digit :: "nat \<Rightarrow> char" where
  "hex_digit d = ''0123456789abcdef'' ! d"

definition hex_value :: "char \<Rightarrow> nat" where
  "hex_value c = (let n = of_char c in if n < 58 then n - 48 else n - 87)"

definition hex_of_bytes :: "bytes \<Rightarrow> string" where
  "hex_of_bytes bs = concat (map (\<lambda>b. [hex_digit (unat b div 16), hex_digit (unat b mod 16)]) bs)"

fun bytes_of_hex :: "string \<Rightarrow> bytes" where
  "bytes_of_hex (a # b # s) = word_of_nat (16 * hex_value a + hex_value b) # bytes_of_hex s"
| "bytes_of_hex _ = []"

lemma hex_digit_value: "d < 16 \<Longrightarrow> is_hex_char (hex_digit d) \<and> hex_value (hex_digit d) = d"
proof -
  have "\<forall>d\<in>set [0..<16]. is_hex_char (hex_digit d) \<and> hex_value (hex_digit d) = d"
    by code_simp
  then show "d < 16 \<Longrightarrow> ?thesis" by simp
qed

lemma hex_value_digit: "is_hex_char c \<Longrightarrow> hex_value c < 16 \<and> hex_digit (hex_value c) = c"
  unfolding hex_digit_def is_hex_char_def hex_value_def by (auto simp: Let_def)

lemma hex_of_bytes_laws:
  "length (hex_of_bytes bs) = 2 * length bs \<and> list_all is_hex_char (hex_of_bytes bs)
   \<and> bytes_of_hex (hex_of_bytes bs) = bs"
proof (induction bs)
  case (Cons b bs)
  have "unat b div 16 < 16" "unat b mod 16 < 16"
    using byte_less_256 [of b] by simp_all
  then have "hex_value (hex_digit (unat b div 16)) = unat b div 16"
    "hex_value (hex_digit (unat b mod 16)) = unat b mod 16"
    "is_hex_char (hex_digit (unat b div 16))" "is_hex_char (hex_digit (unat b mod 16))"
    by (simp_all only: hex_digit_value)
  then show ?case
    using Cons by (simp add: hex_of_bytes_def flip: of_nat_mult of_nat_add)
qed (simp add: hex_of_bytes_def)

lemma bytes_of_hex_laws:
  "list_all is_hex_char s \<Longrightarrow> even (length s) \<Longrightarrow>
   length (bytes_of_hex s) = length s div 2 \<and> hex_of_bytes (bytes_of_hex s) = s"
proof (induction s rule: bytes_of_hex.induct)
  case (1 a b s)
  have "16 * hex_value a + hex_value b < 256" "hex_value b < 16"
    using "1.prems" hex_value_digit [of a] hex_value_digit [of b] by auto
  then have "unat (word_of_nat (16 * hex_value a + hex_value b) :: byte) = 16 * hex_value a + hex_value b"
    by (intro unat_byte_small)
  then show ?case
    using 1 hex_value_digit [of a] hex_value_digit [of b] by (auto simp: hex_of_bytes_def simp del: of_nat_add of_nat_mult)
qed (simp_all add: hex_of_bytes_def)

definition demo_hash :: "bytes \<Rightarrow> bytes" where
  "demo_hash bs = take 32 (bs @ zero_bytes 32)"

lemma demo_hash_32: "length bs = 32 \<Longrightarrow> demo_hash bs = bs"
  by (simp add: demo_hash_def)

definition demo_lib :: lib where
  "demo_lib = \<lparr> bytesToHex = hex_of_bytes, hexToBytes = bytes_of_hex, blake2b = demo_hash, sha256 = demo_hash,
     getPublicKey = (\<lambda>k. Inr (2 # k)), pointFromBytes = (\<lambda>b. hd b = 2 \<or> hd b = 3),
     keyAggExport = (\<lambda>ks. Inr (demo_hash (concat ks))), curveOrder = 1000,
     pointAddBaseMultiple = (\<lambda>b n. Inr b), hdPrivateKey = (\<lambda>s p. Inr (demo_hash s)) \<rparr>"

lemma demo_lib_hex_laws: "hex_laws demo_lib"
  by (simp add: hex_laws_def demo_lib_def hex_of_bytes_laws bytes_of_hex_laws)

end
