(* ===== verification/Common.thy ===== *)
theory Common
  imports Prelude
begin

text \<open>
  The module \<^verbatim>\<open>common\<close>: the CKB data types, the checks every module runs on its inputs, the byte
  order, and the musig2 helpers. A parameter whose TypeScript type fixes its kind (a byte array, a
  \<^verbatim>\<open>bigint\<close>) has that type here, so the run-time kind checks of the source hold by construction;
  the length and range checks stay. A \<^verbatim>\<open>number\<close> and a \<^verbatim>\<open>bigint\<close> are an \<^typ>\<open>int\<close>.
\<close>

section \<open>Constants and data types\<close>

abbreviation (input) UINT32_MAX :: int where "UINT32_MAX \<equiv> 4294967295"
abbreviation (input) UINT64_MAX :: int where "UINT64_MAX \<equiv> 18446744073709551615"
abbreviation (input) UINT128_MAX :: int where "UINT128_MAX \<equiv> 340282366920938463463374607431768211455"
abbreviation (input) MAX_SAFE_INTEGER :: int where "MAX_SAFE_INTEGER \<equiv> 9007199254740991"
abbreviation (input) MAX_AMOUNT_SHANNONS :: int where "MAX_AMOUNT_SHANNONS \<equiv> UINT128_MAX"
abbreviation (input) MAX_TIMER_DELAY_MS :: int where "MAX_TIMER_DELAY_MS \<equiv> 2147483647"
abbreviation (input) SHANNONS_PER_CKB :: int where "SHANNONS_PER_CKB \<equiv> 100000000"

datatype script_hash_type = Data | Type | Data1 | Data2

datatype dep_type = Code | DepGroup

datatype tlc_direction = offered | received

datatype tlc_hash_algorithm = CkbHash | Sha256

record script_template =
  codeHash :: bytes
  hashType :: script_hash_type

record script = script_template +
  args :: bytes

record out_point =
  txHash :: bytes
  index :: int

record cell_dep =
  outPoint :: out_point
  depType :: dep_type

record cell_input =
  since :: int
  previousOutput :: out_point

record cell_output =
  capacityShannons :: int
  lock :: script
  type_script :: "script option"

record transaction =
  tx_version :: int
  cellDeps :: "cell_dep list"
  headerDeps :: "bytes list"
  inputs :: "cell_input list"
  outputs :: "cell_output list"
  outputsData :: "bytes list"
  witnesses :: "bytes list"

text \<open>\<^verbatim>\<open>{ ...template, args }\<close>\<close>

definition with_args :: "script_template \<Rightarrow> bytes \<Rightarrow> script" where
  "with_args t a = script_template.extend t (script.fields a)"

lemma with_args_simps [simp]:
  "codeHash (with_args t a) = codeHash t" "hashType (with_args t a) = hashType t" "args (with_args t a) = a"
  by (cases t; simp add: with_args_def script_template.defs script.defs)+

fun scriptHashTypeByte :: "script_hash_type \<Rightarrow> byte" where
  "scriptHashTypeByte Data = 0"
| "scriptHashTypeByte Type = 1"
| "scriptHashTypeByte Data1 = 2"
| "scriptHashTypeByte Data2 = 4"

fun tlcHashAlgorithmByte :: "tlc_hash_algorithm \<Rightarrow> byte" where
  "tlcHashAlgorithmByte CkbHash = 0"
| "tlcHashAlgorithmByte Sha256 = 1"

lemma scriptHashTypeByte_inj [simp]: "scriptHashTypeByte a = scriptHashTypeByte b \<longleftrightarrow> a = b"
  by (cases a; cases b) simp_all

lemma tlcHashAlgorithmByte_inj [simp]: "tlcHashAlgorithmByte a = tlcHashAlgorithmByte b \<longleftrightarrow> a = b"
  by (cases a; cases b) simp_all

section \<open>Predicates on values\<close>

definition isUnsignedInteger :: "int \<Rightarrow> int \<Rightarrow> bool" where
  "isUnsignedInteger v m \<longleftrightarrow> \<bar>v\<bar> \<le> MAX_SAFE_INTEGER \<and> v \<ge> 0 \<and> v \<le> m"

definition isCanonicalDecimal :: "string \<Rightarrow> bool" where
  "isCanonicalDecimal s \<longleftrightarrow> s \<noteq> [] \<and> list_all (\<lambda>c. c \<in> set ''0123456789'') s
     \<and> (s = ''0'' \<or> hd s \<noteq> CHR ''0'')"

definition isHexBytes :: "string \<Rightarrow> nat \<Rightarrow> bool" where
  "isHexBytes s n \<longleftrightarrow> length s = n * 2 \<and> list_all is_hex_char s"

definition isNonEmptyHexBytes :: "string \<Rightarrow> bool" where
  "isNonEmptyHexBytes s \<longleftrightarrow> length s > 0 \<and> length s mod 2 = 0 \<and> list_all is_hex_char s"

definition isDecimalShannons :: "string \<Rightarrow> bool" where
  "isDecimalShannons s \<longleftrightarrow>
     int (length s) \<le> int (length (toString MAX_AMOUNT_SHANNONS)) \<and> isCanonicalDecimal s
     \<and> bigInt s \<le> MAX_AMOUNT_SHANNONS"

definition isPositiveDecimalShannons :: "string \<Rightarrow> bool" where
  "isPositiveDecimalShannons s \<longleftrightarrow> isDecimalShannons s \<and> s \<noteq> ''0''"

definition isCompressedPoint :: "lib \<Rightarrow> bytes \<Rightarrow> bool" where
  "isCompressedPoint L b \<longleftrightarrow> length b = 33 \<and> pointFromBytes L b"

section \<open>Assertions\<close>

definition assertBytes :: "string \<Rightarrow> bytes \<Rightarrow> nat \<Rightarrow> unit res" where
  "assertBytes name v len = check (length v = len) (TypeErr name)"

definition assertCompressedPoint :: "lib \<Rightarrow> string \<Rightarrow> bytes \<Rightarrow> unit res" where
  "assertCompressedPoint L name v =
     bindR (assertBytes name v 33) (\<lambda>_. check (isCompressedPoint L v) (TypeErr name))"

definition assertUnsignedInteger :: "string \<Rightarrow> int \<Rightarrow> int \<Rightarrow> unit res" where
  "assertUnsignedInteger name v m = check (isUnsignedInteger v m) (RangeErr name)"

definition assertPositiveInteger :: "string \<Rightarrow> int \<Rightarrow> int \<Rightarrow> unit res" where
  "assertPositiveInteger name v m = check (isUnsignedInteger v m \<and> v \<noteq> 0) (RangeErr name)"

definition assertBigIntInRange :: "string \<Rightarrow> int \<Rightarrow> int \<Rightarrow> int \<Rightarrow> unit res" where
  "assertBigIntInRange name v lo hi = check (\<not> (v < lo \<or> v > hi)) (RangeErr name)"

definition assertUnsignedBigInt :: "string \<Rightarrow> int \<Rightarrow> int \<Rightarrow> unit res" where
  "assertUnsignedBigInt name v m = assertBigIntInRange name v 0 m"

definition assertPositiveBigInt :: "string \<Rightarrow> int \<Rightarrow> int \<Rightarrow> unit res" where
  "assertPositiveBigInt name v m = assertBigIntInRange name v 1 m"

definition assertHexBytes :: "string \<Rightarrow> string \<Rightarrow> nat \<Rightarrow> unit res" where
  "assertHexBytes name v n = check (isHexBytes v n) (TypeErr name)"

definition assertNonEmptyString :: "string \<Rightarrow> string \<Rightarrow> unit res" where
  "assertNonEmptyString name v = check (v \<noteq> []) (TypeErr name)"

definition assertDecimalShannons :: "string \<Rightarrow> string \<Rightarrow> unit res" where
  "assertDecimalShannons name v = check (isDecimalShannons v) (TypeErr name)"

definition assertPositiveDecimalShannons :: "string \<Rightarrow> string \<Rightarrow> unit res" where
  "assertPositiveDecimalShannons name v =
     bindR (assertDecimalShannons name v) (\<lambda>_. check (isPositiveDecimalShannons v) (RangeErr name))"

definition assertScriptTemplate :: "string \<Rightarrow> ('a::type) script_template_scheme \<Rightarrow> unit res" where
  "assertScriptTemplate name v = assertBytes (name @ ''.codeHash'') (codeHash v) 32"

definition assertScript :: "string \<Rightarrow> script \<Rightarrow> unit res" where
  "assertScript name v = assertScriptTemplate name v"

definition assertTimerDelayMs :: "string \<Rightarrow> int \<Rightarrow> int \<Rightarrow> unit res" where
  "assertTimerDelayMs name v lo =
     check (isUnsignedInteger v MAX_TIMER_DELAY_MS \<and> \<not> v < lo) (RangeErr name)"

definition assertOutPoint :: "string \<Rightarrow> out_point \<Rightarrow> unit res" where
  "assertOutPoint name v =
     bindR (assertBytes (name @ ''.txHash'') (txHash v) 32) (\<lambda>_.
     assertUnsignedInteger (name @ ''.index'') (index v) UINT32_MAX)"

definition assertCellDep :: "string \<Rightarrow> cell_dep \<Rightarrow> unit res" where
  "assertCellDep name v = assertOutPoint (name @ ''.outPoint'') (outPoint v)"

text \<open>\<^verbatim>\<open>${name}[${index}]\<close>\<close>

definition item_name :: "string \<Rightarrow> nat \<Rightarrow> string" where
  "item_name name i = name @ ''['' @ toString (int i) @ '']''"

definition assertCellDeps :: "string \<Rightarrow> cell_dep list \<Rightarrow> unit res" where
  "assertCellDeps name v =
     bindR (mapR (\<lambda>(i, d). assertCellDep (item_name name i) d) (entries v)) (\<lambda>_. Inr ())"

lemmas assert_defs = assertBytes_def assertCompressedPoint_def assertUnsignedInteger_def
  assertPositiveInteger_def assertBigIntInRange_def assertUnsignedBigInt_def assertPositiveBigInt_def
  assertHexBytes_def assertNonEmptyString_def assertDecimalShannons_def
  assertPositiveDecimalShannons_def assertScriptTemplate_def assertScript_def assertTimerDelayMs_def
  assertOutPoint_def assertCellDep_def assertCellDeps_def

section \<open>Byte order\<close>

fun compareBytes :: "bytes \<Rightarrow> bytes \<Rightarrow> int" where
  "compareBytes [] bs = - int (length bs)"
| "compareBytes (a # as) [] = int (length (a # as))"
| "compareBytes (a # as) (b # bs) =
     (if a \<noteq> b then int (unat a) - int (unat b) else compareBytes as bs)"

lemma compareBytes_eq_0: "compareBytes a b = 0 \<longleftrightarrow> a = b"
  by (induction a b rule: compareBytes.induct) (auto simp: unsigned_word_eqI)

lemma compareBytes_Nil: "compareBytes bs [] = int (length bs)"
  by (cases bs) simp_all

lemma compareBytes_antisym: "compareBytes b a = - compareBytes a b"
  by (induction a b rule: compareBytes.induct) (auto simp: compareBytes_Nil)

lemma compareBytes_trans:
  "compareBytes a b < 0 \<Longrightarrow> compareBytes b c < 0 \<Longrightarrow> compareBytes a c < 0"
proof (induction a b arbitrary: c rule: compareBytes.induct)
  case (1 bs)
  then show ?case by (cases bs; cases c) auto
next
  case (2 a as)
  then show ?case by simp
next
  case (3 a as b bs)
  then show ?case
    by (cases c) (auto split: if_splits)
qed

section \<open>musig2 and payment hashes\<close>

definition nonceHalves :: "bytes \<Rightarrow> bytes \<times> bytes" where
  "nonceHalves nonce = (take 33 nonce, take 33 (drop 33 nonce))"

definition isAggregatedNonceHalf :: "lib \<Rightarrow> bytes \<Rightarrow> bool" where
  "isAggregatedNonceHalf L half \<longleftrightarrow>
     isCompressedPoint L half \<or> length half = 33 \<and> list_all (\<lambda>b. b = 0) half"

definition assertTwoDistinctKeys :: "string \<Rightarrow> bytes list \<Rightarrow> (bytes \<times> bytes) res" where
  "assertTwoDistinctKeys name keys =
     (case keys of
        [firstKey, secondKey] \<Rightarrow>
          bindR (assertBytes (name @ ''[0]'') firstKey 33) (\<lambda>_.
          bindR (assertBytes (name @ ''[1]'') secondKey 33) (\<lambda>_.
          if firstKey = secondKey then Inl (TypeErr name) else Inr (firstKey, secondKey)))
      | _ \<Rightarrow> Inl (TypeErr name))"

definition truncatePaymentHash :: "bytes \<Rightarrow> bytes" where
  "truncatePaymentHash h = take 20 h"

definition ckbBlake2b :: "lib \<Rightarrow> bytes list \<Rightarrow> bytes" where
  "ckbBlake2b L chunks = blake2b L (concat chunks)"

definition blake160 :: "lib \<Rightarrow> bytes list \<Rightarrow> bytes" where
  "blake160 L chunks = take 20 (ckbBlake2b L chunks)"

end
