(* ===== verification/Molecule.thy ===== *)
theory Molecule
  imports Common
begin

text \<open>
  The molecule serialisation of \<^verbatim>\<open>common/utils/molecule.utils.ts\<close> and its strict reader
  \<^verbatim>\<open>common/utils/molecule-reader.utils.ts\<close>. The writers' offset loop and the reader's header checks
  are kept as written; the main results are that each reader is the exact inverse of its writer
  (\<open>codec\<close>), so no two byte strings read as one value.
\<close>

section \<open>Writers\<close>

definition uint32Le :: "int \<Rightarrow> bytes res" where
  "uint32Le v = bindR (assertUnsignedInteger ''uint32 value'' v UINT32_MAX) (\<lambda>_. Inr (le_bytes 4 (nat v)))"

definition uint64Le :: "int \<Rightarrow> bytes res" where
  "uint64Le v = bindR (assertUnsignedBigInt ''uint64 value'' v UINT64_MAX) (\<lambda>_. Inr (le_bytes 8 (nat v)))"

text \<open>The low and the high 64 bits, each set apart as the \<^verbatim>\<open>DataView\<close> has no 128-bit setter.\<close>

definition uint128Le :: "int \<Rightarrow> bytes res" where
  "uint128Le v = bindR (assertUnsignedBigInt ''uint128 value'' v UINT128_MAX) (\<lambda>_.
     Inr (le_bytes 8 (nat (v mod 2 ^ 64)) @ le_bytes 8 (nat (v div 2 ^ 64))))"

lemma uint_Le_code [code]:
  "uint32Le v = bindR (assertUnsignedInteger ''uint32 value'' v UINT32_MAX) (\<lambda>_. Inr (le_bytes_int 4 v))"
  "uint64Le v = bindR (assertUnsignedBigInt ''uint64 value'' v UINT64_MAX) (\<lambda>_. Inr (le_bytes_int 8 v))"
  "uint128Le v = bindR (assertUnsignedBigInt ''uint128 value'' v UINT128_MAX) (\<lambda>_.
     Inr (le_bytes_int 8 (v mod 2 ^ 64) @ le_bytes_int 8 (v div 2 ^ 64)))"
  unfolding uint32Le_def uint64Le_def uint128Le_def
  by (rule bindR_cong [OF refl], simp add: le_bytes_nat assertUnsignedInteger_def assertUnsignedBigInt_def
      assertBigIntInRange_def isUnsignedInteger_def check_Inr_iff pos_imp_zdiv_nonneg_iff)+

fun offsetLoop :: "int \<Rightarrow> bytes list \<Rightarrow> bytes list res" where
  "offsetLoop off [] = Inr []"
| "offsetLoop off (f # fs) =
     bindR (uint32Le off) (\<lambda>p. bindR (offsetLoop (off + int (length f)) fs) (\<lambda>ps. Inr (p # ps)))"

definition moleculeTable :: "bytes list \<Rightarrow> bytes res" where
  "moleculeTable fs =
     (let headerLength = 4 * (int (length fs) + 1);
          totalLength = headerLength + foldl (\<lambda>s f. s + int (length f)) 0 fs
      in bindR (uint32Le totalLength) (\<lambda>size.
         bindR (offsetLoop headerLength fs) (\<lambda>offsets.
         Inr (size @ concat offsets @ concat fs))))"

definition moleculeFixvec :: "bytes list \<Rightarrow> bytes res" where
  "moleculeFixvec items = bindR (uint32Le (int (length items))) (\<lambda>n. Inr (n @ concat items))"

definition moleculeDynvec :: "bytes list \<Rightarrow> bytes res" where
  "moleculeDynvec items = (if length items = 0 then uint32Le 4 else moleculeTable items)"

definition moleculeBytes :: "bytes \<Rightarrow> bytes res" where
  "moleculeBytes d = bindR (uint32Le (int (length d))) (\<lambda>n. Inr (n @ d))"

definition moleculeScript :: "string \<Rightarrow> script \<Rightarrow> bytes res" where
  "moleculeScript name s =
     bindR (assertScript name s) (\<lambda>_.
     bindR (moleculeBytes (args s)) (\<lambda>a.
     moleculeTable [codeHash s, [scriptHashTypeByte (hashType s)], a]))"

definition moleculeScriptOpt :: "script option \<Rightarrow> bytes res" where
  "moleculeScriptOpt so = (case so of None \<Rightarrow> Inr [] | Some s \<Rightarrow> moleculeScript ''script'' s)"

section \<open>Reader\<close>

datatype molecule_fault =
    FaultSize
  | FaultHeader
  | FaultFieldCount nat
  | FaultOffsets
  | FaultFixedSize nat
  | FaultBytesLength
  | FaultItemIdMissing
  | FaultItemId nat
  | FaultHashType

type_synonym molecule_refuse = "string \<Rightarrow> molecule_fault \<Rightarrow> error"

record script_field_names =
  codeHash_name :: string
  hashType_name :: string
  args_name :: string

definition SCRIPT_FIELD_NAMES :: script_field_names where
  "SCRIPT_FIELD_NAMES = \<lparr> codeHash_name = ''codeHash'', hashType_name = ''hashType'', args_name = ''args'' \<rparr>"

definition SCRIPT_HASH_TYPES :: "script_hash_type list" where
  "SCRIPT_HASH_TYPES = [Data, Type, Data1, Data2]"

definition plural_s :: "nat \<Rightarrow> string" where
  "plural_s n = (if n = 1 then [] else ''s'')"

fun moleculeFaultReason :: "molecule_fault \<Rightarrow> string" where
  "moleculeFaultReason FaultSize = ''must be exactly as long as its size says''"
| "moleculeFaultReason FaultHeader = ''must have a whole header''"
| "moleculeFaultReason (FaultFieldCount n) = ''must have exactly '' @ dec_nat n @ '' field'' @ plural_s n"
| "moleculeFaultReason FaultOffsets = ''must have offsets in order''"
| "moleculeFaultReason (FaultFixedSize n) = ''must be exactly '' @ dec_nat n @ '' byte'' @ plural_s n"
| "moleculeFaultReason FaultBytesLength = ''must be exactly as long as its length says''"
| "moleculeFaultReason FaultItemIdMissing = ''must start with an item id''"
| "moleculeFaultReason (FaultItemId n) = ''must have an item id below '' @ dec_nat n"
| "moleculeFaultReason FaultHashType = ''must be one of data, type, data1, data2''"

definition readUint32Le :: "bytes \<Rightarrow> nat \<Rightarrow> nat" where
  "readUint32Le b offset = le_val (take 4 (drop offset b))"

text \<open>\<^verbatim>\<open>reduceRight\<close> folds from the last byte, the most significant one.\<close>

definition readUintLe :: "bytes \<Rightarrow> int" where
  "readUintLe b = foldr (\<lambda>x v. v * 256 + uint x) b 0"

definition readHeaderCount :: "bytes \<Rightarrow> string \<Rightarrow> molecule_refuse \<Rightarrow> nat res" where
  "readHeaderCount b path refuse =
     (if length b < 4 \<or> readUint32Le b 0 \<noteq> length b then Inl (refuse path FaultSize)
      else if length b = 4 then Inr 0
      else if length b < 2 * 4 then Inl (refuse path FaultHeader)
      else let first = readUint32Le b 4 in
        if first mod 4 \<noteq> 0 \<or> first < 2 * 4 \<or> first > length b then Inl (refuse path FaultHeader)
        else Inr (first div 4 - 1))"

definition offsetAt :: "bytes \<Rightarrow> nat \<Rightarrow> nat \<Rightarrow> nat" where
  "offsetAt b count i = (if i < count then readUint32Le b (4 * (i + 1)) else length b)"

definition subarray :: "bytes \<Rightarrow> nat \<Rightarrow> nat \<Rightarrow> bytes" where
  "subarray b start end' = take (end' - start) (drop start b)"

definition splitAtOffsets :: "bytes \<Rightarrow> nat \<Rightarrow> string \<Rightarrow> molecule_refuse \<Rightarrow> bytes list res" where
  "splitAtOffsets b count path refuse =
     mapR (\<lambda>i. let start = offsetAt b count i; end' = offsetAt b count (i + 1) in
             if start > end' then Inl (refuse path FaultOffsets) else Inr (subarray b start end'))
       [0..<count]"

definition readMoleculeTable :: "bytes \<Rightarrow> nat \<Rightarrow> string \<Rightarrow> molecule_refuse \<Rightarrow> bytes list res" where
  "readMoleculeTable b fieldCount path refuse =
     bindR (readHeaderCount b path refuse) (\<lambda>count.
     if count \<noteq> fieldCount then Inl (refuse path (FaultFieldCount fieldCount))
     else splitAtOffsets b count path refuse)"

definition readMoleculeDynvec :: "bytes \<Rightarrow> string \<Rightarrow> molecule_refuse \<Rightarrow> bytes list res" where
  "readMoleculeDynvec b path refuse =
     bindR (readHeaderCount b path refuse) (\<lambda>count. splitAtOffsets b count path refuse)"

definition readMoleculeFixed :: "bytes \<Rightarrow> nat \<Rightarrow> string \<Rightarrow> molecule_refuse \<Rightarrow> bytes res" where
  "readMoleculeFixed b len path refuse =
     (if length b \<noteq> len then Inl (refuse path (FaultFixedSize len)) else Inr b)"

definition readMoleculeBytes :: "bytes \<Rightarrow> string \<Rightarrow> molecule_refuse \<Rightarrow> bytes res" where
  "readMoleculeBytes b path refuse =
     (if length b < 4 \<or> readUint32Le b 0 \<noteq> length b - 4 then Inl (refuse path FaultBytesLength)
      else Inr (drop 4 b))"

definition readMoleculeUint :: "bytes \<Rightarrow> nat \<Rightarrow> string \<Rightarrow> molecule_refuse \<Rightarrow> int res" where
  "readMoleculeUint b len path refuse =
     bindR (readMoleculeFixed b len path refuse) (\<lambda>b. Inr (readUintLe b))"

definition readMoleculeUnion :: "bytes \<Rightarrow> 'name list \<Rightarrow> string \<Rightarrow> molecule_refuse \<Rightarrow> ('name \<times> bytes) res" where
  "readMoleculeUnion b items path refuse =
     (if length b < 4 then Inl (refuse path FaultItemIdMissing)
      else let i = readUint32Le b 0 in
        if i < length items then Inr (items ! i, drop 4 b)
        else Inl (refuse path (FaultItemId (length items))))"

definition readMoleculeScript ::
    "bytes \<Rightarrow> string \<Rightarrow> script_field_names \<Rightarrow> molecule_refuse \<Rightarrow> script res" where
  "readMoleculeScript b path names refuse =
     bindR (readMoleculeTable b 3 path refuse) (\<lambda>fs.
     bindR (readMoleculeFixed (fs ! 0) 32 (path @ ''.'' @ codeHash_name names) refuse) (\<lambda>ch.
     bindR (readMoleculeFixed (fs ! 1) 1 (path @ ''.'' @ hashType_name names) refuse) (\<lambda>ht.
     case find (\<lambda>candidate. scriptHashTypeByte candidate = ht ! 0) SCRIPT_HASH_TYPES of
       None \<Rightarrow> Inl (refuse (path @ ''.'' @ hashType_name names) FaultHashType)
     | Some name \<Rightarrow>
         bindR (readMoleculeBytes (fs ! 2) (path @ ''.'' @ args_name names) refuse) (\<lambda>a.
         Inr \<lparr> codeHash = ch, hashType = name, args = a \<rparr>))))"

text \<open>The whole message, unlike the assertions' errors, which keep only the name.\<close>

definition refuseScript :: molecule_refuse where
  "refuseScript path fault = TypeErr (path @ '' '' @ moleculeFaultReason fault)"

definition decodeMoleculeScript :: "bytes \<Rightarrow> string \<Rightarrow> script res" where
  "decodeMoleculeScript b name = readMoleculeScript b name SCRIPT_FIELD_NAMES refuseScript"

section \<open>Integers\<close>

lemma uint32Le_int: "uint32Le (int n) = (if n \<le> 4294967295 then Inr (le_bytes 4 n) else Inl (RangeErr ''uint32 value''))"
  by (simp add: uint32Le_def assertUnsignedInteger_def isUnsignedInteger_def check_def)

lemma uint32Le_Inr_iff: "uint32Le v = Inr b \<longleftrightarrow> 0 \<le> v \<and> v \<le> UINT32_MAX \<and> b = le_bytes 4 (nat v)"
  by (auto simp: uint32Le_def assertUnsignedInteger_def isUnsignedInteger_def res_simps)

lemma uint64Le_Inr_iff: "uint64Le v = Inr b \<longleftrightarrow> 0 \<le> v \<and> v \<le> UINT64_MAX \<and> b = le_bytes 8 (nat v)"
  by (auto simp: uint64Le_def assert_defs res_simps)

lemma le_bytes_append: "le_bytes (m + n) v = le_bytes m (v mod 256 ^ m) @ le_bytes n (v div 256 ^ m)"
proof (induction m arbitrary: v)
  case (Suc m)
  have "v mod (256 * 256 ^ m) mod 256 = v mod 256"
    by (simp add: mod_mult2_eq)
  moreover have "v mod (256 * 256 ^ m) div 256 = v div 256 mod 256 ^ m"
    by (simp add: mod_mult2_eq)
  ultimately show ?case
    using Suc.IH [of "v div 256"] by (simp add: div_mult2_eq)
qed simp

lemma uint128Le_Inr_iff: "uint128Le v = Inr b \<longleftrightarrow> 0 \<le> v \<and> v \<le> UINT128_MAX \<and> b = le_bytes 16 (nat v)"
proof -
  have "le_bytes 16 (nat v) = le_bytes 8 (nat (v mod 2 ^ 64)) @ le_bytes 8 (nat (v div 2 ^ 64))" if "0 \<le> v"
    using le_bytes_append [of 8 8 "nat v"] that by (simp add: nat_mod_distrib nat_div_distrib)
  then show ?thesis
    by (auto simp: uint128Le_def assert_defs res_simps)
qed

lemma readUintLe_le_val: "readUintLe b = int (le_val b)"
  by (induction b) (simp_all add: readUintLe_def)

lemma readUintLe_le_bytes [simp]: "0 \<le> v \<Longrightarrow> v < 256 ^ n \<Longrightarrow> readUintLe (le_bytes n (nat v)) = v"
  by (simp add: readUintLe_le_val le_val_le_bytes_id nat_less_iff)

section \<open>Tables\<close>

abbreviation field_offset :: "bytes list \<Rightarrow> nat \<Rightarrow> nat" where
  "field_offset fs i \<equiv> 4 * (length fs + 1) + length (concat (take i fs))"

definition table_bytes :: "bytes list \<Rightarrow> bytes" where
  "table_bytes fs =
     le_bytes 4 (field_offset fs (length fs))
     @ concat (map (\<lambda>i. le_bytes 4 (field_offset fs i)) [0..<length fs]) @ concat fs"

lemma offsetLoop_ok:
  "off + length (concat fs) \<le> 4294967295 \<Longrightarrow>
   offsetLoop (int off) fs =
     Inr (map (\<lambda>i. le_bytes 4 (off + length (concat (take i fs)))) [0..<length fs])"
proof (induction fs arbitrary: off)
  case (Cons f fs)
  have "offsetLoop (int off + int (length f)) fs =
      Inr (map (\<lambda>i. le_bytes 4 (off + length f + length (concat (take i fs)))) [0..<length fs])"
    using Cons.IH [of "off + length f"] Cons.prems by simp
  moreover have "map (\<lambda>i. le_bytes 4 (off + length (concat (take i (f # fs))))) [0..<length (f # fs)] =
      le_bytes 4 off # map (\<lambda>i. le_bytes 4 (off + length f + length (concat (take i fs)))) [0..<length fs]"
    by (simp add: upt_conv_Cons map_Suc_upt [symmetric] add.assoc del: upt_Suc)
  ultimately show ?case
    using Cons.prems by (simp add: uint32Le_int)
qed simp

lemma foldl_lengths: "foldl (\<lambda>s f. s + int (length f)) a fs = a + int (length (concat fs))"
  by (induction fs arbitrary: a) simp_all

lemma moleculeTable_eq:
  "moleculeTable fs =
     (if field_offset fs (length fs) \<le> 4294967295 then Inr (table_bytes fs)
      else Inl (RangeErr ''uint32 value''))"
proof -
  have total: "4 * (int (length fs) + 1) + foldl (\<lambda>s f. s + int (length f)) 0 fs = int (field_offset fs (length fs))"
    by (simp add: foldl_lengths)
  have header: "4 * (int (length fs) + 1) = int (4 * (length fs + 1))"
    by simp
  show ?thesis
    unfolding moleculeTable_def Let_def total uint32Le_int
    unfolding header
    using offsetLoop_ok [of "4 * (length fs + 1)" fs] by (simp add: table_bytes_def)
qed

lemma moleculeTable_Inr_iff:
  "moleculeTable fs = Inr b \<longleftrightarrow> field_offset fs (length fs) \<le> 4294967295 \<and> b = table_bytes fs"
  by (auto simp: moleculeTable_eq)

lemma moleculeDynvec_table: "moleculeDynvec fs = moleculeTable fs"
  by (simp add: moleculeDynvec_def moleculeTable_eq table_bytes_def uint32Le_int [of 4, simplified])

lemma length_table_bytes: "length (table_bytes fs) = field_offset fs (length fs)"
  by (simp add: table_bytes_def length_concat o_def sum_list_triv)

lemma readUint32Le_table:
  assumes "field_offset fs (length fs) \<le> 4294967295"
  shows "readUint32Le (table_bytes fs) 0 = field_offset fs (length fs)"
    and "i < length fs \<Longrightarrow> readUint32Le (table_bytes fs) (4 * (i + 1)) = field_offset fs i"
proof -
  show "readUint32Le (table_bytes fs) 0 = field_offset fs (length fs)"
    using assms by (simp add: readUint32Le_def table_bytes_def le_val_le_bytes_id)
  assume i: "i < length fs"
  let ?chunks = "map (\<lambda>i. le_bytes 4 (field_offset fs i)) [0..<length fs]"
  have "take 4 (drop (4 * (i + 1)) (table_bytes fs)) = take 4 (drop (4 * i) (concat ?chunks @ concat fs))"
    by (simp add: table_bytes_def algebra_simps)
  also have "\<dots> = le_bytes 4 (field_offset fs i)"
    using i by (subst nth_chunk) simp_all
  finally have "readUint32Le (table_bytes fs) (4 * (i + 1)) = le_val (le_bytes 4 (field_offset fs i))"
    by (simp add: readUint32Le_def)
  moreover have "length (concat (take i fs)) \<le> length (concat fs)"
    by (metis append_take_drop_id concat_append le_add1 length_append)
  then have "field_offset fs i < 256 ^ 4"
    using assms by simp
  ultimately show "readUint32Le (table_bytes fs) (4 * (i + 1)) = field_offset fs i"
    by (simp only: le_val_le_bytes_id)
qed

lemma readHeaderCount_table:
  "field_offset fs (length fs) \<le> 4294967295 \<Longrightarrow>
   readHeaderCount (table_bytes fs) path refuse = Inr (length fs)"
  using readUint32Le_table [of fs] readUint32Le_table(2) [of fs 0]
  by (cases fs) (auto simp: readHeaderCount_def length_table_bytes Let_def)

lemma offsetAt_table:
  "field_offset fs (length fs) \<le> 4294967295 \<Longrightarrow> i \<le> length fs \<Longrightarrow>
   offsetAt (table_bytes fs) (length fs) i = field_offset fs i"
  using readUint32Le_table(2) [of fs i] by (auto simp: offsetAt_def length_table_bytes)

lemma subarray_table:
  assumes "i < length fs"
  shows "subarray (table_bytes fs) (field_offset fs i) (field_offset fs (Suc i)) = fs ! i"
proof -
  have "drop (field_offset fs i) (table_bytes fs) = drop (length (concat (take i fs))) (concat fs)"
    by (simp add: table_bytes_def length_concat_chunks [of _ 4] length_concat o_def sum_list_triv)
  then show ?thesis
    using assms by (simp add: subarray_def length_concat_take_Suc drop_concat_take take_concat_drop)
qed

lemma splitAtOffsets_table:
  assumes "field_offset fs (length fs) \<le> 4294967295"
  shows "splitAtOffsets (table_bytes fs) (length fs) path refuse = Inr fs"
proof -
  have "splitAtOffsets (table_bytes fs) (length fs) path refuse = Inr (map (\<lambda>i. fs ! i) [0..<length fs])"
    unfolding splitAtOffsets_def
  proof (rule mapR_all_Inr)
    fix i assume "i \<in> set [0..<length fs]"
    then show "(let start = offsetAt (table_bytes fs) (length fs) i;
                    end' = offsetAt (table_bytes fs) (length fs) (i + 1)
                in if start > end' then Inl (refuse path FaultOffsets)
                   else Inr (subarray (table_bytes fs) start end')) = Inr (fs ! i)"
      using assms subarray_table [of i fs] by (simp add: offsetAt_table length_concat_take_Suc)
  qed
  then show ?thesis by (simp add: map_nth)
qed

lemma readMoleculeTable_moleculeTable:
  "moleculeTable fs = Inr b \<Longrightarrow> readMoleculeTable b (length fs) path refuse = Inr fs"
  by (auto simp: moleculeTable_Inr_iff readMoleculeTable_def readHeaderCount_table splitAtOffsets_table)

lemma readMoleculeDynvec_moleculeDynvec:
  "moleculeDynvec fs = Inr b \<Longrightarrow> readMoleculeDynvec b path refuse = Inr fs"
  by (auto simp: moleculeDynvec_table moleculeTable_Inr_iff readMoleculeDynvec_def
      readHeaderCount_table splitAtOffsets_table)

text \<open>The converse: what the reader accepts is what the writer writes of the result.\<close>

lemma le_bytes_readUint32Le: "offset + 4 \<le> length b \<Longrightarrow> le_bytes 4 (readUint32Le b offset) = take 4 (drop offset b)"
  using le_bytes_le_val [of "take 4 (drop offset b)"] by (simp add: readUint32Le_def)

lemma readHeaderCount_Inr:
  assumes "readHeaderCount b path refuse = Inr n"
  shows "readUint32Le b 0 = length b" "4 * (n + 1) \<le> length b" "offsetAt b n 0 = 4 * (n + 1)"
  using assms by (auto simp: readHeaderCount_def Let_def offsetAt_def split: if_splits)

lemma splitAtOffsets_Inr_iff:
  "splitAtOffsets b n path refuse = Inr fs \<longleftrightarrow>
     length fs = n \<and> (\<forall>i<n. offsetAt b n i \<le> offsetAt b n (Suc i)
                          \<and> fs ! i = subarray b (offsetAt b n i) (offsetAt b n (Suc i)))"
  by (auto simp: splitAtOffsets_def mapR_Inr_list_all2 list_all2_conv_all_nth Let_def split: if_splits)

lemma split_concat:
  assumes "splitAtOffsets b n path refuse = Inr fs" "i \<le> n"
  shows "offsetAt b n 0 \<le> offsetAt b n i \<and>
         concat (take i fs) = take (offsetAt b n i - offsetAt b n 0) (drop (offsetAt b n 0) b)"
  using assms(2)
proof (induction i)
  case (Suc i)
  let ?o = "offsetAt b n"
  from assms(1) Suc.prems have le: "?o i \<le> ?o (Suc i)" and f: "fs ! i = subarray b (?o i) (?o (Suc i))"
    and len: "i < length fs"
    by (auto simp: splitAtOffsets_Inr_iff)
  from Suc have IH: "?o 0 \<le> ?o i" "concat (take i fs) = take (?o i - ?o 0) (drop (?o 0) b)"
    by auto
  have "drop (?o i) b = drop (?o i - ?o 0) (drop (?o 0) b)"
    using IH(1) by simp
  then have "concat (take (Suc i) fs) =
      take (?o i - ?o 0) (drop (?o 0) b) @ take (?o (Suc i) - ?o i) (drop (?o i - ?o 0) (drop (?o 0) b))"
    using len by (simp add: take_Suc_conv_app_nth IH f subarray_def)
  also have "\<dots> = take (?o i - ?o 0 + (?o (Suc i) - ?o i)) (drop (?o 0) b)"
    by (simp only: take_add)
  finally show ?case
    using le IH(1) by simp
qed simp

lemma offsets_le_length:
  assumes "splitAtOffsets b n path refuse = Inr fs" "i \<le> n"
  shows "offsetAt b n i \<le> length b"
proof -
  have "offsetAt b n i \<le> offsetAt b n j" if "i \<le> j" "j \<le> n" for j
    using that
  proof (induction j rule: dec_induct)
    case (step k)
    then have "offsetAt b n k \<le> offsetAt b n (Suc k)"
      using assms(1) by (simp add: splitAtOffsets_Inr_iff)
    with step show ?case by simp
  qed simp
  from this [of n] assms(2) show ?thesis
    by (simp add: offsetAt_def [of b n n])
qed

lemma moleculeTable_split:
  assumes h: "readHeaderCount b path refuse = Inr n" and s: "splitAtOffsets b n path refuse = Inr fs"
  shows "moleculeTable fs = Inr b"
proof -
  note hd = readHeaderCount_Inr [OF h]
  have n: "length fs = n"
    using s by (simp add: splitAtOffsets_Inr_iff)
  have off: "field_offset fs i = offsetAt b n i" if "i \<le> n" for i
    using split_concat [OF s that] offsets_le_length [OF s that] hd n by simp
  have total: "field_offset fs n = length b"
    using off [of n] by (simp add: offsetAt_def)
  have all: "concat fs = drop (4 * n) (drop 4 b)"
    using split_concat [OF s, of n] hd n by (simp add: offsetAt_def [of b n n] algebra_simps)
  have "concat (map (\<lambda>i. le_bytes 4 (field_offset fs i)) [0..<n]) =
      concat (map (\<lambda>i. take 4 (drop (4 * i) (drop 4 b))) [0..<n])"
  proof (intro arg_cong [where f = concat] map_cong refl)
    fix i assume "i \<in> set [0..<n]"
    then show "le_bytes 4 (field_offset fs i) = take 4 (drop (4 * i) (drop 4 b))"
      using off [of i] le_bytes_readUint32Le [of "4 * (i + 1)" b] hd(2)
      by (simp add: offsetAt_def algebra_simps)
  qed
  also have "\<dots> = take (4 * n) (drop 4 b)"
    by (rule concat_chunks)
  finally have header: "concat (map (\<lambda>i. le_bytes 4 (field_offset fs i)) [0..<n]) = take (4 * n) (drop 4 b)" .
  have size: "le_bytes 4 (length b) = take 4 b"
    using le_bytes_readUint32Le [of 0 b] hd by simp
  have "table_bytes fs = take 4 b @ take (4 * n) (drop 4 b) @ drop (4 * n) (drop 4 b)"
    using total header all size by (simp only: table_bytes_def n)
  then have "table_bytes fs = b" by (simp only: append_take_drop_id)
  moreover have "length b < 256 ^ 4"
    using le_val_bound [of "take 4 b"] hd by (simp add: readUint32Le_def)
  ultimately show ?thesis
    using total n by (simp add: moleculeTable_Inr_iff)
qed

lemma readMoleculeTable_Inr_iff:
  "readMoleculeTable b n path refuse = Inr fs \<longleftrightarrow> length fs = n \<and> moleculeTable fs = Inr b"
proof
  assume "readMoleculeTable b n path refuse = Inr fs"
  then show "length fs = n \<and> moleculeTable fs = Inr b"
    using moleculeTable_split by (auto simp: readMoleculeTable_def res_simps splitAtOffsets_Inr_iff split: if_splits)
qed (auto simp: readMoleculeTable_moleculeTable)

interpretation dynvec: codec moleculeDynvec "\<lambda>b. readMoleculeDynvec b path refuse" for path refuse
proof
  show "moleculeDynvec fs = Inr b \<Longrightarrow> readMoleculeDynvec b path refuse = Inr fs" for fs b
    by (rule readMoleculeDynvec_moleculeDynvec)
  show "readMoleculeDynvec b path refuse = Inr fs \<Longrightarrow> moleculeDynvec fs = Inr b" for fs b
    using moleculeTable_split by (auto simp: readMoleculeDynvec_def res_simps moleculeDynvec_table)
qed

section \<open>Bytes and scripts\<close>

interpretation molbytes: codec moleculeBytes "\<lambda>b. readMoleculeBytes b path refuse" for path refuse
proof
  show "moleculeBytes d = Inr b \<Longrightarrow> readMoleculeBytes b path refuse = Inr d" for d b
    by (auto simp: moleculeBytes_def readMoleculeBytes_def res_simps uint32Le_Inr_iff readUint32Le_def
        le_val_le_bytes_id)
  show "moleculeBytes d = Inr b" if "readMoleculeBytes b path refuse = Inr d" for d b
  proof -
    from that have len: "4 \<le> length b" "readUint32Le b 0 = length b - 4" and d: "d = drop 4 b"
      by (auto simp: readMoleculeBytes_def split: if_splits)
    have "le_bytes 4 (length d) = take 4 b"
      using le_bytes_readUint32Le [of 0 b] len d by simp
    moreover have "length d < 256 ^ 4"
      using le_val_bound [of "take 4 b"] len d by (simp add: readUint32Le_def)
    ultimately show ?thesis
      using d by (simp add: moleculeBytes_def uint32Le_int)
  qed
qed

lemma find_scriptHashType:
  "find (\<lambda>c. scriptHashTypeByte c = x) SCRIPT_HASH_TYPES = Some t \<longleftrightarrow> scriptHashTypeByte t = x"
  by (cases t) (auto simp: SCRIPT_HASH_TYPES_def)

lemma readMoleculeScript_Inr_iff:
  "readMoleculeScript b path names refuse = Inr s \<longleftrightarrow> moleculeScript name s = Inr b"
proof
  assume read: "readMoleculeScript b path names refuse = Inr s"
  then obtain fs where fs: "readMoleculeTable b 3 path refuse = Inr fs"
    by (auto simp: readMoleculeScript_def bindR_Inr_iff)
  with read have len: "length (fs ! 0) = 32" "length (fs ! 1) = 1"
    by (simp_all add: readMoleculeScript_def readMoleculeFixed_def split: if_splits)
  with read fs obtain t a
    where t: "find (\<lambda>c. scriptHashTypeByte c = fs ! 1 ! 0) SCRIPT_HASH_TYPES = Some t"
      and "readMoleculeBytes (fs ! 2) (path @ ''.'' @ args_name names) refuse = Inr a"
      and s: "s = \<lparr> codeHash = fs ! 0, hashType = t, args = a \<rparr>"
    by (simp add: readMoleculeScript_def readMoleculeFixed_def split: option.splits)
       (auto simp: bindR_Inr_iff)
  then have a: "moleculeBytes a = Inr (fs ! 2)"
    by (simp add: molbytes.dec_iff)
  from t have t: "scriptHashTypeByte t = fs ! 1 ! 0"
    by (simp add: find_scriptHashType)
  from fs have tab: "length fs = 3" "moleculeTable fs = Inr b"
    by (auto simp: readMoleculeTable_Inr_iff)
  obtain x y z where xyz: "fs = [x, y, z]"
    using tab(1) by (auto simp: length_Suc_conv numeral_3_eq_3)
  then obtain w where "y = [w]"
    using len(2) by (auto simp: length_Suc_conv)
  with xyz t have "fs = [fs ! 0, [scriptHashTypeByte t], fs ! 2]"
    by simp
  then show "moleculeScript name s = Inr b"
    using tab(2) len(1) a s by (simp add: moleculeScript_def assert_defs)
next
  assume "moleculeScript name s = Inr b"
  then obtain a where "length (codeHash s) = 32" "moleculeBytes (args s) = Inr a"
    "moleculeTable [codeHash s, [scriptHashTypeByte (hashType s)], a] = Inr b"
    by (auto simp: moleculeScript_def assert_defs res_simps)
  moreover from this(3) have "readMoleculeTable b 3 path refuse =
      Inr [codeHash s, [scriptHashTypeByte (hashType s)], a]"
    by (simp add: readMoleculeTable_Inr_iff)
  moreover have "find (\<lambda>c. scriptHashTypeByte c = scriptHashTypeByte (hashType s)) SCRIPT_HASH_TYPES =
      Some (hashType s)"
    by (simp add: find_scriptHashType del: scriptHashTypeByte_inj)
  ultimately show "readMoleculeScript b path names refuse = Inr s"
    by (simp add: readMoleculeScript_def readMoleculeFixed_def molbytes.dec_iff [THEN iffD2])
qed

interpretation script: codec "moleculeScript name" "\<lambda>b. readMoleculeScript b path names refuse"
  for name path names refuse
  by unfold_locales (simp_all add: readMoleculeScript_Inr_iff [where name = name])

text \<open>C25 The strict table reader accepts exactly what the table writer writes: it returns a list of
  \<open>n\<close> fields for some bytes if and only if the writer's offset loop produces those bytes for them.\<close>

theorem molecule_table_exact:
  "readMoleculeTable b n path refuse = Inr fs \<longleftrightarrow> length fs = n \<and> moleculeTable fs = Inr b"
  by (rule readMoleculeTable_Inr_iff)

text \<open>C26 A script and its molecule bytes determine each other: the reader with its named refusals returns
  a script for some bytes if and only if the writer, which checks the script first, writes them.\<close>

theorem molecule_script_exact:
  "decodeMoleculeScript b path = Inr s \<longleftrightarrow> moleculeScript name s = Inr b"
  unfolding decodeMoleculeScript_def by (rule readMoleculeScript_Inr_iff)

end
