(* ===== verification/Transaction.thy ===== *)
theory Transaction
  imports Molecule
begin

text \<open>
  The transaction half of the module \<^verbatim>\<open>digest\<close>: the molecule structs and tables of a CKB
  transaction (\<^verbatim>\<open>utils/molecule.utils.ts\<close>), fiber's \<^verbatim>\<open>compute_tx_message\<close> and CKB's
  \<^verbatim>\<open>calc_tx_hash\<close> (\<^verbatim>\<open>tx-message.ts\<close>, \<^verbatim>\<open>tx-hash.ts\<close>), the fees sized over mock transactions
  (\<^verbatim>\<open>fee.ts\<close>) and the arithmetic and key helpers of \<^verbatim>\<open>utils/digest.utils.ts\<close>.
\<close>

section \<open>Constants\<close>

abbreviation (input) MAX_CAPACITY_SHANNONS :: int where "MAX_CAPACITY_SHANNONS \<equiv> UINT64_MAX"
abbreviation (input) MAX_CELL_DEPS_COUNT :: int where "MAX_CELL_DEPS_COUNT \<equiv> 255"
abbreviation (input) CELL_DEP_LENGTH :: nat where "CELL_DEP_LENGTH \<equiv> 37"
abbreviation (input) CELL_INPUT_LENGTH :: nat where "CELL_INPUT_LENGTH \<equiv> 44"
abbreviation (input) FUNDING_CELL_WITNESS_LENGTH :: nat where "FUNDING_CELL_WITNESS_LENGTH \<equiv> 112"
abbreviation (input) UDT_AMOUNT_DATA_LENGTH :: nat where "UDT_AMOUNT_DATA_LENGTH \<equiv> 16"
abbreviation (input) BLOCK_SIZE_OVERHEAD :: nat where "BLOCK_SIZE_OVERHEAD \<equiv> 4"

datatype commitment_lock_layout = legacy | fullPaymentHash

fun COMMITMENT_LOCK_ARGS_LENGTHS :: "commitment_lock_layout \<Rightarrow> nat" where
  "COMMITMENT_LOCK_ARGS_LENGTHS legacy = 57"
| "COMMITMENT_LOCK_ARGS_LENGTHS fullPaymentHash = 58"

fun WITNESS_PAYMENT_HASH_LENGTHS :: "commitment_lock_layout \<Rightarrow> nat" where
  "WITNESS_PAYMENT_HASH_LENGTHS legacy = 20"
| "WITNESS_PAYMENT_HASH_LENGTHS fullPaymentHash = 32"

fun DEP_TYPE_BYTES :: "dep_type \<Rightarrow> byte" where
  "DEP_TYPE_BYTES Code = 0"
| "DEP_TYPE_BYTES DepGroup = 1"

section \<open>Molecule structs and tables\<close>

definition uint64Be :: "int \<Rightarrow> bytes res" where
  "uint64Be v = bindR (assertUnsignedBigInt ''uint64 value'' v UINT64_MAX) (\<lambda>_. Inr (be_bytes 8 (nat v)))"

lemma uint64Be_code [code]:
  "uint64Be v = bindR (assertUnsignedBigInt ''uint64 value'' v UINT64_MAX) (\<lambda>_. Inr (rev (le_bytes_int 8 v)))"
  unfolding uint64Be_def be_bytes_def
  by (rule bindR_cong [OF refl]) (simp add: le_bytes_nat assertUnsignedBigInt_def assertBigIntInRange_def check_Inr_iff)

definition moleculeOutPoint :: "out_point \<Rightarrow> bytes res" where
  "moleculeOutPoint op =
     bindR (assertOutPoint ''outPoint'' op) (\<lambda>_.
     bindR (uint32Le (index op)) (\<lambda>i. Inr (txHash op @ i)))"

definition moleculeCellDep :: "cell_dep \<Rightarrow> bytes res" where
  "moleculeCellDep d = bindR (moleculeOutPoint (outPoint d)) (\<lambda>op. Inr (op @ [DEP_TYPE_BYTES (depType d)]))"

definition moleculeCellInput :: "int \<Rightarrow> out_point \<Rightarrow> bytes res" where
  "moleculeCellInput sinc prev =
     bindR (uint64Le sinc) (\<lambda>s. bindR (moleculeOutPoint prev) (\<lambda>op. Inr (s @ op)))"

definition moleculeCellOutput :: "int \<Rightarrow> script \<Rightarrow> script option \<Rightarrow> bytes res" where
  "moleculeCellOutput capacity lck typ =
     bindR (uint64Le capacity) (\<lambda>c.
     bindR (moleculeScript ''script'' lck) (\<lambda>l.
     bindR (moleculeScriptOpt typ) (\<lambda>t.
     moleculeTable [c, l, t])))"

record raw_transaction_fields =
  rt_version :: int
  rt_cellDeps :: "bytes list"
  rt_headerDeps :: "bytes list"
  rt_inputs :: "bytes list"
  rt_outputs :: "bytes list"
  rt_outputsData :: "bytes list"

definition assertEach :: "(string \<Rightarrow> 'a \<Rightarrow> unit res) \<Rightarrow> string \<Rightarrow> 'a list \<Rightarrow> unit res" where
  "assertEach a name xs = bindR (mapR (\<lambda>(i, x). a (item_name name i) x) (entries xs)) (\<lambda>_. Inr ())"

definition moleculeRawTransaction :: "raw_transaction_fields \<Rightarrow> bytes res" where
  "moleculeRawTransaction f =
     bindR (assertEach (\<lambda>n x. assertBytes n x CELL_DEP_LENGTH) ''cellDeps'' (rt_cellDeps f)) (\<lambda>_.
     bindR (assertEach (\<lambda>n x. assertBytes n x 32) ''headerDeps'' (rt_headerDeps f)) (\<lambda>_.
     bindR (assertEach (\<lambda>n x. assertBytes n x CELL_INPUT_LENGTH) ''inputs'' (rt_inputs f)) (\<lambda>_.
     bindR (uint32Le (rt_version f)) (\<lambda>v.
     bindR (moleculeFixvec (rt_cellDeps f)) (\<lambda>cd.
     bindR (moleculeFixvec (rt_headerDeps f)) (\<lambda>hd.
     bindR (moleculeFixvec (rt_inputs f)) (\<lambda>ins.
     bindR (moleculeDynvec (rt_outputs f)) (\<lambda>outs.
     bindR (mapR moleculeBytes (rt_outputsData f)) (\<lambda>ds.
     bindR (moleculeDynvec ds) (\<lambda>d.
     moleculeTable [v, cd, hd, ins, outs, d]))))))))))"

definition moleculeTransaction :: "bytes \<Rightarrow> bytes list \<Rightarrow> bytes res" where
  "moleculeTransaction raw ws =
     bindR (mapR moleculeBytes ws) (\<lambda>bs. bindR (moleculeDynvec bs) (\<lambda>w. moleculeTable [raw, w]))"

section \<open>Messages\<close>

definition serializeCellDep :: "string \<Rightarrow> cell_dep \<Rightarrow> bytes res" where
  "serializeCellDep name d =
     bindR (assertOutPoint (name @ ''.outPoint'') (outPoint d)) (\<lambda>_. moleculeCellDep d)"

definition serializeOutput :: "string \<Rightarrow> cell_output \<Rightarrow> bytes res" where
  "serializeOutput name out =
     bindR (assertUnsignedBigInt (name @ ''.capacityShannons'') (capacityShannons out) MAX_CAPACITY_SHANNONS) (\<lambda>_.
     bindR (assertScript (name @ ''.lock'') (lock out)) (\<lambda>_.
     bindR (case type_script out of None \<Rightarrow> Inr () | Some t \<Rightarrow> assertScript (name @ ''.type'') t) (\<lambda>_.
     moleculeCellOutput (capacityShannons out) (lock out) (type_script out))))"

definition serializeInput :: "string \<Rightarrow> cell_input \<Rightarrow> bytes res" where
  "serializeInput name i =
     bindR (assertUnsignedBigInt (name @ ''.since'') (since i) UINT64_MAX) (\<lambda>_.
     bindR (assertOutPoint (name @ ''.previousOutput'') (previousOutput i)) (\<lambda>_.
     moleculeCellInput (since i) (previousOutput i)))"

definition serializeHeaderDep :: "string \<Rightarrow> bytes \<Rightarrow> bytes res" where
  "serializeHeaderDep name h = bindR (assertBytes name h 32) (\<lambda>_. Inr h)"

definition mapEach :: "(string \<Rightarrow> 'a \<Rightarrow> 'b res) \<Rightarrow> string \<Rightarrow> 'a list \<Rightarrow> 'b list res" where
  "mapEach f name xs = mapR (\<lambda>(i, x). f (item_name name i) x) (entries xs)"

definition serializeRawTransaction :: "transaction \<Rightarrow> bool \<Rightarrow> bytes res" where
  "serializeRawTransaction tx withCellDeps =
     bindR (assertUnsignedInteger ''transaction.version'' (tx_version tx) UINT32_MAX) (\<lambda>_.
     bindR (if withCellDeps then mapEach serializeCellDep ''transaction.cellDeps'' (cellDeps tx) else Inr []) (\<lambda>cds.
     bindR (mapEach serializeHeaderDep ''transaction.headerDeps'' (headerDeps tx)) (\<lambda>hds.
     bindR (mapEach serializeInput ''transaction.inputs'' (inputs tx)) (\<lambda>ins.
     bindR (mapEach serializeOutput ''transaction.outputs'' (outputs tx)) (\<lambda>outs.
     moleculeRawTransaction \<lparr> rt_version = tx_version tx, rt_cellDeps = cds, rt_headerDeps = hds,
       rt_inputs = ins, rt_outputs = outs, rt_outputsData = outputsData tx \<rparr>)))))"

definition computeTxMessage :: "lib \<Rightarrow> transaction \<Rightarrow> bytes res" where
  "computeTxMessage L tx = bindR (serializeRawTransaction tx False) (\<lambda>b. Inr (ckbBlake2b L [b]))"

definition computeTxHash :: "lib \<Rightarrow> transaction \<Rightarrow> bytes res" where
  "computeTxHash L tx = bindR (serializeRawTransaction tx True) (\<lambda>b. Inr (ckbBlake2b L [b]))"

definition computeRevocationContentMessage :: "lib \<Rightarrow> cell_output \<Rightarrow> bytes \<Rightarrow> bytes \<Rightarrow> bytes res" where
  "computeRevocationContentMessage L out outputData argbytes =
     bindR (serializeOutput ''output'' out) (\<lambda>o'. Inr (ckbBlake2b L [o', outputData, argbytes]))"

section \<open>Fees\<close>

definition mockTxSize :: "int \<Rightarrow> bytes list \<Rightarrow> bytes list \<Rightarrow> int res" where
  "mockTxSize cellDepsCount outs datas =
     bindR (assertUnsignedInteger ''cellDepsCount'' cellDepsCount MAX_CELL_DEPS_COUNT) (\<lambda>_.
     bindR (moleculeRawTransaction \<lparr> rt_version = 0,
              rt_cellDeps = replicate (nat cellDepsCount) (zero_bytes CELL_DEP_LENGTH), rt_headerDeps = [],
              rt_inputs = [zero_bytes CELL_INPUT_LENGTH], rt_outputs = outs, rt_outputsData = datas \<rparr>) (\<lambda>raw.
     bindR (moleculeTransaction raw [zero_bytes FUNDING_CELL_WITNESS_LENGTH]) (\<lambda>tx.
     Inr (int (length tx + BLOCK_SIZE_OVERHEAD)))))"

definition commitmentTxSize ::
    "int \<Rightarrow> script option \<Rightarrow> script_template \<Rightarrow> commitment_lock_layout \<Rightarrow> int res" where
  "commitmentTxSize cellDepsCount udt commitLock layout =
     (let mockLock = with_args commitLock (zero_bytes (COMMITMENT_LOCK_ARGS_LENGTHS layout)) in
      bindR (moleculeCellOutput 0 mockLock udt) (\<lambda>out.
      mockTxSize cellDepsCount [out]
        [if udt = None then [] else zero_bytes UDT_AMOUNT_DATA_LENGTH]))"

definition shutdownTxSize :: "int \<Rightarrow> script option \<Rightarrow> script \<times> script \<Rightarrow> int res" where
  "shutdownTxSize cellDepsCount udt closeScripts =
     bindR (mapR (\<lambda>s. moleculeCellOutput 0 s udt) [fst closeScripts, snd closeScripts]) (\<lambda>outs.
     let d = if udt = None then [] else zero_bytes UDT_AMOUNT_DATA_LENGTH
     in mockTxSize cellDepsCount outs [d, d])"

definition calculateTxFee :: "int \<Rightarrow> int \<Rightarrow> int res" where
  "calculateTxFee feeRate txSize =
     bindR (assertUnsignedBigInt ''feeRate'' feeRate MAX_CAPACITY_SHANNONS) (\<lambda>_.
     bindR (assertUnsignedInteger ''txSize'' txSize MAX_SAFE_INTEGER) (\<lambda>_.
     let fee = feeRate * txSize div 1000 in
     bindR (assertUnsignedBigInt ''fee'' fee MAX_CAPACITY_SHANNONS) (\<lambda>_. Inr fee)))"

definition calculateCommitmentTxFee ::
    "int \<Rightarrow> int \<Rightarrow> script option \<Rightarrow> script_template \<Rightarrow> commitment_lock_layout \<Rightarrow> int res" where
  "calculateCommitmentTxFee feeRate cellDepsCount udt commitLock layout =
     bindR (commitmentTxSize cellDepsCount udt commitLock layout) (calculateTxFee feeRate)"

definition calculateShutdownTxFee :: "int \<Rightarrow> int \<Rightarrow> script option \<Rightarrow> script \<Rightarrow> script \<Rightarrow> int res" where
  "calculateShutdownTxFee feeRate cellDepsCount udt localClose remoteClose =
     bindR (shutdownTxSize cellDepsCount udt (localClose, remoteClose)) (calculateTxFee feeRate)"

section \<open>Keys and capacities\<close>

definition aggregateXOnlyPubkey :: "lib \<Rightarrow> bytes \<times> bytes \<Rightarrow> bytes res" where
  "aggregateXOnlyPubkey L ordered = keyAggExport L [fst ordered, snd ordered]"

definition sortDistinctPubkeys :: "lib \<Rightarrow> string \<Rightarrow> bytes \<Rightarrow> string \<Rightarrow> bytes \<Rightarrow> (bytes \<times> bytes) res" where
  "sortDistinctPubkeys L firstName first secondName second =
     bindR (assertCompressedPoint L firstName first) (\<lambda>_.
     bindR (assertCompressedPoint L secondName second) (\<lambda>_.
     if first = second then Inl (TypeErr (firstName @ '' and '' @ secondName))
     else Inr (if compareBytes first second < 0 then (first, second) else (second, first))))"

definition subtractTxFee :: "int \<Rightarrow> int \<Rightarrow> int res" where
  "subtractTxFee tot fee =
     bindR (assertUnsignedBigInt ''total capacity'' tot MAX_CAPACITY_SHANNONS) (\<lambda>_.
     if fee > tot then Inl (RangeErr ''capacity'') else Inr (tot - fee))"

record commitment_cell_value =
  cv_capacityShannons :: int
  cv_data :: bytes

definition commitmentCellValue ::
    "script option \<Rightarrow> int \<Rightarrow> int \<Rightarrow> int \<Rightarrow> int \<Rightarrow> commitment_cell_value res" where
  "commitmentCellValue udt liquid localReserved remoteReserved fee =
     (let totalReserved = localReserved + remoteReserved in
      case udt of
        None \<Rightarrow> bindR (subtractTxFee (liquid + totalReserved) fee) (\<lambda>c.
                Inr \<lparr> cv_capacityShannons = c, cv_data = [] \<rparr>)
      | Some _ \<Rightarrow> bindR (subtractTxFee totalReserved fee) (\<lambda>c. bindR (uint128Le liquid) (\<lambda>d.
                Inr \<lparr> cv_capacityShannons = c, cv_data = d \<rparr>)))"

definition fundingLockArgs :: "lib \<Rightarrow> bytes \<Rightarrow> bytes \<Rightarrow> bytes res" where
  "fundingLockArgs L fundingPubkeyA fundingPubkeyB =
     bindR (sortDistinctPubkeys L ''fundingPubkeyA'' fundingPubkeyA ''fundingPubkeyB'' fundingPubkeyB) (\<lambda>ks.
     bindR (aggregateXOnlyPubkey L ks) (\<lambda>x. Inr (blake160 L [x])))"

definition tenantChannelId :: "lib \<Rightarrow> bytes \<Rightarrow> bytes \<Rightarrow> string res" where
  "tenantChannelId L localTlcBasePubkey remoteSettlementKey =
     bindR (sortDistinctPubkeys L ''localTlcBasePubkey'' localTlcBasePubkey ''remoteSettlementKey'' remoteSettlementKey)
       (\<lambda>(a, b). Inr (''0x'' @ bytesToHex L (ckbBlake2b L [a, b])))"

end
