(* ===== verification/Derivation.thy ===== *)
theory Derivation
  imports Common
begin

unbundle bit_operations_syntax

text \<open>
  The module \<^verbatim>\<open>derivation\<close>: fiber's key scheme (\<^verbatim>\<open>fiber-scheme.ts\<close>) with its 48-step
  flip-and-hash chain of commitment secrets, and the device's own seeds (\<^verbatim>\<open>device-scheme.ts\<close>,
  \<^verbatim>\<open>master-seed.ts\<close>). Hashes, the curve and BIP32 are the parameter \<open>L\<close>.
\<close>

section \<open>Constants and types\<close>

abbreviation (input) MAX_COMMITMENT_NUMBER :: int where "MAX_COMMITMENT_NUMBER \<equiv> 281474976710655"
abbreviation (input) MAX_CHANNEL_INDEX :: int where "MAX_CHANNEL_INDEX \<equiv> MAX_SAFE_INTEGER"
abbreviation (input) MAX_INVOICE_INDEX :: int where "MAX_INVOICE_INDEX \<equiv> MAX_CHANNEL_INDEX"
abbreviation (input) MAX_ACCOUNT_INDEX :: int where "MAX_ACCOUNT_INDEX \<equiv> 2147483647"

datatype nonce_context = COMMITMENT | REVOKE | ANNOUNCEMENT

fun nonce_context_name :: "nonce_context \<Rightarrow> string" where
  "nonce_context_name COMMITMENT = ''COMMITMENT''"
| "nonce_context_name REVOKE = ''REVOKE''"
| "nonce_context_name ANNOUNCEMENT = ''ANNOUNCEMENT''"

record fiber_channel_keys =
  fundingKey :: bytes
  tlcBaseKey :: bytes
  musig2BaseNonce :: bytes
  commitmentSeed :: bytes

text \<open>\<^verbatim>\<open>utf8ToBytes\<close> on the ASCII strings this module hashes.\<close>

definition utf8ToBytes :: "string \<Rightarrow> bytes" where
  "utf8ToBytes s = map (\<lambda>c. word_of_nat (of_char c)) s"

section \<open>Fiber's scheme\<close>

definition pubkeyOf :: "lib \<Rightarrow> bytes \<Rightarrow> bytes res" where
  "pubkeyOf L secretKey = bindR (assertBytes ''secretKey'' secretKey 32) (\<lambda>_. getPublicKey L secretKey)"

definition tweakPrivkey :: "lib \<Rightarrow> bytes \<Rightarrow> bytes \<Rightarrow> bytes res" where
  "tweakPrivkey L secretKey scalar =
     bindR (assertBytes ''secretKey'' secretKey 32) (\<lambda>_.
     bindR (assertBytes ''scalar'' scalar 32) (\<lambda>_.
     let tweaked = (be_val scalar + be_val secretKey) mod curveOrder L in
     if tweaked = 0 then Inl (OtherErr ''tweak produced a zero private key'')
     else Inr (be_bytes 32 tweaked)))"

definition getTweakByCommitmentPoint :: "lib \<Rightarrow> bytes \<Rightarrow> bytes res" where
  "getTweakByCommitmentPoint L commitmentPoint =
     bindR (assertBytes ''commitmentPoint'' commitmentPoint 33) (\<lambda>_. Inr (ckbBlake2b L [commitmentPoint]))"

definition derivePrivateKey :: "lib \<Rightarrow> bytes \<Rightarrow> bytes \<Rightarrow> bytes res" where
  "derivePrivateKey L secretKey commitmentPoint =
     bindR (getTweakByCommitmentPoint L commitmentPoint) (tweakPrivkey L secretKey)"

definition derivePublicKey :: "lib \<Rightarrow> bytes \<Rightarrow> bytes \<Rightarrow> bytes res" where
  "derivePublicKey L basePublicKey commitmentPoint =
     bindR (assertBytes ''basePublicKey'' basePublicKey 33) (\<lambda>_.
     bindR (getTweakByCommitmentPoint L commitmentPoint) (\<lambda>h.
     pointAddBaseMultiple L basePublicKey (be_val h mod curveOrder L)))"

definition flip_bit_of :: "bytes \<Rightarrow> nat \<Rightarrow> bytes" where
  "flip_bit_of secret bitpos =
     (let i = bitpos div 8 in secret[i := (secret ! i) XOR push_bit (bitpos mod 8) 1])"

text \<open>The loop over \<^verbatim>\<open>bitpos\<close> from \<open>n - 1\<close> down to 0.\<close>

primrec secretLoop :: "lib \<Rightarrow> nat \<Rightarrow> nat \<Rightarrow> bytes \<Rightarrow> bytes" where
  "secretLoop L bits 0 secret = secret"
| "secretLoop L bits (Suc bitpos) secret =
     secretLoop L bits bitpos
       (if bit bits bitpos then ckbBlake2b L [flip_bit_of secret bitpos] else secret)"

definition getCommitmentSecret :: "lib \<Rightarrow> bytes \<Rightarrow> int \<Rightarrow> bytes res" where
  "getCommitmentSecret L seed commitmentNumber =
     bindR (assertBytes ''commitmentSeed'' seed 32) (\<lambda>_.
     bindR (assertUnsignedInteger ''commitmentNumber'' commitmentNumber MAX_COMMITMENT_NUMBER) (\<lambda>_.
     Inr (secretLoop L (nat commitmentNumber) 48 seed)))"

definition getCommitmentPoint :: "lib \<Rightarrow> bytes \<Rightarrow> int \<Rightarrow> bytes res" where
  "getCommitmentPoint L seed commitmentNumber =
     bindR (getCommitmentSecret L seed commitmentNumber) (pubkeyOf L)"

definition blake2bHashWithSalt :: "lib \<Rightarrow> bytes \<Rightarrow> bytes \<Rightarrow> bytes" where
  "blake2bHashWithSalt L d salt = ckbBlake2b L [salt, d]"

definition deriveChannelKeys :: "lib \<Rightarrow> bytes \<Rightarrow> fiber_channel_keys res" where
  "deriveChannelKeys L channelSeed =
     bindR (assertBytes ''channelSeed'' channelSeed 32) (\<lambda>_.
     let seed = ckbBlake2b L [channelSeed];
         commitSeed = ckbBlake2b L [seed, utf8ToBytes ''commitment seed''];
         funding = blake2bHashWithSalt L seed (utf8ToBytes ''funding key'');
         tlcBase = blake2bHashWithSalt L funding (utf8ToBytes ''HTLC base key'');
         musig2Base = blake2bHashWithSalt L tlcBase (utf8ToBytes ''musig nocne'')
     in Inr \<lparr> fundingKey = funding, tlcBaseKey = tlcBase, musig2BaseNonce = musig2Base,
              commitmentSeed = commitSeed \<rparr>)"

definition deriveTlcKey :: "lib \<Rightarrow> fiber_channel_keys \<Rightarrow> int \<Rightarrow> bytes res" where
  "deriveTlcKey L keys commitmentNumber =
     bindR (getCommitmentPoint L (commitmentSeed keys) commitmentNumber) (derivePrivateKey L (tlcBaseKey keys))"

section \<open>The device's scheme\<close>

definition deriveWalletIdentityKey :: "lib \<Rightarrow> bytes \<Rightarrow> bytes res" where
  "deriveWalletIdentityKey L masterSeed =
     bindR (assertBytes ''masterSeed'' masterSeed 32) (\<lambda>_.
     Inr (ckbBlake2b L [masterSeed, utf8ToBytes ''wallet identity'']))"

definition deriveChannelSeed :: "lib \<Rightarrow> bytes \<Rightarrow> int \<Rightarrow> bytes res" where
  "deriveChannelSeed L masterSeed channelIndex =
     bindR (assertBytes ''masterSeed'' masterSeed 32) (\<lambda>_.
     bindR (assertUnsignedInteger ''channelIndex'' channelIndex MAX_CHANNEL_INDEX) (\<lambda>_.
     Inr (ckbBlake2b L [masterSeed, utf8ToBytes (''fiber channel '' @ toString channelIndex)])))"

definition deriveHoldInvoicePreimage :: "lib \<Rightarrow> bytes \<Rightarrow> int \<Rightarrow> bytes res" where
  "deriveHoldInvoicePreimage L masterSeed invoiceIndex =
     bindR (assertBytes ''masterSeed'' masterSeed 32) (\<lambda>_.
     bindR (assertUnsignedInteger ''invoiceIndex'' invoiceIndex MAX_INVOICE_INDEX) (\<lambda>_.
     Inr (ckbBlake2b L [masterSeed, utf8ToBytes (''hold invoice '' @ toString invoiceIndex)])))"

definition deriveNonceSeed :: "lib \<Rightarrow> fiber_channel_keys \<Rightarrow> int \<Rightarrow> nonce_context \<Rightarrow> bytes res" where
  "deriveNonceSeed L keys commitmentNumber ctx =
     bindR (assertUnsignedInteger ''commitmentNumber'' commitmentNumber MAX_COMMITMENT_NUMBER) (\<lambda>_.
     bindR (getCommitmentPoint L (commitmentSeed keys) commitmentNumber) (\<lambda>commitmentPoint.
     bindR (derivePrivateKey L (musig2BaseNonce keys) commitmentPoint) (\<lambda>k.
     Inr (ckbBlake2b L [k, utf8ToBytes (nonce_context_name ctx)]))))"

definition deriveMasterSeed :: "lib \<Rightarrow> bytes \<Rightarrow> int \<Rightarrow> bytes res" where
  "deriveMasterSeed L bip39Seed accountIndex =
     bindR (assertBytes ''bip39Seed'' bip39Seed 64) (\<lambda>_.
     bindR (assertUnsignedInteger ''accountIndex'' accountIndex MAX_ACCOUNT_INDEX) (\<lambda>_.
     bindR (hdPrivateKey L bip39Seed (''m/1017'' @ [CHR 0x27] @ ''/309'' @ [CHR 0x27] @ ''/'' @
       toString accountIndex @ [CHR 0x27])) (\<lambda>privateKey.
     bindR (assertBytes ''derived master seed'' privateKey 32) (\<lambda>_. Inr privateKey))))"

section \<open>The chain of commitment secrets\<close>

lemma secretLoop_take_bit: "k \<le> n \<Longrightarrow> secretLoop L (take_bit n bits) k s = secretLoop L bits k s"
  by (induction k arbitrary: s) (simp_all add: bit_take_bit_iff)

lemma secretLoop_0 [simp]: "secretLoop L 0 k s = s"
  by (induction k arbitrary: s) simp_all

lemma secretLoop_low: "b < 2 ^ k \<Longrightarrow> secretLoop L (2 ^ k * a + b) k s = secretLoop L b k s"
  using secretLoop_take_bit [of k k L "2 ^ k * a + b" s] by (simp add: take_bit_eq_mod)

lemma secretLoop_split:
  assumes "b < 2 ^ k"
  shows "secretLoop L (2 ^ k * a + b) (m + k) s = secretLoop L b k (secretLoop L (2 ^ k * a) (m + k) s)"
proof (induction m arbitrary: s)
  case 0
  show ?case
    using secretLoop_low [OF assms] secretLoop_low [of 0 k L a s] by simp
next
  case (Suc m)
  have "(2 ^ k * a + b) div 2 ^ (m + k) = 2 ^ k * a div 2 ^ (m + k)"
    using assms by (simp add: power_add div_mult2_eq mult.commute [of "2 ^ m"])
  then have "bit (2 ^ k * a + b) (m + k) = bit (2 ^ k * a) (m + k)"
    by (simp only: bit_iff_odd)
  then show ?case by (simp add: Suc.IH)
qed

lemma secretLoop_high: "bits < 2 ^ k \<Longrightarrow> secretLoop L bits (n + k) s = secretLoop L bits k s"
proof (induction n)
  case (Suc n)
  from Suc.prems have "bits < 2 ^ (n + k)"
    by (rule order.strict_trans2) (simp add: power_increasing)
  with Suc show ?case by (simp add: bit_iff_odd)
qed simp

lemma getCommitmentSecret_Inr_iff:
  "getCommitmentSecret L seed n = Inr s \<longleftrightarrow>
     length seed = 32 \<and> 0 \<le> n \<and> n \<le> MAX_COMMITMENT_NUMBER \<and> s = secretLoop L (nat n) 48 seed"
  by (auto simp: getCommitmentSecret_def assert_defs isUnsignedInteger_def res_simps)

text \<open>C27 The secret of a commitment number ending in \<open>k\<close> zero bits yields, by the chain's last \<open>k\<close> steps
  alone, the secret of every number that shares its other bits, and of no seed but that secret: the
  property fiber's revocation storage rests on.\<close>

theorem commitment_secret_chain:
  assumes "getCommitmentSecret L seed (2 ^ k * a) = Inr root"
    and "k \<le> 48" and "0 \<le> a" and "0 \<le> b" and "b < 2 ^ k"
    and "2 ^ k * a + b \<le> MAX_COMMITMENT_NUMBER"
  shows "getCommitmentSecret L seed (2 ^ k * a + b) = Inr (secretLoop L (nat b) k root)"
proof -
  have "nat (2 ^ k * a + b) = 2 ^ k * nat a + nat b" "nat (2 ^ k * a) = 2 ^ k * nat a"
    using assms(3,4) by (simp_all add: nat_add_distrib nat_mult_distrib nat_power_eq)
  moreover have "nat b < 2 ^ k"
    using assms(4,5) by (simp add: nat_less_iff)
  ultimately show ?thesis
    using assms secretLoop_split [of "nat b" k L "nat a" "48 - k" seed]
    by (simp add: getCommitmentSecret_Inr_iff)
qed

theorem commitment_secret_chain_witness:
  "getCommitmentSecret demo_lib (zero_bytes 32) (2 ^ 1 * 1 + 1) =
     Inr (secretLoop demo_lib (nat 1) 1 (2 # zero_bytes 31))"
proof -
  have "secretLoop demo_lib 2 48 (zero_bytes 32) = secretLoop demo_lib 2 2 (zero_bytes 32)"
    using secretLoop_high [of 2 2 demo_lib 46] by simp
  also have "\<dots> = ckbBlake2b demo_lib [flip_bit_of (zero_bytes 32) 1]"
    by (simp add: numeral_2_eq_2 bit_iff_odd)
  also have "flip_bit_of (zero_bytes 32) 1 = 2 # zero_bytes 31"
  proof -
    have "zero_bytes 32 = 0 # zero_bytes 31"
      by (subst replicate_Suc [symmetric]) simp
    then show ?thesis by (simp add: flip_bit_of_def)
  qed
  also have "ckbBlake2b demo_lib [2 # zero_bytes 31] = 2 # zero_bytes 31"
    by (simp add: ckbBlake2b_def demo_lib_def demo_hash_32)
  finally show ?thesis
    using commitment_secret_chain [of demo_lib "zero_bytes 32" 1 1 "2 # zero_bytes 31" 1]
    by (simp add: getCommitmentSecret_Inr_iff)
qed

text \<open>C28 A tweaked key is the sum of the two scalars modulo the curve order, as 32 big-endian bytes, and
  never zero.\<close>

theorem tweakPrivkey_value:
  assumes "tweakPrivkey L secretKey scalar = Inr k" and "0 < curveOrder L" and "curveOrder L \<le> 256 ^ 32"
  shows "length k = 32 \<and> be_val k = (be_val scalar + be_val secretKey) mod curveOrder L
    \<and> 0 < be_val k \<and> be_val k < curveOrder L"
proof -
  let ?t = "(be_val scalar + be_val secretKey) mod curveOrder L"
  from assms(1) have k: "k = be_bytes 32 ?t" "?t \<noteq> 0"
    by (auto simp: tweakPrivkey_def Let_def res_simps split: if_splits)
  have "?t < curveOrder L"
    using assms(2) by simp
  moreover from this have "?t < 256 ^ 32"
    using assms(3) by linarith
  ultimately show ?thesis
    using k by (simp add: be_val_be_bytes_id)
qed

theorem tweakPrivkey_value_witness:
  "tweakPrivkey demo_lib (zero_bytes 31 @ [7]) (zero_bytes 31 @ [5]) = Inr (be_bytes 32 12)
   \<and> be_val (be_bytes 32 12) = 12"
proof -
  have ok: "tweakPrivkey demo_lib (zero_bytes 31 @ [7]) (zero_bytes 31 @ [5]) = Inr (be_bytes 32 12)"
    by (simp add: tweakPrivkey_def assertBytes_def be_val_def demo_lib_def)
  show ?thesis
    using tweakPrivkey_value [OF ok] ok by (simp add: be_val_def demo_lib_def)
qed

end
