(* ===== verification/Digest.thy ===== *)
theory Digest
  imports Transaction Derivation
begin

text \<open>
  What the device signs, rebuilt from its inputs as fiber builds it: the settlement witness
  (\<^verbatim>\<open>settlement-witness.ts\<close>), the commitment transaction and its lock args (\<^verbatim>\<open>commitment-tx.ts\<close>), the
  cooperative close (\<^verbatim>\<open>shutdown-tx.ts\<close>), the revocation content (\<^verbatim>\<open>revocation.ts\<close>), the channel
  announcement (\<^verbatim>\<open>channel-announcement.ts\<close>) and the step from fiber's settlement snapshot to the
  commitment input (\<^verbatim>\<open>settlement-input.ts\<close>). The fields of the input records carry a prefix per
  record, since several of them share names in the source.
\<close>

section \<open>Types and constants\<close>

abbreviation (input) REVOCATION_LOCK_ARGS_LENGTH :: nat where "REVOCATION_LOCK_ARGS_LENGTH \<equiv> 36"
abbreviation (input) COMMITMENT_LOCK_SETTLEMENT_HASH_OFFSET :: nat where "COMMITMENT_LOCK_SETTLEMENT_HASH_OFFSET \<equiv> 36"
abbreviation (input) COMMITMENT_LOCK_SETTLEMENT_FLAG_OFFSET :: nat where "COMMITMENT_LOCK_SETTLEMENT_FLAG_OFFSET \<equiv> 56"
abbreviation (input) FULL_PAYMENT_HASH_FEATURE_BYTE :: byte where "FULL_PAYMENT_HASH_FEATURE_BYTE \<equiv> 1"
abbreviation (input) SETTLEMENT_FLAG_COMMITMENT :: byte where "SETTLEMENT_FLAG_COMMITMENT \<equiv> 0"
abbreviation (input) SETTLEMENT_FLAG_REMAINDER :: byte where "SETTLEMENT_FLAG_REMAINDER \<equiv> 1"
abbreviation (input) MAX_SETTLEMENT_TLCS :: nat where "MAX_SETTLEMENT_TLCS \<equiv> 255"
abbreviation (input) MAX_SINCE_PAYLOAD :: int where "MAX_SINCE_PAYLOAD \<equiv> 72057594037927935"
abbreviation (input) SINCE_RELATIVE_EPOCH_FLAGS :: int where "SINCE_RELATIVE_EPOCH_FLAGS \<equiv> 0xa000000000000000"
abbreviation (input) SINCE_ABSOLUTE_TIMESTAMP_FLAG :: int where "SINCE_ABSOLUTE_TIMESTAMP_FLAG \<equiv> 0x4000000000000000"
abbreviation (input) MILLISECONDS_PER_SECOND :: int where "MILLISECONDS_PER_SECOND \<equiv> 1000"
abbreviation (input) SIGNATURE_PLACEHOLDER_LENGTH :: nat where "SIGNATURE_PLACEHOLDER_LENGTH \<equiv> 64"

record settlement_tlc =
  st_id :: int
  st_direction :: tlc_direction
  st_hashAlgorithm :: tlc_hash_algorithm
  st_amountShannons :: int
  st_paymentHash :: bytes
  st_expiryMs :: int
  st_localKeyCommitmentNumber :: int
  st_remoteTlcPubkey :: bytes

record commitment_tx_input =
  ci_forRemote :: bool
  ci_fundingOutPoint :: out_point
  ci_remoteFundingPubkey :: bytes
  ci_remoteTlcBasePubkey :: bytes
  ci_commitmentNumber :: int
  ci_commitmentDelayEpoch :: int
  ci_commitmentFeeRate :: int
  ci_cellDepsCount :: int
  ci_udtTypeScript :: "script option"
  ci_liquidCapacityShannons :: int
  ci_settlementLocalShannons :: int
  ci_settlementRemoteShannons :: int
  ci_localReservedCkbShannons :: int
  ci_remoteReservedCkbShannons :: int
  ci_tlcs :: "settlement_tlc list"
  ci_commitmentLock :: script_template
  ci_lockLayout :: commitment_lock_layout

record shutdown_tx_input =
  sh_fundingOutPoint :: out_point
  sh_remoteFundingPubkey :: bytes
  sh_localCloseScript :: script
  sh_remoteCloseScript :: script
  sh_localFeeRate :: int
  sh_remoteFeeRate :: int
  sh_cellDepsCount :: int
  sh_udtTypeScript :: "script option"
  sh_toLocalShannons :: int
  sh_toRemoteShannons :: int
  sh_localReservedCkbShannons :: int
  sh_remoteReservedCkbShannons :: int

record closing_tx_input =
  cl_fundingOutPoint :: out_point
  cl_remoteFundingPubkey :: bytes
  cl_localCloseScript :: script
  cl_remoteCloseScript :: script
  cl_localCapacityShannons :: int
  cl_remoteCapacityShannons :: int

record revocation_input =
  ri_forRemote :: bool
  ri_revokedCommitmentNumber :: int
  ri_payoutScript :: script
  ri_remoteFundingPubkey :: bytes
  ri_commitmentDelayEpoch :: int
  ri_commitmentFeeRate :: int
  ri_cellDepsCount :: int
  ri_udtTypeScript :: "script option"
  ri_liquidCapacityShannons :: int
  ri_localReservedCkbShannons :: int
  ri_remoteReservedCkbShannons :: int
  ri_commitmentLock :: script_template
  ri_lockLayout :: commitment_lock_layout

record channel_announcement_input =
  an_chainHash :: bytes
  an_fundingOutPoint :: out_point
  an_nodeIds :: "bytes \<times> bytes"
  an_remoteFundingPubkey :: bytes
  an_capacityShannons :: int
  an_udtTypeScript :: "script option"

record settlement_witness_input =
  sw_forRemote :: bool
  sw_remoteTlcBasePubkey :: bytes
  sw_localAmountShannons :: int
  sw_remoteAmountShannons :: int
  sw_tlcs :: "settlement_tlc list"
  sw_lockLayout :: commitment_lock_layout

record signing_settlement_tlc =
  ss_tlcId :: int
  ss_direction :: tlc_direction
  ss_hashAlgorithm :: tlc_hash_algorithm
  ss_amountShannons :: int
  ss_paymentHash :: bytes
  ss_expiryMs :: int
  ss_localKeyCommitmentNumber :: int
  ss_localKeyPubkey :: bytes
  ss_remoteTlcPubkey :: bytes

record signing_settlement =
  se_localAmountShannons :: int
  se_remoteAmountShannons :: int
  se_localSettlementPubkey :: bytes
  se_remoteSettlementPubkey :: bytes
  se_forRemote :: bool
  se_tlcs :: "signing_settlement_tlc list"

record commitment_settlement_terms =
  te_fundingOutPoint :: out_point
  te_remoteFundingPubkey :: bytes
  te_commitmentDelayEpoch :: int
  te_commitmentFeeRate :: int
  te_cellDepsCount :: int
  te_udtTypeScript :: "script option"
  te_liquidCapacityShannons :: int
  te_localReservedCkbShannons :: int
  te_remoteReservedCkbShannons :: int
  te_commitmentLock :: script_template
  te_lockLayout :: commitment_lock_layout

section \<open>Settlement witness\<close>

definition orderTlcs :: "settlement_tlc list \<Rightarrow> bool \<Rightarrow> settlement_tlc list" where
  "orderTlcs tlcs forRemote =
     (let firstGroup = (if forRemote then received else offered);
          first = sort_key st_id (filter (\<lambda>t. st_direction t = firstGroup) tlcs);
          second = sort_key st_id (filter (\<lambda>t. st_direction t \<noteq> firstGroup) tlcs)
      in first @ second)"

definition tlcFlag :: "settlement_tlc \<Rightarrow> bool \<Rightarrow> byte" where
  "tlcFlag t forRemote =
     (let offeredBit = (if (st_direction t = offered) = forRemote then 0 else 1)
      in push_bit 1 (tlcHashAlgorithmByte (st_hashAlgorithm t)) OR offeredBit)"

definition buildTlcRecord ::
    "lib \<Rightarrow> fiber_channel_keys \<Rightarrow> settlement_tlc \<Rightarrow> bool \<Rightarrow> commitment_lock_layout \<Rightarrow> bytes res" where
  "buildTlcRecord L keys t forRemote layout =
     bindR (assertUnsignedInteger ''tlc.id'' (st_id t) MAX_SAFE_INTEGER) (\<lambda>_.
     bindR (assertUnsignedBigInt ''tlc.amountShannons'' (st_amountShannons t) MAX_AMOUNT_SHANNONS) (\<lambda>_.
     bindR (assertBytes ''tlc.paymentHash'' (st_paymentHash t) 32) (\<lambda>_.
     bindR (assertUnsignedBigInt ''tlc.expiryMs'' (st_expiryMs t) (MAX_SINCE_PAYLOAD * MILLISECONDS_PER_SECOND)) (\<lambda>_.
     bindR (assertUnsignedInteger ''tlc.localKeyCommitmentNumber'' (st_localKeyCommitmentNumber t) MAX_COMMITMENT_NUMBER) (\<lambda>_.
     bindR (assertCompressedPoint L ''tlc.remoteTlcPubkey'' (st_remoteTlcPubkey t)) (\<lambda>_.
     let flag = tlcFlag t forRemote in
     bindR (deriveTlcKey L keys (st_localKeyCommitmentNumber t)) (\<lambda>k.
     bindR (pubkeyOf L k) (\<lambda>localKey.
     let localHash = blake160 L [localKey];
         remoteHash = blake160 L [st_remoteTlcPubkey t];
         keyHashes = (if forRemote then [remoteHash, localHash] else [localHash, remoteHash]);
         sinc = SINCE_ABSOLUTE_TIMESTAMP_FLAG OR (st_expiryMs t div MILLISECONDS_PER_SECOND)
     in bindR (uint128Le (st_amountShannons t)) (\<lambda>amount.
        bindR (uint64Le sinc) (\<lambda>s.
        Inr ([flag] @ amount @ take (WITNESS_PAYMENT_HASH_LENGTHS layout) (st_paymentHash t)
             @ concat keyHashes @ s)))))))))))"

definition buildSettlementWitness :: "lib \<Rightarrow> fiber_channel_keys \<Rightarrow> settlement_witness_input \<Rightarrow> bytes res" where
  "buildSettlementWitness L keys i =
     bindR (assertBytes ''remoteTlcBasePubkey'' (sw_remoteTlcBasePubkey i) 33) (\<lambda>_.
     bindR (assertUnsignedBigInt ''localAmountShannons'' (sw_localAmountShannons i) MAX_AMOUNT_SHANNONS) (\<lambda>_.
     bindR (assertUnsignedBigInt ''remoteAmountShannons'' (sw_remoteAmountShannons i) MAX_AMOUNT_SHANNONS) (\<lambda>_.
     bindR (check (\<not> length (sw_tlcs i) > MAX_SETTLEMENT_TLCS) (TypeErr ''tlcs'')) (\<lambda>_.
     bindR (mapR (\<lambda>t. buildTlcRecord L keys t (sw_forRemote i) (sw_lockLayout i))
              (orderTlcs (sw_tlcs i) (sw_forRemote i))) (\<lambda>records.
     bindR (pubkeyOf L (tlcBaseKey keys)) (\<lambda>localKey.
     let localHash = blake160 L [localKey];
         remoteHash = blake160 L [sw_remoteTlcBasePubkey i]
     in bindR (uint128Le (sw_localAmountShannons i)) (\<lambda>localAmount.
        bindR (uint128Le (sw_remoteAmountShannons i)) (\<lambda>remoteAmount.
        let localBlock = localHash @ localAmount;
            remoteBlock = remoteHash @ remoteAmount;
            blocks = (if sw_forRemote i then [remoteBlock, localBlock] else [localBlock, remoteBlock])
        in Inr ([word_of_nat (length records)] @ concat records @ concat blocks)))))))))"

section \<open>Commitment lock args\<close>

definition buildCommitmentLockArgs ::
    "lib \<Rightarrow> bytes \<Rightarrow> int \<Rightarrow> int \<Rightarrow> bytes \<Rightarrow> commitment_lock_layout \<Rightarrow> bytes res" where
  "buildCommitmentLockArgs L xonly delayEpoch commitmentNumber settlementWitness layout =
     bindR (assertUnsignedBigInt ''commitmentDelayEpoch'' delayEpoch MAX_SINCE_PAYLOAD) (\<lambda>_.
     bindR (assertUnsignedInteger ''commitmentNumber'' commitmentNumber MAX_COMMITMENT_NUMBER) (\<lambda>_.
     let featureBytes = (if layout = fullPaymentHash then [FULL_PAYMENT_HASH_FEATURE_BYTE] else []) in
     bindR (uint64Le (SINCE_RELATIVE_EPOCH_FLAGS OR delayEpoch)) (\<lambda>d.
     bindR (uint64Be commitmentNumber) (\<lambda>v.
     Inr (blake160 L [xonly] @ d @ v @ blake160 L [settlementWitness] @ [SETTLEMENT_FLAG_COMMITMENT]
          @ featureBytes)))))"

definition readCommitmentLockLayout :: "bytes \<Rightarrow> commitment_lock_layout res" where
  "readCommitmentLockLayout a =
     (if length a = COMMITMENT_LOCK_ARGS_LENGTHS legacy then Inr legacy
      else if length a \<noteq> COMMITMENT_LOCK_ARGS_LENGTHS fullPaymentHash then Inl (TypeErr ''commitment lock args'')
      else if a ! 57 \<noteq> FULL_PAYMENT_HASH_FEATURE_BYTE then Inl (TypeErr ''commitment lock args'')
      else Inr fullPaymentHash)"

definition readLockArgsField :: "bytes \<Rightarrow> nat \<Rightarrow> bool \<Rightarrow> int res" where
  "readLockArgsField a offset littleEndian =
     (if length a \<noteq> REVOCATION_LOCK_ARGS_LENGTH \<and> length a \<noteq> COMMITMENT_LOCK_ARGS_LENGTHS legacy
         \<and> length a \<noteq> COMMITMENT_LOCK_ARGS_LENGTHS fullPaymentHash
      then Inl (TypeErr ''commitment lock args'')
      else let f = take 8 (drop offset a) in Inr (int (if littleEndian then le_val f else be_val f)))"

definition readCommitmentLockDelay :: "bytes \<Rightarrow> int res" where
  "readCommitmentLockDelay a =
     bindR (readLockArgsField a 20 True) (\<lambda>sinc.
     if (sinc AND NOT MAX_SINCE_PAYLOAD) \<noteq> SINCE_RELATIVE_EPOCH_FLAGS then Inl (TypeErr ''commitment lock args'')
     else Inr (sinc AND MAX_SINCE_PAYLOAD))"

definition readCommitmentLockVersion :: "bytes \<Rightarrow> int res" where
  "readCommitmentLockVersion a =
     bindR (readLockArgsField a 28 False) (\<lambda>v.
     if v > MAX_COMMITMENT_NUMBER then Inl (RangeErr ''commitment lock args'') else Inr v)"

definition readCommitmentLockSettlementHash :: "bytes \<Rightarrow> bytes res" where
  "readCommitmentLockSettlementHash a =
     bindR (readCommitmentLockLayout a) (\<lambda>_.
     Inr (subarray a COMMITMENT_LOCK_SETTLEMENT_HASH_OFFSET COMMITMENT_LOCK_SETTLEMENT_FLAG_OFFSET))"

definition readCommitmentLockSettled :: "bytes \<Rightarrow> bool res" where
  "readCommitmentLockSettled a =
     bindR (readCommitmentLockLayout a) (\<lambda>_.
     let flag = a ! COMMITMENT_LOCK_SETTLEMENT_FLAG_OFFSET in
     if flag = SETTLEMENT_FLAG_REMAINDER then Inr True
     else if flag = SETTLEMENT_FLAG_COMMITMENT then Inr False
     else Inl (TypeErr ''commitment lock args''))"

section \<open>Commitment transaction\<close>

definition roleOrder :: "bool \<Rightarrow> bytes \<Rightarrow> bytes \<Rightarrow> bytes \<times> bytes" where
  "roleOrder forRemote localKey remoteKey = (if forRemote then (localKey, remoteKey) else (remoteKey, localKey))"

definition buildCommitmentSettlementWitness :: "lib \<Rightarrow> fiber_channel_keys \<Rightarrow> commitment_tx_input \<Rightarrow> bytes res" where
  "buildCommitmentSettlementWitness L keys i =
     (let isUdt = ci_udtTypeScript i \<noteq> None in
      buildSettlementWitness L keys \<lparr>
        sw_forRemote = ci_forRemote i,
        sw_remoteTlcBasePubkey = ci_remoteTlcBasePubkey i,
        sw_localAmountShannons = (if isUdt then ci_settlementLocalShannons i
          else ci_settlementLocalShannons i + ci_localReservedCkbShannons i),
        sw_remoteAmountShannons = (if isUdt then ci_settlementRemoteShannons i
          else ci_settlementRemoteShannons i + ci_remoteReservedCkbShannons i),
        sw_tlcs = ci_tlcs i,
        sw_lockLayout = ci_lockLayout i \<rparr>)"

definition buildCommitmentTxAndSettlement ::
    "lib \<Rightarrow> fiber_channel_keys \<Rightarrow> commitment_tx_input \<Rightarrow> (transaction \<times> bytes) res" where
  "buildCommitmentTxAndSettlement L keys i =
     bindR (assertOutPoint ''fundingOutPoint'' (ci_fundingOutPoint i)) (\<lambda>_.
     bindR (assertBytes ''remoteFundingPubkey'' (ci_remoteFundingPubkey i) 33) (\<lambda>_.
     bindR (assertUnsignedBigInt ''liquidCapacityShannons'' (ci_liquidCapacityShannons i) MAX_AMOUNT_SHANNONS) (\<lambda>_.
     bindR (assertUnsignedBigInt ''localReservedCkbShannons'' (ci_localReservedCkbShannons i) MAX_CAPACITY_SHANNONS) (\<lambda>_.
     bindR (assertUnsignedBigInt ''remoteReservedCkbShannons'' (ci_remoteReservedCkbShannons i) MAX_CAPACITY_SHANNONS) (\<lambda>_.
     bindR (assertUnsignedBigInt ''settlementLocalShannons'' (ci_settlementLocalShannons i) MAX_AMOUNT_SHANNONS) (\<lambda>_.
     bindR (assertUnsignedBigInt ''settlementRemoteShannons'' (ci_settlementRemoteShannons i) MAX_AMOUNT_SHANNONS) (\<lambda>_.
     bindR (pubkeyOf L (fundingKey keys)) (\<lambda>localFundingPubkey.
     bindR (buildCommitmentSettlementWitness L keys i) (\<lambda>witness.
     bindR (aggregateXOnlyPubkey L (roleOrder (ci_forRemote i) localFundingPubkey (ci_remoteFundingPubkey i))) (\<lambda>xonly.
     bindR (buildCommitmentLockArgs L xonly (ci_commitmentDelayEpoch i) (ci_commitmentNumber i) witness (ci_lockLayout i)) (\<lambda>lockArgs.
     let lck = with_args (ci_commitmentLock i) lockArgs in
     bindR (calculateCommitmentTxFee (ci_commitmentFeeRate i) (ci_cellDepsCount i) (ci_udtTypeScript i)
              (ci_commitmentLock i) (ci_lockLayout i)) (\<lambda>fee.
     bindR (commitmentCellValue (ci_udtTypeScript i) (ci_liquidCapacityShannons i) (ci_localReservedCkbShannons i)
              (ci_remoteReservedCkbShannons i) fee) (\<lambda>v.
     Inr (\<lparr> tx_version = 0, cellDeps = [], headerDeps = [],
            inputs = [\<lparr> since = 0, previousOutput = ci_fundingOutPoint i \<rparr>],
            outputs = [\<lparr> capacityShannons = cv_capacityShannons v, lock = lck, type_script = ci_udtTypeScript i \<rparr>],
            outputsData = [cv_data v], witnesses = [] \<rparr>, witness))))))))))))))"

definition buildCommitmentTx :: "lib \<Rightarrow> fiber_channel_keys \<Rightarrow> commitment_tx_input \<Rightarrow> transaction res" where
  "buildCommitmentTx L keys i = bindR (buildCommitmentTxAndSettlement L keys i) (\<lambda>r. Inr (fst r))"

definition computeCommitmentTxDigest :: "lib \<Rightarrow> fiber_channel_keys \<Rightarrow> commitment_tx_input \<Rightarrow> bytes res" where
  "computeCommitmentTxDigest L keys i = bindR (buildCommitmentTx L keys i) (computeTxMessage L)"

section \<open>Cooperative close\<close>

definition isLocalFirst :: "lib \<Rightarrow> fiber_channel_keys \<Rightarrow> bytes \<Rightarrow> bool res" where
  "isLocalFirst L keys remoteFundingPubkey =
     bindR (pubkeyOf L (fundingKey keys)) (\<lambda>k. Inr (compareBytes k remoteFundingPubkey \<le> 0))"

record closing_tx_udt =
  cu_typeScript :: script
  cu_localAmountShannons :: int
  cu_remoteAmountShannons :: int

definition buildClosingTx ::
    "lib \<Rightarrow> fiber_channel_keys \<Rightarrow> closing_tx_input \<Rightarrow> closing_tx_udt option \<Rightarrow> transaction res" where
  "buildClosingTx L keys i udt =
     bindR (assertOutPoint ''fundingOutPoint'' (cl_fundingOutPoint i)) (\<lambda>_.
     bindR (assertBytes ''remoteFundingPubkey'' (cl_remoteFundingPubkey i) 33) (\<lambda>_.
     bindR (assertScript ''localCloseScript'' (cl_localCloseScript i)) (\<lambda>_.
     bindR (assertScript ''remoteCloseScript'' (cl_remoteCloseScript i)) (\<lambda>_.
     bindR (assertUnsignedBigInt ''localCapacityShannons'' (cl_localCapacityShannons i) MAX_CAPACITY_SHANNONS) (\<lambda>_.
     bindR (assertUnsignedBigInt ''remoteCapacityShannons'' (cl_remoteCapacityShannons i) MAX_CAPACITY_SHANNONS) (\<lambda>_.
     let typ = map_option cu_typeScript udt;
         localOutput = \<lparr> capacityShannons = cl_localCapacityShannons i, lock = cl_localCloseScript i, type_script = typ \<rparr>;
         remoteOutput = \<lparr> capacityShannons = cl_remoteCapacityShannons i, lock = cl_remoteCloseScript i, type_script = typ \<rparr>
     in bindR (case udt of None \<Rightarrow> Inr [] | Some u \<Rightarrow> uint128Le (cu_localAmountShannons u)) (\<lambda>localData.
        bindR (case udt of None \<Rightarrow> Inr [] | Some u \<Rightarrow> uint128Le (cu_remoteAmountShannons u)) (\<lambda>remoteData.
        bindR (isLocalFirst L keys (cl_remoteFundingPubkey i)) (\<lambda>localFirst.
        Inr \<lparr> tx_version = 0, cellDeps = [], headerDeps = [],
              inputs = [\<lparr> since = 0, previousOutput = cl_fundingOutPoint i \<rparr>],
              outputs = (if localFirst then [localOutput, remoteOutput] else [remoteOutput, localOutput]),
              outputsData = (if localFirst then [localData, remoteData] else [remoteData, localData]),
              witnesses = [] \<rparr>)))))))))"

definition computeClosingTxDigest :: "lib \<Rightarrow> fiber_channel_keys \<Rightarrow> closing_tx_input \<Rightarrow> bytes res" where
  "computeClosingTxDigest L keys i = bindR (buildClosingTx L keys i None) (computeTxMessage L)"

definition readClosingOutput :: "cell_output \<Rightarrow> string \<Rightarrow> cell_output res" where
  "readClosingOutput out name =
     bindR (assertUnsignedBigInt (name @ ''.capacityShannons'') (capacityShannons out) MAX_CAPACITY_SHANNONS) (\<lambda>_.
     bindR (assertScript (name @ ''.lock'') (lock out)) (\<lambda>_.
     if type_script out \<noteq> None then Inl (TypeErr name) else Inr out))"

definition readClosingTx :: "lib \<Rightarrow> fiber_channel_keys \<Rightarrow> bytes \<Rightarrow> transaction \<Rightarrow> closing_tx_input res" where
  "readClosingTx L keys remoteFundingPubkey tx =
     bindR (assertBytes ''remoteFundingPubkey'' remoteFundingPubkey 33) (\<lambda>_.
     if length (inputs tx) \<noteq> 1 then Inl (TypeErr ''closing tx'')
     else if length (outputs tx) \<noteq> 2 then Inl (TypeErr ''closing tx'')
     else
       bindR (assertOutPoint ''closing tx inputs[0].previousOutput'' (previousOutput (inputs tx ! 0))) (\<lambda>_.
       bindR (readClosingOutput (outputs tx ! 0) ''closing tx outputs[0]'') (\<lambda>first.
       bindR (readClosingOutput (outputs tx ! 1) ''closing tx outputs[1]'') (\<lambda>second.
       bindR (isLocalFirst L keys remoteFundingPubkey) (\<lambda>localFirst.
       let (loc, rem) = (if localFirst then (first, second) else (second, first)) in
       Inr \<lparr> cl_fundingOutPoint = previousOutput (inputs tx ! 0), cl_remoteFundingPubkey = remoteFundingPubkey,
             cl_localCloseScript = lock loc, cl_remoteCloseScript = lock rem,
             cl_localCapacityShannons = capacityShannons loc, cl_remoteCapacityShannons = capacityShannons rem \<rparr>)))))"

definition computeShutdownTxDigest :: "lib \<Rightarrow> fiber_channel_keys \<Rightarrow> shutdown_tx_input \<Rightarrow> bytes res" where
  "computeShutdownTxDigest L keys i =
     bindR (assertBytes ''remoteFundingPubkey'' (sh_remoteFundingPubkey i) 33) (\<lambda>_.
     bindR (assertUnsignedBigInt ''toLocalShannons'' (sh_toLocalShannons i) MAX_AMOUNT_SHANNONS) (\<lambda>_.
     bindR (assertUnsignedBigInt ''toRemoteShannons'' (sh_toRemoteShannons i) MAX_AMOUNT_SHANNONS) (\<lambda>_.
     bindR (assertUnsignedBigInt ''localReservedCkbShannons'' (sh_localReservedCkbShannons i) MAX_CAPACITY_SHANNONS) (\<lambda>_.
     bindR (assertUnsignedBigInt ''remoteReservedCkbShannons'' (sh_remoteReservedCkbShannons i) MAX_CAPACITY_SHANNONS) (\<lambda>_.
     bindR (calculateShutdownTxFee (sh_localFeeRate i) (sh_cellDepsCount i) (sh_udtTypeScript i)
              (sh_localCloseScript i) (sh_remoteCloseScript i)) (\<lambda>localFee.
     bindR (calculateShutdownTxFee (sh_remoteFeeRate i) (sh_cellDepsCount i) (sh_udtTypeScript i)
              (sh_localCloseScript i) (sh_remoteCloseScript i)) (\<lambda>remoteFee.
     let udt = sh_udtTypeScript i;
         localTotal = (if udt = None then sh_toLocalShannons i + sh_localReservedCkbShannons i else sh_localReservedCkbShannons i);
         remoteTotal = (if udt = None then sh_toRemoteShannons i + sh_remoteReservedCkbShannons i else sh_remoteReservedCkbShannons i)
     in bindR (assertUnsignedBigInt ''funding capacity'' (localTotal + remoteTotal) MAX_CAPACITY_SHANNONS) (\<lambda>_.
        bindR (subtractTxFee localTotal localFee) (\<lambda>localCapacity.
        bindR (subtractTxFee remoteTotal remoteFee) (\<lambda>remoteCapacity.
        bindR (buildClosingTx L keys
            \<lparr> cl_fundingOutPoint = sh_fundingOutPoint i, cl_remoteFundingPubkey = sh_remoteFundingPubkey i,
              cl_localCloseScript = sh_localCloseScript i, cl_remoteCloseScript = sh_remoteCloseScript i,
              cl_localCapacityShannons = localCapacity, cl_remoteCapacityShannons = remoteCapacity \<rparr>
            (map_option (\<lambda>t. \<lparr> cu_typeScript = t, cu_localAmountShannons = sh_toLocalShannons i,
                               cu_remoteAmountShannons = sh_toRemoteShannons i \<rparr>) udt))
          (computeTxMessage L)))))))))))"

section \<open>Revocation and announcement\<close>

record revocation_content =
  rc_output :: cell_output
  rc_outputData :: bytes
  rc_commitmentLockArgs :: bytes

definition buildRevocationContent :: "lib \<Rightarrow> fiber_channel_keys \<Rightarrow> revocation_input \<Rightarrow> revocation_content res" where
  "buildRevocationContent L keys i =
     bindR (assertBytes ''remoteFundingPubkey'' (ri_remoteFundingPubkey i) 33) (\<lambda>_.
     bindR (assertUnsignedInteger ''revokedCommitmentNumber'' (ri_revokedCommitmentNumber i) MAX_COMMITMENT_NUMBER) (\<lambda>_.
     bindR (assertUnsignedBigInt ''commitmentDelayEpoch'' (ri_commitmentDelayEpoch i) MAX_SINCE_PAYLOAD) (\<lambda>_.
     bindR (assertUnsignedBigInt ''liquidCapacityShannons'' (ri_liquidCapacityShannons i) MAX_AMOUNT_SHANNONS) (\<lambda>_.
     bindR (assertUnsignedBigInt ''localReservedCkbShannons'' (ri_localReservedCkbShannons i) MAX_CAPACITY_SHANNONS) (\<lambda>_.
     bindR (assertUnsignedBigInt ''remoteReservedCkbShannons'' (ri_remoteReservedCkbShannons i) MAX_CAPACITY_SHANNONS) (\<lambda>_.
     bindR (pubkeyOf L (fundingKey keys)) (\<lambda>localFundingPubkey.
     bindR (calculateCommitmentTxFee (ri_commitmentFeeRate i) (ri_cellDepsCount i) (ri_udtTypeScript i)
              (ri_commitmentLock i) (ri_lockLayout i)) (\<lambda>fee.
     bindR (commitmentCellValue (ri_udtTypeScript i) (ri_liquidCapacityShannons i) (ri_localReservedCkbShannons i)
              (ri_remoteReservedCkbShannons i) fee) (\<lambda>v.
     bindR (aggregateXOnlyPubkey L (roleOrder (ri_forRemote i) localFundingPubkey (ri_remoteFundingPubkey i))) (\<lambda>xonly.
     bindR (uint64Le (SINCE_RELATIVE_EPOCH_FLAGS OR ri_commitmentDelayEpoch i)) (\<lambda>d.
     bindR (uint64Be (ri_revokedCommitmentNumber i)) (\<lambda>n.
     bindR (moleculeBytes (cv_data v)) (\<lambda>outData.
     Inr \<lparr> rc_output = \<lparr> capacityShannons = cv_capacityShannons v, lock = ri_payoutScript i, type_script = ri_udtTypeScript i \<rparr>,
           rc_outputData = outData, rc_commitmentLockArgs = blake160 L [xonly] @ d @ n \<rparr>)))))))))))))"

definition computeRevocationDigest :: "lib \<Rightarrow> fiber_channel_keys \<Rightarrow> revocation_input \<Rightarrow> bytes res" where
  "computeRevocationDigest L keys i =
     bindR (buildRevocationContent L keys i) (\<lambda>c.
     computeRevocationContentMessage L (rc_output c) (rc_outputData c) (rc_commitmentLockArgs c))"

definition computeChannelAnnouncementDigest ::
    "lib \<Rightarrow> fiber_channel_keys \<Rightarrow> channel_announcement_input \<Rightarrow> bytes res" where
  "computeChannelAnnouncementDigest L keys i =
     bindR (assertBytes ''chainHash'' (an_chainHash i) 32) (\<lambda>_.
     bindR (assertBytes ''nodeIds[0]'' (fst (an_nodeIds i)) 33) (\<lambda>_.
     bindR (assertBytes ''nodeIds[1]'' (snd (an_nodeIds i)) 33) (\<lambda>_.
     bindR (pubkeyOf L (fundingKey keys)) (\<lambda>localFundingPubkey.
     bindR (sortDistinctPubkeys L ''localFundingPubkey'' localFundingPubkey ''remoteFundingPubkey''
              (an_remoteFundingPubkey i)) (\<lambda>sortedFundingPubkeys.
     bindR (assertUnsignedBigInt ''capacityShannons'' (an_capacityShannons i) MAX_AMOUNT_SHANNONS) (\<lambda>_.
     let (firstNode, secondNode) = an_nodeIds i;
         sortedNodeIds = (if compareBytes firstNode secondNode \<le> 0 then [firstNode, secondNode] else [secondNode, firstNode])
     in bindR (uint64Le 0) (\<lambda>features.
        bindR (moleculeOutPoint (an_fundingOutPoint i)) (\<lambda>op.
        bindR (aggregateXOnlyPubkey L sortedFundingPubkeys) (\<lambda>xonly.
        bindR (uint128Le (an_capacityShannons i)) (\<lambda>capacity.
        bindR (moleculeScriptOpt (an_udtTypeScript i)) (\<lambda>udt.
        bindR (moleculeTable ([zero_bytes SIGNATURE_PLACEHOLDER_LENGTH, zero_bytes SIGNATURE_PLACEHOLDER_LENGTH,
                 zero_bytes SIGNATURE_PLACEHOLDER_LENGTH, features, an_chainHash i, op]
                 @ sortedNodeIds @ [xonly, capacity, udt])) (\<lambda>announcement.
        Inr (ckbBlake2b L [announcement])))))))))))))"

section \<open>From the settlement snapshot to the commitment input\<close>

definition withoutReserve :: "string \<Rightarrow> int \<Rightarrow> int \<Rightarrow> int res" where
  "withoutReserve side amount reserve =
     (if amount < reserve then Inl (RangeErr (''settlement.'' @ side @ ''AmountShannons'')) else Inr (amount - reserve))"

definition toSettlementTlc ::
    "lib \<Rightarrow> fiber_channel_keys \<Rightarrow> signing_settlement_tlc \<Rightarrow> string \<Rightarrow> settlement_tlc res" where
  "toSettlementTlc L keys t name =
     bindR (assertUnsignedInteger (name @ ''.localKeyCommitmentNumber'') (ss_localKeyCommitmentNumber t) MAX_COMMITMENT_NUMBER) (\<lambda>_.
     bindR (assertBytes (name @ ''.localKeyPubkey'') (ss_localKeyPubkey t) 33) (\<lambda>_.
     bindR (deriveTlcKey L keys (ss_localKeyCommitmentNumber t)) (\<lambda>k.
     bindR (pubkeyOf L k) (\<lambda>pub.
     if ss_localKeyPubkey t \<noteq> pub then Inl (TypeErr (name @ ''.localKeyPubkey''))
     else Inr \<lparr> st_id = ss_tlcId t, st_direction = ss_direction t, st_hashAlgorithm = ss_hashAlgorithm t,
                st_amountShannons = ss_amountShannons t, st_paymentHash = ss_paymentHash t, st_expiryMs = ss_expiryMs t,
                st_localKeyCommitmentNumber = ss_localKeyCommitmentNumber t, st_remoteTlcPubkey = ss_remoteTlcPubkey t \<rparr>))))"

definition settlementToCommitmentInput ::
    "lib \<Rightarrow> fiber_channel_keys \<Rightarrow> signing_settlement \<Rightarrow> commitment_settlement_terms \<Rightarrow> int \<Rightarrow> commitment_tx_input res" where
  "settlementToCommitmentInput L keys s t commitmentNumber =
     bindR (assertBytes ''settlement.localSettlementPubkey'' (se_localSettlementPubkey s) 33) (\<lambda>_.
     bindR (pubkeyOf L (tlcBaseKey keys)) (\<lambda>pub.
     if se_localSettlementPubkey s \<noteq> pub then Inl (TypeErr ''settlement.localSettlementPubkey'')
     else
       bindR (assertBytes ''settlement.remoteSettlementPubkey'' (se_remoteSettlementPubkey s) 33) (\<lambda>_.
       bindR (check (\<not> length (se_tlcs s) > MAX_SETTLEMENT_TLCS) (TypeErr ''settlement.tlcs'')) (\<lambda>_.
       bindR (assertUnsignedBigInt ''settlement.localAmountShannons'' (se_localAmountShannons s) MAX_AMOUNT_SHANNONS) (\<lambda>_.
       bindR (assertUnsignedBigInt ''settlement.remoteAmountShannons'' (se_remoteAmountShannons s) MAX_AMOUNT_SHANNONS) (\<lambda>_.
       bindR (assertUnsignedBigInt ''terms.localReservedCkbShannons'' (te_localReservedCkbShannons t) MAX_CAPACITY_SHANNONS) (\<lambda>_.
       bindR (assertUnsignedBigInt ''terms.remoteReservedCkbShannons'' (te_remoteReservedCkbShannons t) MAX_CAPACITY_SHANNONS) (\<lambda>_.
       let isUdt = te_udtTypeScript t \<noteq> None in
       bindR (if isUdt then Inr (se_localAmountShannons s)
              else withoutReserve ''local'' (se_localAmountShannons s) (te_localReservedCkbShannons t)) (\<lambda>settlementLocal.
       bindR (if isUdt then Inr (se_remoteAmountShannons s)
              else withoutReserve ''remote'' (se_remoteAmountShannons s) (te_remoteReservedCkbShannons t)) (\<lambda>settlementRemote.
       bindR (mapEach (\<lambda>n x. toSettlementTlc L keys x n) ''settlement.tlcs'' (se_tlcs s)) (\<lambda>ts.
       Inr \<lparr> ci_forRemote = se_forRemote s, ci_fundingOutPoint = te_fundingOutPoint t,
             ci_remoteFundingPubkey = te_remoteFundingPubkey t, ci_remoteTlcBasePubkey = se_remoteSettlementPubkey s,
             ci_commitmentNumber = commitmentNumber, ci_commitmentDelayEpoch = te_commitmentDelayEpoch t,
             ci_commitmentFeeRate = te_commitmentFeeRate t, ci_cellDepsCount = te_cellDepsCount t,
             ci_udtTypeScript = te_udtTypeScript t, ci_liquidCapacityShannons = te_liquidCapacityShannons t,
             ci_settlementLocalShannons = settlementLocal, ci_settlementRemoteShannons = settlementRemote,
             ci_localReservedCkbShannons = te_localReservedCkbShannons t,
             ci_remoteReservedCkbShannons = te_remoteReservedCkbShannons t, ci_tlcs = ts,
             ci_commitmentLock = te_commitmentLock t, ci_lockLayout = te_lockLayout t \<rparr>)))))))))))"

end
