(* ===== verification/Settlement.thy ===== *)
theory Settlement
  imports Digest
begin

text \<open>
  The spend of a commitment cell as fiber's watchtower builds it (\<^verbatim>\<open>settlement-unlock.ts\<close>): reading
  the witness, splitting the settlement body into TLC entries and balances, and the body and lock
  args of the remainder.
\<close>

section \<open>Types and constants\<close>

record settlement_balance =
  pubkeyHash :: bytes
  sb_amountShannons :: int

record settlement_body =
  tlcEntries :: "bytes list"
  balances :: "settlement_balance \<times> settlement_balance"

datatype settlement_unlock_target = TlcTarget nat | BalanceTarget nat

record settlement_unlock = settlement_body +
  su_body :: bytes
  su_target :: settlement_unlock_target
  su_signature :: bytes
  su_preimage :: "bytes option"

record settlement_tlc_entry =
  se_direction :: tlc_direction
  se_amountShannons :: int
  se_localKeyHash :: bytes

abbreviation (input) XUDT_COMPATIBLE_WITNESS :: bytes where
  "XUDT_COMPATIBLE_WITNESS \<equiv> [16, 0, 0, 0, 16, 0, 0, 0, 16, 0, 0, 0, 16, 0, 0, 0]"

abbreviation (input) BODY_OFFSET :: nat where "BODY_OFFSET \<equiv> 17"
abbreviation (input) BALANCE_LENGTH :: nat where "BALANCE_LENGTH \<equiv> 36"
abbreviation (input) TLC_ENTRY_FIXED_LENGTH :: nat where "TLC_ENTRY_FIXED_LENGTH \<equiv> 65"
abbreviation (input) MAX_TLC_FLAG :: nat where "MAX_TLC_FLAG \<equiv> 3"
abbreviation (input) UNLOCK_LENGTH :: nat where "UNLOCK_LENGTH \<equiv> 67"
abbreviation (input) UNLOCK_WITH_PREIMAGE_LENGTH :: nat where "UNLOCK_WITH_PREIMAGE_LENGTH \<equiv> 99"

section \<open>Operations\<close>

definition settlementTlcEntryLength :: "commitment_lock_layout \<Rightarrow> nat" where
  "settlementTlcEntryLength layout = TLC_ENTRY_FIXED_LENGTH + WITNESS_PAYMENT_HASH_LENGTHS layout"

definition settlementBodyLength :: "nat \<Rightarrow> commitment_lock_layout \<Rightarrow> nat" where
  "settlementBodyLength tlcCount layout = 1 + tlcCount * settlementTlcEntryLength layout + 2 * BALANCE_LENGTH"

definition readBalance :: "bytes \<Rightarrow> nat \<Rightarrow> settlement_balance" where
  "readBalance body offset =
     \<lparr> pubkeyHash = subarray body offset (offset + 20),
       sb_amountShannons = readUintLe (subarray body (offset + 20) (offset + BALANCE_LENGTH)) \<rparr>"

definition readSettlementBody :: "bytes \<Rightarrow> commitment_lock_layout \<Rightarrow> settlement_body res" where
  "readSettlementBody body layout =
     (case body of
        [] \<Rightarrow> Inl (TypeErr ''settlement body'')
      | c # _ \<Rightarrow>
        let count = unat c in
        if length body \<noteq> settlementBodyLength count layout then Inl (TypeErr ''settlement body'')
        else
          let entryLength = settlementTlcEntryLength layout;
              entrs = map (\<lambda>i. subarray body (1 + i * entryLength) (1 + (i + 1) * entryLength)) [0..<count];
              balancesOffset = 1 + count * entryLength
          in Inr \<lparr> tlcEntries = entrs,
                   balances = (readBalance body balancesOffset, readBalance body (balancesOffset + BALANCE_LENGTH)) \<rparr>)"

definition readUnlockTarget :: "bytes \<Rightarrow> nat \<Rightarrow> settlement_unlock_target res" where
  "readUnlockTarget unlock tlcCount =
     (let unlockType = unlock ! 0 in
      if unlockType = 0xfe then Inr (BalanceTarget 0)
      else if unlockType = 0xff then Inr (BalanceTarget 1)
      else if isUnsignedInteger (int (unat unlockType)) (int tlcCount - 1) then Inr (TlcTarget (unat unlockType))
      else Inl (TypeErr ''settlement unlock type''))"

definition readSettlementUnlock :: "bytes \<Rightarrow> commitment_lock_layout \<Rightarrow> settlement_unlock res" where
  "readSettlementUnlock witness layout =
     (if take 16 witness \<noteq> XUDT_COMPATIBLE_WITNESS then Inl (TypeErr ''settlement witness'')
      else if \<not> (16 < length witness \<and> witness ! 16 = 1) then Inl (TypeErr ''settlement witness'')
      else
        let count = (if BODY_OFFSET < length witness then unat (witness ! BODY_OFFSET) else 0);
            bodyEnd = BODY_OFFSET + settlementBodyLength count layout;
            body = subarray witness BODY_OFFSET bodyEnd
        in bindR (readSettlementBody body layout) (\<lambda>sb.
           let unlock = drop bodyEnd witness in
           if length unlock \<noteq> UNLOCK_LENGTH \<and> length unlock \<noteq> UNLOCK_WITH_PREIMAGE_LENGTH
           then Inl (TypeErr ''settlement unlock'')
           else bindR (readUnlockTarget unlock (length (tlcEntries sb))) (\<lambda>target.
             let preimageFlag = unlock ! 1 in
             if preimageFlag \<noteq> 0 \<and> preimageFlag \<noteq> 1 then Inl (TypeErr ''settlement unlock preimage flag'')
             else if length unlock \<noteq> (if preimageFlag = 1 then UNLOCK_WITH_PREIMAGE_LENGTH else UNLOCK_LENGTH)
             then Inl (TypeErr ''settlement unlock'')
             else if preimageFlag = 1 \<and> (case target of BalanceTarget _ \<Rightarrow> True | TlcTarget _ \<Rightarrow> False)
             then Inl (TypeErr ''settlement unlock of a balance'')
             else Inr \<lparr> tlcEntries = tlcEntries sb, balances = balances sb, su_body = body, su_target = target,
                        su_signature = subarray unlock 2 UNLOCK_LENGTH,
                        su_preimage = (if preimageFlag = 1 then Some (drop UNLOCK_LENGTH unlock) else None) \<rparr>)))"

definition deviceSettlementIndex :: "bool \<Rightarrow> nat" where
  "deviceSettlementIndex forRemote = (if forRemote then 1 else 0)"

definition readSettlementTlcEntry ::
    "bytes \<Rightarrow> commitment_lock_layout \<Rightarrow> bool \<Rightarrow> settlement_tlc_entry res" where
  "readSettlementTlcEntry entry layout forRemote =
     bindR (assertBytes ''settlement TLC entry'' entry (settlementTlcEntryLength layout)) (\<lambda>_.
     let deviceIndex = deviceSettlementIndex forRemote;
         flag = entry ! 0
     in if \<not> unat flag \<le> MAX_TLC_FLAG then Inl (TypeErr ''settlement TLC entry flag'')
        else
          let direction = (if (flag AND 1 = 0) = forRemote then offered else received);
              keyHashOffset = 1 + 16 + WITNESS_PAYMENT_HASH_LENGTHS layout + deviceIndex * 20
          in Inr \<lparr> se_direction = direction, se_amountShannons = readUintLe (subarray entry 1 17),
                   se_localKeyHash = subarray entry keyHashOffset (keyHashOffset + 20) \<rparr>)"

definition filterIndex :: "nat \<Rightarrow> 'a list \<Rightarrow> 'a list" where
  "filterIndex i xs = map snd (filter (\<lambda>(j, x). j \<noteq> i) (entries xs))"

definition settledBalance :: settlement_balance where
  "settledBalance = \<lparr> pubkeyHash = zero_bytes 20, sb_amountShannons = 0 \<rparr>"

text \<open>\<^verbatim>\<open>Uint8Array.of(n)\<close> keeps the low byte of \<open>n\<close>.\<close>

definition settlementBodyBytes :: "bytes list \<Rightarrow> settlement_balance list \<Rightarrow> bytes res" where
  "settlementBodyBytes entrs bals =
     bindR (mapR (\<lambda>b. bindR (uint128Le (sb_amountShannons b)) (\<lambda>a. Inr (pubkeyHash b @ a))) bals) (\<lambda>bs.
     Inr ([word_of_nat (length entrs)] @ concat entrs @ concat bs))"

definition nextSettlementWitness :: "settlement_unlock \<Rightarrow> bool \<Rightarrow> bytes res" where
  "nextSettlementWitness unlock forRemote =
     (let deviceIndex = deviceSettlementIndex forRemote;
          (b0, b1) = balances unlock
      in case su_target unlock of
           TlcTarget i \<Rightarrow>
             if \<not> isUnsignedInteger (int i) (int (length (tlcEntries unlock)) - 1)
             then Inl (RangeErr ''settlement unlock'')
             else settlementBodyBytes (filterIndex i (tlcEntries unlock)) [b0, b1]
         | BalanceTarget i \<Rightarrow>
             if i \<noteq> deviceIndex then Inl (TypeErr ''settlement unlock'')
             else settlementBodyBytes (tlcEntries unlock)
                    (map (\<lambda>(j, b). if j = deviceIndex then settledBalance else b) (entries [b0, b1])))"

definition buildRemainderLockArgs :: "lib \<Rightarrow> bytes \<Rightarrow> bytes \<Rightarrow> bytes res" where
  "buildRemainderLockArgs L sourceArgs nextBody =
     bindR (readCommitmentLockLayout sourceArgs) (\<lambda>layout.
     bindR (readSettlementBody nextBody layout) (\<lambda>_.
     Inr (subarray sourceArgs 0 COMMITMENT_LOCK_SETTLEMENT_HASH_OFFSET @ blake160 L [nextBody]
          @ [SETTLEMENT_FLAG_REMAINDER] @ drop (COMMITMENT_LOCK_ARGS_LENGTHS legacy) sourceArgs)))"

end
