(* ===== verification/PolicyTypes.thy ===== *)
theory PolicyTypes
  imports Settlement
begin

text \<open>
  The records of the module \<^verbatim>\<open>policy\<close> (\<^verbatim>\<open>policy.types.ts\<close>, \<^verbatim>\<open>policy.constants.ts\<close>), the refusals of
  \<^verbatim>\<open>policy.error.ts\<close>, and the slot, session and payment-hash helpers of \<^verbatim>\<open>policy/utils\<close>. A map
  keyed by strings, lanes, views or pins is an object in insertion order, so every operation on
  it evaluates.
\<close>

section \<open>Constants\<close>

abbreviation (input) RESERVED_SHUTDOWN_FEE_SHANNONS :: int where "RESERVED_SHUTDOWN_FEE_SHANNONS \<equiv> SHANNONS_PER_CKB"
abbreviation (input) MAX_SHUTDOWN_FEE_SHANNONS :: int where "MAX_SHUTDOWN_FEE_SHANNONS \<equiv> RESERVED_SHUTDOWN_FEE_SHANNONS"
abbreviation (input) MAX_COMMITMENT_FEE_SHANNONS :: int where "MAX_COMMITMENT_FEE_SHANNONS \<equiv> 50000000"
abbreviation (input) SHANNONS_PER_OCCUPIED_BYTE :: int where "SHANNONS_PER_OCCUPIED_BYTE \<equiv> SHANNONS_PER_CKB"
abbreviation (input) MAX_EXACT_CHARGE_TLCS :: nat where "MAX_EXACT_CHARGE_TLCS \<equiv> 12"
abbreviation (input) ANNOUNCEMENT_SLOT_NUMBER :: int where "ANNOUNCEMENT_SLOT_NUMBER \<equiv> 0"
abbreviation (input) MAX_REVOKED_VERSION :: int where "MAX_REVOKED_VERSION \<equiv> 281474976710654"
abbreviation (input) MAX_WATCHTOWER_SPENDS :: nat where "MAX_WATCHTOWER_SPENDS \<equiv> 768"
abbreviation (input) MAX_WATCHTOWER_DESTINATION_OUTPUTS :: nat where "MAX_WATCHTOWER_DESTINATION_OUTPUTS \<equiv> 2"

definition SESSION_COMMITMENT_LABEL :: string where
  "SESSION_COMMITMENT_LABEL = ''fiber-lsp-sdk sign-once v1''"

datatype policy_view = remote_view | local_view

text \<open>The two views are enumerable, so equality of a record's views is computable.\<close>

instantiation policy_view :: enum
begin

definition enum_policy_view :: "policy_view list" where
  "enum_policy_view = [remote_view, local_view]"

definition enum_all_policy_view :: "(policy_view \<Rightarrow> bool) \<Rightarrow> bool" where
  "enum_all_policy_view P \<longleftrightarrow> P remote_view \<and> P local_view"

definition enum_ex_policy_view :: "(policy_view \<Rightarrow> bool) \<Rightarrow> bool" where
  "enum_ex_policy_view P \<longleftrightarrow> P remote_view \<or> P local_view"

instance proof
  have all: "(\<forall>v. Q v) \<longleftrightarrow> Q remote_view \<and> Q local_view" for Q
    by (metis policy_view.exhaust)
  then show "UNIV = set (Enum.enum :: policy_view list)"
    by (auto simp: enum_policy_view_def intro: policy_view.exhaust)
  show "distinct (Enum.enum :: policy_view list)"
    by (simp add: enum_policy_view_def)
  fix P :: "policy_view \<Rightarrow> bool"
  show "Enum.enum_all P \<longleftrightarrow> Ball UNIV P"
    by (simp add: enum_all_policy_view_def all)
  show "Enum.enum_ex P \<longleftrightarrow> Bex UNIV P"
    using all [of "\<lambda>v. \<not> P v"] by (auto simp: enum_ex_policy_view_def)
qed

end

definition POLICY_VIEWS :: "policy_view list" where
  "POLICY_VIEWS = [remote_view, local_view]"

datatype nonce_reuse_mode = reuse_refuse | reuse_allow

datatype nonce_counter = counter_local | counter_remote

datatype signing_lane = COMMITMENT_local | REVOKE_local | REVOKE_remote | ANNOUNCEMENT_lane

datatype pin_field =
    P_fundingOutPoint | P_fundingCapacityShannons | P_remoteFundingPubkey | P_remoteTlcBasePubkey
  | P_commitmentDelayEpoch | P_lockLayout
  | P_liquidCapacityShannons | P_commitmentFeeRate | P_remoteReservedCkbShannons | P_remoteCloseScript

definition FIRST_SIGHT_CHANNEL_PINS :: "pin_field list" where
  "FIRST_SIGHT_CHANNEL_PINS =
     [P_fundingOutPoint, P_fundingCapacityShannons, P_remoteFundingPubkey, P_remoteTlcBasePubkey,
      P_commitmentDelayEpoch, P_lockLayout]"

definition CHANNEL_TERMS_PINS :: "pin_field list" where
  "CHANNEL_TERMS_PINS =
     [P_liquidCapacityShannons, P_commitmentFeeRate, P_remoteReservedCkbShannons, P_remoteCloseScript]"

definition HOST_TERMS_PINS :: "pin_field list" where
  "HOST_TERMS_PINS = CHANNEL_TERMS_PINS @ [P_remoteFundingPubkey, P_remoteTlcBasePubkey, P_commitmentDelayEpoch]"

section \<open>Records\<close>

record recorded_cell =
  rd_output :: string
  rd_outputData :: string

record signed_commitment_record =
  sc_commitmentNumber :: int
  sc_txHash :: string
  sc_source :: "recorded_cell option"
  sc_settlementWitness :: "string option"

record previous_remote_commitment_record =
  pr_commitmentNumber :: int
  pr_source :: recorded_cell
  pr_settlementWitness :: string

datatype watchtower_key_purpose = PurposeSettlement | PurposeTlc int

record watchtower_spend_record =
  ws_requestId :: string
  ws_purpose :: watchtower_key_purpose
  ws_view :: policy_view
  ws_commitmentNumber :: int
  ws_tlcEntry :: "string option"
  ws_txHash :: string
  ws_remainder :: "recorded_cell option"
  ws_signature :: "string option"
  ws_applied :: bool

record revocation_evidence =
  re_version :: int
  re_signature :: string

record nonce_reuse_entry =
  nr_sessionCommitment :: string
  nr_message :: string

record channel_pins =
  fundedShannons :: string
  localCloseScript :: string
  localReservedCkbShannons :: "(commitment_lock_layout, string) object"
  pinned :: "(pin_field, string) object"

record policy_view_tlc =
  pv_direction :: tlc_direction
  pv_hashAlgorithm :: tlc_hash_algorithm
  pv_boundPaymentHash :: string
  pv_fullPaymentHash :: "string option"
  pv_amountShannons :: string
  pv_expirySeconds :: string

record policy_view_snapshot =
  exposureShannons :: string
  tlcs :: "policy_view_tlc list"
  chargedShannons :: "(string, string) object"
  creditedShannons :: "(string, string) object"

record channel_policy_record =
  channelId :: string
  lastSignedCommitmentNumbers :: "(signing_lane, int) object"
  signedSessions :: "(string, string) object"
  nonceReuse :: "(string, nonce_reuse_entry) object"
  commitmentHashes :: "(policy_view, signed_commitment_record) object"
  previousRemoteCommitment :: "previous_remote_commitment_record option"
  revocations :: "revocation_evidence list"
  pins :: channel_pins
  views :: "policy_view \<Rightarrow> policy_view_snapshot"
  watchtowerSpends :: "watchtower_spend_record list option"

record debit_intent_record =
  di_paymentHash :: string
  di_maxShannons :: string
  di_open :: bool
  di_channelIndexes :: "int list"

record hold_invoice_record =
  hi_paymentHash :: string
  hi_amountShannons :: string
  hi_hashAlgorithm :: tlc_hash_algorithm
  hi_invoiceIndex :: int
  hi_released :: bool
  hi_channelIndexes :: "int list"

section \<open>Requests\<close>

record sign_session =
  orderedPublicKeys :: "bytes list"
  aggregatedNonce :: bytes
  sn_message :: bytes

datatype sign_operation =
    OpCommitmentTx commitment_tx_input
  | OpClosingTx closing_tx_input
  | OpRevocation revocation_input
  | OpChannelAnnouncement channel_announcement_input

record policy_sign_request =
  rq_channelId :: string
  rq_commitmentNumber :: int
  rq_counter :: "nonce_counter option"
  rq_session :: sign_session
  rq_operation :: sign_operation

record sign_slot_claim =
  sl_context :: nonce_context
  sl_commitmentNumber :: int
  sl_lane :: signing_lane

datatype verdict_status = fresh | already_signed | reused

record policy_verdict =
  vd_context :: nonce_context
  vd_commitmentNumber :: int
  vd_status :: verdict_status

record balance_rule_commitment =
  bc_exposureShannons :: int
  bc_tlcs :: "policy_view_tlc list"

record balance_rule_context =
  intents :: "string \<Rightarrow> debit_intent_record option"
  invoices :: "string \<Rightarrow> hold_invoice_record option"
  otherChannels :: "(policy_view \<Rightarrow> policy_view_snapshot) list"

section \<open>Refusals\<close>

abbreviation refusePolicyRequest :: "signer_error_code \<Rightarrow> string \<Rightarrow> 'a res" where
  "refusePolicyRequest code rule \<equiv> Inl (PolicyRefusalErr code rule)"

fun error_text :: "error \<Rightarrow> string" where
  "error_text (TypeErr s) = s"
| "error_text (RangeErr s) = s"
| "error_text (OtherErr s) = s"
| "error_text (WireErr p s) = p @ '' '' @ s"
| "error_text (InvoiceErr p s) = p @ '' '' @ s"
| "error_text (PolicyRefusalErr c s) = s"
| "error_text (HostErr s) = s"

definition withPolicyRefusal :: "signer_error_code \<Rightarrow> 'a res \<Rightarrow> 'a res" where
  "withPolicyRefusal code step =
     (case step of Inr x \<Rightarrow> Inr x | Inl e \<Rightarrow> refusePolicyRequest code (error_text e))"

lemma withPolicyRefusal_Inr_iff [res_simps]: "withPolicyRefusal code step = Inr x \<longleftrightarrow> step = Inr x"
  by (simp add: withPolicyRefusal_def split: sum.splits)

section \<open>Slots\<close>

fun CONTEXT_BY_OPERATION :: "sign_operation \<Rightarrow> nonce_context" where
  "CONTEXT_BY_OPERATION (OpCommitmentTx _) = COMMITMENT"
| "CONTEXT_BY_OPERATION (OpClosingTx _) = COMMITMENT"
| "CONTEXT_BY_OPERATION (OpRevocation _) = REVOKE"
| "CONTEXT_BY_OPERATION (OpChannelAnnouncement _) = ANNOUNCEMENT"

fun laneOf :: "sign_operation \<Rightarrow> nonce_counter option \<times> signing_lane" where
  "laneOf (OpCommitmentTx _) = (Some counter_local, COMMITMENT_local)"
| "laneOf (OpClosingTx _) = (Some counter_local, COMMITMENT_local)"
| "laneOf (OpRevocation i) =
     (if ri_forRemote i then (Some counter_local, REVOKE_local) else (Some counter_remote, REVOKE_remote))"
| "laneOf (OpChannelAnnouncement _) = (None, ANNOUNCEMENT_lane)"

definition resolveSignSlot :: "sign_operation \<Rightarrow> int \<Rightarrow> nonce_counter option \<Rightarrow> sign_slot_claim res" where
  "resolveSignSlot op commitmentNumber counter =
     (let ctx = CONTEXT_BY_OPERATION op in
      bindR (assertUnsignedInteger ''slot.commitmentNumber'' commitmentNumber MAX_COMMITMENT_NUMBER) (\<lambda>_.
      let (expected, lane) = laneOf op in
      if counter \<noteq> expected then Inl (TypeErr ''slot.counter'')
      else if ctx = ANNOUNCEMENT \<and> commitmentNumber \<noteq> ANNOUNCEMENT_SLOT_NUMBER
      then Inl (TypeErr ''slot.commitmentNumber'')
      else Inr \<lparr> sl_context = ctx, sl_commitmentNumber = commitmentNumber, sl_lane = lane \<rparr>))"

definition signSlotKey :: "nonce_context \<Rightarrow> int \<Rightarrow> string" where
  "signSlotKey ctx commitmentNumber = nonce_context_name ctx @ '':'' @ toString commitmentNumber"

section \<open>Sessions\<close>

definition assertSignSessionShape :: "sign_session \<Rightarrow> (bytes \<times> bytes) res" where
  "assertSignSessionShape s =
     bindR (assertTwoDistinctKeys ''session.orderedPublicKeys'' (orderedPublicKeys s)) (\<lambda>ks.
     bindR (assertBytes ''session.aggregatedNonce'' (aggregatedNonce s) 66) (\<lambda>_.
     bindR (assertBytes ''session.message'' (sn_message s) 32) (\<lambda>_. Inr ks)))"

definition assertSignSession :: "lib \<Rightarrow> fiber_channel_keys \<Rightarrow> sign_session \<Rightarrow> unit res" where
  "assertSignSession L keys s =
     bindR (assertSignSessionShape s) (\<lambda>(k1, k2).
     bindR (pubkeyOf L (fundingKey keys)) (\<lambda>fundingPubkey.
     if \<not> (k1 = fundingPubkey \<or> k2 = fundingPubkey) then Inl (TypeErr ''session.orderedPublicKeys'')
     else if \<not> (isCompressedPoint L k1 \<and> isCompressedPoint L k2) then Inl (TypeErr ''session.orderedPublicKeys'')
     else let (h1, h2) = nonceHalves (aggregatedNonce s) in
       if \<not> (isAggregatedNonceHalf L h1 \<and> isAggregatedNonceHalf L h2) then Inl (TypeErr ''session.aggregatedNonce'')
       else Inr ()))"

definition buildSessionCommitment :: "lib \<Rightarrow> sign_session \<Rightarrow> string res" where
  "buildSessionCommitment L s =
     bindR (assertSignSessionShape s) (\<lambda>(firstKey, secondKey).
     Inr (bytesToHex L (ckbBlake2b L
       [utf8ToBytes SESSION_COMMITMENT_LABEL, firstKey, secondKey, aggregatedNonce s, sn_message s])))"

section \<open>Payment hashes\<close>

definition boundPaymentHashOf :: "lib \<Rightarrow> string \<Rightarrow> string" where
  "boundPaymentHashOf L paymentHashHex = bytesToHex L (truncatePaymentHash (hexToBytes L paymentHashHex))"

definition isTlcOfPaymentRecord :: "policy_view_tlc \<Rightarrow> string \<Rightarrow> bool" where
  "isTlcOfPaymentRecord tlc paymentHash \<longleftrightarrow>
     pv_fullPaymentHash tlc = None \<or> pv_fullPaymentHash tlc = Some paymentHash"

section \<open>Slot keys\<close>

lemma split_colon:
  "CHR '':'' \<notin> set a \<Longrightarrow> CHR '':'' \<notin> set b \<Longrightarrow>
   a @ CHR '':'' # c = b @ CHR '':'' # d \<longleftrightarrow> a = b \<and> c = d"
proof (induction a arbitrary: b)
  case Nil
  then show ?case by (cases b) auto
next
  case (Cons x a)
  then show ?case by (cases b) auto
qed

lemma colon_notin_context [simp]: "CHR '':'' \<notin> set (nonce_context_name ctx)"
  by (cases ctx) simp_all

lemma nonce_context_name_inj [simp]: "nonce_context_name a = nonce_context_name b \<longleftrightarrow> a = b"
  by (cases a; cases b) simp_all

lemma signSlotKey_inj [simp]: "signSlotKey a m = signSlotKey b n \<longleftrightarrow> a = b \<and> m = n"
  by (simp add: signSlotKey_def split_colon)

section \<open>Validity of a stored view\<close>

text \<open>From \<^verbatim>\<open>validate.utils.ts\<close>: what the store refuses to read or write otherwise.\<close>

definition isUint64Decimal :: "string \<Rightarrow> bool" where
  "isUint64Decimal s \<longleftrightarrow> length s \<le> length (toString UINT64_MAX) \<and> isCanonicalDecimal s \<and> bigInt s \<le> UINT64_MAX"

definition startsWith :: "string \<Rightarrow> string \<Rightarrow> bool" where
  "startsWith s p \<longleftrightarrow> take (length p) s = p"

definition isViewTlcFullHash :: "string option \<Rightarrow> string \<Rightarrow> bool" where
  "isViewTlcFullHash v bound = (case v of None \<Rightarrow> True | Some h \<Rightarrow> isHexBytes h 32 \<and> startsWith h bound)"

definition isViewTlc :: "policy_view_tlc \<Rightarrow> bool" where
  "isViewTlc t \<longleftrightarrow> isHexBytes (pv_boundPaymentHash t) 20
     \<and> isViewTlcFullHash (pv_fullPaymentHash t) (pv_boundPaymentHash t)
     \<and> isDecimalShannons (pv_amountShannons t) \<and> isUint64Decimal (pv_expirySeconds t)"

definition isAmountByHashMap :: "(string, string) object \<Rightarrow> bool" where
  "isAmountByHashMap m = list_all (\<lambda>(h, amount). isHexBytes h 20 \<and> isDecimalShannons amount) m"

definition isViewSnapshot :: "policy_view_snapshot \<Rightarrow> bool" where
  "isViewSnapshot s \<longleftrightarrow> isDecimalShannons (exposureShannons s) \<and> list_all isViewTlc (tlcs s)
     \<and> isAmountByHashMap (chargedShannons s) \<and> isAmountByHashMap (creditedShannons s)"

definition isViewSnapshotPair :: "(policy_view \<Rightarrow> policy_view_snapshot) \<Rightarrow> bool" where
  "isViewSnapshotPair vs = list_all (\<lambda>v. isViewSnapshot (vs v)) POLICY_VIEWS"

lemma digits_no_minus_colon:
  "CHR ''-'' \<notin> set ''0123456789''" "CHR '':'' \<notin> set ''0123456789''"
  by simp_all

lemma canonical_digit: "isCanonicalDecimal s \<Longrightarrow> c \<in> set s \<Longrightarrow> c \<in> set ''0123456789''"
  unfolding isCanonicalDecimal_def list_all_iff by blast

lemma isCanonicalDecimal_nonneg: "isCanonicalDecimal s \<Longrightarrow> 0 \<le> bigInt s"
proof -
  assume s: "isCanonicalDecimal s"
  show ?thesis
  proof (cases s)
    case (Cons c cs)
    then have "c \<noteq> CHR ''-''"
      using canonical_digit [OF s, of c] digits_no_minus_colon(1) by (metis list.set_intros(1))
    with Cons show ?thesis by (simp add: bigInt_def)
  qed (simp add: bigInt_def)
qed

lemma isDecimalShannons_nonneg: "isDecimalShannons s \<Longrightarrow> 0 \<le> bigInt s"
  by (simp add: isDecimalShannons_def isCanonicalDecimal_nonneg)

lemma colon_notin_canonical: "isCanonicalDecimal s \<Longrightarrow> CHR '':'' \<notin> set s"
  using canonical_digit digits_no_minus_colon(2) by blast

lemma colon_no_hex_char: "\<not> is_hex_char CHR '':''"
  by (simp add: is_hex_char_def)

lemma colon_notin_hex: "isHexBytes s n \<Longrightarrow> CHR '':'' \<notin> set s"
  using colon_no_hex_char by (auto simp only: isHexBytes_def list_all_iff)

end
