(* ===== verification/Wire.thy ===== *)
theory Wire
  imports Transaction
begin

text \<open>
  The module \<^verbatim>\<open>wire\<close>: reading a field of a parsed JSON message and writing one, with the path of the
  part that is broken; wire hex, wire integers, scripts, out points, transactions, and the molecule
  cell output. A parsed JSON value is a datatype; \<^verbatim>\<open>undefined\<close>, what a missing member reads as, is one
  of its constructors, and a number that is no safe integer is \<open>JOtherNumber\<close>.
\<close>

section \<open>Values and fields\<close>

datatype json =
    JUndefined
  | JNull
  | JBool bool
  | JNumber int
  | JOtherNumber
  | JString string
  | JArray "json list"
  | JObject "(string, json) object"

record wire_field =
  fd_value :: json
  fd_path :: string

abbreviation malformedWireField :: "wire_field \<Rightarrow> string \<Rightarrow> 'a res" where
  "malformedWireField f reason \<equiv> Inl (WireErr (fd_path f) reason)"

definition requireObject :: "wire_field \<Rightarrow> (string, json) object res" where
  "requireObject f =
     (case fd_value f of JObject m \<Rightarrow> Inr m | _ \<Rightarrow> malformedWireField f ''must be an object'')"

text \<open>\<^verbatim>\<open>record[name]\<close>\<close>

definition member :: "(string, json) object \<Rightarrow> string \<Rightarrow> json" where
  "member m name = (case get m name of None \<Rightarrow> JUndefined | Some v \<Rightarrow> v)"

definition readObject :: "wire_field \<Rightarrow> (string \<Rightarrow> wire_field) res" where
  "readObject f =
     bindR (requireObject f) (\<lambda>m. Inr (\<lambda>name. \<lparr> fd_value = member m name, fd_path = fd_path f @ ''.'' @ name \<rparr>))"

definition readArray :: "wire_field \<Rightarrow> nat option \<Rightarrow> wire_field list res" where
  "readArray f len =
     (case fd_value f of
        JArray items \<Rightarrow>
          if len \<noteq> None \<and> Some (length items) \<noteq> len then malformedWireField f ''must have exactly n items''
          else Inr (map (\<lambda>(i, v). \<lparr> fd_value = v, fd_path = item_name (fd_path f) i \<rparr>) (entries items))
      | _ \<Rightarrow> malformedWireField f ''must be an array'')"

definition readPair :: "wire_field \<Rightarrow> (wire_field \<times> wire_field) res" where
  "readPair f = bindR (readArray f (Some 2)) (\<lambda>items. Inr (items ! 0, items ! 1))"

definition decodeBoolean :: "wire_field \<Rightarrow> bool res" where
  "decodeBoolean f = (case fd_value f of JBool b \<Rightarrow> Inr b | _ \<Rightarrow> malformedWireField f ''must be a boolean'')"

definition decodeString :: "wire_field \<Rightarrow> string res" where
  "decodeString f = (case fd_value f of JString s \<Rightarrow> Inr s | _ \<Rightarrow> malformedWireField f ''must be a string'')"

definition decodeNonEmptyString :: "wire_field \<Rightarrow> string res" where
  "decodeNonEmptyString f =
     (case fd_value f of
        JString s \<Rightarrow> if s \<noteq> [] then Inr s else malformedWireField f ''must be a non-empty string''
      | _ \<Rightarrow> malformedWireField f ''must be a non-empty string'')"

definition decodeEnum :: "wire_field \<Rightarrow> string list \<Rightarrow> string res" where
  "decodeEnum f values =
     (case fd_value f of
        JString s \<Rightarrow> if s \<in> set values then Inr s else malformedWireField f ''must be one of the values''
      | _ \<Rightarrow> malformedWireField f ''must be one of the values'')"

text \<open>A spelling map is an object from wire spelling to SDK spelling.\<close>

definition decodeMapped :: "wire_field \<Rightarrow> (string, 'a) object \<Rightarrow> 'a res" where
  "decodeMapped f spellings =
     bindR (decodeEnum f (map fst spellings)) (\<lambda>key. Inr (the (get spellings key)))"

definition encodeMapped :: "string \<Rightarrow> 'a \<Rightarrow> (string, 'a) object \<Rightarrow> string res" where
  "encodeMapped name value spellings =
     bindR (check (value \<in> set (map snd spellings)) (TypeErr name)) (\<lambda>_.
     Inr (fst (the (find (\<lambda>(wire, sdk). sdk = value) spellings))))"

definition decodeUnsignedInteger :: "wire_field \<Rightarrow> int \<Rightarrow> int res" where
  "decodeUnsignedInteger f m =
     (case fd_value f of
        JNumber v \<Rightarrow> if isUnsignedInteger v m then Inr v else malformedWireField f ''must be an integer between 0 and max''
      | _ \<Rightarrow> malformedWireField f ''must be an integer between 0 and max'')"

definition decodeNull :: "wire_field \<Rightarrow> unit res" where
  "decodeNull f = (if fd_value f = JNull then Inr () else malformedWireField f ''must be null'')"

definition decodeOrNull :: "wire_field \<Rightarrow> (wire_field \<Rightarrow> 'a res) \<Rightarrow> 'a option res" where
  "decodeOrNull f read = (if fd_value f = JNull then Inr None else bindR (read f) (\<lambda>v. Inr (Some v)))"

text \<open>\<^verbatim>\<open>readTagged\<close>: the tag of an internally tagged union, and the reader of the other members.\<close>

definition readTagged :: "wire_field \<Rightarrow> string list \<Rightarrow> (string \<times> (string \<Rightarrow> wire_field)) res" where
  "readTagged f variants =
     bindR (readObject f) (\<lambda>at. bindR (decodeEnum (at ''type'') variants) (\<lambda>tag. Inr (tag, at)))"

text \<open>\<^verbatim>\<open>s.split(c)\<close> for a separator of one character: the empty string is one empty part.\<close>

fun splitOn :: "char \<Rightarrow> string \<Rightarrow> string list" where
  "splitOn c [] = [[]]"
| "splitOn c (x # xs) = (if x = c then [] # splitOn c xs
     else (case splitOn c xs of [] \<Rightarrow> [[x]] | part # parts \<Rightarrow> (x # part) # parts))"

definition WIRE_FLAG_SEPARATOR :: char where
  "WIRE_FLAG_SEPARATOR = CHR ''|''"

definition decodeFlags :: "wire_field \<Rightarrow> string list \<Rightarrow> string list res" where
  "decodeFlags f names =
     (case fd_value f of
        JString s \<Rightarrow>
          if s = [] then Inr []
          else let flags = splitOn WIRE_FLAG_SEPARATOR s
            in if list_ex (\<lambda>flag. flag \<notin> set names) flags \<or> \<not> distinct flags
               then malformedWireField f ''must be distinct names'' else Inr flags
      | _ \<Rightarrow> malformedWireField f ''must be a string of flag names'')"

section \<open>Hex\<close>

definition WIRE_HEX_PREFIX :: string where
  "WIRE_HEX_PREFIX = ''0x''"

text \<open>\<^verbatim>\<open>/^0x(?:[0-9a-f]{2})*$/\<close>\<close>

definition is_hex_bytes_pattern :: "string \<Rightarrow> bool" where
  "is_hex_bytes_pattern s \<longleftrightarrow> take 2 s = WIRE_HEX_PREFIX \<and> even (length s) \<and> list_all is_hex_char (drop 2 s)"

definition isWireHex :: "json \<Rightarrow> nat option \<Rightarrow> bool" where
  "isWireHex v byteLength =
     (case v of
        JString s \<Rightarrow> is_hex_bytes_pattern s \<and>
          (case byteLength of None \<Rightarrow> True | Some n \<Rightarrow> length s = length WIRE_HEX_PREFIX + n * 2)
      | _ \<Rightarrow> False)"

fun string_of :: "json \<Rightarrow> string" where
  "string_of (JString s) = s"
| "string_of _ = []"

definition requireHexBytes :: "wire_field \<Rightarrow> nat \<Rightarrow> string res" where
  "requireHexBytes f n =
     (if isWireHex (fd_value f) (Some n) then Inr (string_of (fd_value f))
      else malformedWireField f ''must be n bytes of 0x-prefixed lowercase hex'')"

definition decodeHexBytes :: "lib \<Rightarrow> wire_field \<Rightarrow> nat \<Rightarrow> bytes res" where
  "decodeHexBytes L f n = bindR (requireHexBytes f n) (\<lambda>s. Inr (hexToBytes L (drop (length WIRE_HEX_PREFIX) s)))"

definition decodeAnyHexBytes :: "lib \<Rightarrow> wire_field \<Rightarrow> bytes res" where
  "decodeAnyHexBytes L f =
     (if isWireHex (fd_value f) None
      then Inr (hexToBytes L (drop (length WIRE_HEX_PREFIX) (string_of (fd_value f))))
      else malformedWireField f ''must be whole bytes of 0x-prefixed lowercase hex'')"

definition encodeHexBytes :: "lib \<Rightarrow> string \<Rightarrow> bytes \<Rightarrow> nat \<Rightarrow> json res" where
  "encodeHexBytes L name b n =
     bindR (assertBytes name b n) (\<lambda>_. Inr (JString (WIRE_HEX_PREFIX @ bytesToHex L b)))"

definition encodeAnyHexBytes :: "lib \<Rightarrow> string \<Rightarrow> bytes \<Rightarrow> json res" where
  "encodeAnyHexBytes L name b = Inr (JString (WIRE_HEX_PREFIX @ bytesToHex L b))"

definition decodeBareHexBytes :: "lib \<Rightarrow> wire_field \<Rightarrow> nat \<Rightarrow> bytes res" where
  "decodeBareHexBytes L f n =
     (case fd_value f of
        JString s \<Rightarrow>
          if isHexBytes s n then Inr (hexToBytes L s)
          else malformedWireField f ''must be n bytes of lowercase hex without a 0x prefix''
      | _ \<Rightarrow> malformedWireField f ''must be n bytes of lowercase hex without a 0x prefix'')"

definition encodeBareHexBytes :: "lib \<Rightarrow> string \<Rightarrow> bytes \<Rightarrow> nat \<Rightarrow> json res" where
  "encodeBareHexBytes L name b n = bindR (assertBytes name b n) (\<lambda>_. Inr (JString (bytesToHex L b)))"

definition assertWireHexBytes :: "string \<Rightarrow> json \<Rightarrow> nat \<Rightarrow> unit res" where
  "assertWireHexBytes name v n = check (isWireHex v (Some n)) (TypeErr name)"

section \<open>Integers\<close>

text \<open>\<^verbatim>\<open>v.toString(16)\<close> on a non-negative integer, and \<^verbatim>\<open>BigInt\<close> on hexadecimal digits.\<close>

function toString16 :: "int \<Rightarrow> string" where
  "toString16 i = (if i < 16 then [hex_digit (nat i)] else toString16 (i div 16) @ [hex_digit (nat (i mod 16))])"
  by auto

termination
  by (relation "measure nat") auto

declare toString16.simps [simp del]

definition int_of_hex :: "string \<Rightarrow> int" where
  "int_of_hex s = foldl (\<lambda>a c. 16 * a + int (hex_value c)) 0 s"

text \<open>\<^verbatim>\<open>/^0x(?:0|[1-9a-f][0-9a-f]*)$/\<close>\<close>

definition is_uint_hex_pattern :: "string \<Rightarrow> bool" where
  "is_uint_hex_pattern s \<longleftrightarrow> take 2 s = WIRE_HEX_PREFIX \<and>
     (drop 2 s = ''0'' \<or> drop 2 s \<noteq> [] \<and> hd (drop 2 s) \<noteq> CHR ''0'' \<and> list_all is_hex_char (drop 2 s))"

definition MAX_UINT_HEX_LENGTH :: nat where
  "MAX_UINT_HEX_LENGTH = length WIRE_HEX_PREFIX + length (toString16 UINT128_MAX)"

definition decodeUintHex :: "wire_field \<Rightarrow> int \<Rightarrow> int res" where
  "decodeUintHex f m =
     (case fd_value f of
        JString s \<Rightarrow>
          if length s > MAX_UINT_HEX_LENGTH \<or> \<not> is_uint_hex_pattern s
          then malformedWireField f ''must be an unsigned integer in 0x hex without leading zeros''
          else let parsed = int_of_hex (drop 2 s) in
            if parsed > m then malformedWireField f ''must be at most max'' else Inr parsed
      | _ \<Rightarrow> malformedWireField f ''must be an unsigned integer in 0x hex without leading zeros'')"

definition decodeUintHexNumber :: "wire_field \<Rightarrow> int \<Rightarrow> int res" where
  "decodeUintHexNumber f m =
     bindR (assertUnsignedInteger ''max'' m MAX_SAFE_INTEGER) (\<lambda>_. decodeUintHex f m)"

definition encodeUintHex :: "string \<Rightarrow> int \<Rightarrow> int \<Rightarrow> json res" where
  "encodeUintHex name v m =
     bindR (assertUnsignedBigInt name v m) (\<lambda>_. Inr (JString (WIRE_HEX_PREFIX @ toString16 v)))"

definition encodeUintHexNumber :: "string \<Rightarrow> int \<Rightarrow> int \<Rightarrow> json res" where
  "encodeUintHexNumber name v m =
     bindR (assertUnsignedInteger name v m) (\<lambda>_. Inr (JString (WIRE_HEX_PREFIX @ toString16 v)))"

section \<open>Scripts and out points\<close>

fun hash_type_name :: "script_hash_type \<Rightarrow> string" where
  "hash_type_name Data = ''data''"
| "hash_type_name Type = ''type''"
| "hash_type_name Data1 = ''data1''"
| "hash_type_name Data2 = ''data2''"

definition hash_type_named :: "(string, script_hash_type) object" where
  "hash_type_named = map (\<lambda>t. (hash_type_name t, t)) SCRIPT_HASH_TYPES"

definition decodeScript :: "lib \<Rightarrow> wire_field \<Rightarrow> script res" where
  "decodeScript L f =
     bindR (readObject f) (\<lambda>at.
     bindR (decodeHexBytes L (at ''code_hash'') 32) (\<lambda>c.
     bindR (decodeMapped (at ''hash_type'') hash_type_named) (\<lambda>h.
     bindR (decodeAnyHexBytes L (at ''args'')) (\<lambda>a.
     Inr \<lparr> codeHash = c, hashType = h, args = a \<rparr>))))"

definition decodeScriptOrNull :: "lib \<Rightarrow> wire_field \<Rightarrow> script option res" where
  "decodeScriptOrNull L f = decodeOrNull f (decodeScript L)"

definition decodeOutPoint :: "lib \<Rightarrow> wire_field \<Rightarrow> out_point res" where
  "decodeOutPoint L f =
     bindR (readObject f) (\<lambda>at.
     bindR (decodeHexBytes L (at ''tx_hash'') 32) (\<lambda>h.
     bindR (decodeUintHexNumber (at ''index'') UINT32_MAX) (\<lambda>i. Inr \<lparr> txHash = h, index = i \<rparr>)))"

definition encodeScript :: "lib \<Rightarrow> string \<Rightarrow> script \<Rightarrow> json res" where
  "encodeScript L name s =
     bindR (encodeHexBytes L (name @ ''.codeHash'') (codeHash s) 32) (\<lambda>c.
     bindR (encodeAnyHexBytes L (name @ ''.args'') (args s)) (\<lambda>a.
     Inr (JObject [(''code_hash'', c), (''hash_type'', JString (hash_type_name (hashType s))), (''args'', a)])))"

definition encodeScriptOrNull :: "lib \<Rightarrow> string \<Rightarrow> script option \<Rightarrow> json res" where
  "encodeScriptOrNull L name so = (case so of None \<Rightarrow> Inr JNull | Some s \<Rightarrow> encodeScript L name s)"

definition encodeOutPoint :: "lib \<Rightarrow> string \<Rightarrow> out_point \<Rightarrow> json res" where
  "encodeOutPoint L name op =
     bindR (encodeHexBytes L (name @ ''.txHash'') (txHash op) 32) (\<lambda>h.
     bindR (encodeUintHexNumber (name @ ''.index'') (index op) UINT32_MAX) (\<lambda>i.
     Inr (JObject [(''tx_hash'', h), (''index'', i)])))"

section \<open>Transactions\<close>

fun dep_type_name :: "dep_type \<Rightarrow> string" where
  "dep_type_name Code = ''code''"
| "dep_type_name DepGroup = ''dep_group''"

definition dep_type_named :: "(string, dep_type) object" where
  "dep_type_named = [(dep_type_name Code, Code), (dep_type_name DepGroup, DepGroup)]"

definition decodeCellDep :: "lib \<Rightarrow> wire_field \<Rightarrow> cell_dep res" where
  "decodeCellDep L f =
     bindR (readObject f) (\<lambda>at.
     bindR (decodeOutPoint L (at ''out_point'')) (\<lambda>p.
     bindR (decodeMapped (at ''dep_type'') dep_type_named) (\<lambda>t. Inr \<lparr> outPoint = p, depType = t \<rparr>)))"

definition decodeCellInput :: "lib \<Rightarrow> wire_field \<Rightarrow> cell_input res" where
  "decodeCellInput L f =
     bindR (readObject f) (\<lambda>at.
     bindR (decodeUintHex (at ''since'') UINT64_MAX) (\<lambda>s.
     bindR (decodeOutPoint L (at ''previous_output'')) (\<lambda>p. Inr \<lparr> since = s, previousOutput = p \<rparr>)))"

definition decodeCellOutput :: "lib \<Rightarrow> wire_field \<Rightarrow> cell_output res" where
  "decodeCellOutput L f =
     bindR (readObject f) (\<lambda>at.
     bindR (decodeUintHex (at ''capacity'') UINT64_MAX) (\<lambda>c.
     bindR (decodeScript L (at ''lock'')) (\<lambda>l.
     bindR (decodeScriptOrNull L (at ''type'')) (\<lambda>t.
     Inr \<lparr> capacityShannons = c, lock = l, type_script = t \<rparr>))))"

text \<open>\<^verbatim>\<open>readArray(field).map(decode)\<close>\<close>

definition decodeArray :: "(wire_field \<Rightarrow> 'a res) \<Rightarrow> wire_field \<Rightarrow> 'a list res" where
  "decodeArray dec f = bindR (readArray f None) (mapR dec)"

definition decodeTransaction :: "lib \<Rightarrow> wire_field \<Rightarrow> transaction res" where
  "decodeTransaction L f =
     bindR (readObject f) (\<lambda>at.
     bindR (decodeUintHexNumber (at ''version'') UINT32_MAX) (\<lambda>v.
     bindR (decodeArray (decodeCellDep L) (at ''cell_deps'')) (\<lambda>ds.
     bindR (decodeArray (\<lambda>d. decodeHexBytes L d 32) (at ''header_deps'')) (\<lambda>hs.
     bindR (decodeArray (decodeCellInput L) (at ''inputs'')) (\<lambda>is.
     bindR (decodeArray (decodeCellOutput L) (at ''outputs'')) (\<lambda>os.
     bindR (decodeArray (decodeAnyHexBytes L) (at ''outputs_data'')) (\<lambda>xs.
     bindR (decodeArray (decodeAnyHexBytes L) (at ''witnesses'')) (\<lambda>ws.
     Inr \<lparr> tx_version = v, cellDeps = ds, headerDeps = hs, inputs = is, outputs = os, outputsData = xs,
           witnesses = ws \<rparr>))))))))"

definition encodeCellDep :: "lib \<Rightarrow> string \<Rightarrow> cell_dep \<Rightarrow> json res" where
  "encodeCellDep L name d =
     bindR (encodeOutPoint L (name @ ''.outPoint'') (outPoint d)) (\<lambda>p.
     Inr (JObject [(''out_point'', p), (''dep_type'', JString (dep_type_name (depType d)))]))"

definition encodeCellInput :: "lib \<Rightarrow> string \<Rightarrow> cell_input \<Rightarrow> json res" where
  "encodeCellInput L name i =
     bindR (encodeUintHex (name @ ''.since'') (since i) UINT64_MAX) (\<lambda>s.
     bindR (encodeOutPoint L (name @ ''.previousOutput'') (previousOutput i)) (\<lambda>p.
     Inr (JObject [(''since'', s), (''previous_output'', p)])))"

definition encodeCellOutput :: "lib \<Rightarrow> string \<Rightarrow> cell_output \<Rightarrow> json res" where
  "encodeCellOutput L name out =
     bindR (encodeUintHex (name @ ''.capacityShannons'') (capacityShannons out) UINT64_MAX) (\<lambda>c.
     bindR (encodeScript L (name @ ''.lock'') (lock out)) (\<lambda>l.
     bindR (encodeScriptOrNull L (name @ ''.type'') (type_script out)) (\<lambda>t.
     Inr (JObject [(''capacity'', c), (''lock'', l), (''type'', t)]))))"

definition encodeArray :: "(string \<Rightarrow> 'a \<Rightarrow> json res) \<Rightarrow> string \<Rightarrow> 'a list \<Rightarrow> json res" where
  "encodeArray enc name xs =
     bindR (mapR (\<lambda>(i, x). enc (item_name name i) x) (entries xs)) (\<lambda>js. Inr (JArray js))"

definition encodeTransaction :: "lib \<Rightarrow> string \<Rightarrow> transaction \<Rightarrow> json res" where
  "encodeTransaction L name tx =
     bindR (encodeUintHexNumber (name @ ''.version'') (tx_version tx) UINT32_MAX) (\<lambda>v.
     bindR (encodeArray (encodeCellDep L) (name @ ''.cellDeps'') (cellDeps tx)) (\<lambda>ds.
     bindR (encodeArray (\<lambda>n h. encodeHexBytes L n h 32) (name @ ''.headerDeps'') (headerDeps tx)) (\<lambda>hs.
     bindR (encodeArray (encodeCellInput L) (name @ ''.inputs'') (inputs tx)) (\<lambda>is.
     bindR (encodeArray (encodeCellOutput L) (name @ ''.outputs'') (outputs tx)) (\<lambda>os.
     bindR (encodeArray (encodeAnyHexBytes L) (name @ ''.outputsData'') (outputsData tx)) (\<lambda>xs.
     bindR (encodeArray (encodeAnyHexBytes L) (name @ ''.witnesses'') (witnesses tx)) (\<lambda>ws.
     Inr (JObject [(''version'', v), (''cell_deps'', ds), (''header_deps'', hs), (''inputs'', is), (''outputs'', os),
       (''outputs_data'', xs), (''witnesses'', ws)]))))))))"

section \<open>The molecule cell output\<close>

definition refuseMolecule :: molecule_refuse where
  "refuseMolecule path fault = WireErr path (moleculeFaultReason fault)"

definition SCRIPT_WIRE_FIELD_NAMES :: script_field_names where
  "SCRIPT_WIRE_FIELD_NAMES = \<lparr> codeHash_name = ''code_hash'', hashType_name = ''hash_type'', args_name = ''args'' \<rparr>"

definition decodeMoleculeCellOutput :: "lib \<Rightarrow> wire_field \<Rightarrow> cell_output res" where
  "decodeMoleculeCellOutput L f =
     bindR (decodeAnyHexBytes L f) (\<lambda>b.
     bindR (readMoleculeTable b 3 (fd_path f) refuseMolecule) (\<lambda>parts.
     let capacity = parts ! 0; lockPart = parts ! 1; typePart = parts ! 2 in
     bindR (readMoleculeUint capacity 8 (fd_path f @ ''.capacity'') refuseMolecule) (\<lambda>c.
     bindR (readMoleculeScript lockPart (fd_path f @ ''.lock'') SCRIPT_WIRE_FIELD_NAMES refuseMolecule) (\<lambda>l.
     bindR (if length typePart = 0 then Inr None
            else bindR (readMoleculeScript typePart (fd_path f @ ''.type'') SCRIPT_WIRE_FIELD_NAMES refuseMolecule)
                   (\<lambda>t. Inr (Some t))) (\<lambda>t.
     Inr \<lparr> capacityShannons = c, lock = l, type_script = t \<rparr>)))))"

end
