(* ===== verification/Guards.thy ===== *)
theory Guards
  imports PolicyTypes Wire
begin

text \<open>
  The guards of the stored records (\<^verbatim>\<open>policy/utils/validate.utils.ts\<close>, \<^verbatim>\<open>assert.utils.ts\<close>): what the store
  refuses to read or to write. The kind checks and the version tags hold by the records' types; every
  check on a value is here. A \<^verbatim>\<open>try\<close> that answers \<^verbatim>\<open>false\<close> or \<^verbatim>\<open>null\<close> is a case on the error.
\<close>

section \<open>Scalars\<close>

definition isCommitmentNumber :: "int \<Rightarrow> bool" where
  "isCommitmentNumber v \<longleftrightarrow> isUnsignedInteger v MAX_COMMITMENT_NUMBER"

definition NONCE_CONTEXTS :: "nonce_context list" where
  "NONCE_CONTEXTS = [COMMITMENT, REVOKE, ANNOUNCEMENT]"

text \<open>The text before the first colon and the text after it; no colon at all is \<^const>\<open>None\<close>.\<close>

definition splitAtColon :: "string \<Rightarrow> (string \<times> string) option" where
  "splitAtColon s =
     (let part = takeWhile (\<lambda>c. c \<noteq> CHR '':'') s
      in if length part = length s then None else Some (part, drop (length part + 1) s))"

definition isSignSlot :: "string \<Rightarrow> bool" where
  "isSignSlot v =
     (case splitAtColon v of
        None \<Rightarrow> False
      | Some (ctx, number) \<Rightarrow>
          ctx \<in> set (map nonce_context_name NONCE_CONTEXTS) \<and> isCanonicalDecimal number
          \<and> bigInt number \<le> MAX_COMMITMENT_NUMBER)"

definition isOutPointPin :: "string \<Rightarrow> bool" where
  "isOutPointPin v =
     (case splitAtColon v of
        None \<Rightarrow> False
      | Some (hash, i) \<Rightarrow> isHexBytes hash 32 \<and> isCanonicalDecimal i \<and> bigInt i \<le> UINT32_MAX)"

section \<open>Pins\<close>

fun PIN_FORMS :: "pin_field \<Rightarrow> string \<Rightarrow> bool" where
  "PIN_FORMS P_fundingOutPoint v = isOutPointPin v"
| "PIN_FORMS P_fundingCapacityShannons v = isUint64Decimal v"
| "PIN_FORMS P_liquidCapacityShannons v = isDecimalShannons v"
| "PIN_FORMS P_remoteFundingPubkey v = isHexBytes v 33"
| "PIN_FORMS P_remoteTlcBasePubkey v = isHexBytes v 33"
| "PIN_FORMS P_commitmentDelayEpoch v = isUint64Decimal v"
| "PIN_FORMS P_commitmentFeeRate v = isUint64Decimal v"
| "PIN_FORMS P_remoteReservedCkbShannons v = isUint64Decimal v"
| "PIN_FORMS P_remoteCloseScript v = isNonEmptyHexBytes v"
| "PIN_FORMS P_lockLayout v \<longleftrightarrow> v \<in> {''legacy'', ''fullPaymentHash''}"

definition isReserveByLayout :: "(commitment_lock_layout, string) object \<Rightarrow> bool" where
  "isReserveByLayout m \<longleftrightarrow> length m = 2 \<and>
     list_all (\<lambda>layout. case get m layout of None \<Rightarrow> False | Some reserved \<Rightarrow> isUint64Decimal reserved)
       [legacy, fullPaymentHash]"

definition isChannelPins :: "channel_pins \<Rightarrow> bool" where
  "isChannelPins ps \<longleftrightarrow> isUint64Decimal (fundedShannons ps) \<and> isNonEmptyHexBytes (localCloseScript ps)
     \<and> isReserveByLayout (localReservedCkbShannons ps)
     \<and> list_all (\<lambda>pin. case get (pinned ps) pin of None \<Rightarrow> True | Some v \<Rightarrow> PIN_FORMS pin v)
         (FIRST_SIGHT_CHANNEL_PINS @ CHANNEL_TERMS_PINS)"

section \<open>Slots, lanes and evidence\<close>

definition isLaneCounterMap :: "(signing_lane, int) object \<Rightarrow> bool" where
  "isLaneCounterMap m \<longleftrightarrow> list_all (\<lambda>(lane, counter). isCommitmentNumber counter) m"

definition isSignedSessionMap :: "(string, string) object \<Rightarrow> bool" where
  "isSignedSessionMap m \<longleftrightarrow> list_all (\<lambda>(slot, commitment). isSignSlot slot \<and> isHexBytes commitment 32) m"

definition isNonceReuseMap :: "(string, nonce_reuse_entry) object \<Rightarrow> (string, string) object \<Rightarrow> bool" where
  "isNonceReuseMap m sessions \<longleftrightarrow>
     list_all (\<lambda>(slot, entry). isSignSlot slot \<and> isHexBytes (nr_sessionCommitment entry) 32
         \<and> isHexBytes (nr_message entry) 32
         \<and> (case get sessions slot of None \<Rightarrow> False | Some first \<Rightarrow> first \<noteq> nr_sessionCommitment entry)) m"

fun evidenceLoop :: "int \<Rightarrow> revocation_evidence list \<Rightarrow> bool" where
  "evidenceLoop previous [] = True"
| "evidenceLoop previous (e # es) \<longleftrightarrow>
     \<not> (\<not> isUnsignedInteger (re_version e) MAX_REVOKED_VERSION \<or> re_version e \<le> previous)
     \<and> isHexBytes (re_signature e) 64 \<and> evidenceLoop (re_version e) es"

definition isRevocationEvidenceList :: "revocation_evidence list \<Rightarrow> bool" where
  "isRevocationEvidenceList es = evidenceLoop (-1) es"

section \<open>Commitment cells\<close>

definition recordedOutput :: "lib \<Rightarrow> string \<Rightarrow> string \<Rightarrow> cell_output res" where
  "recordedOutput L hex path =
     decodeMoleculeCellOutput L \<lparr> fd_value = JString (WIRE_HEX_PREFIX @ hex), fd_path = path \<rparr>"

definition readCommitmentLockCell :: "lib \<Rightarrow> recorded_cell \<Rightarrow> bool \<Rightarrow> cell_output option" where
  "readCommitmentLockCell L cell settled =
     (if \<not> isNonEmptyHexBytes (rd_output cell) \<or> rd_outputData cell \<noteq> [] then None
      else case recordedOutput L (rd_output cell) ''output'' of
             Inl e \<Rightarrow> None
           | Inr out \<Rightarrow>
               if type_script out = None \<and> readCommitmentLockSettled (args (lock out)) = Inr settled
               then Some out else None)"

definition isCommittedSettlementBody :: "lib \<Rightarrow> string \<Rightarrow> bytes \<Rightarrow> bool" where
  "isCommittedSettlementBody L v a \<longleftrightarrow> isNonEmptyHexBytes v \<and>
     (let body = hexToBytes L v in
      \<not> isl (bindR (readCommitmentLockLayout a) (readSettlementBody body))
      \<and> readCommitmentLockSettlementHash a = Inr (blake160 L [body]))"

definition isCommitmentSource :: "lib \<Rightarrow> recorded_cell \<Rightarrow> string \<Rightarrow> bool" where
  "isCommitmentSource L cell settlementWitness =
     (case readCommitmentLockCell L cell False of
        None \<Rightarrow> False
      | Some out \<Rightarrow> isCommittedSettlementBody L settlementWitness (args (lock out)))"

definition isSignedCommitment :: "lib \<Rightarrow> signed_commitment_record \<Rightarrow> bool" where
  "isSignedCommitment L c \<longleftrightarrow> isCommitmentNumber (sc_commitmentNumber c) \<and> isHexBytes (sc_txHash c) 32 \<and>
     (case (sc_source c, sc_settlementWitness c) of
        (None, None) \<Rightarrow> True
      | (Some cell, Some w) \<Rightarrow> isCommitmentSource L cell w
      | _ \<Rightarrow> False)"

definition isCommitmentHashMap :: "lib \<Rightarrow> (policy_view, signed_commitment_record) object \<Rightarrow> bool" where
  "isCommitmentHashMap L m \<longleftrightarrow> list_all (\<lambda>(view, entry). isSignedCommitment L entry) m"

definition isPreviousRemoteCommitment ::
    "lib \<Rightarrow> previous_remote_commitment_record \<Rightarrow> (policy_view, signed_commitment_record) object \<Rightarrow> bool" where
  "isPreviousRemoteCommitment L p hashes \<longleftrightarrow> isCommitmentNumber (pr_commitmentNumber p) \<and>
     (case get hashes remote_view of
        None \<Rightarrow> False
      | Some lastOne \<Rightarrow> sc_commitmentNumber lastOne = pr_commitmentNumber p + 1
          \<and> isCommitmentSource L (pr_source p) (pr_settlementWitness p))"

section \<open>Watchtower spends\<close>

definition assertWatchtowerKeyPurpose :: "string \<Rightarrow> watchtower_key_purpose \<Rightarrow> unit res" where
  "assertWatchtowerKeyPurpose name v =
     (case v of
        PurposeSettlement \<Rightarrow> Inr ()
      | PurposeTlc n \<Rightarrow> assertUnsignedInteger (name @ ''.commitmentNumber'') n MAX_COMMITMENT_NUMBER)"

definition isWatchtowerKeyPurpose :: "watchtower_key_purpose \<Rightarrow> bool" where
  "isWatchtowerKeyPurpose v \<longleftrightarrow> \<not> isl (assertWatchtowerKeyPurpose ''purpose'' v)"

definition isWatchtowerSpend ::
    "lib \<Rightarrow> watchtower_spend_record \<Rightarrow> (policy_view, signed_commitment_record) object \<Rightarrow> nat list \<Rightarrow> bool" where
  "isWatchtowerSpend L v hashes tlcEntryLengths \<longleftrightarrow>
     isHexBytes (ws_requestId v) 32 \<and> isWatchtowerKeyPurpose (ws_purpose v) \<and>
     get hashes (ws_view v) \<noteq> None \<and> isCommitmentNumber (ws_commitmentNumber v) \<and>
     (case ws_tlcEntry v of
        None \<Rightarrow> ws_purpose v = PurposeSettlement
      | Some entry \<Rightarrow> ws_purpose v \<noteq> PurposeSettlement \<and> list_ex (isHexBytes entry) tlcEntryLengths) \<and>
     isHexBytes (ws_txHash v) 32 \<and>
     (case ws_remainder v of None \<Rightarrow> True | Some cell \<Rightarrow> readCommitmentLockCell L cell True \<noteq> None) \<and>
     (case ws_signature v of None \<Rightarrow> True | Some signature \<Rightarrow> isHexBytes signature 65) \<and>
     (ws_applied v \<longrightarrow> ws_signature v \<noteq> None)"

fun view_name :: "policy_view \<Rightarrow> string" where
  "view_name remote_view = ''remote''"
| "view_name local_view = ''local''"

definition spendKey :: "watchtower_spend_record \<Rightarrow> string" where
  "spendKey v = view_name (ws_view v) @ '':'' @ toString (ws_commitmentNumber v) @ '':''
     @ (case ws_tlcEntry v of None \<Rightarrow> [] | Some entry \<Rightarrow> entry)"

fun spendLoop ::
    "(watchtower_spend_record \<Rightarrow> bool) \<Rightarrow> string set \<Rightarrow> string set \<Rightarrow> watchtower_spend_record list \<Rightarrow> bool" where
  "spendLoop ok requestIds keys [] = True"
| "spendLoop ok requestIds keys (v # vs) \<longleftrightarrow>
     ok v \<and> \<not> (ws_requestId v \<in> requestIds \<or> spendKey v \<in> keys)
     \<and> spendLoop ok (insert (ws_requestId v) requestIds) (insert (spendKey v) keys) vs"

definition isWatchtowerSpendList ::
    "lib \<Rightarrow> watchtower_spend_record list \<Rightarrow> (policy_view, signed_commitment_record) object \<Rightarrow> string option \<Rightarrow> bool" where
  "isWatchtowerSpendList L vs hashes lockLayout \<longleftrightarrow> length vs \<le> MAX_WATCHTOWER_SPENDS \<and>
     (let tlcEntryLengths = map settlementTlcEntryLength
            (filter (\<lambda>layout. lockLayout = None \<or>
                 lockLayout = Some (case layout of legacy \<Rightarrow> ''legacy'' | fullPaymentHash \<Rightarrow> ''fullPaymentHash''))
              [legacy, fullPaymentHash])
      in spendLoop (\<lambda>v. isWatchtowerSpend L v hashes tlcEntryLengths) {} {} vs)"

section \<open>Records\<close>

definition isChannelIndexSet :: "int list \<Rightarrow> bool" where
  "isChannelIndexSet v \<longleftrightarrow> list_all (\<lambda>i. isUnsignedInteger i MAX_CHANNEL_INDEX) v \<and> card (set v) = length v"

definition isDebitIntentRecord :: "debit_intent_record \<Rightarrow> bool" where
  "isDebitIntentRecord r \<longleftrightarrow> isHexBytes (di_paymentHash r) 32 \<and> isDecimalShannons (di_maxShannons r)
     \<and> isChannelIndexSet (di_channelIndexes r)"

definition isHoldInvoicePolicyRecord :: "hold_invoice_record \<Rightarrow> bool" where
  "isHoldInvoicePolicyRecord r \<longleftrightarrow> isHexBytes (hi_paymentHash r) 32 \<and> isPositiveDecimalShannons (hi_amountShannons r)
     \<and> isUnsignedInteger (hi_invoiceIndex r) MAX_INVOICE_INDEX \<and> isChannelIndexSet (hi_channelIndexes r)"

definition isChannelPolicyRecord :: "lib \<Rightarrow> channel_policy_record \<Rightarrow> bool" where
  "isChannelPolicyRecord L r \<longleftrightarrow>
     channelId r \<noteq> [] \<and> isLaneCounterMap (lastSignedCommitmentNumbers r) \<and> isSignedSessionMap (signedSessions r)
     \<and> isNonceReuseMap (nonceReuse r) (signedSessions r) \<and> isCommitmentHashMap L (commitmentHashes r)
     \<and> (case previousRemoteCommitment r of None \<Rightarrow> True
        | Some p \<Rightarrow> isPreviousRemoteCommitment L p (commitmentHashes r))
     \<and> isRevocationEvidenceList (revocations r) \<and> isChannelPins (pins r) \<and> isViewSnapshotPair (views r)
     \<and> (case watchtowerSpends r of None \<Rightarrow> True
        | Some vs \<Rightarrow> isWatchtowerSpendList L vs (commitmentHashes r) (get (pinned (pins r)) P_lockLayout))"

definition assertChannelPolicyRecord :: "lib \<Rightarrow> string \<Rightarrow> channel_policy_record \<Rightarrow> unit res" where
  "assertChannelPolicyRecord L name r = check (isChannelPolicyRecord L r) (TypeErr name)"

definition assertDebitIntentRecord :: "string \<Rightarrow> debit_intent_record \<Rightarrow> unit res" where
  "assertDebitIntentRecord name r = check (isDebitIntentRecord r) (TypeErr name)"

definition assertHoldInvoicePolicyRecord :: "string \<Rightarrow> hold_invoice_record \<Rightarrow> unit res" where
  "assertHoldInvoicePolicyRecord name r = check (isHoldInvoicePolicyRecord r) (TypeErr name)"

end
