(* ===== verification/Watchtower.thy ===== *)
theory Watchtower
  imports Guards
begin

text \<open>
  The rules a watchtower spend passes (\<^verbatim>\<open>watchtower-spend.ts\<close>): the source cell among the commitments the
  record kept or among their descendants, the key the unlock settles to, the remainder, the approved
  destination, and the claim of the spend in the record.
\<close>

section \<open>Types\<close>

record watchtower_approval =
  wa_destination :: script
  wa_maxFeeShannons :: string

record watchtower_spend_request =
  wr_requestId :: bytes
  wr_purpose :: watchtower_key_purpose
  wr_transaction :: transaction

datatype watchtower_spend_verdict = SpendFresh | SpendAlreadySigned "bytes option" | SpendUnclaimed

record registered_commitment =
  rc_view :: policy_view
  rc_commitmentNumber :: int
  rc_settlementWitness :: string
  rc_cell :: cell_output

record spend_source =
  src_view :: policy_view
  src_commitmentNumber :: int
  src_lock :: script
  src_capacityShannons :: "int option"
  src_layout :: commitment_lock_layout
  src_unlock :: settlement_unlock

section \<open>Structure\<close>

definition structureFault :: "transaction \<Rightarrow> bool" where
  "structureFault tx \<longleftrightarrow> list_ex (\<lambda>faulty. faulty)
     [tx_version tx \<noteq> 0, length (headerDeps tx) \<noteq> 0, length (inputs tx) = 0,
      length (outputs tx) \<noteq> length (outputsData tx)]"

definition readSpendStructure :: "lib \<Rightarrow> watchtower_spend_request \<Rightarrow> bytes res" where
  "readSpendStructure L r =
     bindR (assertBytes ''request.requestId'' (wr_requestId r) 32) (\<lambda>_.
     bindR (assertWatchtowerKeyPurpose ''request.purpose'' (wr_purpose r)) (\<lambda>_.
     bindR (computeTxHash L (wr_transaction r)) (\<lambda>hash.
     if structureFault (wr_transaction r) then Inl (TypeErr ''watchtower structure'') else Inr hash)))"

section \<open>The source\<close>

definition registeredCommitment ::
    "lib \<Rightarrow> policy_view \<Rightarrow> int \<Rightarrow> recorded_cell option \<Rightarrow> string option \<Rightarrow> registered_commitment list res" where
  "registeredCommitment L view number source settlementWitness =
     (case (source, settlementWitness) of
        (Some cell, Some w) \<Rightarrow>
          bindR (recordedOutput L (rd_output cell) ''source.output'') (\<lambda>out. Inr
            [\<lparr> rc_view = view, rc_commitmentNumber = number, rc_settlementWitness = w, rc_cell = out \<rparr>])
      | _ \<Rightarrow> Inr [])"

definition registeredSigned ::
    "lib \<Rightarrow> policy_view \<Rightarrow> signed_commitment_record option \<Rightarrow> registered_commitment list res" where
  "registeredSigned L view c =
     (case c of None \<Rightarrow> Inr []
      | Some c \<Rightarrow> registeredCommitment L view (sc_commitmentNumber c) (sc_source c) (sc_settlementWitness c))"

definition registeredCommitments :: "lib \<Rightarrow> channel_policy_record \<Rightarrow> registered_commitment list res" where
  "registeredCommitments L r =
     bindR (registeredSigned L remote_view (get (commitmentHashes r) remote_view)) (\<lambda>a.
     bindR (case previousRemoteCommitment r of None \<Rightarrow> Inr []
            | Some p \<Rightarrow> registeredCommitment L remote_view (pr_commitmentNumber p) (Some (pr_source p))
                          (Some (pr_settlementWitness p))) (\<lambda>b.
     bindR (registeredSigned L local_view (get (commitmentHashes r) local_view)) (\<lambda>c. Inr (a @ b @ c))))"

definition pickSource :: "spend_source list \<Rightarrow> transaction \<Rightarrow> spend_source option" where
  "pickSource candidates tx =
     (let named = (case outputs tx of [] \<Rightarrow> None | first # _ \<Rightarrow> Some (subarray (args (lock first)) 0 REVOCATION_LOCK_ARGS_LENGTH));
          source = find (\<lambda>c. named \<noteq> None \<and> Some (subarray (args (src_lock c)) 0 REVOCATION_LOCK_ARGS_LENGTH) = named) candidates
      in case source of Some s \<Rightarrow> Some s | None \<Rightarrow> (case candidates of [] \<Rightarrow> None | c # _ \<Rightarrow> Some c))"

definition readUnlock :: "transaction \<Rightarrow> commitment_lock_layout \<Rightarrow> settlement_unlock res" where
  "readUnlock tx layout =
     (case witnesses tx of
        [] \<Rightarrow> refusePolicyRequest malformed ''watchtower witness''
      | witness # _ \<Rightarrow> withPolicyRefusal malformed (readSettlementUnlock witness layout))"

definition commitmentCandidate :: "lib \<Rightarrow> transaction \<Rightarrow> registered_commitment \<Rightarrow> spend_source list res" where
  "commitmentCandidate L tx c =
     bindR (readCommitmentLockLayout (args (lock (rc_cell c)))) (\<lambda>layout.
     bindR (readUnlock tx layout) (\<lambda>unlock.
     Inr (if bytesToHex L (su_body unlock) \<noteq> rc_settlementWitness c then []
          else [\<lparr> src_view = rc_view c, src_commitmentNumber = rc_commitmentNumber c, src_lock = lock (rc_cell c),
                  src_capacityShannons = Some (capacityShannons (rc_cell c)), src_layout = layout,
                  src_unlock = unlock \<rparr>])))"

definition findCommitmentSource :: "lib \<Rightarrow> registered_commitment list \<Rightarrow> transaction \<Rightarrow> spend_source res" where
  "findCommitmentSource L registered tx =
     bindR (mapR (commitmentCandidate L tx) registered) (\<lambda>candidates.
     case pickSource (concat candidates) tx of
       Some source \<Rightarrow> Inr source
     | None \<Rightarrow> refusePolicyRequest policy_refusal ''watchtower source'')"

definition countEntry :: "bytes list \<Rightarrow> bytes \<Rightarrow> nat" where
  "countEntry es entry = length (filter (\<lambda>candidate. candidate = entry) es)"

definition isZeroHash :: "bytes \<Rightarrow> bool" where
  "isZeroHash hash = list_all (\<lambda>b. b = 0) hash"

definition isSettledBalance :: "settlement_balance \<Rightarrow> bool" where
  "isSettledBalance b \<longleftrightarrow> sb_amountShannons b = 0 \<and> isZeroHash (pubkeyHash b)"

definition isSameBalance :: "settlement_balance \<Rightarrow> settlement_balance \<Rightarrow> bool" where
  "isSameBalance b c \<longleftrightarrow> sb_amountShannons b = sb_amountShannons c \<and> pubkeyHash b = pubkeyHash c"

text \<open>Whether a fault is found; which one only words the refusal.\<close>

definition findDescentFault :: "settlement_unlock \<Rightarrow> settlement_body \<Rightarrow> bool" where
  "findDescentFault unlock committed \<longleftrightarrow>
     list_ex (\<lambda>(i, entry). let listed = countEntry (tlcEntries committed) entry in
         listed = 0 \<or> countEntry (take (i + 1) (tlcEntries unlock)) entry > listed) (entries (tlcEntries unlock))
     \<or> list_ex (\<lambda>(b, c). \<not> isSettledBalance b \<and> \<not> isSameBalance b c)
         [(fst (balances unlock), fst (balances committed)), (snd (balances unlock), snd (balances committed))]"

definition descendantCandidate :: "lib \<Rightarrow> transaction \<Rightarrow> registered_commitment \<Rightarrow> spend_source list res" where
  "descendantCandidate L tx c =
     bindR (readCommitmentLockLayout (args (lock (rc_cell c)))) (\<lambda>layout.
     bindR (readUnlock tx layout) (\<lambda>unlock.
     bindR (readSettlementBody (hexToBytes L (rc_settlementWitness c)) layout) (\<lambda>committed.
     Inr (if findDescentFault unlock committed then []
          else [\<lparr> src_view = rc_view c, src_commitmentNumber = rc_commitmentNumber c, src_lock = lock (rc_cell c),
                  src_capacityShannons = None, src_layout = layout, src_unlock = unlock \<rparr>]))))"

definition findDescendantSource :: "lib \<Rightarrow> registered_commitment list \<Rightarrow> transaction \<Rightarrow> spend_source res" where
  "findDescendantSource L registered tx =
     bindR (mapR (descendantCandidate L tx) registered) (\<lambda>candidates.
     case pickSource (concat candidates) tx of
       Some source \<Rightarrow> Inr source
     | None \<Rightarrow> refusePolicyRequest policy_refusal ''watchtower source'')"

definition findSpendSource :: "lib \<Rightarrow> registered_commitment list \<Rightarrow> transaction \<Rightarrow> spend_source res" where
  "findSpendSource L registered tx =
     (let input0 = hd (inputs tx) in
      if index (previousOutput input0) \<noteq> 0 then refusePolicyRequest policy_refusal ''watchtower source''
      else if since input0 = 0 then findDescendantSource L registered tx
      else findCommitmentSource L registered tx)"

section \<open>The key\<close>

record released =
  re_shannons :: int
  re_finalParty :: bool

definition releasedTlc ::
    "lib \<Rightarrow> fiber_channel_keys \<Rightarrow> int \<Rightarrow> spend_source \<Rightarrow> bool \<Rightarrow> released res" where
  "releasedTlc L keys number source forRemote =
     (case su_target (src_unlock source) of
        BalanceTarget _ \<Rightarrow> refusePolicyRequest policy_refusal ''watchtower key: a TLC key''
      | TlcTarget i \<Rightarrow>
          bindR (readSettlementTlcEntry (tlcEntries (src_unlock source) ! i) (src_layout source) forRemote) (\<lambda>entry.
          bindR (deriveTlcKey L keys number) (\<lambda>key.
          bindR (pubkeyOf L key) (\<lambda>pubkey.
          if se_localKeyHash entry \<noteq> blake160 L [pubkey]
          then refusePolicyRequest policy_refusal ''watchtower key: another TLC key''
          else if (se_direction entry = received) \<noteq> (su_preimage (src_unlock source) \<noteq> None)
          then refusePolicyRequest policy_refusal ''watchtower preimage''
          else Inr \<lparr> re_shannons = se_amountShannons entry, re_finalParty = False \<rparr>))))"

definition balanceAt :: "settlement_balance \<times> settlement_balance \<Rightarrow> nat \<Rightarrow> settlement_balance" where
  "balanceAt bs i = (if i = 0 then fst bs else snd bs)"

definition releasedBalance :: "lib \<Rightarrow> fiber_channel_keys \<Rightarrow> spend_source \<Rightarrow> bool \<Rightarrow> released res" where
  "releasedBalance L keys source forRemote =
     (let deviceIndex = deviceSettlementIndex forRemote; unlock = src_unlock source in
      if su_target unlock \<noteq> BalanceTarget deviceIndex
      then refusePolicyRequest policy_refusal ''watchtower key: the settlement key''
      else
        let balance = balanceAt (balances unlock) deviceIndex in
        bindR (pubkeyOf L (tlcBaseKey keys)) (\<lambda>pubkey.
        if pubkeyHash balance \<noteq> blake160 L [pubkey]
        then refusePolicyRequest policy_refusal ''watchtower key: another base key''
        else
          let finalParty = isZeroHash (pubkeyHash (balanceAt (balances unlock) (if deviceIndex = 0 then 1 else 0))) in
          bindR (mapR (\<lambda>entry. readSettlementTlcEntry entry (src_layout source) forRemote) (tlcEntries unlock)) (\<lambda>es.
          if \<not> finalParty \<and> list_ex (\<lambda>e. se_direction e = offered) es
          then refusePolicyRequest policy_refusal ''watchtower settlement: an offered TLC left''
          else
            let shannons = (if finalParty then foldl (\<lambda>s e. s + se_amountShannons e) (sb_amountShannons balance) es
                            else sb_amountShannons balance) in
            if shannons = 0 then refusePolicyRequest policy_refusal ''watchtower key: releases nothing''
            else Inr \<lparr> re_shannons = shannons, re_finalParty = finalParty \<rparr>)))"

definition releasedByKey ::
    "lib \<Rightarrow> fiber_channel_keys \<Rightarrow> watchtower_key_purpose \<Rightarrow> spend_source \<Rightarrow> bool \<Rightarrow> released res" where
  "releasedByKey L keys purpose source forRemote =
     (case purpose of
        PurposeTlc number \<Rightarrow> releasedTlc L keys number source forRemote
      | PurposeSettlement \<Rightarrow> releasedBalance L keys source forRemote)"

section \<open>The outputs\<close>

definition isSameScript :: "script \<Rightarrow> script \<Rightarrow> bool" where
  "isSameScript s t \<longleftrightarrow> codeHash s = codeHash t \<and> hashType s = hashType t \<and> args s = args t"

definition emptyDataAt :: "transaction \<Rightarrow> nat \<Rightarrow> bool" where
  "emptyDataAt tx i \<longleftrightarrow> i < length (outputsData tx) \<and> length (outputsData tx ! i) = 0"

definition readRemainder :: "lib \<Rightarrow> transaction \<Rightarrow> spend_source \<Rightarrow> int \<Rightarrow> bool \<Rightarrow> cell_output res" where
  "readRemainder L tx source releasedShannons forRemote =
     bindR (nextSettlementWitness (src_unlock source) forRemote) (\<lambda>body.
     bindR (buildRemainderLockArgs L (args (src_lock source)) body) (\<lambda>a.
     case outputs tx of
       [] \<Rightarrow> refusePolicyRequest policy_refusal ''watchtower remainder''
     | first # _ \<Rightarrow>
         if \<not> isSameScript (lock first) (src_lock source\<lparr> args := a \<rparr>) \<or> type_script first \<noteq> None \<or> \<not> emptyDataAt tx 0
            \<or> (case src_capacityShannons source of None \<Rightarrow> False
               | Some c \<Rightarrow> capacityShannons first + releasedShannons \<noteq> c)
         then refusePolicyRequest policy_refusal ''watchtower remainder''
         else Inr first))"

definition paysDestination :: "transaction \<Rightarrow> watchtower_approval \<Rightarrow> nat \<Rightarrow> cell_output \<Rightarrow> bool" where
  "paysDestination tx approval i out \<longleftrightarrow>
     isSameScript (lock out) (wa_destination approval) \<and> type_script out = None \<and> emptyDataAt tx i"

definition assertPaidOut :: "transaction \<Rightarrow> bool \<Rightarrow> watchtower_approval \<Rightarrow> int \<Rightarrow> unit res" where
  "assertPaidOut tx withRemainder approval releasedShannons =
     (let skipped = (if withRemainder then 1 else 0);
          paid = drop skipped (outputs tx)
      in if length paid = 0 \<or> length paid > MAX_WATCHTOWER_DESTINATION_OUTPUTS
         then refusePolicyRequest policy_refusal ''watchtower destination''
         else if list_ex (\<lambda>(offset, out). \<not> paysDestination tx approval (skipped + offset) out) (entries paid)
         then refusePolicyRequest policy_refusal ''watchtower destination''
         else
           let paidShannons = foldl (\<lambda>s out. s + capacityShannons out) 0 paid in
           if paidShannons < releasedShannons - bigInt (wa_maxFeeShannons approval)
           then refusePolicyRequest policy_refusal ''watchtower destination'' else Inr ())"

section \<open>The claim\<close>

definition repeatVerdict :: "lib \<Rightarrow> watchtower_spend_record \<Rightarrow> string \<Rightarrow> watchtower_spend_verdict res" where
  "repeatVerdict L spend hash =
     (if ws_txHash spend \<noteq> hash then refusePolicyRequest policy_refusal ''watchtower repeat''
      else Inr (SpendAlreadySigned (map_option (hexToBytes L) (ws_signature spend))))"

definition isSameSpendKey :: "watchtower_spend_record \<Rightarrow> watchtower_spend_record \<Rightarrow> bool" where
  "isSameSpendKey s t \<longleftrightarrow> ws_view s = ws_view t \<and> ws_commitmentNumber s = ws_commitmentNumber t
     \<and> ws_tlcEntry s = ws_tlcEntry t"

definition claimedRemainder :: "lib \<Rightarrow> cell_output option \<Rightarrow> recorded_cell option res" where
  "claimedRemainder L remainder =
     (case remainder of
        None \<Rightarrow> Inr None
      | Some out \<Rightarrow>
          bindR (moleculeCellOutput (capacityShannons out) (lock out) (type_script out)) (\<lambda>b.
          Inr (Some \<lparr> rd_output = bytesToHex L b, rd_outputData = [] \<rparr>)))"

definition claimedSpend ::
    "lib \<Rightarrow> watchtower_spend_request \<Rightarrow> spend_source \<Rightarrow> string \<Rightarrow> cell_output option \<Rightarrow> watchtower_spend_record res" where
  "claimedSpend L request source hash remainder =
     bindR (claimedRemainder L remainder) (\<lambda>rem.
     Inr \<lparr> ws_requestId = bytesToHex L (wr_requestId request), ws_purpose = wr_purpose request,
           ws_view = src_view source, ws_commitmentNumber = src_commitmentNumber source,
           ws_tlcEntry = (case su_target (src_unlock source) of
                            TlcTarget i \<Rightarrow> Some (bytesToHex L (tlcEntries (src_unlock source) ! i))
                          | BalanceTarget _ \<Rightarrow> None),
           ws_txHash = hash, ws_remainder = rem, ws_signature = None, ws_applied = False \<rparr>)"

definition claimSpend ::
    "registered_commitment list \<Rightarrow> watchtower_spend_record \<Rightarrow> channel_policy_record
     \<Rightarrow> watchtower_spend_verdict \<times> channel_policy_record" where
  "claimSpend registered spend r =
     (let spends = (case watchtowerSpends r of None \<Rightarrow> [] | Some l \<Rightarrow> l) in
      if list_ex (\<lambda>s. ws_signature s \<noteq> None \<and> isSameSpendKey s spend) spends then (SpendUnclaimed, r)
      else
        let kept = filter (\<lambda>s. \<not> isSameSpendKey s spend \<and>
              list_ex (\<lambda>c. rc_view c = ws_view s \<and> rc_commitmentNumber c = ws_commitmentNumber s) registered) spends
        in (SpendFresh, r\<lparr> watchtowerSpends := Some (kept @ [spend]) \<rparr>))"

definition decideWatchtowerSpend ::
    "lib \<Rightarrow> fiber_channel_keys \<Rightarrow> channel_policy_record \<Rightarrow> watchtower_approval \<Rightarrow> watchtower_spend_request
     \<Rightarrow> (watchtower_spend_verdict \<times> channel_policy_record) res" where
  "decideWatchtowerSpend L keys r approval request =
     bindR (withPolicyRefusal malformed (readSpendStructure L request)) (\<lambda>txHashBytes.
     let hash = bytesToHex L txHashBytes; tx = wr_transaction request in
     bindR (registeredCommitments L r) (\<lambda>registered.
     bindR (findSpendSource L registered tx) (\<lambda>source.
     let forRemote = (src_view source = remote_view) in
     bindR (releasedByKey L keys (wr_purpose request) source forRemote) (\<lambda>rel.
     if list_ex (\<lambda>b. b \<noteq> 0) (su_signature (src_unlock source))
     then refusePolicyRequest malformed ''watchtower placeholder''
     else
       bindR (if re_finalParty rel then Inr None
              else bindR (readRemainder L tx source (re_shannons rel) forRemote) (\<lambda>out. Inr (Some out))) (\<lambda>remainder.
       bindR (assertPaidOut tx (remainder \<noteq> None) approval (re_shannons rel)) (\<lambda>_.
       let spends = (case watchtowerSpends r of None \<Rightarrow> [] | Some l \<Rightarrow> l) in
       case find (\<lambda>s. ws_requestId s = bytesToHex L (wr_requestId request)) spends of
         Some spend \<Rightarrow> bindR (repeatVerdict L spend hash) (\<lambda>v. Inr (v, r))
       | None \<Rightarrow>
           bindR (claimedSpend L request source hash remainder) (\<lambda>spend. Inr (claimSpend registered spend r))))))))"

end
