(* ===== verification/Pins.thy ===== *)
theory Pins
  imports PolicyTypes
begin

text \<open>
  What a channel is pinned to: the opening values (\<^verbatim>\<open>channel-opening.ts\<close>), the values an operation or
  the host states and the first conflict among them (\<^verbatim>\<open>channel-pins.ts\<close>), and the bounds on what an
  operation takes out of the funding cell (\<^verbatim>\<open>capacity-bounds.ts\<close>). A statement is the object the source
  builds, in its order, so the conflict found is the one the source names.
\<close>

section \<open>Statements\<close>

datatype stated_field = Pin pin_field | LocalCloseScript | LocalReservedCkbShannons | UdtTypeScript

text \<open>A value is \<^const>\<open>None\<close> for the \<^verbatim>\<open>null\<close> of a CKB channel's asset; a field left out is \<^verbatim>\<open>undefined\<close>.\<close>

type_synonym stated_pins = "(stated_field, string option) object"

record channel_pin_conflict =
  pc_field :: stated_field
  pc_pinned :: "string option"
  pc_stated :: "string option"

fun layout_name :: "commitment_lock_layout \<Rightarrow> string" where
  "layout_name legacy = ''legacy''"
| "layout_name fullPaymentHash = ''fullPaymentHash''"

definition COMMITMENT_LOCK_LAYOUTS :: "commitment_lock_layout list" where
  "COMMITMENT_LOCK_LAYOUTS = [legacy, fullPaymentHash]"

definition outPointPin :: "lib \<Rightarrow> out_point \<Rightarrow> string" where
  "outPointPin L op = bytesToHex L (txHash op) @ '':'' @ toString (index op)"

definition scriptPin :: "lib \<Rightarrow> script \<Rightarrow> string res" where
  "scriptPin L s = bindR (moleculeScript ''script'' s) (\<lambda>b. Inr (bytesToHex L b))"

definition scriptOptPin :: "lib \<Rightarrow> script option \<Rightarrow> string option res" where
  "scriptOptPin L so = (case so of None \<Rightarrow> Inr None | Some s \<Rightarrow> bindR (scriptPin L s) (\<lambda>h. Inr (Some h)))"

definition fundingCapacityPins :: "script option \<Rightarrow> int \<Rightarrow> int \<Rightarrow> int \<Rightarrow> stated_pins" where
  "fundingCapacityPins udt liquid localReserved remoteReserved =
     (let reserved = localReserved + remoteReserved in
      [(Pin P_liquidCapacityShannons, Some (toString liquid)),
       (Pin P_fundingCapacityShannons, Some (toString (if udt = None then liquid + reserved else reserved))),
       (LocalReservedCkbShannons, Some (toString localReserved)),
       (Pin P_remoteReservedCkbShannons, Some (toString remoteReserved))])"

definition fundingCellPins :: "lib \<Rightarrow> out_point \<Rightarrow> string \<Rightarrow> stated_pins" where
  "fundingCellPins L fundingOutPoint capacity =
     [(Pin P_fundingOutPoint, Some (outPointPin L fundingOutPoint)), (Pin P_fundingCapacityShannons, Some capacity)]"

record policy_channel_terms =
  pt_commitmentFeeRate :: int
  pt_remoteReservedCkbShannons :: string
  pt_liquidCapacityShannons :: string
  pt_remoteCloseScript :: script
  pt_remoteFundingPubkey :: bytes
  pt_remoteTlcBasePubkey :: bytes
  pt_commitmentDelayEpoch :: int

definition channelTermsPins :: "lib \<Rightarrow> policy_channel_terms \<Rightarrow> stated_pins res" where
  "channelTermsPins L t =
     bindR (scriptPin L (pt_remoteCloseScript t)) (\<lambda>close. Inr
       [(Pin P_liquidCapacityShannons, Some (pt_liquidCapacityShannons t)),
        (Pin P_commitmentFeeRate, Some (toString (pt_commitmentFeeRate t))),
        (Pin P_remoteReservedCkbShannons, Some (pt_remoteReservedCkbShannons t)),
        (Pin P_remoteCloseScript, Some close),
        (Pin P_remoteFundingPubkey, Some (bytesToHex L (pt_remoteFundingPubkey t))),
        (Pin P_remoteTlcBasePubkey, Some (bytesToHex L (pt_remoteTlcBasePubkey t))),
        (Pin P_commitmentDelayEpoch, Some (toString (pt_commitmentDelayEpoch t)))])"

fun statedChannelPins :: "lib \<Rightarrow> sign_operation \<Rightarrow> stated_pins res" where
  "statedChannelPins L (OpCommitmentTx i) =
     bindR (scriptOptPin L (ci_udtTypeScript i)) (\<lambda>udt. Inr (
       [(UdtTypeScript, udt), (Pin P_lockLayout, Some (layout_name (ci_lockLayout i)))] @
       fundingCapacityPins (ci_udtTypeScript i) (ci_liquidCapacityShannons i) (ci_localReservedCkbShannons i)
         (ci_remoteReservedCkbShannons i) @
       [(Pin P_fundingOutPoint, Some (outPointPin L (ci_fundingOutPoint i))),
        (Pin P_remoteFundingPubkey, Some (bytesToHex L (ci_remoteFundingPubkey i))),
        (Pin P_remoteTlcBasePubkey, Some (bytesToHex L (ci_remoteTlcBasePubkey i))),
        (Pin P_commitmentDelayEpoch, Some (toString (ci_commitmentDelayEpoch i))),
        (Pin P_commitmentFeeRate, Some (toString (ci_commitmentFeeRate i)))]))"
| "statedChannelPins L (OpClosingTx i) =
     bindR (scriptPin L (cl_localCloseScript i)) (\<lambda>localClose.
     bindR (scriptPin L (cl_remoteCloseScript i)) (\<lambda>remoteClose. Inr
       [(UdtTypeScript, None),
        (Pin P_fundingOutPoint, Some (outPointPin L (cl_fundingOutPoint i))),
        (Pin P_remoteFundingPubkey, Some (bytesToHex L (cl_remoteFundingPubkey i))),
        (LocalCloseScript, Some localClose),
        (Pin P_remoteCloseScript, Some remoteClose)]))"
| "statedChannelPins L (OpRevocation i) =
     bindR (scriptOptPin L (ri_udtTypeScript i)) (\<lambda>udt.
     bindR (if ri_forRemote i then bindR (scriptPin L (ri_payoutScript i)) (\<lambda>p. Inr [(LocalCloseScript, Some p)])
            else Inr []) (\<lambda>payout. Inr (
       [(UdtTypeScript, udt), (Pin P_lockLayout, Some (layout_name (ri_lockLayout i)))] @
       fundingCapacityPins (ri_udtTypeScript i) (ri_liquidCapacityShannons i) (ri_localReservedCkbShannons i)
         (ri_remoteReservedCkbShannons i) @
       [(Pin P_remoteFundingPubkey, Some (bytesToHex L (ri_remoteFundingPubkey i))),
        (Pin P_commitmentDelayEpoch, Some (toString (ri_commitmentDelayEpoch i))),
        (Pin P_commitmentFeeRate, Some (toString (ri_commitmentFeeRate i)))] @ payout)))"
| "statedChannelPins L (OpChannelAnnouncement i) =
     bindR (scriptOptPin L (an_udtTypeScript i)) (\<lambda>udt. Inr
       [(UdtTypeScript, udt),
        (Pin P_fundingOutPoint, Some (outPointPin L (an_fundingOutPoint i))),
        (Pin P_liquidCapacityShannons, Some (toString (an_capacityShannons i))),
        (Pin P_remoteFundingPubkey, Some (bytesToHex L (an_remoteFundingPubkey i)))])"

section \<open>Conflicts\<close>

text \<open>\<^verbatim>\<open>pins[field]\<close>, \<^const>\<open>None\<close> where it is \<^verbatim>\<open>undefined\<close>; the asset is pinned to \<^verbatim>\<open>null\<close>.\<close>

fun pinnedValue :: "channel_pins \<Rightarrow> stated_field \<Rightarrow> string option option" where
  "pinnedValue ps (Pin f) = map_option Some (get (pinned ps) f)"
| "pinnedValue ps LocalCloseScript = Some (Some (localCloseScript ps))"
| "pinnedValue ps UdtTypeScript = Some None"
| "pinnedValue ps LocalReservedCkbShannons = None"

definition plainConflict :: "channel_pins \<Rightarrow> stated_field \<Rightarrow> string option \<Rightarrow> channel_pin_conflict option" where
  "plainConflict ps field stated =
     (case pinnedValue ps field of
        None \<Rightarrow> None
      | Some p \<Rightarrow> if p = stated then None else Some \<lparr> pc_field = field, pc_pinned = p, pc_stated = stated \<rparr>)"

definition reserveConflict ::
    "channel_pins \<Rightarrow> string option \<Rightarrow> string option \<Rightarrow> channel_pin_conflict option res" where
  "reserveConflict ps declared stated =
     (case find (\<lambda>candidate. Some (layout_name candidate) = declared) COMMITMENT_LOCK_LAYOUTS of
        None \<Rightarrow> Inl (TypeErr ''a reserve is stated without the lock layout that sizes it'')
      | Some layout \<Rightarrow>
          let p = get (localReservedCkbShannons ps) layout in
          Inr (if p = stated then None
               else Some \<lparr> pc_field = LocalReservedCkbShannons, pc_pinned = p, pc_stated = stated \<rparr>))"

definition statedLayout :: "stated_pins \<Rightarrow> string option" where
  "statedLayout stated = (case get stated (Pin P_lockLayout) of None \<Rightarrow> None | Some v \<Rightarrow> v)"

fun conflictLoop ::
    "channel_pins \<Rightarrow> string option \<Rightarrow> stated_pins \<Rightarrow> channel_pin_conflict option res" where
  "conflictLoop ps declared [] = Inr None"
| "conflictLoop ps declared ((field, value) # es) =
     bindR (if field = LocalReservedCkbShannons then reserveConflict ps declared value
            else Inr (plainConflict ps field value)) (\<lambda>conflict.
     if conflict \<noteq> None then Inr conflict else conflictLoop ps declared es)"

definition findChannelPinConflict :: "channel_pins \<Rightarrow> stated_pins \<Rightarrow> channel_pin_conflict option res" where
  "findChannelPinConflict ps stated = conflictLoop ps (statedLayout stated) stated"

definition withChannelPins :: "channel_pins \<Rightarrow> stated_pins \<Rightarrow> pin_field list \<Rightarrow> channel_pins" where
  "withChannelPins ps stated flds =
     (let freshFields = filter (\<lambda>f. get (pinned ps) f = None \<and> get stated (Pin f) \<noteq> None) flds in
      if length freshFields = 0 then ps
      else ps\<lparr> pinned := fold (\<lambda>f m. case get stated (Pin f) of Some (Some v) \<Rightarrow> put f v m | _ \<Rightarrow> m)
                           freshFields (pinned ps) \<rparr>)"

section \<open>Opening\<close>

definition reservedCkbShannons :: "script \<Rightarrow> commitment_lock_layout \<Rightarrow> int res" where
  "reservedCkbShannons closeScript layout =
     bindR (assertScript ''closeScript'' closeScript) (\<lambda>_.
     let argsLength = max (length (args closeScript)) (COMMITMENT_LOCK_ARGS_LENGTHS layout);
         occupiedBytes = 8 + 32 + 1 + argsLength
     in Inr (int occupiedBytes * SHANNONS_PER_OCCUPIED_BYTE + RESERVED_SHUTDOWN_FEE_SHANNONS))"

definition assertChannelOpening :: "string \<Rightarrow> script \<Rightarrow> unit res" where
  "assertChannelOpening funded localClose =
     bindR (assertDecimalShannons ''fundedShannons'' funded) (\<lambda>_.
     bindR (assertScript ''localCloseScript'' localClose) (\<lambda>_.
     if bigInt funded \<ge> UINT64_MAX then Inl (RangeErr ''fundedShannons'')
     else bindR (reservedCkbShannons localClose legacy) (\<lambda>reserved.
       if bigInt funded < reserved then Inl (RangeErr ''fundedShannons'') else Inr ())))"

definition openingChannelPins :: "lib \<Rightarrow> string \<Rightarrow> script \<Rightarrow> channel_pins res" where
  "openingChannelPins L funded localClose =
     bindR (assertChannelOpening funded localClose) (\<lambda>_.
     bindR (scriptPin L localClose) (\<lambda>close.
     bindR (reservedCkbShannons localClose legacy) (\<lambda>rl.
     bindR (reservedCkbShannons localClose fullPaymentHash) (\<lambda>rf.
     Inr \<lparr> fundedShannons = funded, localCloseScript = close,
           localReservedCkbShannons = [(legacy, toString rl), (fullPaymentHash, toString rf)],
           pinned = [] \<rparr>))))"

section \<open>Capacity bounds\<close>

definition assertCommitmentFee :: "int \<Rightarrow> unit res" where
  "assertCommitmentFee fee =
     (if fee > MAX_COMMITMENT_FEE_SHANNONS then refusePolicyRequest policy_refusal ''commitment fee'' else Inr ())"

fun judgeCapacityBounds :: "sign_operation \<Rightarrow> unit res" where
  "judgeCapacityBounds (OpCommitmentTx i) =
     bindR (calculateCommitmentTxFee (ci_commitmentFeeRate i) (ci_cellDepsCount i) (ci_udtTypeScript i)
              (ci_commitmentLock i) (ci_lockLayout i)) (\<lambda>fee.
     bindR (assertCommitmentFee fee) (\<lambda>_.
     let paid = foldl (\<lambda>s t. s + st_amountShannons t)
                  (ci_settlementLocalShannons i + ci_settlementRemoteShannons i) (ci_tlcs i)
     in if paid > ci_liquidCapacityShannons i then refusePolicyRequest policy_refusal ''settlement above liquid capacity''
        else Inr ()))"
| "judgeCapacityBounds (OpRevocation i) =
     bindR (calculateCommitmentTxFee (ri_commitmentFeeRate i) (ri_cellDepsCount i) (ri_udtTypeScript i)
              (ri_commitmentLock i) (ri_lockLayout i)) assertCommitmentFee"
| "judgeCapacityBounds (OpClosingTx i) = Inr ()"
| "judgeCapacityBounds (OpChannelAnnouncement i) = Inr ()"

section \<open>Facts\<close>

lemma plainConflict_None_iff:
  "plainConflict ps field v = None \<longleftrightarrow> (\<forall>p. pinnedValue ps field = Some p \<longrightarrow> p = v)"
  by (auto simp: plainConflict_def split: option.splits)

lemma conflictLoop_None:
  "conflictLoop ps declared es = Inr None \<Longrightarrow> (field, v) \<in> set es \<Longrightarrow> field \<noteq> LocalReservedCkbShannons \<Longrightarrow>
   pinnedValue ps field = Some p \<Longrightarrow> p = v"
proof (induction ps declared es rule: conflictLoop.induct)
  case (2 ps declared f w es)
  then show ?case
    by (cases "f = LocalReservedCkbShannons")
       (auto simp: bindR_Inr_iff plainConflict_None_iff split: if_splits)
qed simp

lemma conflictLoop_None_reserve:
  "conflictLoop ps declared es = Inr None \<Longrightarrow> (LocalReservedCkbShannons, v) \<in> set es \<Longrightarrow>
   \<exists>layout. declared = Some (layout_name layout) \<and> get (localReservedCkbShannons ps) layout = v"
proof (induction ps declared es rule: conflictLoop.induct)
  case (2 ps declared f w es)
  then show ?case
    by (cases "(f, w) = (LocalReservedCkbShannons, v)")
       (auto simp: bindR_Inr_iff reserveConflict_def Let_def find_Some_iff
          split: if_splits option.splits)
qed simp

definition statedValue :: "stated_pins \<Rightarrow> pin_field \<Rightarrow> string option" where
  "statedValue stated f = (case get stated (Pin f) of Some (Some v) \<Rightarrow> Some v | _ \<Rightarrow> None)"

lemma fold_pins:
  "get (fold (\<lambda>f m. case get stated (Pin f) of Some (Some v) \<Rightarrow> put f v m | _ \<Rightarrow> m) fs m) g =
     (if g \<in> set fs \<and> statedValue stated g \<noteq> None then statedValue stated g else get m g)"
proof (induction fs arbitrary: m)
  case (Cons f fs)
  then show ?case
    by (auto simp: statedValue_def get_put split: option.splits)
qed simp

lemma withChannelPins_get:
  "get (pinned (withChannelPins ps stated flds)) f =
     (case get (pinned ps) f of
        Some v \<Rightarrow> Some v
      | None \<Rightarrow> if f \<in> set flds then statedValue stated f else None)"
proof -
  let ?fresh = "filter (\<lambda>f. get (pinned ps) f = None \<and> get stated (Pin f) \<noteq> None) flds"
  show ?thesis
  proof (cases "?fresh = []")
    case True
    then have "f \<in> set flds \<Longrightarrow> get (pinned ps) f = None \<Longrightarrow> get stated (Pin f) = None"
      unfolding filter_empty_conv by blast
    with True show ?thesis
      by (auto simp: withChannelPins_def statedValue_def split: option.splits)
  next
    case False
    then show ?thesis
      by (auto simp: withChannelPins_def Let_def fold_pins statedValue_def split: option.splits)
  qed
qed

lemma withChannelPins_fixed [simp]:
  "fundedShannons (withChannelPins ps stated flds) = fundedShannons ps"
  "localCloseScript (withChannelPins ps stated flds) = localCloseScript ps"
  "localReservedCkbShannons (withChannelPins ps stated flds) = localReservedCkbShannons ps"
  by (simp_all add: withChannelPins_def Let_def)

text \<open>The order of pins over a channel's life: the registered values stay and no pin moves once set.\<close>

definition pins_extend :: "channel_pins \<Rightarrow> channel_pins \<Rightarrow> bool" where
  "pins_extend ps ps' \<longleftrightarrow>
     fundedShannons ps' = fundedShannons ps \<and> localCloseScript ps' = localCloseScript ps \<and>
     localReservedCkbShannons ps' = localReservedCkbShannons ps \<and>
     (\<forall>f v. get (pinned ps) f = Some v \<longrightarrow> get (pinned ps') f = Some v)"

lemma pins_extend_refl [simp, intro]: "pins_extend ps ps"
  by (simp add: pins_extend_def)

lemma pins_extend_trans: "pins_extend a b \<Longrightarrow> pins_extend b c \<Longrightarrow> pins_extend a c"
  by (simp add: pins_extend_def)

lemma pins_extend_withChannelPins [simp, intro]: "pins_extend ps (withChannelPins ps stated flds)"
  by (auto simp: pins_extend_def withChannelPins_get)

end
