(* ===== verification/Balance.thy ===== *)
theory Balance
  imports Pins
begin

text \<open>
  The balance rule (\<^verbatim>\<open>balance-rule.ts\<close>): what a commitment may take from the device, per view, and what
  it charges to debit intents and credits to hold invoices; and the release rule of a hold invoice
  (\<^verbatim>\<open>hold-invoice-release.ts\<close>). Amounts stay the decimal strings the records keep.
\<close>

section \<open>TLCs of a view\<close>

fun direction_name :: "tlc_direction \<Rightarrow> string" where
  "direction_name offered = ''offered''"
| "direction_name received = ''received''"

fun hash_algorithm_name :: "tlc_hash_algorithm \<Rightarrow> string" where
  "hash_algorithm_name CkbHash = ''ckb-hash''"
| "hash_algorithm_name Sha256 = ''sha256''"

definition tlcKey :: "policy_view_tlc \<Rightarrow> string" where
  "tlcKey t =
     (let hashes = pv_boundPaymentHash t @ '':'' @ (case pv_fullPaymentHash t of None \<Rightarrow> [] | Some h \<Rightarrow> h)
      in direction_name (pv_direction t) @ '':'' @ hash_algorithm_name (pv_hashAlgorithm t) @ '':'' @ hashes @ '':''
         @ pv_amountShannons t @ '':'' @ pv_expirySeconds t)"

text \<open>The order of \<^verbatim>\<open><\<close> on strings, by code unit; \<^verbatim>\<open>sort\<close> is an insertion sort here, both being stable.\<close>

fun compareStrings :: "string \<Rightarrow> string \<Rightarrow> int" where
  "compareStrings [] [] = 0"
| "compareStrings [] (b # bs) = -1"
| "compareStrings (a # as) [] = 1"
| "compareStrings (a # as) (b # bs) =
     (if a = b then compareStrings as bs else if (of_char a :: nat) < of_char b then -1 else 1)"

fun insertTlc :: "policy_view_tlc \<Rightarrow> policy_view_tlc list \<Rightarrow> policy_view_tlc list" where
  "insertTlc t [] = [t]"
| "insertTlc t (u # us) = (if compareStrings (tlcKey t) (tlcKey u) \<le> 0 then t # u # us else u # insertTlc t us)"

definition sortTlcs :: "policy_view_tlc list \<Rightarrow> policy_view_tlc list" where
  "sortTlcs ts = foldr insertTlc ts []"

definition toPolicyViewTlc :: "lib \<Rightarrow> commitment_lock_layout \<Rightarrow> settlement_tlc \<Rightarrow> policy_view_tlc" where
  "toPolicyViewTlc L layout t =
     \<lparr> pv_direction = st_direction t, pv_hashAlgorithm = st_hashAlgorithm t,
       pv_boundPaymentHash = bytesToHex L (truncatePaymentHash (st_paymentHash t)),
       pv_fullPaymentHash = (if layout = fullPaymentHash then Some (bytesToHex L (st_paymentHash t)) else None),
       pv_amountShannons = toString (st_amountShannons t),
       pv_expirySeconds = toString (st_expiryMs t div MILLISECONDS_PER_SECOND) \<rparr>"

definition toPolicyViewTlcs :: "lib \<Rightarrow> settlement_tlc list \<Rightarrow> commitment_lock_layout \<Rightarrow> policy_view_tlc list" where
  "toPolicyViewTlcs L ts layout = sortTlcs (map (toPolicyViewTlc L layout) ts)"

abbreviation amount_of :: "policy_view_tlc \<Rightarrow> int" where
  "amount_of t \<equiv> bigInt (pv_amountShannons t)"

definition readAmount :: "(string, string) object \<Rightarrow> string \<Rightarrow> int" where
  "readAmount amounts h = bigInt (case get amounts h of None \<Rightarrow> ''0'' | Some s \<Rightarrow> s)"

fun differenceLoop :: "(string, nat) object \<Rightarrow> policy_view_tlc list \<Rightarrow> policy_view_tlc list" where
  "differenceLoop remaining [] = []"
| "differenceLoop remaining (t # ts) =
     (let count = (case get remaining (tlcKey t) of None \<Rightarrow> 0 | Some n \<Rightarrow> n)
      in if count = 0 then t # differenceLoop remaining ts
         else differenceLoop (put (tlcKey t) (count - 1) remaining) ts)"

definition multisetDifference :: "policy_view_tlc list \<Rightarrow> policy_view_tlc list \<Rightarrow> policy_view_tlc list" where
  "multisetDifference from remove =
     (let remaining = foldl (\<lambda>m t. put (tlcKey t) ((case get m (tlcKey t) of None \<Rightarrow> 0 | Some n \<Rightarrow> n) + 1) m) [] remove
      in differenceLoop remaining from)"

definition sumByHash :: "policy_view_tlc list \<Rightarrow> tlc_direction \<Rightarrow> (string, int) object" where
  "sumByHash ts dir =
     foldl (\<lambda>sums t. if pv_direction t \<noteq> dir then sums
             else put (pv_boundPaymentHash t)
               ((case get sums (pv_boundPaymentHash t) of None \<Rightarrow> 0 | Some s \<Rightarrow> s) + amount_of t) sums) [] ts"

definition drawnBy :: "policy_view_tlc list \<Rightarrow> (string, string) object \<Rightarrow> string \<Rightarrow> int" where
  "drawnBy ts charged h =
     (case get (sumByHash ts offered) h of None \<Rightarrow> 0 | Some s \<Rightarrow> s) + readAmount charged h"

definition holdings :: "int \<Rightarrow> policy_view_tlc list \<Rightarrow> int" where
  "holdings exposure ts = foldl (\<lambda>s t. if pv_direction t = offered then s + amount_of t else s) exposure ts"

section \<open>Payment records\<close>

definition intentOf :: "balance_rule_context \<Rightarrow> policy_view_tlc \<Rightarrow> debit_intent_record option" where
  "intentOf ctx t =
     (case intents ctx (pv_boundPaymentHash t) of
        None \<Rightarrow> None
      | Some i \<Rightarrow> if isTlcOfPaymentRecord t (di_paymentHash i) then Some i else None)"

definition invoiceOf :: "balance_rule_context \<Rightarrow> policy_view_tlc \<Rightarrow> hold_invoice_record option" where
  "invoiceOf ctx t =
     (case invoices ctx (pv_boundPaymentHash t) of
        None \<Rightarrow> None
      | Some i \<Rightarrow> if isTlcOfPaymentRecord t (hi_paymentHash i) then Some i else None)"

definition isReleasedTlc :: "balance_rule_context \<Rightarrow> policy_view_tlc \<Rightarrow> bool" where
  "isReleasedTlc ctx t = (case invoiceOf ctx t of None \<Rightarrow> False | Some i \<Rightarrow> hi_released i)"

definition creditedAcross :: "(string, string) object \<Rightarrow> balance_rule_context \<Rightarrow> string \<Rightarrow> int" where
  "creditedAcross credited ctx h =
     foldl (\<lambda>s other. s + min (readAmount (creditedShannons (other remote_view)) h)
                               (readAmount (creditedShannons (other local_view)) h))
       (readAmount credited h) (otherChannels ctx)"

section \<open>Credits and charges\<close>

text \<open>The loop over the received TLCs that left: the credits, their sum, and what came in unasked.\<close>

fun creditLoop ::
    "balance_rule_context \<Rightarrow> policy_view_tlc list \<Rightarrow> (string, string) object \<Rightarrow> int \<Rightarrow> int
     \<Rightarrow> (string, string) object \<times> int \<times> int" where
  "creditLoop ctx [] credited credit uncredited = (credited, credit, uncredited)"
| "creditLoop ctx (t # ts) credited credit uncredited =
     (if pv_direction t \<noteq> received then creditLoop ctx ts credited credit uncredited
      else let amount = amount_of t in
        case invoiceOf ctx t of
          None \<Rightarrow> creditLoop ctx ts credited credit (uncredited + amount)
        | Some invoice \<Rightarrow>
            if \<not> hi_released invoice then creditLoop ctx ts credited credit uncredited
            else
              let h = pv_boundPaymentHash t;
                  owed = bigInt (hi_amountShannons invoice) - creditedAcross credited ctx h;
                  now = min amount (max owed 0);
                  credited' = (if now > 0 then put h (toString (readAmount credited h + now)) credited else credited)
              in creditLoop ctx ts credited' (credit + now) (uncredited + (amount - now)))"

definition subsetSum :: "int list \<Rightarrow> nat \<Rightarrow> int" where
  "subsetSum amounts sub = foldl (\<lambda>s (i, a). if bit sub i then s + a else s) 0 (entries amounts)"

text \<open>The loop over the subsets, as bit masks from 1 to \<open>2 ^ n - 1\<close>, collecting the indexes of those that fit.\<close>

definition chargedIndexes :: "int list \<Rightarrow> int \<Rightarrow> int \<Rightarrow> nat set" where
  "chargedIndexes amounts lowest highest =
     fold (\<lambda>sub charged.
             let s = subsetSum amounts sub in
             if s < lowest \<or> s > highest then charged
             else charged \<union> set (filter (bit sub) [0..<length amounts]))
       [1..<2 ^ length amounts] {}"

definition filterIndexes :: "nat set \<Rightarrow> 'a list \<Rightarrow> 'a list" where
  "filterIndexes keep xs = map snd (filter (\<lambda>(i, x). i \<in> keep) (entries xs))"

definition chargedTlcs :: "policy_view_tlc list \<Rightarrow> int \<Rightarrow> int \<Rightarrow> policy_view_tlc list res" where
  "chargedTlcs left shortfall uncreditedReceived =
     (let off = filter (\<lambda>t. pv_direction t = offered) left;
          total = foldl (\<lambda>s t. s + amount_of t) 0 off
      in if total < shortfall then refusePolicyRequest policy_refusal ''holdings: no offered TLC took it''
         else
           let lowest = max shortfall 0; highest = shortfall + uncreditedReceived in
           if length off = 0 \<or> highest \<le> 0 then Inr []
           else if length off > MAX_EXACT_CHARGE_TLCS then Inr off
           else
             let charged = chargedIndexes (map amount_of off) lowest highest in
             if charged = {} \<and> shortfall > 0
             then refusePolicyRequest policy_refusal ''holdings: no set of offered TLCs accounts for it''
             else Inr (filterIndexes charged off))"

definition addCharge :: "policy_view_tlc \<Rightarrow> (string, string) object \<Rightarrow> (string, string) object" where
  "addCharge t charged =
     put (pv_boundPaymentHash t) (toString (readAmount charged (pv_boundPaymentHash t) + amount_of t)) charged"

section \<open>Judging a commitment\<close>

fun other_view :: "policy_view \<Rightarrow> policy_view" where
  "other_view remote_view = local_view"
| "other_view local_view = remote_view"

definition checkIntentHash :: "balance_rule_context \<Rightarrow> policy_view_tlc \<Rightarrow> unit res" where
  "checkIntentHash ctx t =
     (if pv_direction t = offered \<and> intents ctx (pv_boundPaymentHash t) \<noteq> None \<and> intentOf ctx t = None
      then refusePolicyRequest policy_refusal ''intent: another full hash'' else Inr ())"

definition drawnOtherChannels :: "balance_rule_context \<Rightarrow> string \<Rightarrow> int" where
  "drawnOtherChannels ctx h =
     foldl (\<lambda>s other. s + max (drawnBy (tlcs (other remote_view)) (chargedShannons (other remote_view)) h)
                               (drawnBy (tlcs (other local_view)) (chargedShannons (other local_view)) h))
       0 (otherChannels ctx)"

definition checkBudget ::
    "balance_rule_context \<Rightarrow> (string \<Rightarrow> int) \<Rightarrow> (string \<Rightarrow> int) \<Rightarrow> (string \<Rightarrow> int) \<Rightarrow> string \<Rightarrow> unit res" where
  "checkBudget ctx drawnAfter drawnBefore drawnOtherView h =
     (let drawnHere = drawnAfter h in
      if drawnHere \<le> max (drawnBefore h) (drawnOtherView h) then Inr ()
      else case intents ctx h of
        None \<Rightarrow> refusePolicyRequest policy_refusal ''budget: no debit intent''
      | Some intent \<Rightarrow>
          if \<not> di_open intent then refusePolicyRequest policy_refusal ''budget: intent closed''
          else if drawnHere + drawnOtherChannels ctx h > bigInt (di_maxShannons intent)
          then refusePolicyRequest policy_refusal ''budget: above the intent''
          else Inr ())"

text \<open>\<^verbatim>\<open>mixesReleasedHeld(lists, context, kinds)\<close>, \<open>both\<close> for the kinds \<^verbatim>\<open>"both"\<close>.\<close>

definition mixesReleasedHeld :: "policy_view_tlc list list \<Rightarrow> balance_rule_context \<Rightarrow> bool \<Rightarrow> bool" where
  "mixesReleasedHeld tlcLists ctx both =
     (let ts = concat tlcLists;
          off = list_ex (\<lambda>t. pv_direction t = offered) ts;
          releasedHeld = list_ex (\<lambda>t. pv_direction t = received \<and> isReleasedTlc ctx t) ts
      in if both then off \<and> releasedHeld else off \<or> releasedHeld)"

definition checkAlgorithm :: "balance_rule_context \<Rightarrow> policy_view_tlc \<Rightarrow> unit res" where
  "checkAlgorithm ctx t =
     (case invoiceOf ctx t of
        None \<Rightarrow> Inr ()
      | Some invoice \<Rightarrow>
          if pv_direction t = received \<and> hi_released invoice \<and> pv_hashAlgorithm t \<noteq> hi_hashAlgorithm invoice
          then refusePolicyRequest policy_refusal ''another algorithm than its released invoice'' else Inr ())"

definition judgeCommitment ::
    "policy_view \<Rightarrow> (policy_view \<Rightarrow> policy_view_snapshot) \<Rightarrow> balance_rule_commitment \<Rightarrow> balance_rule_context
     \<Rightarrow> policy_view_snapshot res" where
  "judgeCommitment view vs next ctx =
     bindR (forR (checkIntentHash ctx) (bc_tlcs next)) (\<lambda>_.
     let previous = vs view;
         left = multisetDifference (tlcs previous) (bc_tlcs next);
         (credited, credit, uncreditedReceived) = creditLoop ctx left (creditedShannons previous) 0 0;
         shortfall = holdings (bigInt (exposureShannons previous)) (tlcs previous) + credit
           - holdings (bc_exposureShannons next) (bc_tlcs next)
     in bindR (chargedTlcs left shortfall uncreditedReceived) (\<lambda>chargedNow.
     let charged = fold addCharge chargedNow (chargedShannons previous);
         otherView = vs (other_view view);
         drawnBefore = drawnBy (tlcs previous) (chargedShannons previous);
         drawnAfter = drawnBy (bc_tlcs next) charged;
         drawnOtherView = drawnBy (tlcs otherView) (chargedShannons otherView)
     in bindR (forR (checkBudget ctx drawnAfter drawnBefore drawnOtherView)
                 (map fst (sumByHash (bc_tlcs next) offered))) (\<lambda>_.
     let grows = mixesReleasedHeld [multisetDifference (bc_tlcs next) (tlcs previous)] ctx False;
         mixedBefore = mixesReleasedHeld [tlcs previous, tlcs otherView] ctx True
     in if mixesReleasedHeld [bc_tlcs next, tlcs otherView] ctx True \<and> (\<not> mixedBefore \<or> grows)
        then refusePolicyRequest policy_refusal ''an offered TLC beside a released held one''
        else bindR (forR (checkAlgorithm ctx) (multisetDifference (bc_tlcs next) (tlcs previous))) (\<lambda>_.
          Inr \<lparr> exposureShannons = toString (bc_exposureShannons next), tlcs = bc_tlcs next,
                chargedShannons = charged, creditedShannons = credited \<rparr>))))"

definition judgeOpeningCommitment :: "string \<Rightarrow> balance_rule_commitment \<Rightarrow> unit res" where
  "judgeOpeningCommitment funded next =
     (if length (bc_tlcs next) > 0 then refusePolicyRequest policy_refusal ''opening: lists TLCs''
      else if bc_exposureShannons next \<noteq> bigInt funded
      then refusePolicyRequest policy_refusal ''opening: not what was funded''
      else Inr ())"

definition judgeClosingView ::
    "(policy_view \<Rightarrow> policy_view_snapshot) \<Rightarrow> int \<Rightarrow> policy_view \<Rightarrow> unit res" where
  "judgeClosingView vs localCapacity view =
     (let snapshot = vs view in
      if length (tlcs snapshot) > 0 then refusePolicyRequest policy_refusal ''close: TLCs left''
      else if localCapacity + MAX_SHUTDOWN_FEE_SHANNONS < bigInt (exposureShannons snapshot)
      then refusePolicyRequest policy_refusal ''close: pays too little''
      else Inr ())"

definition judgeClosingTx :: "(policy_view \<Rightarrow> policy_view_snapshot) \<Rightarrow> int \<Rightarrow> unit res" where
  "judgeClosingTx vs localCapacity = forR (judgeClosingView vs localCapacity) POLICY_VIEWS"

section \<open>Releasing a hold invoice\<close>

datatype hold_invoice_error_code = offered_in_flight | algorithm_mismatch | not_held | expiry_too_close

fun hold_invoice_error :: "hold_invoice_error_code \<Rightarrow> error" where
  "hold_invoice_error offered_in_flight = HostErr ''offered_in_flight''"
| "hold_invoice_error algorithm_mismatch = HostErr ''algorithm_mismatch''"
| "hold_invoice_error not_held = HostErr ''not_held''"
| "hold_invoice_error expiry_too_close = HostErr ''expiry_too_close''"

definition sumAmounts :: "policy_view_tlc list \<Rightarrow> int" where
  "sumAmounts ts = foldl (\<lambda>s t. s + amount_of t) 0 ts"

definition listHoldInvoiceTlcs :: "lib \<Rightarrow> policy_view_snapshot \<Rightarrow> hold_invoice_record \<Rightarrow> policy_view_tlc list" where
  "listHoldInvoiceTlcs L snapshot invoice =
     (let key = boundPaymentHashOf L (hi_paymentHash invoice)
      in filter (\<lambda>t. pv_boundPaymentHash t = key \<and> isTlcOfPaymentRecord t (hi_paymentHash invoice)) (tlcs snapshot))"

record release_channel =
  rl_index :: int
  rl_commitmentDelayEpoch :: "string option"
  rl_views :: "policy_view \<Rightarrow> policy_view_snapshot"

record held_channel =
  hc_index :: int
  hc_commitmentDelayEpoch :: "string option"
  hc_tlcs :: "policy_view_tlc list"
  hc_amount :: int

definition heldChannel :: "lib \<Rightarrow> hold_invoice_record \<Rightarrow> release_channel \<Rightarrow> held_channel res" where
  "heldChannel L invoice c =
     (let listedRemote = listHoldInvoiceTlcs L (rl_views c remote_view) invoice;
          listedLocal = listHoldInvoiceTlcs L (rl_views c local_view) invoice;
          ts = listedRemote @ listedLocal
      in if list_ex (\<lambda>t. pv_hashAlgorithm t \<noteq> hi_hashAlgorithm invoice) ts then Inl (hold_invoice_error algorithm_mismatch)
         else if length ts > 0 \<and>
           list_ex (\<lambda>v. list_ex (\<lambda>t. pv_direction t = offered) (tlcs (rl_views c v))) POLICY_VIEWS
         then Inl (hold_invoice_error offered_in_flight)
         else Inr \<lparr> hc_index = rl_index c, hc_commitmentDelayEpoch = rl_commitmentDelayEpoch c, hc_tlcs = ts,
                    hc_amount = (if sumAmounts listedRemote < sumAmounts listedLocal
                                 then sumAmounts listedRemote else sumAmounts listedLocal) \<rparr>)"

text \<open>The margin function \<^verbatim>\<open>timing.releaseMarginMs\<close> is the host's: a parameter.\<close>

definition releaseMargin :: "string option \<Rightarrow> (int \<Rightarrow> int) \<Rightarrow> int res" where
  "releaseMargin delay releaseMarginMs =
     (case delay of
        None \<Rightarrow> Inl (TypeErr ''pins no commitment delay'')
      | Some d \<Rightarrow>
          let margin = releaseMarginMs (bigInt d) in
          bindR (assertUnsignedBigInt ''the release margin'' margin UINT64_MAX) (\<lambda>_. Inr margin))"

definition checkExpiry :: "int \<Rightarrow> policy_view_tlc \<Rightarrow> unit res" where
  "checkExpiry deadline t =
     (if bigInt (pv_expirySeconds t) * MILLISECONDS_PER_SECOND \<le> deadline
      then Inl (hold_invoice_error expiry_too_close) else Inr ())"

definition checkDeadline :: "int \<Rightarrow> (int \<Rightarrow> int) \<Rightarrow> held_channel \<Rightarrow> unit res" where
  "checkDeadline nowMs releaseMarginMs h =
     (if length (hc_tlcs h) = 0 then Inr ()
      else bindR (releaseMargin (hc_commitmentDelayEpoch h) releaseMarginMs) (\<lambda>margin.
        forR (checkExpiry (nowMs + margin)) (hc_tlcs h)))"

definition judgeHoldInvoiceRelease ::
    "lib \<Rightarrow> hold_invoice_record \<Rightarrow> release_channel list \<Rightarrow> int \<Rightarrow> (int \<Rightarrow> int) \<Rightarrow> unit res" where
  "judgeHoldInvoiceRelease L invoice channels nowMs releaseMarginMs =
     bindR (mapR (heldChannel L invoice) channels) (\<lambda>held.
     let amount = foldl (\<lambda>s h. s + hc_amount h) 0 held in
     if amount < bigInt (hi_amountShannons invoice) then Inl (hold_invoice_error not_held)
     else forR (checkDeadline nowMs releaseMarginMs) held)"

end
