(* ===== verification/Claims.thy ===== *)
theory Claims
  imports Balance
begin

text \<open>
  The decision on a signing request (\<^verbatim>\<open>policy-engine.ts\<close>): the message rebuilt from the attached
  state, the sign-once registry, the lanes, the commitment versions, the pins and the balance rule;
  and the other updates of a channel's record (registration, revocation evidence, host pins). Each
  function maps the record before to the record to write, the one given when nothing changes.
\<close>

section \<open>Claims\<close>

record signed_commitment =
  cm_view :: policy_view
  cm_record :: signed_commitment_record

record claim =
  cl_slot :: sign_slot_claim
  cl_sessionCommitment :: string
  cl_message :: string
  cl_nonceReuse :: nonce_reuse_mode
  cl_operation :: sign_operation
  cl_commitment :: "signed_commitment option"
  cl_tlcs :: "policy_view_tlc list"

definition viewOf :: "bool \<Rightarrow> policy_view" where
  "viewOf forRemote = (if forRemote then remote_view else local_view)"

definition openingSnapshot :: "string \<Rightarrow> policy_view_snapshot" where
  "openingSnapshot exposure = \<lparr> exposureShannons = exposure, tlcs = [], chargedShannons = [], creditedShannons = [] \<rparr>"

fun rebuildOperation ::
    "lib \<Rightarrow> fiber_channel_keys \<Rightarrow> sign_operation \<Rightarrow> (bytes \<times> signed_commitment option) res" where
  "rebuildOperation L keys (OpCommitmentTx i) =
     bindR (buildCommitmentTxAndSettlement L keys i) (\<lambda>(tx, settlementWitness).
     bindR (computeTxMessage L tx) (\<lambda>message.
     let out = hd (outputs tx); outData = hd (outputsData tx) in
     bindR (moleculeCellOutput (capacityShannons out) (lock out) (type_script out)) (\<lambda>cell.
     Inr (message, Some \<lparr> cm_view = viewOf (ci_forRemote i),
       cm_record = \<lparr> sc_commitmentNumber = ci_commitmentNumber i, sc_txHash = bytesToHex L message,
         sc_source = Some \<lparr> rd_output = bytesToHex L cell, rd_outputData = bytesToHex L outData \<rparr>,
         sc_settlementWitness = Some (bytesToHex L settlementWitness) \<rparr> \<rparr>))))"
| "rebuildOperation L keys (OpClosingTx i) = bindR (computeClosingTxDigest L keys i) (\<lambda>m. Inr (m, None))"
| "rebuildOperation L keys (OpRevocation i) = bindR (computeRevocationDigest L keys i) (\<lambda>m. Inr (m, None))"
| "rebuildOperation L keys (OpChannelAnnouncement i) =
     bindR (computeChannelAnnouncementDigest L keys i) (\<lambda>m. Inr (m, None))"

section \<open>Versions\<close>

definition assertRemoteSuccessor :: "channel_policy_record \<Rightarrow> int \<Rightarrow> int \<Rightarrow> unit res" where
  "assertRemoteSuccessor current version lastOne =
     (if version \<noteq> lastOne + 1 then refusePolicyRequest stale_state ''remote commitment: not one above the last''
      else if get (signedSessions current) (signSlotKey COMMITMENT (lastOne - 1)) = None then Inr ()
      else
        let revoked = get (lastSignedCommitmentNumbers current) REVOKE_local;
            recorded = list_ex (\<lambda>r. re_version r = lastOne - 1) (revocations current)
        in if revoked = None then refusePolicyRequest stale_state ''remote commitment: nothing signed on REVOKE:local''
           else if revoked \<noteq> Some lastOne then refusePolicyRequest stale_state ''remote commitment: another REVOKE:local''
           else if \<not> recorded then refusePolicyRequest stale_state ''remote commitment: revocation not recorded''
           else Inr ())"

definition nextCommitments ::
    "channel_policy_record \<Rightarrow> signed_commitment option
     \<Rightarrow> ((policy_view, signed_commitment_record) object \<times> previous_remote_commitment_record option) res" where
  "nextCommitments current commitment =
     (case commitment of
        None \<Rightarrow> Inr (commitmentHashes current, previousRemoteCommitment current)
      | Some c \<Rightarrow>
          let view = cm_view c;
              number = sc_commitmentNumber (cm_record c);
              lastOne = get (commitmentHashes current) view;
              nextHashes = put view (cm_record c) (commitmentHashes current)
          in if view = local_view then
               (case lastOne of
                  Some l \<Rightarrow>
                    if number \<le> sc_commitmentNumber l
                    then refusePolicyRequest stale_state ''local commitment: not above the last''
                    else Inr (nextHashes, previousRemoteCommitment current)
                | None \<Rightarrow> Inr (nextHashes, previousRemoteCommitment current))
             else
               (case lastOne of
                  None \<Rightarrow> Inr (nextHashes, previousRemoteCommitment current)
                | Some l \<Rightarrow>
                    bindR (assertRemoteSuccessor current number (sc_commitmentNumber l)) (\<lambda>_.
                    Inr (nextHashes,
                      (case (sc_source l, sc_settlementWitness l) of
                         (Some src, Some w) \<Rightarrow>
                           Some \<lparr> pr_commitmentNumber = sc_commitmentNumber l, pr_source = src, pr_settlementWitness = w \<rparr>
                       | _ \<Rightarrow> None)))))"

definition assertReplacementSigned :: "channel_policy_record \<Rightarrow> sign_operation \<Rightarrow> int \<Rightarrow> unit res" where
  "assertReplacementSigned current op slotNumber =
     (case op of
        OpRevocation i \<Rightarrow>
          if map_option sc_commitmentNumber (get (commitmentHashes current) (viewOf (ri_forRemote i))) \<noteq> Some slotNumber
          then refusePolicyRequest stale_state ''revocation: replacement not signed'' else Inr ()
      | _ \<Rightarrow> Inr ())"

section \<open>Pins and balance\<close>

definition pinClaim :: "lib \<Rightarrow> channel_pins \<Rightarrow> sign_operation \<Rightarrow> channel_pins res" where
  "pinClaim L ps op =
     bindR (statedChannelPins L op) (\<lambda>stated.
     bindR (findChannelPinConflict ps stated) (\<lambda>conflict.
     if conflict \<noteq> None then refusePolicyRequest policy_refusal ''pin conflict''
     else if find (\<lambda>f. get stated (Pin f) \<noteq> None \<and> get (pinned ps) f = None) CHANNEL_TERMS_PINS \<noteq> None
     then refusePolicyRequest policy_refusal ''term not pinned by the host''
     else bindR (judgeCapacityBounds op) (\<lambda>_.
       Inr (withChannelPins ps stated FIRST_SIGHT_CHANNEL_PINS))))"

definition applyBalanceRule ::
    "channel_policy_record \<Rightarrow> claim \<Rightarrow> balance_rule_context \<Rightarrow> (policy_view \<Rightarrow> policy_view_snapshot) res" where
  "applyBalanceRule current c ctx =
     (case cl_operation c of
        OpCommitmentTx i \<Rightarrow>
          let view = viewOf (ci_forRemote i);
              next = \<lparr> bc_exposureShannons = ci_settlementLocalShannons i + ci_localReservedCkbShannons i,
                       bc_tlcs = cl_tlcs c \<rparr>
          in bindR (if get (lastSignedCommitmentNumbers current) COMMITMENT_local = None
                    then judgeOpeningCommitment (fundedShannons (pins current)) next else Inr ()) (\<lambda>_.
             bindR (judgeCommitment view (views current) next ctx) (\<lambda>s.
             Inr ((views current)(view := s))))
      | OpClosingTx i \<Rightarrow> bindR (judgeClosingTx (views current) (cl_localCapacityShannons i)) (\<lambda>_. Inr (views current))
      | OpRevocation _ \<Rightarrow> Inr (views current)
      | OpChannelAnnouncement _ \<Rightarrow> Inr (views current))"

section \<open>The decision\<close>

definition verdict_of :: "sign_slot_claim \<Rightarrow> verdict_status \<Rightarrow> policy_verdict" where
  "verdict_of slot status =
     \<lparr> vd_context = sl_context slot, vd_commitmentNumber = sl_commitmentNumber slot, vd_status = status \<rparr>"

definition decideClaim ::
    "lib \<Rightarrow> claim \<Rightarrow> channel_policy_record \<Rightarrow> balance_rule_context
     \<Rightarrow> (policy_verdict \<times> channel_policy_record) res" where
  "decideClaim L c current ctx =
     (let slot = cl_slot c;
          number = sl_commitmentNumber slot;
          slotKey = signSlotKey (sl_context slot) number;
          served = get (signedSessions current) slotKey;
          reusedEntry = get (nonceReuse current) slotKey
      in if served = Some (cl_sessionCommitment c) then Inr (verdict_of slot already_signed, current)
         else if map_option nr_sessionCommitment reusedEntry = Some (cl_sessionCommitment c)
         then Inr (verdict_of slot reused, current)
         else
           bindR (check (\<not> (served \<noteq> None \<and> reusedEntry \<noteq> None))
                    (PolicyRefusalErr policy_refusal ''slot: two sessions served'')) (\<lambda>_.
           bindR (check (\<not> (served \<noteq> None \<and> cl_nonceReuse c = reuse_refuse))
                    (PolicyRefusalErr policy_refusal ''slot: another session served'')) (\<lambda>_.
           bindR (case get (lastSignedCommitmentNumbers current) (sl_lane slot) of
                    None \<Rightarrow> Inr ()
                  | Some lastSigned \<Rightarrow>
                      if (if served = None then number \<le> lastSigned else number < lastSigned)
                      then refusePolicyRequest stale_state ''lane'' else Inr ()) (\<lambda>_.
           bindR (assertReplacementSigned current (cl_operation c) number) (\<lambda>_.
           bindR (nextCommitments current (cl_commitment c)) (\<lambda>(hashes, previous).
           bindR (pinClaim L (pins current) (cl_operation c)) (\<lambda>ps.
           bindR (applyBalanceRule current c ctx) (\<lambda>vs.
           let lanes = put (sl_lane slot) number (lastSignedCommitmentNumbers current);
               moved = current\<lparr> lastSignedCommitmentNumbers := lanes, commitmentHashes := hashes,
                                 previousRemoteCommitment := previous, pins := ps, views := vs \<rparr>
           in if served \<noteq> None
              then Inr (verdict_of slot reused,
                moved\<lparr> nonceReuse := put slotKey
                  \<lparr> nr_sessionCommitment = cl_sessionCommitment c, nr_message = cl_message c \<rparr> (nonceReuse current) \<rparr>)
              else Inr (verdict_of slot fresh,
                moved\<lparr> signedSessions := put slotKey (cl_sessionCommitment c) (signedSessions current) \<rparr>)))))))))"

section \<open>The other updates of a channel's record\<close>

definition newChannelRecord :: "string \<Rightarrow> string \<Rightarrow> channel_pins \<Rightarrow> channel_policy_record" where
  "newChannelRecord name funded ps =
     \<lparr> channelId = name, lastSignedCommitmentNumbers = [], signedSessions = [], nonceReuse = [],
       commitmentHashes = [], previousRemoteCommitment = None, revocations = [], pins = ps,
       views = (\<lambda>_. openingSnapshot funded), watchtowerSpends = None \<rparr>"

definition assertUnservedRecord :: "channel_policy_record \<Rightarrow> unit res" where
  "assertUnservedRecord r =
     check (\<not> (length (signedSessions r) > 0 \<or> length (lastSignedCommitmentNumbers r) > 0))
       (HostErr ''ChannelRegistrationError: already serves another channel'')"

definition registerUpdate ::
    "string \<Rightarrow> string \<Rightarrow> channel_pins \<Rightarrow> channel_policy_record option \<Rightarrow> channel_policy_record res" where
  "registerUpdate name funded ps current =
     (case current of
        None \<Rightarrow> Inr (newChannelRecord name funded ps)
      | Some r \<Rightarrow>
          if fundedShannons (pins r) \<noteq> fundedShannons ps \<or> localCloseScript (pins r) \<noteq> localCloseScript ps
          then Inl (HostErr ''ChannelRegistrationError: another funded amount or close script'')
          else if channelId r \<noteq> name then bindR (assertUnservedRecord r) (\<lambda>_. Inr (r\<lparr> channelId := name \<rparr>))
          else Inr r)"

text \<open>
  \<^verbatim>\<open>sort((a, b) => a.version - b.version)\<close>, which is stable. The source tells the
  recorded entry from the others by identity; here it is by value, the same as long as the list names each
  version once, as the store requires.
\<close>

definition recordRevocationUpdate :: "int \<Rightarrow> string \<Rightarrow> channel_policy_record \<Rightarrow> channel_policy_record res" where
  "recordRevocationUpdate version signature current =
     (if get (signedSessions current) (signSlotKey REVOKE (version + 1)) = None
      then Inl (TypeErr ''never signed the revocation'')
      else
        let recorded = find (\<lambda>r. re_version r = version) (revocations current) in
        if map_option re_signature recorded = Some signature then Inr current
        else
          let others = filter (\<lambda>r. Some r \<noteq> recorded) (revocations current)
          in Inr (current\<lparr> revocations := sort_key re_version
               (others @ [\<lparr> re_version = version, re_signature = signature \<rparr>]) \<rparr>))"

definition pinHostValuesUpdate :: "stated_pins \<Rightarrow> pin_field list \<Rightarrow> channel_policy_record \<Rightarrow> channel_policy_record res" where
  "pinHostValuesUpdate stated flds current =
     bindR (findChannelPinConflict (pins current) stated) (\<lambda>conflict.
     if conflict \<noteq> None then Inl (HostErr ''ChannelPinError'')
     else Inr (current\<lparr> pins := withChannelPins (pins current) stated flds \<rparr>))"

definition updateWatchtowerSpend ::
    "string \<Rightarrow> (watchtower_spend_record \<Rightarrow> watchtower_spend_record res) \<Rightarrow> channel_policy_record
     \<Rightarrow> channel_policy_record res" where
  "updateWatchtowerSpend requestIdHex update current =
     (let spends = (case watchtowerSpends current of None \<Rightarrow> [] | Some l \<Rightarrow> l) in
      case find (\<lambda>s. ws_requestId s = requestIdHex) spends of
        None \<Rightarrow> Inl (TypeErr ''never claimed the watchtower request'')
      | Some spend \<Rightarrow>
          bindR (update spend) (\<lambda>updated.
          if updated = spend then Inr current
          else Inr (current\<lparr> watchtowerSpends := Some (map (\<lambda>s. if s = spend then updated else s) spends) \<rparr>)))"

definition recordWatchtowerSignature :: "string \<Rightarrow> watchtower_spend_record \<Rightarrow> watchtower_spend_record res" where
  "recordWatchtowerSignature signatureHex spend =
     (if ws_signature spend = Some signatureHex then Inr spend
      else if ws_signature spend \<noteq> None then Inl (TypeErr ''already records another signature'')
      else Inr (spend\<lparr> ws_signature := Some signatureHex \<rparr>))"

definition markWatchtowerSpendApplied :: "watchtower_spend_record \<Rightarrow> watchtower_spend_record res" where
  "markWatchtowerSpendApplied spend =
     (if ws_applied spend then Inr spend
      else if ws_signature spend = None then Inl (TypeErr ''records no signature'')
      else Inr (spend\<lparr> ws_applied := True \<rparr>))"

end
