(* ===== verification/Sample.thy ===== *)
theory Sample
  imports Claims
begin

text \<open>
  A worked example, used to apply the theorems about records at concrete values: a channel funded with
  199 CKB on the sample library functions, its two first commitments for the peer, a received TLC, a
  second session in a slot, a revocation and a cooperative close, each decided by evaluating the
  definitions.
\<close>

definition sample_template :: script_template where
  "sample_template = \<lparr> codeHash = zero_bytes 32, hashType = Type \<rparr>"

definition sample_script :: script where
  "sample_script = \<lparr> codeHash = zero_bytes 32, hashType = Type, args = [1, 2] \<rparr>"

definition sample_point :: bytes where
  "sample_point = 2 # zero_bytes 32"

definition sample_out_point :: out_point where
  "sample_out_point = \<lparr> txHash = zero_bytes 32, index = 0 \<rparr>"

definition sample_tlc :: settlement_tlc where
  "sample_tlc = \<lparr> st_id = 0, st_direction = received, st_hashAlgorithm = CkbHash, st_amountShannons = 30,
     st_paymentHash = zero_bytes 32, st_expiryMs = 5000, st_localKeyCommitmentNumber = 1,
     st_remoteTlcPubkey = sample_point \<rparr>"

definition sample_commitment_input :: "int \<Rightarrow> settlement_tlc list \<Rightarrow> commitment_tx_input" where
  "sample_commitment_input n ts =
     \<lparr> ci_forRemote = True, ci_fundingOutPoint = sample_out_point, ci_remoteFundingPubkey = sample_point,
       ci_remoteTlcBasePubkey = sample_point, ci_commitmentNumber = n, ci_commitmentDelayEpoch = 1,
       ci_commitmentFeeRate = 1000, ci_cellDepsCount = 1, ci_udtTypeScript = None,
       ci_liquidCapacityShannons = 20000000000, ci_settlementLocalShannons = 10000000000,
       ci_settlementRemoteShannons = 9000000000, ci_localReservedCkbShannons = 9900000000,
       ci_remoteReservedCkbShannons = 9900000000, ci_tlcs = ts, ci_commitmentLock = sample_template,
       ci_lockLayout = legacy \<rparr>"

definition sample_script_hex :: string where
  "sample_script_hex = ''37000000100000003000000031000000000000000000000000000000000000000000000000000000000000000000000001020000000102''"

definition sample_pins :: channel_pins where
  "sample_pins =
     \<lparr> fundedShannons = ''19900000000'', localCloseScript = sample_script_hex,
       localReservedCkbShannons = [(legacy, ''9900000000''), (fullPaymentHash, ''10000000000'')],
       pinned =
         [(P_liquidCapacityShannons, ''20000000000''), (P_commitmentFeeRate, ''1000''),
          (P_remoteReservedCkbShannons, ''9900000000''), (P_remoteCloseScript, sample_script_hex)] \<rparr>"

definition sample_record :: channel_policy_record where
  "sample_record = newChannelRecord ''sample'' ''19900000000'' sample_pins"

definition sample_commitment :: "string \<Rightarrow> int \<Rightarrow> settlement_tlc list \<Rightarrow> claim" where
  "sample_commitment session n ts =
     \<lparr> cl_slot = \<lparr> sl_context = COMMITMENT, sl_commitmentNumber = n, sl_lane = COMMITMENT_local \<rparr>,
       cl_sessionCommitment = session, cl_message = ''m'', cl_nonceReuse = reuse_refuse,
       cl_operation = OpCommitmentTx (sample_commitment_input n ts),
       cl_commitment = Some \<lparr> cm_view = remote_view,
         cm_record = \<lparr> sc_commitmentNumber = n, sc_txHash = ''t'', sc_source = None, sc_settlementWitness = None \<rparr> \<rparr>,
       cl_tlcs = toPolicyViewTlcs demo_lib ts legacy \<rparr>"

definition sample_revocation_input :: revocation_input where
  "sample_revocation_input =
     \<lparr> ri_forRemote = True, ri_revokedCommitmentNumber = 0, ri_payoutScript = sample_script,
       ri_remoteFundingPubkey = sample_point, ri_commitmentDelayEpoch = 1, ri_commitmentFeeRate = 1000,
       ri_cellDepsCount = 1, ri_udtTypeScript = None, ri_liquidCapacityShannons = 20000000000,
       ri_localReservedCkbShannons = 9900000000, ri_remoteReservedCkbShannons = 9900000000,
       ri_commitmentLock = sample_template, ri_lockLayout = legacy \<rparr>"

definition sample_revocation :: claim where
  "sample_revocation =
     \<lparr> cl_slot = \<lparr> sl_context = REVOKE, sl_commitmentNumber = 1, sl_lane = REVOKE_local \<rparr>,
       cl_sessionCommitment = ''r'', cl_message = ''m'', cl_nonceReuse = reuse_refuse,
       cl_operation = OpRevocation sample_revocation_input, cl_commitment = None, cl_tlcs = [] \<rparr>"

definition sample_closing_input :: closing_tx_input where
  "sample_closing_input =
     \<lparr> cl_fundingOutPoint = sample_out_point, cl_remoteFundingPubkey = sample_point,
       cl_localCloseScript = sample_script, cl_remoteCloseScript = sample_script,
       cl_localCapacityShannons = 19850000000, cl_remoteCapacityShannons = 9000000000 \<rparr>"

definition sample_close :: claim where
  "sample_close =
     \<lparr> cl_slot = \<lparr> sl_context = COMMITMENT, sl_commitmentNumber = 2, sl_lane = COMMITMENT_local \<rparr>,
       cl_sessionCommitment = ''c'', cl_message = ''m'', cl_nonceReuse = reuse_refuse,
       cl_operation = OpClosingTx sample_closing_input, cl_commitment = None, cl_tlcs = [] \<rparr>"

definition sample_ctx :: balance_rule_context where
  "sample_ctx = \<lparr> intents = (\<lambda>h. None), invoices = (\<lambda>h. None), otherChannels = [] \<rparr>"

definition decided :: "claim \<Rightarrow> channel_policy_record \<Rightarrow> channel_policy_record" where
  "decided c r = (case decideClaim demo_lib c r sample_ctx of Inr (v, r') \<Rightarrow> r' | Inl e \<Rightarrow> r)"

text \<open>A claim is granted with a status, and the record moves.\<close>

definition writes :: "claim \<Rightarrow> channel_policy_record \<Rightarrow> verdict_status \<Rightarrow> bool" where
  "writes c r status \<longleftrightarrow>
     (case decideClaim demo_lib c r sample_ctx of
        Inr (v, r') \<Rightarrow> v = verdict_of (cl_slot c) status \<and> r' \<noteq> r
      | Inl e \<Rightarrow> False)"

lemma writes_granted:
  "writes c r status \<Longrightarrow>
   decideClaim demo_lib c r sample_ctx = Inr (verdict_of (cl_slot c) status, decided c r) \<and> decided c r \<noteq> r"
  by (simp add: writes_def decided_def split: sum.splits prod.splits)

definition sample_first :: claim where
  "sample_first = sample_commitment ''a'' 1 []"

definition sample_second :: claim where
  "sample_second = sample_commitment ''b'' 2 [sample_tlc]"

definition sample_again :: claim where
  "sample_again = sample_close\<lparr> cl_slot := cl_slot sample_first, cl_nonceReuse := reuse_allow \<rparr>"

text \<open>The record after the first commitment.\<close>

definition sample_record1 :: channel_policy_record where
  "sample_record1 = sample_record
     \<lparr> lastSignedCommitmentNumbers := [(COMMITMENT_local, 1)], signedSessions := [(''COMMITMENT:1'', ''a'')],
       commitmentHashes := [(remote_view,
         \<lparr> sc_commitmentNumber = 1, sc_txHash = ''t'', sc_source = None, sc_settlementWitness = None \<rparr>)],
       pins := sample_pins\<lparr> pinned := pinned sample_pins @
         [(P_fundingOutPoint, ''0000000000000000000000000000000000000000000000000000000000000000:0''),
          (P_fundingCapacityShannons, ''39800000000''),
          (P_remoteFundingPubkey, ''020000000000000000000000000000000000000000000000000000000000000000''),
          (P_remoteTlcBasePubkey, ''020000000000000000000000000000000000000000000000000000000000000000''),
          (P_commitmentDelayEpoch, ''1''), (P_lockLayout, ''legacy'')] \<rparr> \<rparr>"

lemma sample_pins_open:
  "openingChannelPins demo_lib ''19900000000'' sample_script = Inr (sample_pins\<lparr> pinned := [] \<rparr>)"
  by code_simp

lemma sample_first_granted:
  "decideClaim demo_lib sample_first sample_record sample_ctx = Inr (verdict_of (cl_slot sample_first) fresh, sample_record1)"
  by code_simp

abbreviation sample_pins1 :: channel_pins where
  "sample_pins1 \<equiv> pins sample_record1"

abbreviation sample_stated :: stated_pins where
  "sample_stated \<equiv> projr (statedChannelPins demo_lib (OpCommitmentTx (sample_commitment_input 2 [sample_tlc])))"

lemma sample_second_stated:
  "statedChannelPins demo_lib (OpCommitmentTx (sample_commitment_input 2 [sample_tlc])) = Inr sample_stated"
  by (subst sum.collapse) code_simp+

lemma sample_second_states: "statedValue sample_stated P_commitmentDelayEpoch = Some ''1''"
  by code_simp

lemma sample_second_pinned:
  "pinClaim demo_lib sample_pins1 (OpCommitmentTx (sample_commitment_input 2 [sample_tlc])) = Inr sample_pins1"
  by code_simp

lemma sample_second_writes: "writes sample_second sample_record1 fresh"
  by code_simp

lemma sample_again_writes: "writes sample_again sample_record1 reused"
  by code_simp

lemma sample_close_writes: "writes sample_close sample_record1 fresh"
  by code_simp

lemma sample_revocation_writes: "writes sample_revocation sample_record1 fresh"
  by code_simp

end
