(* ===== verification/WatchtowerSample.thy ===== *)
theory WatchtowerSample
  imports Watchtower Sample
begin

text \<open>
  The worked example for the watchtower, on the sample library functions: the record of a channel whose
  first commitment for the peer was signed, which keeps a spend already signed for a TLC, and the
  settlement of the device's balance out of that commitment's cell, decided by evaluating the rules.
\<close>

definition sample_keys :: fiber_channel_keys where
  "sample_keys = \<lparr> fundingKey = replicate 32 1, tlcBaseKey = replicate 32 3, musig2BaseNonce = replicate 32 4,
     commitmentSeed = replicate 32 5 \<rparr>"

definition sample_approval :: watchtower_approval where
  "sample_approval = \<lparr> wa_destination = sample_script, wa_maxFeeShannons = ''100000'' \<rparr>"

definition sample_body :: string where
  "sample_body = ''000200000000000000000000000000000000000000001d8766040000000000000000000000020303030303030303030303030303030303030300e721a2040000000000000000000000''"

definition sample_cell :: string where
  "sample_cell = ''860000001000000018000000860000005dcc4344090000006e00000010000000300000003100000000000000000000000000000000000000000000000000000000000000000000000139000000020101010101010101010101010101010101010101000000000000a00000000000000001000200000000000000000000000000000000000000''"

definition sample_signed_spend :: watchtower_spend_record where
  "sample_signed_spend = \<lparr> ws_requestId = ''01'', ws_purpose = PurposeTlc 1, ws_view = remote_view,
     ws_commitmentNumber = 1, ws_tlcEntry = Some ''00'', ws_txHash = ''t'', ws_remainder = None,
     ws_signature = Some ''s'', ws_applied = False \<rparr>"

definition sample_watched :: channel_policy_record where
  "sample_watched = sample_record1
     \<lparr> commitmentHashes := [(remote_view,
         \<lparr> sc_commitmentNumber = 1, sc_txHash = ''t'',
           sc_source = Some \<lparr> rd_output = sample_cell, rd_outputData = [] \<rparr>,
           sc_settlementWitness = Some sample_body \<rparr>)],
       watchtowerSpends := Some [sample_signed_spend] \<rparr>"

definition sample_remainder_args :: bytes where
  "sample_remainder_args = [2] @ replicate 20 1 @ zero_bytes 6 @ [160] @ zero_bytes 7 @ [1, 0, 2] @ zero_bytes 18 @ [1]"

definition sample_witness :: bytes where
  "sample_witness = [16, 0, 0, 0, 16, 0, 0, 0, 16, 0, 0, 0, 16, 0, 0, 0, 1, 0]
     @ ([2] @ zero_bytes 19 @ [0, 29, 135, 102, 4] @ zero_bytes 11)
     @ ([2] @ replicate 19 3 @ [0, 231, 33, 162, 4] @ zero_bytes 11) @ [255, 0] @ zero_bytes 65"

definition sample_spend :: watchtower_spend_request where
  "sample_spend = \<lparr> wr_requestId = zero_bytes 32, wr_purpose = PurposeSettlement, wr_transaction =
     \<lparr> tx_version = 0, cellDeps = [], headerDeps = [], inputs = [\<lparr> since = 1, previousOutput = sample_out_point \<rparr>],
       outputs =
         [\<lparr> capacityShannons = 19899999581,
            lock = \<lparr> codeHash = zero_bytes 32, hashType = Type, args = sample_remainder_args \<rparr>, type_script = None \<rparr>,
          \<lparr> capacityShannons = 19899999000, lock = sample_script, type_script = None \<rparr>],
       outputsData = [[], []], witnesses = [sample_witness] \<rparr> \<rparr>"

definition sample_spent :: channel_policy_record where
  "sample_spent = snd (projr (decideWatchtowerSpend demo_lib sample_keys sample_watched sample_approval sample_spend))"

lemma sample_spend_fresh:
  "decideWatchtowerSpend demo_lib sample_keys sample_watched sample_approval sample_spend = Inr (SpendFresh, sample_spent)"
proof -
  have "case decideWatchtowerSpend demo_lib sample_keys sample_watched sample_approval sample_spend of
      Inl e \<Rightarrow> False | Inr x \<Rightarrow> fst x = SpendFresh"
    by code_simp
  then show ?thesis
    by (auto simp: sample_spent_def split: sum.splits)
qed

lemma sample_registered: "\<exists>c. registeredCommitments demo_lib sample_watched = Inr [c]
    \<and> rc_view c = remote_view \<and> rc_commitmentNumber c = 1"
proof -
  have "case registeredCommitments demo_lib sample_watched of
      Inr [c] \<Rightarrow> rc_view c = remote_view \<and> rc_commitmentNumber c = 1 | _ \<Rightarrow> False"
    by code_simp
  then show ?thesis
    by (auto split: sum.splits list.splits)
qed

end
