(* ===== verification/WatchtowerFacts.thy ===== *)
theory WatchtowerFacts
  imports WatchtowerSample "HOL-Library.Multiset"
begin

text \<open>
  What the watchtower rules of \<^verbatim>\<open>watchtower-spend.ts\<close> guarantee: what a spend that passes pays, which
  TLCs a descendant may still hold, and what the record keeps of the spends it claimed.
\<close>

section \<open>The rules a spend has passed\<close>

definition spends_of :: "channel_policy_record \<Rightarrow> watchtower_spend_record list" where
  "spends_of r = (case watchtowerSpends r of None \<Rightarrow> [] | Some l \<Rightarrow> l)"

abbreviation spend_view :: "spend_source \<Rightarrow> bool" where
  "spend_view source \<equiv> src_view source = remote_view"

text \<open>The source, what it releases, and the remainder the spend leaves, if any.\<close>

definition spend_passes ::
    "lib \<Rightarrow> fiber_channel_keys \<Rightarrow> registered_commitment list \<Rightarrow> watchtower_approval \<Rightarrow> watchtower_spend_request
     \<Rightarrow> spend_source \<Rightarrow> released \<Rightarrow> cell_output option \<Rightarrow> bool" where
  "spend_passes L keys registered approval request source rel remainder \<longleftrightarrow>
     findSpendSource L registered (wr_transaction request) = Inr source \<and>
     releasedByKey L keys (wr_purpose request) source (spend_view source) = Inr rel \<and>
     list_all (\<lambda>b. b = 0) (su_signature (src_unlock source)) \<and>
     (if re_finalParty rel then remainder = None
      else \<exists>out. readRemainder L (wr_transaction request) source (re_shannons rel) (spend_view source) = Inr out
             \<and> remainder = Some out) \<and>
     assertPaidOut (wr_transaction request) (remainder \<noteq> None) approval (re_shannons rel) = Inr ()"

lemma decideWatchtowerSpend_Inr:
  assumes "decideWatchtowerSpend L keys r approval request = Inr (v, r')"
  obtains hashBytes registered source rel remainder where
    "readSpendStructure L request = Inr hashBytes" "registeredCommitments L r = Inr registered"
    "spend_passes L keys registered approval request source rel remainder"
    "case find (\<lambda>s. ws_requestId s = bytesToHex L (wr_requestId request)) (spends_of r) of
       Some spend \<Rightarrow> repeatVerdict L spend (bytesToHex L hashBytes) = Inr v \<and> r' = r
     | None \<Rightarrow> \<exists>spend. claimedSpend L request source (bytesToHex L hashBytes) remainder = Inr spend
          \<and> (v, r') = claimSpend registered spend r"
proof -
  from assms obtain hashBytes registered source rel remainder where
    a: "readSpendStructure L request = Inr hashBytes" "registeredCommitments L r = Inr registered"
    and b: "findSpendSource L registered (wr_transaction request) = Inr source"
      "releasedByKey L keys (wr_purpose request) source (spend_view source) = Inr rel"
      "\<not> list_ex (\<lambda>b. b \<noteq> 0) (su_signature (src_unlock source))"
      "(if re_finalParty rel then Inr None
        else bindR (readRemainder L (wr_transaction request) source (re_shannons rel) (spend_view source)) (\<lambda>out. Inr (Some out)))
       = Inr remainder"
      "assertPaidOut (wr_transaction request) (remainder \<noteq> None) approval (re_shannons rel) = Inr ()"
    and c: "(case find (\<lambda>s. ws_requestId s = bytesToHex L (wr_requestId request)) (spends_of r) of
         Some spend \<Rightarrow> bindR (repeatVerdict L spend (bytesToHex L hashBytes)) (\<lambda>v. Inr (v, r))
       | None \<Rightarrow> bindR (claimedSpend L request source (bytesToHex L hashBytes) remainder)
           (\<lambda>spend. Inr (claimSpend registered spend r))) = Inr (v, r')"
    unfolding decideWatchtowerSpend_def Let_def spends_of_def [symmetric]
      bindR_unit_Inr_iff bindR_Inr_iff withPolicyRefusal_Inr_iff
    by (fastforce split: if_splits simp: bindR_Inr_iff)
  from b have "spend_passes L keys registered approval request source rel remainder"
    by (auto simp: spend_passes_def list_ex_iff list_all_iff bindR_Inr_iff split: if_splits)
  moreover from c have "case find (\<lambda>s. ws_requestId s = bytesToHex L (wr_requestId request)) (spends_of r) of
       Some spend \<Rightarrow> repeatVerdict L spend (bytesToHex L hashBytes) = Inr v \<and> r' = r
     | None \<Rightarrow> \<exists>spend. claimedSpend L request source (bytesToHex L hashBytes) remainder = Inr spend
          \<and> (v, r') = claimSpend registered spend r"
    by (cases "find (\<lambda>s. ws_requestId s = bytesToHex L (wr_requestId request)) (spends_of r)")
       (auto simp: bindR_Inr_iff)
  ultimately show thesis using a that by blast
qed

lemma claimSpend_cases:
  assumes "claimSpend registered spend r = (v, r')"
  obtains (unclaimed) s where "s \<in> set (spends_of r)" "ws_signature s \<noteq> None" "isSameSpendKey s spend"
      "v = SpendUnclaimed" "r' = r"
  | (fresh) kept where "\<forall>s\<in>set (spends_of r). isSameSpendKey s spend \<longrightarrow> ws_signature s = None"
      "kept = filter (\<lambda>s. \<not> isSameSpendKey s spend \<and>
         list_ex (\<lambda>c. rc_view c = ws_view s \<and> rc_commitmentNumber c = ws_commitmentNumber s) registered) (spends_of r)"
      "v = SpendFresh" "r' = r\<lparr> watchtowerSpends := Some (kept @ [spend]) \<rparr>"
proof (cases "list_ex (\<lambda>s. ws_signature s \<noteq> None \<and> isSameSpendKey s spend) (spends_of r)")
  case True
  then obtain s where "s \<in> set (spends_of r)" "ws_signature s \<noteq> None" "isSameSpendKey s spend"
    unfolding list_ex_iff by blast
  moreover have "v = SpendUnclaimed" "r' = r"
    using True assms by (simp_all add: claimSpend_def spends_of_def)
  ultimately show thesis by (rule that(1))
next
  case False
  then have "\<forall>s\<in>set (spends_of r). isSameSpendKey s spend \<longrightarrow> ws_signature s = None"
    unfolding list_ex_iff by blast
  moreover have "v = SpendFresh" "r' = r\<lparr> watchtowerSpends := Some (filter (\<lambda>s. \<not> isSameSpendKey s spend \<and>
         list_ex (\<lambda>c. rc_view c = ws_view s \<and> rc_commitmentNumber c = ws_commitmentNumber s) registered) (spends_of r)
         @ [spend]) \<rparr>"
    using False assms by (simp_all add: claimSpend_def Let_def spends_of_def)
  ultimately show thesis by (intro that(2) [OF _ refl])
qed

text \<open>Only the list of spends moves.\<close>

lemma decideWatchtowerSpend_frame:
  assumes "decideWatchtowerSpend L keys r approval request = Inr (v, r')"
  shows "\<exists>s. r' = r\<lparr> watchtowerSpends := s \<rparr>"
proof (rule decideWatchtowerSpend_Inr [OF assms])
  fix hashBytes registered source rel remainder
  assume *: "case find (\<lambda>s. ws_requestId s = bytesToHex L (wr_requestId request)) (spends_of r) of
     Some spend \<Rightarrow> repeatVerdict L spend (bytesToHex L hashBytes) = Inr v \<and> r' = r
   | None \<Rightarrow> \<exists>spend. claimedSpend L request source (bytesToHex L hashBytes) remainder = Inr spend
        \<and> (v, r') = claimSpend registered spend r"
  have same: "r = r\<lparr> watchtowerSpends := watchtowerSpends r \<rparr>" by simp
  show ?thesis
  proof (cases "find (\<lambda>s. ws_requestId s = bytesToHex L (wr_requestId request)) (spends_of r)")
    case None
    with * obtain spend where "claimSpend registered spend r = (v, r')" by auto
    then show ?thesis
    proof (cases rule: claimSpend_cases)
      case unclaimed
      then show ?thesis by (intro exI [of _ "watchtowerSpends r"]) simp
    qed blast
  next
    case (Some spend)
    with * have "r' = r" by simp
    with same show ?thesis by blast
  qed
qed

section \<open>What a spend pays\<close>










section \<open>Descent\<close>

lemma countEntry_count: "countEntry xs x = count (mset xs) x"
  by (induction xs) (auto simp: countEntry_def)

text \<open>Counting over the prefixes is multiset inclusion.\<close>

lemma prefix_counts:
  "(\<forall>i < length xs. count M (xs ! i) \<noteq> 0 \<and> count (mset (take (i + 1) xs)) (xs ! i) \<le> count M (xs ! i))
   \<longleftrightarrow> mset xs \<subseteq># M"
proof (induction xs rule: rev_induct)
  case (snoc x xs)
  let ?ok = "\<lambda>xs i. count M (xs ! i) \<noteq> 0 \<and> count (mset (take (i + 1) xs)) (xs ! i) \<le> count M (xs ! i)"
  have "(\<forall>i < length xs. ?ok (xs @ [x]) i) \<longleftrightarrow> (\<forall>i < length xs. ?ok xs i)"
    by (rule all_cong) (simp add: nth_append)
  moreover have "?ok (xs @ [x]) (length xs) \<longleftrightarrow> count (mset xs) x < count M x"
    by (auto simp: Suc_le_eq) (metis not_in_iff not_less_zero)
  ultimately have "(\<forall>i < length (xs @ [x]). ?ok (xs @ [x]) i) \<longleftrightarrow> mset xs \<subseteq># M \<and> count (mset xs) x < count M x"
    unfolding length_append_singleton All_less_Suc snoc.IH by (simp add: conj_commute)
  also have "\<dots> \<longleftrightarrow> mset (xs @ [x]) \<subseteq># M"
    unfolding subseteq_mset_def by (simp add: Suc_le_eq) (metis less_imp_le)
  finally show ?case .
qed simp

lemma isSameBalance_eq: "isSameBalance b c \<longleftrightarrow> b = c"
  by (cases b; cases c) (auto simp: isSameBalance_def)

text \<open>C13 Descent of a spent cell. The search that walks the settlement body entry by entry, counting each prefix,
  finds no fault exactly when the body's TLC entries are a sub-multiset of the committed ones, parts of
  one payment counted each, and each balance is either settled or the committed one.\<close>

theorem descent_is_multiset_inclusion:
  "findDescentFault unlock committed \<longleftrightarrow>
     \<not> (mset (tlcEntries unlock) \<subseteq># mset (tlcEntries committed)
        \<and> (isSettledBalance (fst (balances unlock)) \<or> fst (balances unlock) = fst (balances committed))
        \<and> (isSettledBalance (snd (balances unlock)) \<or> snd (balances unlock) = snd (balances committed)))"
proof -
  have "list_ex (\<lambda>(i, entry). let listed = countEntry (tlcEntries committed) entry in
         listed = 0 \<or> countEntry (take (i + 1) (tlcEntries unlock)) entry > listed) (entries (tlcEntries unlock))
     \<longleftrightarrow> \<not> mset (tlcEntries unlock) \<subseteq># mset (tlcEntries committed)"
    unfolding prefix_counts [symmetric] by (force simp: list_ex_iff set_entries countEntry_count Let_def)
  then show ?thesis
    by (auto simp: findDescentFault_def isSameBalance_eq)
qed


section \<open>What the record keeps of its spends\<close>

text \<open>A spend is recorded once per request, and once per unlock of a commitment.\<close>

definition unlock_of :: "watchtower_spend_record \<Rightarrow> policy_view \<times> int \<times> string option" where
  "unlock_of s = (ws_view s, ws_commitmentNumber s, ws_tlcEntry s)"

definition spends_distinct :: "channel_policy_record \<Rightarrow> bool" where
  "spends_distinct r \<longleftrightarrow> distinct (map ws_requestId (spends_of r)) \<and> distinct (map unlock_of (spends_of r))"

lemma isSameSpendKey_unlock: "isSameSpendKey s t \<longleftrightarrow> unlock_of s = unlock_of t"
  by (auto simp: isSameSpendKey_def unlock_of_def)

lemma spends_of_update [simp]: "spends_of (r\<lparr> watchtowerSpends := Some l \<rparr>) = l"
  by (simp add: spends_of_def)

lemma claimedSpend_requestId:
  "claimedSpend L request source hash remainder = Inr spend \<Longrightarrow> ws_requestId spend = bytesToHex L (wr_requestId request)"
  by (auto simp: claimedSpend_def bindR_Inr_iff)

lemma decide_cases:
  assumes "decideWatchtowerSpend L keys r approval request = Inr (v, r')"
  obtains (same) "r' = r" "v \<noteq> SpendFresh"
  | (fresh) registered kept spend where "v = SpendFresh" "registeredCommitments L r = Inr registered"
      "spends_of r' = kept @ [spend]" "ws_requestId spend = bytesToHex L (wr_requestId request)"
      "ws_signature spend = None"
      "\<forall>s\<in>set (spends_of r). ws_requestId s \<noteq> ws_requestId spend"
      "\<forall>s\<in>set (spends_of r). isSameSpendKey s spend \<longrightarrow> ws_signature s = None"
      "kept = filter (\<lambda>s. \<not> isSameSpendKey s spend \<and>
         list_ex (\<lambda>c. rc_view c = ws_view s \<and> rc_commitmentNumber c = ws_commitmentNumber s) registered) (spends_of r)"
proof (rule decideWatchtowerSpend_Inr [OF assms])
  fix hashBytes registered source rel remainder
  assume reg: "registeredCommitments L r = Inr registered"
    and *: "case find (\<lambda>s. ws_requestId s = bytesToHex L (wr_requestId request)) (spends_of r) of
     Some spend \<Rightarrow> repeatVerdict L spend (bytesToHex L hashBytes) = Inr v \<and> r' = r
   | None \<Rightarrow> \<exists>spend. claimedSpend L request source (bytesToHex L hashBytes) remainder = Inr spend
        \<and> (v, r') = claimSpend registered spend r"
  show thesis
  proof (cases "find (\<lambda>s. ws_requestId s = bytesToHex L (wr_requestId request)) (spends_of r)")
    case None
    with * obtain spend where s: "claimedSpend L request source (bytesToHex L hashBytes) remainder = Inr spend"
      and c: "claimSpend registered spend r = (v, r')" by auto
    have id: "ws_requestId spend = bytesToHex L (wr_requestId request)" by (rule claimedSpend_requestId [OF s])
    have unsigned: "ws_signature spend = None" using s by (auto simp: claimedSpend_def bindR_Inr_iff)
    from None id have new: "\<forall>s\<in>set (spends_of r). ws_requestId s \<noteq> ws_requestId spend"
      by (auto simp: find_None_iff)
    from c show thesis
    proof (cases rule: claimSpend_cases)
      case unclaimed
      then show thesis by (intro same) simp_all
    next
      case (fresh kept)
      from fresh(4) have "spends_of r' = kept @ [spend]" by simp
      from that(2) [OF fresh(3) reg this id unsigned new fresh(1,2)] show thesis .
    qed
  next
    case (Some spend)
    with * have "r' = r" "v \<noteq> SpendFresh" by (auto simp: repeatVerdict_def split: if_splits)
    then show thesis by (rule same)
  qed
qed

lemma distinct_map_snoc_filter:
  "distinct (map f xs) \<Longrightarrow> \<forall>x\<in>set (filter P xs). f x \<noteq> f y \<Longrightarrow> distinct (map f (filter P xs @ [y]))"
  by (auto simp: distinct_map_filter)

lemma decide_spends_distinct:
  assumes "decideWatchtowerSpend L keys r approval request = Inr (v, r')" "spends_distinct r"
  shows "spends_distinct r'"
  using assms(1)
proof (cases rule: decide_cases)
  case (fresh registered kept spend)
  have "distinct (map ws_requestId (kept @ [spend]))" "distinct (map unlock_of (kept @ [spend]))"
    using assms(2) fresh(6) unfolding fresh(8) spends_distinct_def
    by (auto intro!: distinct_map_snoc_filter simp: isSameSpendKey_unlock distinct_map_filter)
  then show ?thesis by (simp add: spends_distinct_def fresh(3))
qed (use assms(2) in simp)

text \<open>Recording a signature or marking a spend applied keeps which spends there are.\<close>

lemma updateWatchtowerSpend_spends:
  assumes "updateWatchtowerSpend requestId update r = Inr r'"
    and "\<And>s s'. update s = Inr s' \<Longrightarrow> unlock_of s' = unlock_of s \<and> ws_requestId s' = ws_requestId s"
  shows "spends_distinct r' \<longleftrightarrow> spends_distinct r"
proof -
  from assms(1) obtain s s' where u: "update s = Inr s'"
    and r': "r' = (if s' = s then r
      else r\<lparr> watchtowerSpends := Some (map (\<lambda>t. if t = s then s' else t) (spends_of r)) \<rparr>)"
    unfolding updateWatchtowerSpend_def Let_def spends_of_def [symmetric]
    by (auto simp: bindR_Inr_iff split: option.splits if_splits)
  from assms(2) [OF u] have "map unlock_of (spends_of r') = map unlock_of (spends_of r)
     \<and> map ws_requestId (spends_of r') = map ws_requestId (spends_of r)"
    by (simp add: r')
  then show ?thesis by (simp add: spends_distinct_def)
qed

lemma watchtower_updates_keep:
  "recordWatchtowerSignature signature s = Inr s' \<Longrightarrow> unlock_of s' = unlock_of s \<and> ws_requestId s' = ws_requestId s"
  "markWatchtowerSpendApplied s = Inr s' \<Longrightarrow> unlock_of s' = unlock_of s \<and> ws_requestId s' = ws_requestId s"
  by (auto simp: recordWatchtowerSignature_def markWatchtowerSpendApplied_def unlock_of_def split: if_splits)

text \<open>C21 A signed spend stands. When a new spend is claimed, every spend already signed for a commitment still
  registered stays in the record as it is, and no spend recorded beside it settles the same unlock.\<close>

theorem signed_spend_stands:
  assumes "decideWatchtowerSpend L keys r approval request = Inr (v, r')" and "spends_distinct r"
    and "s \<in> set (spends_of r)" "ws_signature s \<noteq> None"
    and "registeredCommitments L r = Inr registered"
    and "c \<in> set registered" "rc_view c = ws_view s" "rc_commitmentNumber c = ws_commitmentNumber s"
  shows "filter (isSameSpendKey s) (spends_of r') = [s]"
proof -
  have one: "filter (isSameSpendKey s) l = [s]" if "distinct (map unlock_of l)" "s \<in> set l" for l
  proof -
    have "filter (\<lambda>t. t = s) l = [s]"
      using that by (induction l) (auto simp: filter_empty_conv)
    moreover have "filter (isSameSpendKey s) l = filter (\<lambda>t. t = s) l"
      using that by (intro filter_cong) (auto simp: isSameSpendKey_unlock distinct_map inj_on_def)
    ultimately show ?thesis by simp
  qed
  have "s \<in> set (spends_of r')"
    using assms(1)
  proof (cases rule: decide_cases)
    case (fresh registered' kept spend)
    with assms(3-8) have "s \<in> set kept" by (auto simp: list_ex_iff)
    with fresh(3) show ?thesis by simp
  qed (use assms(3) in simp)
  with decide_spends_distinct [OF assms(1,2)] show ?thesis
    by (intro one) (simp_all add: spends_distinct_def)
qed

lemma signed_spend_stands_witness: "filter (isSameSpendKey sample_signed_spend) (spends_of sample_spent) = [sample_signed_spend]"
proof -
  obtain c where c: "registeredCommitments demo_lib sample_watched = Inr [c]" "rc_view c = remote_view" "rc_commitmentNumber c = 1"
    using sample_registered by blast
  show ?thesis
    by (rule signed_spend_stands [OF sample_spend_fresh _ _ _ c(1)])
       (use c(2,3) in \<open>simp_all add: spends_distinct_def spends_of_def sample_watched_def sample_signed_spend_def\<close>)
qed

end
