(* ===== verification/BalanceFacts.thy ===== *)
theory BalanceFacts
  imports Balance "HOL-Library.Multiset"
begin

text \<open>
  What the balance rule guarantees. The loops of \<^verbatim>\<open>balance-rule.ts\<close> are first given their meaning
  (sums per hash, multiset difference, the subsets that fit), then the rule is proved to keep the
  device's money: what a view's holdings lose, past the credits, is charged to some payment.
\<close>

section \<open>Keys and multiset difference\<close>

lemma colon_notin_names [simp]:
  "CHR '':'' \<notin> set (direction_name d)" "CHR '':'' \<notin> set (hash_algorithm_name a)"
  by (cases d; simp) (cases a; simp)

lemma name_inj [simp]:
  "direction_name d = direction_name d' \<longleftrightarrow> d = d'"
  "hash_algorithm_name a = hash_algorithm_name a' \<longleftrightarrow> a = a'"
  by (cases d; cases d'; simp) (cases a; cases a'; simp)

lemma isViewTlc_colon:
  assumes "isViewTlc t"
  shows "CHR '':'' \<notin> set (pv_boundPaymentHash t)" "CHR '':'' \<notin> set (pv_amountShannons t)"
    and "pv_fullPaymentHash t = Some h \<Longrightarrow> CHR '':'' \<notin> set h \<and> h \<noteq> []"
  using assms
  by (auto simp: isViewTlc_def isViewTlcFullHash_def isDecimalShannons_def colon_notin_canonical colon_notin_hex)
     (auto simp: isHexBytes_def)

lemma tlcKey_inj:
  assumes "isViewTlc t" "isViewTlc u" "tlcKey t = tlcKey u"
  shows "t = u"
proof -
  let ?h = "\<lambda>t. case pv_fullPaymentHash t of None \<Rightarrow> [] | Some h \<Rightarrow> h"
  have c: "CHR '':'' \<notin> set (?h t)" "CHR '':'' \<notin> set (?h u)"
    using assms(1,2) isViewTlc_colon(3) by (auto split: option.splits)
  have "pv_direction t = pv_direction u \<and> pv_hashAlgorithm t = pv_hashAlgorithm u
      \<and> pv_boundPaymentHash t = pv_boundPaymentHash u \<and> ?h t = ?h u
      \<and> pv_amountShannons t = pv_amountShannons u \<and> pv_expirySeconds t = pv_expirySeconds u"
    using assms(3) c isViewTlc_colon [OF assms(1)] isViewTlc_colon [OF assms(2)]
    by (simp add: tlcKey_def Let_def split_colon)
  moreover from this have "pv_fullPaymentHash t = pv_fullPaymentHash u"
    using isViewTlc_colon(3) [OF assms(1)] isViewTlc_colon(3) [OF assms(2)] by (auto split: option.splits)
  ultimately show ?thesis by simp
qed

lemma inj_on_tlcKey: "\<forall>t\<in>S. isViewTlc t \<Longrightarrow> inj_on tlcKey S"
  by (auto intro: inj_onI tlcKey_inj)

lemma differenceLoop_mset:
  assumes "inj_on tlcKey S" "set ts \<subseteq> S" "set_mset M \<subseteq> S"
    and "\<And>t. t \<in> S \<Longrightarrow> (case get r (tlcKey t) of None \<Rightarrow> 0 | Some n \<Rightarrow> n) = count M t"
  shows "mset (differenceLoop r ts) = mset ts - M"
  using assms(2-)
proof (induction ts arbitrary: r M)
  case (Cons t ts)
  from Cons.prems(1) have t: "t \<in> S" "set ts \<subseteq> S" by auto
  show ?case
  proof (cases "count M t = 0")
    case True
    then have "t \<notin># M" by (simp add: not_in_iff)
    with True show ?thesis
      using Cons.IH [OF t(2) Cons.prems(2,3)] Cons.prems(3) [OF t(1)]
      by (simp add: Let_def diff_add_mset_swap)
  next
    case False
    then obtain M' where M: "M = add_mset t M'"
      using multi_member_split [of t M] by (auto simp: not_in_iff)
    have "mset (differenceLoop (put (tlcKey t) (count M t - 1) r) ts) = mset ts - M'"
    proof (rule Cons.IH [OF t(2)])
      show "set_mset M' \<subseteq> S" using Cons.prems(2) M by simp
      fix u assume u: "u \<in> S"
      show "(case get (put (tlcKey t) (count M t - 1) r) (tlcKey u) of None \<Rightarrow> 0 | Some n \<Rightarrow> n) = count M' u"
        using Cons.prems(3) [OF u] M u t(1) assms(1) by (auto simp: get_put inj_on_eq_iff)
    qed
    then show ?thesis
      using False Cons.prems(3) [OF t(1)] M by (simp add: Let_def)
  qed
qed simp

lemma remaining_counts:
  assumes "inj_on tlcKey S" "set ts \<subseteq> S" "t \<in> S"
  shows "(case get (foldl (\<lambda>m t. put (tlcKey t) ((case get m (tlcKey t) of None \<Rightarrow> 0 | Some n \<Rightarrow> n) + 1) m) [] ts) (tlcKey t)
      of None \<Rightarrow> 0 | Some n \<Rightarrow> n) = count (mset ts) t"
  using assms(2,3)
proof (induction ts arbitrary: t rule: rev_induct)
  case (snoc u us)
  then have "u \<in> S" by simp
  then show ?case
    using snoc assms(1) by (auto simp: get_put inj_on_eq_iff)
qed simp

lemma multisetDifference_mset:
  assumes "\<forall>t\<in>set from \<union> set remove. isViewTlc t"
  shows "mset (multisetDifference from remove) = mset from - mset remove"
proof -
  let ?S = "set from \<union> set remove"
  have inj: "inj_on tlcKey ?S"
    using assms by (rule inj_on_tlcKey)
  show ?thesis
    unfolding multisetDifference_def Let_def
    by (rule differenceLoop_mset [OF inj]; (rule remaining_counts [OF inj])?; simp)
qed

lemma set_multisetDifference: "set (multisetDifference from remove) \<subseteq> set from"
proof -
  have "set (differenceLoop r ts) \<subseteq> set ts" for r ts
    by (induction r ts rule: differenceLoop.induct) (auto simp: Let_def)
  then show ?thesis by (simp add: multisetDifference_def Let_def)
qed

section \<open>Sums per hash\<close>

definition sum_amounts :: "policy_view_tlc list \<Rightarrow> int" where
  "sum_amounts ts = sum_list (map amount_of ts)"

definition of_hash :: "tlc_direction \<Rightarrow> string \<Rightarrow> policy_view_tlc \<Rightarrow> bool" where
  "of_hash dir h t \<longleftrightarrow> pv_direction t = dir \<and> pv_boundPaymentHash t = h"

lemma sum_amounts_simps [simp]:
  "sum_amounts [] = 0" "sum_amounts (t # ts) = amount_of t + sum_amounts ts"
  "sum_amounts (ts @ us) = sum_amounts ts + sum_amounts us"
  by (simp_all add: sum_amounts_def)

lemma foldl_amounts: "foldl (\<lambda>s t. s + amount_of t) a ts = a + sum_amounts ts"
  by (induction ts arbitrary: a) simp_all

lemma holdings_eq: "holdings e ts = e + sum_amounts (filter (\<lambda>t. pv_direction t = offered) ts)"
proof -
  have "foldl (\<lambda>s t. if pv_direction t = offered then s + amount_of t else s) e ts =
      e + sum_amounts (filter (\<lambda>t. pv_direction t = offered) ts)" for e
    by (induction ts arbitrary: e) simp_all
  then show ?thesis by (simp add: holdings_def)
qed

lemma sumByHash_snoc:
  "sumByHash (ts @ [t]) dir =
     (if pv_direction t \<noteq> dir then sumByHash ts dir
      else put (pv_boundPaymentHash t)
        ((case get (sumByHash ts dir) (pv_boundPaymentHash t) of None \<Rightarrow> 0 | Some s \<Rightarrow> s) + amount_of t) (sumByHash ts dir))"
  by (simp add: sumByHash_def)

lemma sumByHash_get:
  "(case get (sumByHash ts dir) h of None \<Rightarrow> 0 | Some s \<Rightarrow> s) = sum_amounts (filter (of_hash dir h) ts)"
proof (induction ts rule: rev_induct)
  case (snoc t ts)
  then show ?case by (auto simp: sumByHash_snoc get_put of_hash_def)
qed (simp add: sumByHash_def)

lemma sumByHash_keys:
  "fst ` set (sumByHash ts dir) = pv_boundPaymentHash ` {t \<in> set ts. pv_direction t = dir}"
proof (induction ts rule: rev_induct)
  case (snoc t ts)
  then show ?case by (auto simp: sumByHash_snoc keys_put)
qed (simp add: sumByHash_def)

lemma drawnBy_eq: "drawnBy ts charged h = sum_amounts (filter (of_hash offered h) ts) + readAmount charged h"
  by (simp add: drawnBy_def sumByHash_get)

lemma sum_amounts_nonneg: "\<forall>t\<in>set ts. 0 \<le> amount_of t \<Longrightarrow> 0 \<le> sum_amounts ts"
  by (induction ts) auto

lemma isViewTlc_nonneg: "isViewTlc t \<Longrightarrow> 0 \<le> amount_of t"
  by (simp add: isViewTlc_def isDecimalShannons_nonneg)

section \<open>Credits\<close>

lemma readAmount_put: "readAmount (put h (toString v) m) g = (if g = h then v else readAmount m g)"
  by (simp add: readAmount_def get_put)

lemma sum_readAmount_put:
  assumes "finite H" "h \<in> H"
  shows "(\<Sum>g\<in>H. readAmount (put h (toString (readAmount m h + v)) m) g) = (\<Sum>g\<in>H. readAmount m g) + v"
proof -
  have "(\<Sum>g\<in>H. readAmount (put h (toString (readAmount m h + v)) m) g) =
      (\<Sum>g\<in>H. readAmount m g + (if g = h then v else 0))"
    by (rule sum.cong) (simp_all add: readAmount_put)
  also have "\<dots> = (\<Sum>g\<in>H. readAmount m g) + v"
    using assms by (simp add: sum.distrib)
  finally show ?thesis .
qed

text \<open>One step of the credit loop: what the TLC is credited, and what it may have paid unasked.\<close>

definition creditOf :: "balance_rule_context \<Rightarrow> (string, string) object \<Rightarrow> policy_view_tlc \<Rightarrow> int" where
  "creditOf ctx credited t =
     (if pv_direction t \<noteq> received then 0
      else case invoiceOf ctx t of None \<Rightarrow> 0
      | Some i \<Rightarrow> if hi_released i
          then min (amount_of t)
                 (max (bigInt (hi_amountShannons i) - creditedAcross credited ctx (pv_boundPaymentHash t)) 0)
          else 0)"

definition uncreditedOf :: "balance_rule_context \<Rightarrow> (string, string) object \<Rightarrow> policy_view_tlc \<Rightarrow> int" where
  "uncreditedOf ctx credited t =
     (if pv_direction t \<noteq> received then 0
      else case invoiceOf ctx t of None \<Rightarrow> amount_of t
      | Some i \<Rightarrow> if hi_released i then amount_of t - creditOf ctx credited t else 0)"

definition addCredit :: "string \<Rightarrow> int \<Rightarrow> (string, string) object \<Rightarrow> (string, string) object" where
  "addCredit h now credited = (if now > 0 then put h (toString (readAmount credited h + now)) credited else credited)"

lemma creditLoop_Cons:
  "creditLoop ctx (t # ts) credited credit uncredited =
     creditLoop ctx ts (addCredit (pv_boundPaymentHash t) (creditOf ctx credited t) credited)
       (credit + creditOf ctx credited t) (uncredited + uncreditedOf ctx credited t)"
  by (simp add: creditOf_def uncreditedOf_def addCredit_def Let_def split: option.split)

declare creditLoop.simps(2) [simp del]

lemma creditOf_nonneg: "0 \<le> amount_of t \<Longrightarrow> 0 \<le> creditOf ctx credited t \<and> creditOf ctx credited t \<le> amount_of t"
  by (auto simp: creditOf_def split: option.split)

lemma sum_addCredit:
  "finite H \<Longrightarrow> h \<in> H \<Longrightarrow> 0 \<le> now \<Longrightarrow>
   (\<Sum>g\<in>H. readAmount (addCredit h now m) g) = (\<Sum>g\<in>H. readAmount m g) + now"
  by (auto simp: addCredit_def sum_readAmount_put)

lemma creditLoop_sum:
  assumes "finite H" "pv_boundPaymentHash ` set ts \<subseteq> H" "\<forall>t\<in>set ts. 0 \<le> amount_of t"
    and "creditLoop ctx ts credited credit uncredited = (credited', credit', uncredited')"
  shows "credit' = credit + (\<Sum>g\<in>H. readAmount credited' g) - (\<Sum>g\<in>H. readAmount credited g)
    \<and> uncredited \<le> uncredited'"
  using assms(2-)
proof (induction ts arbitrary: credited credit uncredited)
  case (Cons t ts)
  have c: "0 \<le> creditOf ctx credited t" "creditOf ctx credited t \<le> amount_of t"
    using creditOf_nonneg [of t ctx credited] Cons.prems(2) by auto
  then have "0 \<le> uncreditedOf ctx credited t"
    using Cons.prems(2) by (auto simp: uncreditedOf_def split: option.split)
  moreover note Cons.IH [of _ "credit + creditOf ctx credited t" "uncredited + uncreditedOf ctx credited t"]
  ultimately show ?case
    using Cons.prems c sum_addCredit [OF assms(1), of "pv_boundPaymentHash t" "creditOf ctx credited t" credited]
    by (fastforce simp: creditLoop_Cons)
qed simp

section \<open>Charges\<close>

lemma sum_addCharges:
  assumes "finite H" "pv_boundPaymentHash ` set ts \<subseteq> H"
  shows "(\<Sum>g\<in>H. readAmount (fold addCharge ts m) g) = (\<Sum>g\<in>H. readAmount m g) + sum_amounts ts"
  using assms(2)
proof (induction ts arbitrary: m)
  case (Cons t ts)
  then show ?case
    using sum_readAmount_put [OF assms(1), of "pv_boundPaymentHash t" m "amount_of t"]
    by (simp add: addCharge_def)
qed simp

lemma readAmount_addCharges:
  "readAmount (fold addCharge ts m) h = readAmount m h + sum_amounts (filter (\<lambda>t. pv_boundPaymentHash t = h) ts)"
proof (induction ts arbitrary: m)
  case (Cons t ts)
  then show ?case by (auto simp: addCharge_def readAmount_put)
qed simp

lemma subsetSum_eq: "subsetSum amounts sub = (\<Sum>i<length amounts. if bit sub i then amounts ! i else 0)"
proof -
  have "foldl (\<lambda>s (i, a). if bit sub i then s + a else s) s (entries amounts) =
      s + (\<Sum>i<length amounts. if bit sub i then amounts ! i else 0)" for s
  proof (induction amounts rule: rev_induct)
    case (snoc a amounts)
    then show ?case by (simp add: entries_def) (intro sum.cong; simp add: nth_append)
  qed (simp add: entries_def)
  then show ?thesis by (simp add: subsetSum_def)
qed

lemma chargedIndexes_iff:
  "i \<in> chargedIndexes amounts lowest highest \<longleftrightarrow> i < length amounts \<and>
     (\<exists>sub. 1 \<le> sub \<and> sub < 2 ^ length amounts \<and> bit sub i
       \<and> lowest \<le> subsetSum amounts sub \<and> subsetSum amounts sub \<le> highest)"
proof -
  have "i \<in> fold (\<lambda>sub charged.
             let s = subsetSum amounts sub in
             if s < lowest \<or> s > highest then charged
             else charged \<union> set (filter (bit sub) [0..<length amounts])) xs A \<longleftrightarrow>
    i \<in> A \<or> i < length amounts \<and> (\<exists>sub\<in>set xs. bit sub i
       \<and> lowest \<le> subsetSum amounts sub \<and> subsetSum amounts sub \<le> highest)" for xs A
  proof (induction xs arbitrary: A)
    case (Cons x xs)
    show ?case
      by (simp only: fold_Cons comp_apply Cons.IH) (auto simp: Let_def)
  qed simp
  then show ?thesis
    unfolding chargedIndexes_def by auto
qed

lemma sum_filterIndexes:
  "sum_amounts (filterIndexes K ts) = (\<Sum>i<length ts. if i \<in> K then amount_of (ts ! i) else 0)"
proof (induction ts rule: rev_induct)
  case (snoc t ts)
  then show ?case by (simp add: filterIndexes_def entries_def) (intro sum.cong; simp add: nth_append)
qed (simp add: filterIndexes_def entries_def)

lemma set_filterIndexes: "set (filterIndexes K xs) = {xs ! i | i. i < length xs \<and> i \<in> K}"
  by (auto simp: filterIndexes_def set_entries image_iff Bex_def)

text \<open>The subsets the loop runs over, as sets of indexes instead of bit masks.\<close>

lemma subset_mask:
  assumes "S \<subseteq> {..<n}" "S \<noteq> {}"
  obtains sub :: nat where "1 \<le> sub" "sub < 2 ^ n" "\<And>i. i < n \<Longrightarrow> bit sub i \<longleftrightarrow> i \<in> S"
proof -
  define sub :: nat where "sub = horner_sum of_bool 2 (map (\<lambda>i. i \<in> S) [0..<n])"
  have bits: "bit sub i \<longleftrightarrow> i \<in> S" if "i < n" for i
    using that by (simp add: sub_def bit_horner_sum_bit_iff)
  moreover have "sub < 2 ^ n"
    using horner_sum_of_bool_2_less [of "map (\<lambda>i. i \<in> S) [0..<n]", where ?'a = nat] by (simp add: sub_def)
  moreover have "sub \<noteq> 0"
    using assms bits by fastforce
  ultimately show ?thesis
    by (intro that [of sub]) auto
qed

definition fitting :: "int list \<Rightarrow> int \<Rightarrow> int \<Rightarrow> nat set \<Rightarrow> bool" where
  "fitting amounts lowest highest S \<longleftrightarrow> S \<subseteq> {..<length amounts} \<and> S \<noteq> {}
     \<and> lowest \<le> (\<Sum>i\<in>S. amounts ! i) \<and> (\<Sum>i\<in>S. amounts ! i) \<le> highest"

lemma subsetSum_set: "subsetSum amounts sub = (\<Sum>i\<in>{j \<in> {..<length amounts}. bit sub j}. amounts ! i)"
  unfolding subsetSum_eq by (rule sum.inter_filter [symmetric]) simp

lemma chargedIndexes_mask:
  assumes "i \<in> chargedIndexes amounts lowest highest"
  shows "\<exists>S. fitting amounts lowest highest S \<and> i \<in> S"
proof -
  from assms obtain sub where sub: "i < length amounts" "bit sub i"
      "lowest \<le> subsetSum amounts sub" "subsetSum amounts sub \<le> highest"
    by (elim chargedIndexes_iff [THEN iffD1, elim_format] conjE exE)
  then have "fitting amounts lowest highest {j \<in> {..<length amounts}. bit sub j}"
    by (auto simp only: fitting_def subsetSum_set mem_Collect_eq lessThan_iff)
  moreover have "i \<in> {j \<in> {..<length amounts}. bit sub j}"
    using sub(1,2) by simp
  ultimately show ?thesis by (intro exI conjI)
qed

lemma chargedIndexes_mask_of:
  assumes "fitting amounts lowest highest S" "i \<in> S"
  shows "i \<in> chargedIndexes amounts lowest highest"
proof -
  have S: "S \<subseteq> {..<length amounts}" "S \<noteq> {}" "lowest \<le> (\<Sum>i\<in>S. amounts ! i)" "(\<Sum>i\<in>S. amounts ! i) \<le> highest"
    using assms(1) by (simp_all add: fitting_def)
  obtain sub :: nat where sub: "1 \<le> sub" "sub < 2 ^ length amounts"
    and bits: "\<And>i. i < length amounts \<Longrightarrow> bit sub i \<longleftrightarrow> i \<in> S"
    by (rule subset_mask [OF S(1,2)]) blast
  have "{j \<in> {..<length amounts}. bit sub j} = S"
    using bits S(1) by auto
  then have "subsetSum amounts sub = (\<Sum>i\<in>S. amounts ! i)"
    by (simp only: subsetSum_set)
  moreover have "i < length amounts"
    using assms(2) S(1) by auto
  ultimately show ?thesis
    unfolding chargedIndexes_iff using sub bits [of i] assms(2) S(3,4) by (intro conjI exI [of _ sub]) simp_all
qed

lemma chargedIndexes_fitting:
  "i \<in> chargedIndexes amounts lowest highest \<longleftrightarrow> (\<exists>S. fitting amounts lowest highest S \<and> i \<in> S)"
  by (rule iffI) (erule chargedIndexes_mask, elim exE conjE, rule chargedIndexes_mask_of)

text \<open>What is charged always accounts for the fall, whatever set of offered TLCs was paid.\<close>

lemma chargedTlcs_Inr:
  assumes "chargedTlcs left shortfall uncredited = Inr charged"
    and "\<forall>t\<in>set left. 0 \<le> amount_of t" and "0 \<le> uncredited"
  shows "shortfall \<le> sum_amounts charged" and "set charged \<subseteq> {t \<in> set left. pv_direction t = offered}"
proof -
  define off where "off = filter (\<lambda>t. pv_direction t = offered) left"
  have nonneg: "0 \<le> amount_of (off ! i)" if "i < length off" for i
    using assms(2) that nth_mem [OF that] by (auto simp: off_def)
  let ?K = "chargedIndexes (map amount_of off) (max shortfall 0) (shortfall + uncredited)"
  have cases: "charged = [] \<and> shortfall \<le> 0 \<or> charged = off \<and> shortfall \<le> sum_amounts off
      \<or> charged = filterIndexes ?K off \<and> (?K = {} \<longrightarrow> shortfall \<le> 0)"
    using assms(1,3) unfolding chargedTlcs_def Let_def off_def [symmetric] foldl_amounts
    by (auto split: if_splits)
  show "set charged \<subseteq> {t \<in> set left. pv_direction t = offered}"
    using cases nth_mem [of _ off] by (auto simp: set_filterIndexes off_def)
  show "shortfall \<le> sum_amounts charged"
    using cases
  proof (elim disjE)
    assume c: "charged = filterIndexes ?K off \<and> (?K = {} \<longrightarrow> shortfall \<le> 0)"
    show ?thesis
    proof (cases "?K = {}")
      case True
      with c have "charged = []" by (simp add: filterIndexes_def)
      with c True show ?thesis by simp
    next
      case False
      then obtain S where S: "fitting (map amount_of off) (max shortfall 0) (shortfall + uncredited) S"
        by (meson chargedIndexes_fitting ex_in_conv)
      then have SK: "S \<subseteq> ?K" and Sn: "S \<subseteq> {..<length off}"
        using chargedIndexes_mask_of [OF S] by (auto simp: fitting_def)
      have "shortfall \<le> (\<Sum>i\<in>S. map amount_of off ! i)"
        using S by (simp add: fitting_def)
      also have "\<dots> = (\<Sum>i\<in>S. amount_of (off ! i))"
        using Sn by (intro sum.cong) auto
      also have "\<dots> \<le> (\<Sum>i\<in>{i \<in> {..<length off}. i \<in> ?K}. amount_of (off ! i))"
        using SK Sn nonneg by (intro sum_mono2) auto
      also have "\<dots> = sum_amounts charged"
        using c sum.inter_filter [of "{..<length off}" "\<lambda>i. amount_of (off ! i)" "\<lambda>i. i \<in> ?K"]
        by (simp add: sum_filterIndexes)
      finally show ?thesis .
    qed
  qed simp_all
qed

lemma chargedTlcs_offered:
  assumes "chargedTlcs left shortfall uncredited = Inr charged"
  shows "\<forall>t\<in>set charged. pv_direction t = offered"
proof -
  define off where "off = filter (\<lambda>t. pv_direction t = offered) left"
  from assms have "charged = [] \<or> charged = off \<or> (\<exists>K. charged = filterIndexes K off)"
    unfolding chargedTlcs_def Let_def off_def [symmetric] by (auto split: if_splits)
  then have "set charged \<subseteq> set off"
    using nth_mem [of _ off] by (auto simp: set_filterIndexes)
  then show ?thesis by (auto simp: off_def)
qed

section \<open>What an accepted commitment guarantees\<close>

lemma judgeCommitment_Inr:
  assumes "judgeCommitment view vs next ctx = Inr s"
  obtains credit uncredited charged where
    "creditLoop ctx (multisetDifference (tlcs (vs view)) (bc_tlcs next)) (creditedShannons (vs view)) 0 0 =
       (creditedShannons s, credit, uncredited)"
    and "chargedTlcs (multisetDifference (tlcs (vs view)) (bc_tlcs next))
       (holdings (bigInt (exposureShannons (vs view))) (tlcs (vs view)) + credit
        - holdings (bc_exposureShannons next) (bc_tlcs next)) uncredited = Inr charged"
    and "chargedShannons s = fold addCharge charged (chargedShannons (vs view))"
    and "exposureShannons s = toString (bc_exposureShannons next)" and "tlcs s = bc_tlcs next"
    and "\<forall>t\<in>set (bc_tlcs next). checkIntentHash ctx t = Inr ()"
    and "\<forall>h\<in>fst ` set (sumByHash (bc_tlcs next) offered).
       checkBudget ctx (drawnBy (bc_tlcs next) (chargedShannons s)) (drawnBy (tlcs (vs view)) (chargedShannons (vs view)))
         (drawnBy (tlcs (vs (other_view view))) (chargedShannons (vs (other_view view)))) h = Inr ()"
    and "\<forall>t\<in>set (multisetDifference (bc_tlcs next) (tlcs (vs view))). checkAlgorithm ctx t = Inr ()"
    and "mixesReleasedHeld [bc_tlcs next, tlcs (vs (other_view view))] ctx True \<Longrightarrow>
       mixesReleasedHeld [tlcs (vs view), tlcs (vs (other_view view))] ctx True
       \<and> \<not> mixesReleasedHeld [multisetDifference (bc_tlcs next) (tlcs (vs view))] ctx False"
proof -
  obtain credited credit uncredited where loop:
    "creditLoop ctx (multisetDifference (tlcs (vs view)) (bc_tlcs next)) (creditedShannons (vs view)) 0 0 =
       (credited, credit, uncredited)"
    by (metis prod_cases3)
  show ?thesis
    using assms loop
    by (auto simp: judgeCommitment_def Let_def bindR_Inr_iff forR_Inr_iff
        split: if_splits intro!: that [of credit uncredited])
qed

lemma checkBudget_Inr_iff:
  "checkBudget ctx after before other h = Inr () \<longleftrightarrow>
     after h \<le> max (before h) (other h) \<or>
     (\<exists>i. intents ctx h = Some i \<and> di_open i \<and> after h + drawnOtherChannels ctx h \<le> bigInt (di_maxShannons i))"
  by (auto simp: checkBudget_def Let_def split: option.splits)

lemma isViewSnapshot_tlcs: "isViewSnapshot s \<Longrightarrow> t \<in> set (tlcs s) \<Longrightarrow> isViewTlc t"
  by (simp add: isViewSnapshot_def list_all_iff)

definition nonneg_tlcs :: "policy_view_tlc list \<Rightarrow> bool" where
  "nonneg_tlcs ts \<longleftrightarrow> list_all (\<lambda>t. 0 \<le> amount_of t) ts"

lemma isViewSnapshot_nonneg: "isViewSnapshot s \<Longrightarrow> nonneg_tlcs (tlcs s)"
  by (auto simp: nonneg_tlcs_def list_all_iff intro: isViewTlc_nonneg isViewSnapshot_tlcs)

text \<open>
  What a view leaves the device with if every offered TLC comes back, plus what it says the device
  spent on payments, less what it says the device was paid: the quantity the rule never lets fall.
\<close>

definition wealth :: "string set \<Rightarrow> policy_view_snapshot \<Rightarrow> int" where
  "wealth H s = holdings (bigInt (exposureShannons s)) (tlcs s)
     + (\<Sum>h\<in>H. readAmount (chargedShannons s) h) - (\<Sum>h\<in>H. readAmount (creditedShannons s) h)"

lemma judgeCommitment_wealth:
  assumes "judgeCommitment view vs next ctx = Inr s" and "nonneg_tlcs (tlcs (vs view))"
    and "finite H" and "pv_boundPaymentHash ` set (tlcs (vs view)) \<subseteq> H"
  shows "wealth H (vs view) \<le> wealth H s"
proof -
  let ?left = "multisetDifference (tlcs (vs view)) (bc_tlcs next)"
  from assms(1) obtain credit uncredited charged where
    loop: "creditLoop ctx ?left (creditedShannons (vs view)) 0 0 = (creditedShannons s, credit, uncredited)"
    and ch: "chargedTlcs ?left
       (holdings (bigInt (exposureShannons (vs view))) (tlcs (vs view)) + credit
        - holdings (bc_exposureShannons next) (bc_tlcs next)) uncredited = Inr charged"
    and s: "chargedShannons s = fold addCharge charged (chargedShannons (vs view))"
      "exposureShannons s = toString (bc_exposureShannons next)" "tlcs s = bc_tlcs next"
    by (rule judgeCommitment_Inr)
  have left: "set ?left \<subseteq> set (tlcs (vs view))"
    by (rule set_multisetDifference)
  then have nonneg: "\<forall>t\<in>set ?left. 0 \<le> amount_of t"
    using assms(2) by (auto simp: nonneg_tlcs_def list_all_iff)
  have "pv_boundPaymentHash ` set ?left \<subseteq> H"
    using left assms(4) by blast
  note credits = creditLoop_sum [OF assms(3) this nonneg loop]
  then have "0 \<le> uncredited" by simp
  note charges = chargedTlcs_Inr [OF ch nonneg this]
  have "pv_boundPaymentHash ` set charged \<subseteq> H"
    using charges(2) left assms(4) by blast
  note sums = sum_addCharges [OF assms(3) this, of "chargedShannons (vs view)"]
  show ?thesis
    using credits charges(1) sums by (simp add: s wealth_def)
qed

end
