(* ===== verification/ClaimFacts.thy ===== *)
theory ClaimFacts
  imports WatchtowerFacts BalanceFacts
begin

text \<open>
  The life of a channel's record as a step relation over the updates of \<^verbatim>\<open>policy-engine.ts\<close>, in any
  order and with any context, and its invariants: a slot serves one session (two at most under
  \<^verbatim>\<open>allow\<close>), lanes never go back, pins never move, and nothing is revoked before its replacement is
  signed.
\<close>

section \<open>What a decision comes to\<close>

abbreviation slot_key :: "claim \<Rightarrow> string" where
  "slot_key c \<equiv> signSlotKey (sl_context (cl_slot c)) (sl_commitmentNumber (cl_slot c))"

abbreviation slot_number :: "claim \<Rightarrow> int" where
  "slot_number c \<equiv> sl_commitmentNumber (cl_slot c)"

text \<open>The checks a decision that writes has passed, whether it serves a first or a second session.\<close>

definition claim_checks ::
    "lib \<Rightarrow> claim \<Rightarrow> channel_policy_record \<Rightarrow> balance_rule_context \<Rightarrow> channel_policy_record \<Rightarrow> bool" where
  "claim_checks L c r ctx r' \<longleftrightarrow>
     (\<forall>n. get (lastSignedCommitmentNumbers r) (sl_lane (cl_slot c)) = Some n \<longrightarrow>
        n \<le> slot_number c \<and> (get (signedSessions r) (slot_key c) = None \<longrightarrow> n < slot_number c)) \<and>
     assertReplacementSigned r (cl_operation c) (slot_number c) = Inr () \<and>
     nextCommitments r (cl_commitment c) = Inr (commitmentHashes r', previousRemoteCommitment r') \<and>
     pinClaim L (pins r) (cl_operation c) = Inr (pins r') \<and>
     applyBalanceRule r c ctx = Inr (views r') \<and>
     lastSignedCommitmentNumbers r' = put (sl_lane (cl_slot c)) (slot_number c) (lastSignedCommitmentNumbers r) \<and>
     channelId r' = channelId r \<and> revocations r' = revocations r \<and> watchtowerSpends r' = watchtowerSpends r"

definition served_now :: "claim \<Rightarrow> channel_policy_record \<Rightarrow> channel_policy_record \<Rightarrow> policy_verdict \<Rightarrow> bool" where
  "served_now c r r' v \<longleftrightarrow>
     get (signedSessions r) (slot_key c) = None \<and> v = verdict_of (cl_slot c) fresh \<and>
     nonceReuse r' = nonceReuse r \<and>
     signedSessions r' = put (slot_key c) (cl_sessionCommitment c) (signedSessions r)"

definition reused_now :: "claim \<Rightarrow> channel_policy_record \<Rightarrow> channel_policy_record \<Rightarrow> policy_verdict \<Rightarrow> bool" where
  "reused_now c r r' v \<longleftrightarrow>
     get (signedSessions r) (slot_key c) \<noteq> None \<and> get (nonceReuse r) (slot_key c) = None \<and>
     cl_nonceReuse c = reuse_allow \<and> v = verdict_of (cl_slot c) reused \<and>
     signedSessions r' = signedSessions r \<and>
     nonceReuse r' = put (slot_key c)
       \<lparr> nr_sessionCommitment = cl_sessionCommitment c, nr_message = cl_message c \<rparr> (nonceReuse r)"

text \<open>The two sessions a record holds for a slot at most.\<close>

definition sessions_of :: "channel_policy_record \<Rightarrow> string \<Rightarrow> string set" where
  "sessions_of r k = set_option (get (signedSessions r) k)
     \<union> set_option (map_option nr_sessionCommitment (get (nonceReuse r) k))"

lemma reuse_mode_cases: "m \<noteq> reuse_refuse \<Longrightarrow> m = reuse_allow"
  by (cases m) simp_all

lemma decideClaim_Inr:
  assumes "decideClaim L c r ctx = Inr (v, r')"
  shows "r' = r \<and> cl_sessionCommitment c \<in> sessions_of r (slot_key c) \<and> vd_status v \<noteq> fresh
    \<or> cl_sessionCommitment c \<notin> sessions_of r (slot_key c) \<and> claim_checks L c r ctx r'
        \<and> (served_now c r r' v \<or> reused_now c r r' v)"
proof (cases "cl_sessionCommitment c \<in> sessions_of r (slot_key c)")
  case True
  then show ?thesis
    using assms
    by (auto simp: decideClaim_def Let_def sessions_of_def verdict_of_def split: if_splits)
next
  case False
  then have not_repeat: "get (signedSessions r) (slot_key c) \<noteq> Some (cl_sessionCommitment c)"
    "map_option nr_sessionCommitment (get (nonceReuse r) (slot_key c)) \<noteq> Some (cl_sessionCommitment c)"
    by (auto simp: sessions_of_def)
  obtain hashes previous ps vs where
    twice: "\<not> (get (signedSessions r) (slot_key c) \<noteq> None \<and> get (nonceReuse r) (slot_key c) \<noteq> None)"
    and refuse: "\<not> (get (signedSessions r) (slot_key c) \<noteq> None \<and> cl_nonceReuse c = reuse_refuse)"
    and lane: "(case get (lastSignedCommitmentNumbers r) (sl_lane (cl_slot c)) of
                    None \<Rightarrow> Inr ()
                  | Some lastSigned \<Rightarrow>
                      if (if get (signedSessions r) (slot_key c) = None
                          then slot_number c \<le> lastSigned else slot_number c < lastSigned)
                      then refusePolicyRequest stale_state ''lane'' else Inr ()) = Inr ()"
    and checks: "assertReplacementSigned r (cl_operation c) (slot_number c) = Inr ()"
      "nextCommitments r (cl_commitment c) = Inr (hashes, previous)"
      "pinClaim L (pins r) (cl_operation c) = Inr ps" "applyBalanceRule r c ctx = Inr vs"
    and result: "(let lanes = put (sl_lane (cl_slot c)) (slot_number c) (lastSignedCommitmentNumbers r);
               moved = r\<lparr> lastSignedCommitmentNumbers := lanes, commitmentHashes := hashes,
                                 previousRemoteCommitment := previous, pins := ps, views := vs \<rparr>
           in if get (signedSessions r) (slot_key c) \<noteq> None
              then Inr (verdict_of (cl_slot c) reused,
                moved\<lparr> nonceReuse := put (slot_key c)
                  \<lparr> nr_sessionCommitment = cl_sessionCommitment c, nr_message = cl_message c \<rparr> (nonceReuse r) \<rparr>)
              else Inr (verdict_of (cl_slot c) fresh,
                moved\<lparr> signedSessions := put (slot_key c) (cl_sessionCommitment c) (signedSessions r) \<rparr>))
        = (Inr (v, r') :: (policy_verdict \<times> channel_policy_record) res)"
    using assms
    unfolding decideClaim_def Let_def not_repeat [THEN eq_False [THEN iffD2]] if_False
      bindR_unit_Inr_iff bindR_Inr_iff check_Inr_iff split_paired_Ex prod.case
    by (elim exE conjE) (rule that, (assumption | (unfold Let_def, assumption))+)
  from lane have lane': "\<forall>n. get (lastSignedCommitmentNumbers r) (sl_lane (cl_slot c)) = Some n \<longrightarrow>
        n \<le> slot_number c \<and> (get (signedSessions r) (slot_key c) = None \<longrightarrow> n < slot_number c)"
    by (auto split: if_splits option.splits)
  show ?thesis
  proof (cases "get (signedSessions r) (slot_key c) = None")
    case True
    with result have "claim_checks L c r ctx r'" "served_now c r r' v"
      using lane' checks by (auto simp: claim_checks_def served_now_def Let_def)
    with False show ?thesis by blast
  next
    case served: False
    then have "get (nonceReuse r) (slot_key c) = None" "cl_nonceReuse c = reuse_allow"
      using twice refuse reuse_mode_cases by blast+
    with served result have "claim_checks L c r ctx r'" "reused_now c r r' v"
      using lane' checks by (auto simp: claim_checks_def reused_now_def Let_def)
    with False show ?thesis by blast
  qed
qed

section \<open>The life of a record\<close>

text \<open>
  A claim that writes is \<open>Granted\<close>, one that finds its session already served \<open>Repeated\<close>; either lets
  the device sign. Every rule is an update of the engine run alone on the record, as the store's
  lanes run it; a claim comes with any context and any mode, so the relation covers every
  interleaving with other channels and every configuration of the host.
\<close>

datatype record_event =
    Granted claim policy_verdict
  | Repeated claim policy_verdict
  | RevocationRecorded int
  | HostPinned
  | WatchtowerUpdated
  | Registered

inductive record_step :: "lib \<Rightarrow> channel_policy_record \<Rightarrow> record_event \<Rightarrow> channel_policy_record \<Rightarrow> bool"
  for L where
  grant: "decideClaim L c r ctx = Inr (v, r') \<Longrightarrow> r' \<noteq> r \<Longrightarrow> record_step L r (Granted c v) r'"
| repeat: "decideClaim L c r ctx = Inr (v, r) \<Longrightarrow> record_step L r (Repeated c v) r"
| revocation: "recordRevocationUpdate n signature r = Inr r' \<Longrightarrow> record_step L r (RevocationRecorded n) r'"
| host_pins: "pinHostValuesUpdate stated flds r = Inr r' \<Longrightarrow> record_step L r HostPinned r'"
| watchtower_claim: "decideWatchtowerSpend L keys r approval request = Inr (v, r') \<Longrightarrow> record_step L r WatchtowerUpdated r'"
| watchtower_signature:
    "updateWatchtowerSpend requestId (recordWatchtowerSignature signature) r = Inr r' \<Longrightarrow>
     record_step L r WatchtowerUpdated r'"
| watchtower_applied:
    "updateWatchtowerSpend requestId markWatchtowerSpendApplied r = Inr r' \<Longrightarrow>
     record_step L r WatchtowerUpdated r'"
| register: "registerUpdate name funded ps (Some r) = Inr r' \<Longrightarrow> record_step L r Registered r'"

inductive record_run :: "lib \<Rightarrow> channel_policy_record \<Rightarrow> record_event list \<Rightarrow> channel_policy_record \<Rightarrow> bool"
  for L r where
  start: "record_run L r [] r"
| snoc: "record_run L r es r' \<Longrightarrow> record_step L r' e r'' \<Longrightarrow> record_run L r (es @ [e]) r''"

inductive_cases record_step_Granted: "record_step L r (Granted c v) r'"
inductive_cases record_step_Repeated: "record_step L r (Repeated c v) r'"

fun claim_of :: "record_event \<Rightarrow> claim option" where
  "claim_of (Granted c v) = Some c"
| "claim_of (Repeated c v) = Some c"
| "claim_of _ = None"

definition claims_of :: "record_event list \<Rightarrow> claim list" where
  "claims_of es = List.map_filter claim_of es"

definition sessions_signed :: "record_event list \<Rightarrow> string \<Rightarrow> string set" where
  "sessions_signed es k = set (map cl_sessionCommitment (filter (\<lambda>c. slot_key c = k) (claims_of es)))"

lemma claims_of_simps [simp]:
  "claims_of [] = []"
  "claims_of (es @ [e]) = claims_of es @ (case claim_of e of None \<Rightarrow> [] | Some c \<Rightarrow> [c])"
  by (simp_all add: claims_of_def List.map_filter_def split: option.split)

text \<open>Every update but a claim leaves the slots, the lanes and the commitments alone.\<close>

definition same_signing_state :: "channel_policy_record \<Rightarrow> channel_policy_record \<Rightarrow> bool" where
  "same_signing_state r r' \<longleftrightarrow>
     signedSessions r' = signedSessions r \<and> nonceReuse r' = nonceReuse r \<and>
     lastSignedCommitmentNumbers r' = lastSignedCommitmentNumbers r \<and>
     commitmentHashes r' = commitmentHashes r \<and> views r' = views r \<and> pins_extend (pins r) (pins r')"

lemma record_step_cases [consumes 1, case_names granted repeated other]:
  assumes "record_step L r e r'"
    and "\<And>c v ctx. e = Granted c v \<Longrightarrow> claim_checks L c r ctx r' \<Longrightarrow>
           cl_sessionCommitment c \<notin> sessions_of r (slot_key c) \<Longrightarrow>
           served_now c r r' v \<or> reused_now c r r' v \<Longrightarrow> P"
    and "\<And>c v. e = Repeated c v \<Longrightarrow> r' = r \<Longrightarrow>
           cl_sessionCommitment c \<in> sessions_of r (slot_key c) \<Longrightarrow> vd_status v \<noteq> fresh \<Longrightarrow> P"
    and "claim_of e = None \<Longrightarrow> same_signing_state r r' \<Longrightarrow> P"
  shows P
  using assms(1)
proof cases
  case (grant c ctx v)
  then show ?thesis
    using decideClaim_Inr [of L c r ctx v r'] assms(2) by blast
next
  case (repeat c ctx v)
  have "\<not> (served_now c r r v \<or> reused_now c r r v)"
    by (auto simp: served_now_def reused_now_def dest: arg_cong [where f = "\<lambda>m. get m (slot_key c)"])
  with repeat show ?thesis
    using decideClaim_Inr [of L c r ctx v r] assms(3) by blast
next
  case (revocation n signature)
  then show ?thesis
    by (intro assms(4)) (auto simp: recordRevocationUpdate_def same_signing_state_def Let_def split: if_splits)
next
  case (host_pins stated flds)
  then show ?thesis
    by (intro assms(4)) (auto simp: pinHostValuesUpdate_def same_signing_state_def bindR_Inr_iff split: if_splits)
next
  case (watchtower_claim keys approval request v)
  then show ?thesis
    by (intro assms(4)) (auto simp: same_signing_state_def dest!: decideWatchtowerSpend_frame)
next
  case (watchtower_signature requestId signature)
  then show ?thesis
    by (intro assms(4))
       (auto simp: updateWatchtowerSpend_def same_signing_state_def bindR_Inr_iff Let_def split: if_splits option.splits)
next
  case (watchtower_applied requestId)
  then show ?thesis
    by (intro assms(4))
       (auto simp: updateWatchtowerSpend_def same_signing_state_def bindR_Inr_iff Let_def split: if_splits option.splits)
next
  case (register name funded ps)
  then show ?thesis
    by (intro assms(4)) (auto simp: registerUpdate_def same_signing_state_def bindR_Inr_iff split: if_splits)
qed

text \<open>The worked example as runs.\<close>

abbreviation granted_as :: "claim \<Rightarrow> verdict_status \<Rightarrow> record_event" where
  "granted_as c status \<equiv> Granted c (verdict_of (cl_slot c) status)"

lemma writes_step: "writes c r status \<Longrightarrow> record_step demo_lib r (granted_as c status) (decided c r)"
  using record_step.grant writes_granted by blast

lemma sample_step1: "record_step demo_lib sample_record (granted_as sample_first fresh) sample_record1"
  by (rule record_step.grant [OF sample_first_granted])
     (simp add: sample_record1_def sample_record_def newChannelRecord_def)

lemmas sample_step2 = writes_step [OF sample_second_writes]
lemmas sample_step_again = writes_step [OF sample_again_writes]
lemmas sample_step_close = writes_step [OF sample_close_writes]
lemmas sample_step_revocation = writes_step [OF sample_revocation_writes]

lemma sample_run1: "record_run demo_lib sample_record [granted_as sample_first fresh] sample_record1"
  using record_run.snoc [OF record_run.start sample_step1] by simp

lemma sample_run2:
  "record_run demo_lib sample_record [granted_as sample_first fresh, granted_as sample_second fresh]
     (decided sample_second sample_record1)"
  using record_run.snoc [OF sample_run1 sample_step2] by simp

lemma sample_run_again:
  "record_run demo_lib sample_record [granted_as sample_first fresh, granted_as sample_again reused]
     (decided sample_again sample_record1)"
  using record_run.snoc [OF sample_run1 sample_step_again] by simp

lemmas sample_claim_defs =
  sample_first_def sample_second_def sample_again_def sample_close_def sample_revocation_def sample_commitment_def

section \<open>Sign once\<close>

lemma sessions_of_mono:
  assumes "record_step L r e r'"
  shows "sessions_of r k \<subseteq> sessions_of r' k"
  using assms
proof (cases rule: record_step_cases)
  case (granted c v ctx)
  then show ?thesis
    by (cases "k = slot_key c") (auto simp: sessions_of_def served_now_def reused_now_def)
qed (auto simp: sessions_of_def same_signing_state_def)

lemma session_recorded:
  assumes "record_step L r e r'" "claim_of e = Some c"
  shows "cl_sessionCommitment c \<in> sessions_of r' (slot_key c)"
  using assms
proof (cases rule: record_step_cases)
  case (granted c v ctx)
  then show ?thesis
    using assms(2) by (auto simp: sessions_of_def served_now_def reused_now_def get_put)
qed (use assms(2) in auto)

lemma run_sessions:
  "record_run L r es r' \<Longrightarrow> sessions_signed es k \<subseteq> sessions_of r' k"
proof (induction rule: record_run.induct)
  case (snoc es r1 e r2)
  then show ?case
    using sessions_of_mono [OF snoc.hyps(2), of k] session_recorded [OF snoc.hyps(2)]
    by (auto simp: sessions_signed_def split: option.splits)
qed (simp add: sessions_signed_def)

lemma card_sessions_of: "finite (sessions_of r k)" "card (sessions_of r k) \<le> 2"
proof -
  show "finite (sessions_of r k)"
    by (simp add: sessions_of_def)
  have "card (set_option m) \<le> 1" for m :: "string option"
    by (cases m) simp_all
  then show "card (sessions_of r k) \<le> 2"
    unfolding sessions_of_def
    by (intro order.trans [OF card_Un_le]) (metis add_mono one_add_one)
qed

lemma refuse_keeps_reuse:
  assumes "record_run L r es r'" "\<forall>c\<in>set (claims_of es). cl_nonceReuse c = reuse_refuse"
  shows "nonceReuse r' = nonceReuse r"
  using assms
proof (induction rule: record_run.induct)
  case (snoc es r1 e r2)
  then have IH: "nonceReuse r1 = nonceReuse r" by simp
  from snoc.hyps(2) show ?case
  proof (cases rule: record_step_cases)
    case (granted c v ctx)
    then show ?thesis
      using IH snoc.prems by (auto simp: served_now_def reused_now_def)
  qed (use IH in \<open>auto simp: same_signing_state_def\<close>)
qed simp

text \<open>C29 Sign once. Whatever the engine is asked, in whatever order and with whatever the other channels
  hold, the device signs at most two distinct sessions in one slot, in any mode and from any stored record:
  three signatures under one nonce, which would give the funding key away, never happen.\<close>

theorem at_most_two_sessions_per_slot:
  assumes "record_run L r es r'"
  shows "card (sessions_signed es k) \<le> 2"
  using card_mono [OF card_sessions_of(1) run_sessions [OF assms]] card_sessions_of(2)
  by (rule order.trans)

lemma at_most_two_sessions_per_slot_witness:
  "card (sessions_signed [granted_as sample_first fresh, granted_as sample_again reused] (signSlotKey COMMITMENT 1)) \<le> 2"
  by (rule at_most_two_sessions_per_slot [OF sample_run_again])

lemma run_one_session:
  assumes "record_run L r es r'" and "\<forall>c\<in>set (claims_of es). cl_nonceReuse c = reuse_refuse"
    and "get (nonceReuse r) k = None"
  shows "sessions_signed es k \<subseteq> set_option (get (signedSessions r') k)"
proof -
  have "get (nonceReuse r') k = None"
    using refuse_keeps_reuse [OF assms(1,2)] assms(3) by simp
  with run_sessions [OF assms(1), of k] show ?thesis
    by (simp add: sessions_of_def)
qed

lemma card_option: "A \<subseteq> set_option m \<Longrightarrow> card A \<le> 1"
  by (cases m) (auto simp: subset_singleton_iff)

text \<open>C16 In the mode the engine has unless the host changes it, \<^verbatim>\<open>refuse\<close>, the device signs at most one session
  in a slot the record holds no second session of, over any run of updates.\<close>

theorem one_session_per_slot:
  assumes "record_run L r es r'" and "\<forall>c\<in>set (claims_of es). cl_nonceReuse c = reuse_refuse"
    and "get (nonceReuse r) k = None"
  shows "card (sessions_signed es k) \<le> 1"
  by (rule card_option [OF run_one_session [OF assms]])

lemma one_session_per_slot_witness:
  "card (sessions_signed [granted_as sample_first fresh, granted_as sample_second fresh] (signSlotKey COMMITMENT 1)) \<le> 1"
  by (rule one_session_per_slot [OF sample_run2])
     (simp_all add: claims_of_def List.map_filter_def sample_claim_defs sample_record_def newChannelRecord_def)

section \<open>Lanes\<close>

definition lane_le :: "(signing_lane, int) object \<Rightarrow> (signing_lane, int) object \<Rightarrow> bool" where
  "lane_le m m' \<longleftrightarrow> (\<forall>l n. get m l = Some n \<longrightarrow> (\<exists>n'. get m' l = Some n' \<and> n \<le> n'))"

lemma lane_le_refl [simp]: "lane_le m m"
  by (simp add: lane_le_def)

lemma lane_le_trans: "lane_le a b \<Longrightarrow> lane_le b c \<Longrightarrow> lane_le a c"
  unfolding lane_le_def by (meson order.trans)

lemma step_lane_le:
  assumes "record_step L r e r'"
  shows "lane_le (lastSignedCommitmentNumbers r) (lastSignedCommitmentNumbers r')"
  using assms
proof (cases rule: record_step_cases)
  case (granted c v ctx)
  then show ?thesis
    by (auto simp: claim_checks_def lane_le_def get_put)
qed (auto simp: same_signing_state_def)

lemma run_lane_le:
  "record_run L r es r' \<Longrightarrow> lane_le (lastSignedCommitmentNumbers r) (lastSignedCommitmentNumbers r')"
  by (induction rule: record_run.induct) (auto intro: step_lane_le lane_le_trans)

lemma run_lane_above:
  assumes "record_run L r es r'" "Granted c v \<in> set es"
  shows "\<exists>n. get (lastSignedCommitmentNumbers r') (sl_lane (cl_slot c)) = Some n \<and> slot_number c \<le> n"
  using assms
proof (induction rule: record_run.induct)
  case (snoc es r1 e r2)
  show ?case
  proof (cases "Granted c v \<in> set es")
    case True
    with snoc show ?thesis
      using step_lane_le [OF snoc.hyps(2)] unfolding lane_le_def by (meson order.trans)
  next
    case False
    with snoc.prems have "e = Granted c v" by simp
    with snoc.hyps(2) show ?thesis
      by (cases rule: record_step_cases) (auto simp: claim_checks_def)
  qed
qed simp

text \<open>C31 A first session in a slot is strictly above every number signed before in the same lane: no lane,
  over any run, goes back to a number below one it served.\<close>

theorem fresh_above_lane:
  assumes "record_run L r es r'" and "record_step L r' (Granted c v) r''"
    and "Granted c' v' \<in> set es" and "sl_lane (cl_slot c') = sl_lane (cl_slot c)"
  shows "slot_number c' \<le> slot_number c \<and> (vd_status v = fresh \<longrightarrow> slot_number c' < slot_number c)"
proof -
  obtain n where n: "get (lastSignedCommitmentNumbers r') (sl_lane (cl_slot c)) = Some n" "slot_number c' \<le> n"
    using run_lane_above [OF assms(1,3)] assms(4) by auto
  from assms(2) show ?thesis
  proof (cases rule: record_step_cases)
    case (granted d w ctx)
    then show ?thesis
      using n by (auto simp: claim_checks_def served_now_def reused_now_def verdict_of_def)
  qed simp_all
qed

lemma fresh_above_lane_witness: "slot_number sample_first < slot_number sample_second"
proof -
  have "sl_lane (cl_slot sample_first) = sl_lane (cl_slot sample_second)"
    by (simp add: sample_claim_defs)
  then show ?thesis
    using fresh_above_lane [OF sample_run1 sample_step2, of sample_first "verdict_of (cl_slot sample_first) fresh"]
    by (simp add: verdict_of_def)
qed

section \<open>Pins\<close>

lemma pinClaim_Inr:
  assumes "pinClaim L ps op = Inr ps'"
  obtains stated where "statedChannelPins L op = Inr stated" "findChannelPinConflict ps stated = Inr None"
    "\<forall>f. f \<in> set CHANNEL_TERMS_PINS \<longrightarrow> get stated (Pin f) = None \<or> (\<exists>v. get (pinned ps) f = Some v)"
    "judgeCapacityBounds op = Inr ()" "ps' = withChannelPins ps stated FIRST_SIGHT_CHANNEL_PINS"
  using assms
  by (auto simp: pinClaim_def bindR_Inr_iff find_None_iff split: if_splits)

lemma step_pins_extend:
  assumes "record_step L r e r'"
  shows "pins_extend (pins r) (pins r')"
  using assms
proof (cases rule: record_step_cases)
  case (granted c v ctx)
  then have "pinClaim L (pins r) (cl_operation c) = Inr (pins r')"
    by (simp add: claim_checks_def)
  then show ?thesis by (rule pinClaim_Inr) simp
qed (auto simp: same_signing_state_def)

text \<open>C32 A channel never unlearns a pin: over any run of updates the funded amount, the close script and the
  reserves stay those of the registration, and every value pinned once keeps that value.\<close>

theorem pins_never_move:
  assumes "record_run L r es r'"
  shows "pins_extend (pins r) (pins r')"
  using assms by (induction rule: record_run.induct) (auto intro: step_pins_extend pins_extend_trans)

lemma pins_never_move_witness: "pins_extend (pins sample_record) (pins (decided sample_second sample_record1))"
  by (rule pins_never_move [OF sample_run2])

lemma all_pin_fields: "f \<in> set FIRST_SIGHT_CHANNEL_PINS \<union> set CHANNEL_TERMS_PINS"
  by (cases f) (simp_all add: FIRST_SIGHT_CHANNEL_PINS_def CHANNEL_TERMS_PINS_def)

text \<open>C33 Nothing is signed that contradicts a pin: once an operation passes, every value it states for a pinned
  field is the value the record pins from then on, the device's close script and the asset it states are the
  registered ones, and a reserve it states for the device is the one registered for the lock layout it states.\<close>

theorem signed_values_are_pinned:
  assumes "pinClaim L ps op = Inr ps'" and "statedChannelPins L op = Inr stated"
  shows "(\<forall>f v. statedValue stated f = Some v \<longrightarrow> get (pinned ps') f = Some v) \<and>
    (\<forall>v. get stated LocalCloseScript = Some v \<longrightarrow> v = Some (localCloseScript ps')) \<and>
    (\<forall>v. get stated UdtTypeScript = Some v \<longrightarrow> v = None) \<and>
    (\<forall>v. get stated LocalReservedCkbShannons = Some v \<longrightarrow>
       (\<exists>layout. get stated (Pin P_lockLayout) = Some (Some (layout_name layout)) \<and> v = get (localReservedCkbShannons ps') layout))"
proof -
  from assms(1) obtain st where st: "statedChannelPins L op = Inr st"
    and none: "findChannelPinConflict ps st = Inr None"
    and terms: "\<forall>f. f \<in> set CHANNEL_TERMS_PINS \<longrightarrow> get st (Pin f) = None \<or> (\<exists>v. get (pinned ps) f = Some v)"
    and ps': "ps' = withChannelPins ps st FIRST_SIGHT_CHANNEL_PINS"
    by (rule pinClaim_Inr)
  from st assms(2) have [simp]: "st = stated" by simp
  have agree: "p = v" if "get stated field = Some v" "field \<noteq> LocalReservedCkbShannons" "pinnedValue ps field = Some p"
    for field v p
    using conflictLoop_None [OF none [unfolded findChannelPinConflict_def] _ that(2,3)] map_of_SomeD [OF that(1)]
    by simp
  have "get (pinned ps') f = Some v" if v: "statedValue stated f = Some v" for f v
  proof -
    have g: "get stated (Pin f) = Some (Some v)"
      using v by (auto simp: statedValue_def split: option.splits)
    show ?thesis
    proof (cases "get (pinned ps) f")
      case None
      then have "f \<in> set FIRST_SIGHT_CHANNEL_PINS"
        using terms g all_pin_fields [of f] by auto
      with None v show ?thesis by (simp add: ps' withChannelPins_get)
    next
      case (Some w)
      then have "Some w = Some v"
        using agree [OF g] by simp
      with Some show ?thesis by (simp add: ps' withChannelPins_get)
    qed
  qed
  moreover have "v = Some (localCloseScript ps')" if "get stated LocalCloseScript = Some v" for v
    using agree [OF that] ps' by simp
  moreover have "v = None" if "get stated UdtTypeScript = Some v" for v
    using agree [OF that] by simp
  moreover have "\<exists>layout. get stated (Pin P_lockLayout) = Some (Some (layout_name layout)) \<and> v = get (localReservedCkbShannons ps') layout"
    if "get stated LocalReservedCkbShannons = Some v" for v
  proof -
    from conflictLoop_None_reserve [OF none [unfolded findChannelPinConflict_def]] map_of_SomeD [OF that]
    obtain layout where "statedLayout stated = Some (layout_name layout)" "get (localReservedCkbShannons ps) layout = v" by auto
    then show ?thesis
      by (intro exI [of _ layout]) (auto simp: ps' statedLayout_def split: option.splits)
  qed
  ultimately show ?thesis by blast
qed

lemma signed_values_are_pinned_witness:
  "get (pinned sample_pins1) P_commitmentDelayEpoch = Some ''1''"
  using signed_values_are_pinned [OF sample_second_pinned sample_second_stated] sample_second_states by blast

section \<open>Versions\<close>

lemma nextCommitments_Inr:
  assumes "nextCommitments r commitment = Inr (h, p)"
  shows "(commitment = None \<longrightarrow> h = commitmentHashes r) \<and>
    (\<forall>m. commitment = Some m \<longrightarrow>
       h = put (cm_view m) (cm_record m) (commitmentHashes r) \<and>
       (\<forall>l. get (commitmentHashes r) (cm_view m) = Some l \<longrightarrow>
          (if cm_view m = local_view then sc_commitmentNumber l < sc_commitmentNumber (cm_record m)
           else assertRemoteSuccessor r (sc_commitmentNumber (cm_record m)) (sc_commitmentNumber l) = Inr ())))"
  using assms
  by (cases commitment; cases "cm_view (the commitment)")
     (auto simp: nextCommitments_def Let_def bindR_unit_Inr_iff split: option.splits if_splits)

lemma assertRemoteSuccessor_Inr_iff:
  "assertRemoteSuccessor r version l = Inr () \<longleftrightarrow>
     version = l + 1 \<and>
     (get (signedSessions r) (signSlotKey COMMITMENT (l - 1)) \<noteq> None \<longrightarrow>
        get (lastSignedCommitmentNumbers r) REVOKE_local = Some l \<and> (\<exists>e\<in>set (revocations r). re_version e = l - 1))"
  by (auto simp: assertRemoteSuccessor_def Let_def list_ex_iff)

text \<open>C23 The peer's next commitment waits for the revocation of the one before the last: a remote commitment signed
  for the first time is exactly one above the view's last, and if the commitment slot below that last was
  served, the lane of received revocations stands at the last and the complete revocation signature of the
  one before it is recorded.\<close>

theorem remote_commitment_follows_revocation:
  assumes "record_step L r (Granted c v) r'"
    and "cl_commitment c = Some m" and "cm_view m = remote_view"
    and "get (commitmentHashes r) remote_view = Some l"
  shows "sc_commitmentNumber (cm_record m) = sc_commitmentNumber l + 1 \<and>
    (get (signedSessions r) (signSlotKey COMMITMENT (sc_commitmentNumber l - 1)) \<noteq> None \<longrightarrow>
       get (lastSignedCommitmentNumbers r) REVOKE_local = Some (sc_commitmentNumber l) \<and>
       (\<exists>e\<in>set (revocations r). re_version e = sc_commitmentNumber l - 1))"
  using assms(1)
proof (cases rule: record_step_cases)
  case (granted d w ctx)
  then have "nextCommitments r (Some m) = Inr (commitmentHashes r', previousRemoteCommitment r')"
    using assms(2) by (simp add: claim_checks_def)
  then have "assertRemoteSuccessor r (sc_commitmentNumber (cm_record m)) (sc_commitmentNumber l) = Inr ()"
    using assms(3,4) nextCommitments_Inr by fastforce
  then show ?thesis by (simp add: assertRemoteSuccessor_Inr_iff)
qed simp_all

lemma remote_commitment_follows_revocation_witness:
  "sc_commitmentNumber (cm_record (the (cl_commitment sample_second))) = 2"
  using remote_commitment_follows_revocation [OF sample_step2, of "the (cl_commitment sample_second)"]
  by (simp add: sample_claim_defs sample_record1_def)

fun version_of :: "policy_view \<Rightarrow> record_event \<Rightarrow> int list" where
  "version_of view (Granted c v) =
     (case cl_commitment c of None \<Rightarrow> []
      | Some m \<Rightarrow> if cm_view m = view then [sc_commitmentNumber (cm_record m)] else [])"
| "version_of view _ = []"

definition versions :: "policy_view \<Rightarrow> record_event list \<Rightarrow> int list" where
  "versions view es = concat (map (version_of view) es)"

lemma versions_simps [simp]: "versions view [] = []" "versions view (es @ [e]) = versions view es @ version_of view e"
  by (simp_all add: versions_def)

lemma step_commitmentHashes:
  assumes "record_step L r e r'"
  shows "version_of view e = [] \<and> get (commitmentHashes r') view = get (commitmentHashes r) view \<or>
    (\<exists>c v m. e = Granted c v \<and> cl_commitment c = Some m \<and> cm_view m = view \<and>
       get (commitmentHashes r') view = Some (cm_record m) \<and>
       (\<forall>l. get (commitmentHashes r) view = Some l \<longrightarrow>
          (if view = local_view then sc_commitmentNumber l < sc_commitmentNumber (cm_record m)
           else sc_commitmentNumber (cm_record m) = sc_commitmentNumber l + 1)))"
  using assms
proof (cases rule: record_step_cases)
  case (granted c v ctx)
  then have "nextCommitments r (cl_commitment c) = Inr (commitmentHashes r', previousRemoteCommitment r')"
    by (simp add: claim_checks_def)
  note nc = nextCommitments_Inr [OF this]
  show ?thesis
  proof (cases "cl_commitment c")
    case None
    with nc granted(1) show ?thesis by simp
  next
    case (Some m)
    with nc granted(1) show ?thesis
      by (cases "cm_view m = view") (auto simp: assertRemoteSuccessor_Inr_iff)
  qed
next
  case other
  then show ?thesis by (cases e) (auto simp: same_signing_state_def)
qed simp

lemma run_versions:
  assumes "record_run L r es r'"
  shows "(versions view es = [] \<and> get (commitmentHashes r') view = get (commitmentHashes r) view \<or>
      (\<exists>sc. versions view es \<noteq> [] \<and> get (commitmentHashes r') view = Some sc
         \<and> sc_commitmentNumber sc = last (versions view es)))
    \<and> sorted_wrt (<) (versions view es)
    \<and> (view = remote_view \<longrightarrow> (\<exists>a. versions view es = map (\<lambda>i. a + int i) [0..<length (versions view es)]))"
  using assms
proof (induction rule: record_run.induct)
  case (snoc es r1 e r2)
  from step_commitmentHashes [OF snoc.hyps(2), of view] show ?case
  proof (elim disjE exE conjE)
    assume "version_of view e = []" "get (commitmentHashes r2) view = get (commitmentHashes r1) view"
    with snoc.IH show ?thesis by (cases view) simp_all
  next
    fix c v m
    assume e: "e = Granted c v" "cl_commitment c = Some m" "cm_view m = view"
      and h: "get (commitmentHashes r2) view = Some (cm_record m)"
      and l: "\<forall>l. get (commitmentHashes r1) view = Some l \<longrightarrow>
          (if view = local_view then sc_commitmentNumber l < sc_commitmentNumber (cm_record m)
           else sc_commitmentNumber (cm_record m) = sc_commitmentNumber l + 1)"
    let ?n = "sc_commitmentNumber (cm_record m)"
    show ?thesis
    proof (cases "versions view es = []")
      case True
      with e h show ?thesis by (auto intro: exI [of _ ?n])
    next
      case False
      with snoc.IH obtain sc where sc: "get (commitmentHashes r1) view = Some sc"
        "sc_commitmentNumber sc = last (versions view es)" by auto
      have above: "last (versions view es) < ?n"
        using l sc by (cases view) auto
      have "sorted_wrt (<) (versions view es @ [?n])"
        using snoc.IH above False by (simp add: sorted_wrt_snoc)
      moreover have "\<exists>a. versions view es @ [?n] = map (\<lambda>i. a + int i) [0..<Suc (length (versions view es))]"
        if "view = remote_view"
      proof -
        from that snoc.IH obtain a where a: "versions view es = map (\<lambda>i. a + int i) [0..<length (versions view es)]"
          by blast
        have "last (versions view es) = a + int (length (versions view es) - 1)"
          using False by (subst a) (simp add: last_map)
        then have "?n = a + int (length (versions view es))"
          using l sc that False by (cases "versions view es") auto
        with a show ?thesis by (intro exI [of _ a]) simp
      qed
      ultimately show ?thesis
        using e h by simp
    qed
  qed
qed simp

text \<open>C30 Versions only move forward: over any run, the versions of the commitments signed for the first time in a
  view rise strictly, and those of the peer's commitments are consecutive.\<close>

theorem signed_versions_increase:
  assumes "record_run L r es r'"
  shows "sorted_wrt (<) (versions view es) \<and>
    (\<exists>a. versions remote_view es = map (\<lambda>i. a + int i) [0..<length (versions remote_view es)])"
  using run_versions [OF assms, of view] run_versions [OF assms, of remote_view] by blast

lemma signed_versions_increase_witness:
  "sorted_wrt (<) (versions remote_view [granted_as sample_first fresh, granted_as sample_second fresh])"
  using signed_versions_increase [OF sample_run2, of remote_view] by (rule conjunct1)

lemma run_commitmentHashes:
  assumes "record_run L r es r'" "get (commitmentHashes r') view = Some sc"
  shows "get (commitmentHashes r) view = Some sc \<or>
    (\<exists>c v m. Granted c v \<in> set es \<and> cl_commitment c = Some m \<and> cm_view m = view \<and> cm_record m = sc)"
  using assms
proof (induction rule: record_run.induct)
  case (snoc es r1 e r2)
  from step_commitmentHashes [OF snoc.hyps(2), of view] snoc.IH snoc.prems show ?case
    by (auto split: if_splits)
qed simp

text \<open>C11 Nothing is revoked before its replacement is signed: whenever the device signs a revocation for the first
  time, the last commitment signed in the revoked view is the replacement, at the slot's number, and it was
  signed in this run unless the run started from a record that held it.\<close>

theorem revocation_follows_replacement:
  assumes "record_run L r es r'" and "record_step L r' (Granted c v) r''"
    and "cl_operation c = OpRevocation i"
  shows "\<exists>sc. get (commitmentHashes r') (viewOf (ri_forRemote i)) = Some sc \<and> sc_commitmentNumber sc = slot_number c \<and>
    (get (commitmentHashes r) (viewOf (ri_forRemote i)) = Some sc \<or>
     (\<exists>c' v' m. Granted c' v' \<in> set es \<and> cl_commitment c' = Some m
        \<and> cm_view m = viewOf (ri_forRemote i) \<and> cm_record m = sc))"
  using assms(2)
proof (cases rule: record_step_cases)
  case (granted d w ctx)
  then have "assertReplacementSigned r' (OpRevocation i) (slot_number c) = Inr ()"
    using assms(3) by (simp add: claim_checks_def)
  then obtain sc where sc: "get (commitmentHashes r') (viewOf (ri_forRemote i)) = Some sc"
    "sc_commitmentNumber sc = slot_number c"
    by (auto simp: assertReplacementSigned_def split: if_splits)
  with run_commitmentHashes [OF assms(1) sc(1)] show ?thesis by blast
qed simp_all

lemma revocation_follows_replacement_witness:
  "\<exists>sc. get (commitmentHashes sample_record1) (viewOf (ri_forRemote sample_revocation_input)) = Some sc
     \<and> sc_commitmentNumber sc = slot_number sample_revocation"
  using revocation_follows_replacement [OF sample_run1 sample_step_revocation, of sample_revocation_input]
  by (auto simp: sample_claim_defs)

section \<open>Money\<close>

lemma applyBalanceRule_Inr:
  assumes "applyBalanceRule r c ctx = Inr vs"
  shows "vs = views r \<or> (\<exists>view next s. judgeCommitment view (views r) next ctx = Inr s
    \<and> bc_tlcs next = cl_tlcs c \<and> vs = (views r)(view := s))"
  using assms
  by (cases "cl_operation c") (force simp: applyBalanceRule_def Let_def bindR_Inr_iff)+

definition tlcs_within :: "string set \<Rightarrow> policy_view_tlc list \<Rightarrow> bool" where
  "tlcs_within H ts \<longleftrightarrow> nonneg_tlcs ts \<and> pv_boundPaymentHash ` set ts \<subseteq> H"

lemma step_wealth:
  assumes "record_step L r e r'" "finite H" "\<forall>v. tlcs_within H (tlcs (views r v))"
    and "\<forall>c. claim_of e = Some c \<longrightarrow> tlcs_within H (cl_tlcs c)"
  shows "(\<forall>v. wealth H (views r v) \<le> wealth H (views r' v)) \<and> (\<forall>v. tlcs_within H (tlcs (views r' v)))"
  using assms(1)
proof (cases rule: record_step_cases)
  case (granted c v ctx)
  then have "applyBalanceRule r c ctx = Inr (views r')"
    by (simp add: claim_checks_def)
  from applyBalanceRule_Inr [OF this] show ?thesis
  proof (elim disjE exE conjE)
    fix view nxt s
    assume j: "judgeCommitment view (views r) nxt ctx = Inr s" "bc_tlcs nxt = cl_tlcs c"
      "views r' = (views r)(view := s)"
    have "tlcs s = cl_tlcs c"
      using j(1,2) by (auto elim!: judgeCommitment_Inr)
    moreover have "wealth H (views r view) \<le> wealth H s"
      using judgeCommitment_wealth [OF j(1) _ assms(2)] assms(3) by (simp add: tlcs_within_def)
    ultimately show ?thesis
      using assms(3,4) granted(1) j(3) by simp
  qed (use assms(3) in simp)
qed (use assms(3) in \<open>auto simp: same_signing_state_def\<close>)

text \<open>C18 The device's money never disappears: over any run of updates, with any other channels and any payment
  records, each view's wealth (what it leaves the device with if every offered TLC fails, plus what it
  charged to payments, less what it credited to invoices) never falls. So whatever a channel stops paying
  the device is accounted for, to the shannon, by charges against the payments' hashes.\<close>

theorem wealth_never_falls:
  assumes "record_run L r es r'" and "finite H"
    and "\<forall>v. tlcs_within H (tlcs (views r v))"
    and "\<forall>c\<in>set (claims_of es). tlcs_within H (cl_tlcs c)"
  shows "wealth H (views r view) \<le> wealth H (views r' view)"
proof -
  have "(\<forall>v. wealth H (views r v) \<le> wealth H (views r' v)) \<and> (\<forall>v. tlcs_within H (tlcs (views r' v)))"
    using assms(1,4)
  proof (induction rule: record_run.induct)
    case (snoc es r1 e r2)
    then have IH: "\<forall>v. wealth H (views r v) \<le> wealth H (views r1 v)" "\<forall>v. tlcs_within H (tlcs (views r1 v))"
      by auto
    have "\<forall>c. claim_of e = Some c \<longrightarrow> tlcs_within H (cl_tlcs c)"
      using snoc.prems by auto
    from step_wealth [OF snoc.hyps(2) assms(2) IH(2) this] IH(1) show ?case
      by (meson order.trans)
  qed (use assms(3) in simp)
  then show ?thesis by simp
qed

lemma wealth_never_falls_witness:
  "wealth (pv_boundPaymentHash ` set (cl_tlcs sample_second)) (views sample_record remote_view) \<le>
   wealth (pv_boundPaymentHash ` set (cl_tlcs sample_second)) (views (decided sample_second sample_record1) remote_view)"
  by (rule wealth_never_falls [OF sample_run2])
     (simp_all add: tlcs_within_def nonneg_tlcs_def claims_of_def List.map_filter_def sample_claim_defs
       sample_record_def newChannelRecord_def openingSnapshot_def toPolicyViewTlcs_def sortTlcs_def toPolicyViewTlc_def
       sample_tlc_def)

text \<open>C24 A first commitment pays back exactly what the user funded, without TLCs.\<close>

theorem first_commitment_is_funded_amount:
  assumes "record_step L r (Granted c v) r'" and "cl_operation c = OpCommitmentTx i"
    and "get (lastSignedCommitmentNumbers r) COMMITMENT_local = None"
  shows "tlcs (views r' (viewOf (ci_forRemote i))) = [] \<and>
    bigInt (exposureShannons (views r' (viewOf (ci_forRemote i)))) = bigInt (fundedShannons (pins r'))"
  using assms(1)
proof (cases rule: record_step_cases)
  case (granted d w ctx)
  let ?next = "\<lparr> bc_exposureShannons = ci_settlementLocalShannons i + ci_localReservedCkbShannons i, bc_tlcs = cl_tlcs c \<rparr>"
  have rule: "applyBalanceRule r c ctx = Inr (views r')" and ext: "pins_extend (pins r) (pins r')"
    using granted step_pins_extend [OF assms(1)] by (simp_all add: claim_checks_def)
  then have "judgeOpeningCommitment (fundedShannons (pins r)) ?next = Inr ()"
    "\<exists>s. judgeCommitment (viewOf (ci_forRemote i)) (views r) ?next ctx = Inr s
      \<and> views r' = (views r)(viewOf (ci_forRemote i) := s)"
    using assms(2,3) by (auto simp: applyBalanceRule_def Let_def bindR_Inr_iff)
  then show ?thesis
    using ext by (auto simp: judgeOpeningCommitment_def pins_extend_def elim!: judgeCommitment_Inr split: if_splits)
qed simp_all

lemma first_commitment_is_funded_amount_witness:
  "tlcs (views sample_record1 remote_view) = [] \<and>
   bigInt (exposureShannons (views sample_record1 remote_view)) = bigInt (fundedShannons (pins sample_record1))"
  using first_commitment_is_funded_amount [OF sample_step1, of "sample_commitment_input 1 []"]
  by (simp add: sample_claim_defs sample_commitment_input_def viewOf_def sample_record_def newChannelRecord_def)

lemma all_views: "(\<forall>v. P v) \<longleftrightarrow> P remote_view \<and> P local_view"
  by (metis policy_view.exhaust)

lemma judgeClosingView_Inr_iff:
  "judgeClosingView vs localCapacity v = Inr () \<longleftrightarrow>
     tlcs (vs v) = [] \<and> bigInt (exposureShannons (vs v)) \<le> localCapacity + MAX_SHUTDOWN_FEE_SHANNONS"
  by (auto simp: judgeClosingView_def Let_def)

lemma judgeClosingTx_Inr_iff:
  "judgeClosingTx vs localCapacity = Inr () \<longleftrightarrow>
     (\<forall>v. tlcs (vs v) = [] \<and> bigInt (exposureShannons (vs v)) \<le> localCapacity + MAX_SHUTDOWN_FEE_SHANNONS)"
  unfolding judgeClosingTx_def forR_Inr_iff POLICY_VIEWS_def all_views judgeClosingView_Inr_iff by simp

text \<open>C17 A cooperative close is signed only over a channel with no TLC in either view, and pays the device at least
  what each view last showed it, less at most one CKB of fee.\<close>

theorem close_pays_last_balance:
  assumes "record_step L r (Granted c v) r'" and "cl_operation c = OpClosingTx i"
  shows "tlcs (views r view) = [] \<and>
    bigInt (exposureShannons (views r view)) - 100000000 \<le> cl_localCapacityShannons i"
  using assms(1)
proof (cases rule: record_step_cases)
  case (granted d w ctx)
  then have "judgeClosingTx (views r) (cl_localCapacityShannons i) = Inr ()"
    using assms(2) by (auto simp: claim_checks_def applyBalanceRule_def bindR_unit_Inr_iff)
  then show ?thesis
    by (simp add: judgeClosingTx_Inr_iff diff_le_eq)
qed simp_all

lemma close_pays_last_balance_witness:
  "tlcs (views sample_record1 local_view) = [] \<and>
   bigInt (exposureShannons (views sample_record1 local_view)) - 100000000 \<le> cl_localCapacityShannons sample_closing_input"
  by (rule close_pays_last_balance [OF sample_step_close]) (simp add: sample_claim_defs)

section \<open>Watchtower spends\<close>

lemma step_spends_distinct:
  assumes "record_step L r e r'" "spends_distinct r"
  shows "spends_distinct r'"
proof -
  have same: "spends_distinct r'" if "watchtowerSpends r' = watchtowerSpends r"
    using assms(2) that by (simp add: spends_distinct_def spends_of_def)
  from assms(1) show ?thesis
  proof cases
    case (grant c ctx v)
    with decideClaim_Inr [OF grant(2)] show ?thesis
      by (intro same) (auto simp: claim_checks_def)
  next
    case (watchtower_claim keys approval request v)
    then show ?thesis using decide_spends_distinct assms(2) by blast
  next
    case (watchtower_signature requestId signature)
    with assms(2) show ?thesis
      using updateWatchtowerSpend_spends watchtower_updates_keep(1) by blast
  next
    case (watchtower_applied requestId)
    with assms(2) show ?thesis
      using updateWatchtowerSpend_spends watchtower_updates_keep(2) by blast
  next
    case (revocation n signature)
    then show ?thesis
      by (intro same) (auto simp: recordRevocationUpdate_def Let_def split: if_splits)
  next
    case (host_pins stated flds)
    then show ?thesis
      by (intro same) (auto simp: pinHostValuesUpdate_def bindR_Inr_iff split: if_splits)
  next
    case (register name funded ps)
    then show ?thesis
      by (intro same) (auto simp: registerUpdate_def bindR_Inr_iff split: if_splits)
  qed (use assms(2) in simp)
qed

text \<open>One spend per request and per unlock. Over any run of updates the record never comes to hold two
  spends of one watchtower request, nor two spends of the same unlock of the same commitment.\<close>

theorem spends_stay_distinct:
  assumes "record_run L r es r'" and "spends_distinct r"
  shows "spends_distinct r'"
  using assms by (induction rule: record_run.induct) (auto intro: step_spends_distinct)

lemma spends_stay_distinct_witness: "spends_distinct sample_spent"
proof -
  have "record_run demo_lib sample_watched [WatchtowerUpdated] sample_spent"
    using record_run.snoc [OF record_run.start record_step.watchtower_claim [OF sample_spend_fresh]] by simp
  then show ?thesis
    by (rule spends_stay_distinct) (simp add: spends_distinct_def spends_of_def sample_watched_def)
qed

end
