(* ===== verification/Store.thy ===== *)
theory Store
  imports Guards Wire
begin

text \<open>
  The typed store over the host's key-value persistence (\<^verbatim>\<open>signer-store.ts\<close>): channel records, channel
  names, debit intents and hold invoices, each under a key of its own, read and written through the
  guards. The host's \<^verbatim>\<open>get\<close> and \<^verbatim>\<open>set\<close> are a map from keys to stored texts; the JSON text of a record is
  the constructor of its kind, so a text that is no record of the kind a key holds is another
  constructor; a record of another module's format is kept as the JSON value it parses to. An operation maps the storage to its result and the storage after it, also when it
  throws.
\<close>

section \<open>Actions on a state\<close>

type_synonym ('s, 'a) act = "'s \<Rightarrow> 'a res \<times> 's"

definition bindS :: "('s, 'a) act \<Rightarrow> ('a \<Rightarrow> ('s, 'b) act) \<Rightarrow> ('s, 'b) act" where
  "bindS m f s = (case m s of (Inl e, s') \<Rightarrow> (Inl e, s') | (Inr x, s') \<Rightarrow> f x s')"

definition liftS :: "'a res \<Rightarrow> ('s, 'a) act" where
  "liftS r s = (r, s)"

definition doneS :: "'a \<Rightarrow> ('s, 'a) act" where
  "doneS x s = (Inr x, s)"

fun mapS :: "('a \<Rightarrow> ('s, 'b) act) \<Rightarrow> 'a list \<Rightarrow> ('s, 'b list) act" where
  "mapS f [] = doneS []"
| "mapS f (x # xs) = bindS (f x) (\<lambda>y. bindS (mapS f xs) (\<lambda>ys. doneS (y # ys)))"

lemma liftS_simps [simp]: "liftS r s = (r, s)" "doneS x s = (Inr x, s)"
  by (simp_all add: liftS_def doneS_def)

lemma bindS_Inr_iff: "bindS m f s = (Inr y, t) \<longleftrightarrow> (\<exists>x u. m s = (Inr x, u) \<and> f x u = (Inr y, t))"
  by (auto simp: bindS_def split: sum.splits prod.splits)

lemma bindS_state:
  "bindS m f s = (r, t) \<Longrightarrow> (\<exists>e. m s = (Inl e, t)) \<or> (\<exists>x u. m s = (Inr x, u) \<and> f x u = (r, t))"
  by (auto simp: bindS_def split: sum.splits prod.splits)

section \<open>Keys\<close>

definition STORAGE_KEY_NAMESPACE :: string where
  "STORAGE_KEY_NAMESPACE = ''fiber-lsp-sdk''"

definition CHANNEL_RECORD_KEY_PREFIX :: string where
  "CHANNEL_RECORD_KEY_PREFIX = STORAGE_KEY_NAMESPACE @ '':channel:''"

definition CHANNEL_ALIAS_KEY_PREFIX :: string where
  "CHANNEL_ALIAS_KEY_PREFIX = STORAGE_KEY_NAMESPACE @ '':alias:''"

definition DEBIT_INTENT_KEY_PREFIX :: string where
  "DEBIT_INTENT_KEY_PREFIX = STORAGE_KEY_NAMESPACE @ '':intent:''"

definition HOLD_INVOICE_RECORD_KEY_PREFIX :: string where
  "HOLD_INVOICE_RECORD_KEY_PREFIX = STORAGE_KEY_NAMESPACE @ '':invoice:''"

definition BALANCE_LANE_KEY :: string where
  "BALANCE_LANE_KEY = STORAGE_KEY_NAMESPACE @ '':balance''"

definition POLICY_KEYS :: "string list" where
  "POLICY_KEYS = [CHANNEL_RECORD_KEY_PREFIX, CHANNEL_ALIAS_KEY_PREFIX, DEBIT_INTENT_KEY_PREFIX,
     HOLD_INVOICE_RECORD_KEY_PREFIX, BALANCE_LANE_KEY]"

lemmas key_defs = STORAGE_KEY_NAMESPACE_def CHANNEL_RECORD_KEY_PREFIX_def CHANNEL_ALIAS_KEY_PREFIX_def
  DEBIT_INTENT_KEY_PREFIX_def HOLD_INVOICE_RECORD_KEY_PREFIX_def BALANCE_LANE_KEY_def

definition channelKey :: "int \<Rightarrow> string" where
  "channelKey i = CHANNEL_RECORD_KEY_PREFIX @ toString i"

definition aliasKey :: "string \<Rightarrow> string" where
  "aliasKey name = CHANNEL_ALIAS_KEY_PREFIX @ name"

definition intentKey :: "string \<Rightarrow> string" where
  "intentKey h = DEBIT_INTENT_KEY_PREFIX @ h"

definition invoiceKey :: "string \<Rightarrow> string" where
  "invoiceKey h = HOLD_INVOICE_RECORD_KEY_PREFIX @ h"

lemmas keyed_defs = channelKey_def aliasKey_def intentKey_def invoiceKey_def

lemma keys_apart [simp]:
  "channelKey i \<noteq> aliasKey n" "aliasKey n \<noteq> channelKey i" "channelKey i \<noteq> intentKey h" "intentKey h \<noteq> channelKey i"
  "channelKey i \<noteq> invoiceKey h" "invoiceKey h \<noteq> channelKey i" "aliasKey n \<noteq> intentKey h" "intentKey h \<noteq> aliasKey n"
  "aliasKey n \<noteq> invoiceKey h" "invoiceKey h \<noteq> aliasKey n" "intentKey g \<noteq> invoiceKey h" "invoiceKey h \<noteq> intentKey g"
  by (simp_all add: keyed_defs key_defs)

lemma keys_inj [simp]:
  "channelKey i = channelKey j \<longleftrightarrow> i = j" "aliasKey n = aliasKey m \<longleftrightarrow> n = m"
  "intentKey g = intentKey h \<longleftrightarrow> g = h" "invoiceKey g = invoiceKey h \<longleftrightarrow> g = h"
  by (simp_all add: keyed_defs)

definition assertForeignKey :: "string \<Rightarrow> unit res" where
  "assertForeignKey key =
     bindR (assertNonEmptyString ''key'' key) (\<lambda>_.
     if \<not> startsWith key (STORAGE_KEY_NAMESPACE @ '':'') then Inl (TypeErr ''key'')
     else if list_ex (startsWith key) POLICY_KEYS then Inl (TypeErr ''key'') else Inr ())"

section \<open>Records of a format\<close>

datatype stored =
    StoredChannel channel_policy_record
  | StoredIntent debit_intent_record
  | StoredInvoice hold_invoice_record
  | StoredText string
  | StoredRecord json

type_synonym storage = "string \<Rightarrow> stored option"

record 'a signer_record_format =
  rf_parse :: "stored \<Rightarrow> 'a option"
  rf_stringify :: "'a \<Rightarrow> stored"
  rf_is :: "'a \<Rightarrow> bool"
  rf_belongsAt :: "string \<Rightarrow> 'a \<Rightarrow> bool"

definition CHANNEL_RECORD_FORMAT :: "lib \<Rightarrow> channel_policy_record signer_record_format" where
  "CHANNEL_RECORD_FORMAT L =
     \<lparr> rf_parse = (\<lambda>t. case t of StoredChannel r \<Rightarrow> Some r | _ \<Rightarrow> None), rf_stringify = StoredChannel,
       rf_is = isChannelPolicyRecord L, rf_belongsAt = (\<lambda>key r. True) \<rparr>"

definition DEBIT_INTENT_FORMAT :: "lib \<Rightarrow> debit_intent_record signer_record_format" where
  "DEBIT_INTENT_FORMAT L =
     \<lparr> rf_parse = (\<lambda>t. case t of StoredIntent r \<Rightarrow> Some r | _ \<Rightarrow> None), rf_stringify = StoredIntent,
       rf_is = isDebitIntentRecord,
       rf_belongsAt = (\<lambda>key r. key = DEBIT_INTENT_KEY_PREFIX @ boundPaymentHashOf L (di_paymentHash r)) \<rparr>"

definition HOLD_INVOICE_FORMAT :: "lib \<Rightarrow> hold_invoice_record signer_record_format" where
  "HOLD_INVOICE_FORMAT L =
     \<lparr> rf_parse = (\<lambda>t. case t of StoredInvoice r \<Rightarrow> Some r | _ \<Rightarrow> None), rf_stringify = StoredInvoice,
       rf_is = isHoldInvoicePolicyRecord,
       rf_belongsAt = (\<lambda>key r. key = HOLD_INVOICE_RECORD_KEY_PREFIX @ boundPaymentHashOf L (hi_paymentHash r)) \<rparr>"

definition parseRecord :: "string \<Rightarrow> stored \<Rightarrow> 'a signer_record_format \<Rightarrow> 'a res" where
  "parseRecord key raw fmt =
     (case rf_parse fmt raw of
        None \<Rightarrow> Inl (TypeErr ''stored value'')
      | Some v \<Rightarrow> if \<not> rf_is fmt v \<or> \<not> rf_belongsAt fmt key v then Inl (TypeErr ''stored value'') else Inr v)"

definition readRecord :: "string \<Rightarrow> 'a signer_record_format \<Rightarrow> storage \<Rightarrow> 'a option res" where
  "readRecord key fmt st =
     (case st key of None \<Rightarrow> Inr None | Some raw \<Rightarrow> bindR (parseRecord key raw fmt) (\<lambda>v. Inr (Some v)))"

definition writeRecord :: "string \<Rightarrow> 'a signer_record_format \<Rightarrow> 'a \<Rightarrow> storage \<Rightarrow> storage" where
  "writeRecord key fmt v st = st(key := Some (rf_stringify fmt v))"

definition updateAt ::
    "string \<Rightarrow> 'a signer_record_format \<Rightarrow> ('a option \<Rightarrow> 'a res) \<Rightarrow> (storage, 'a) act" where
  "updateAt key fmt update st =
     (case readRecord key fmt st of
        Inl e \<Rightarrow> (Inl e, st)
      | Inr current \<Rightarrow>
          (case update current of
             Inl e \<Rightarrow> (Inl e, st)
           | Inr nxt \<Rightarrow>
               if Some nxt = current then (Inr nxt, st)
               else if \<not> rf_is fmt nxt then (Inl (TypeErr ''updated record''), st)
               else if \<not> rf_belongsAt fmt key nxt then (Inl (TypeErr ''updated record''), st)
               else (Inr nxt, writeRecord key fmt nxt st)))"

section \<open>Operations\<close>

definition readChannelIndex :: "string \<Rightarrow> storage \<Rightarrow> int option res" where
  "readChannelIndex key st =
     (case st key of
        None \<Rightarrow> Inr None
      | Some (StoredText raw) \<Rightarrow>
          if \<not> isCanonicalDecimal raw \<or> \<not> isUnsignedInteger (bigInt raw) MAX_CHANNEL_INDEX
          then Inl (TypeErr ''stored value'') else Inr (Some (bigInt raw))
      | Some _ \<Rightarrow> Inl (TypeErr ''stored value''))"

definition resolveChannelIndex :: "string \<Rightarrow> (storage, int option) act" where
  "resolveChannelIndex name st =
     (bindR (assertNonEmptyString ''channelId'' name) (\<lambda>_. readChannelIndex (aliasKey name) st), st)"

definition claimChannelAlias :: "string \<Rightarrow> int \<Rightarrow> (storage, unit) act" where
  "claimChannelAlias name i st =
     (case bindR (assertNonEmptyString ''channelId'' name) (\<lambda>_.
           bindR (assertUnsignedInteger ''channelIndex'' i MAX_CHANNEL_INDEX) (\<lambda>_.
           readChannelIndex (aliasKey name) st)) of
        Inl e \<Rightarrow> (Inl e, st)
      | Inr current \<Rightarrow>
          if current = Some i then (Inr (), st)
          else if current \<noteq> None then (Inl (HostErr ''ChannelRegistrationError: the name resolves to another index''), st)
          else (Inr (), st(aliasKey name := Some (StoredText (toString i)))))"

definition getChannelRecord :: "lib \<Rightarrow> int \<Rightarrow> (storage, channel_policy_record option) act" where
  "getChannelRecord L i st =
     (bindR (assertUnsignedInteger ''channelIndex'' i MAX_CHANNEL_INDEX) (\<lambda>_.
      readRecord (channelKey i) (CHANNEL_RECORD_FORMAT L) st), st)"

definition setChannelRecord :: "lib \<Rightarrow> int \<Rightarrow> channel_policy_record \<Rightarrow> (storage, unit) act" where
  "setChannelRecord L i r st =
     (case bindR (assertUnsignedInteger ''channelIndex'' i MAX_CHANNEL_INDEX) (\<lambda>_. assertChannelPolicyRecord L ''record'' r) of
        Inl e \<Rightarrow> (Inl e, st)
      | Inr _ \<Rightarrow> (Inr (), writeRecord (channelKey i) (CHANNEL_RECORD_FORMAT L) r st))"

definition updateChannelRecord ::
    "lib \<Rightarrow> int \<Rightarrow> (channel_policy_record option \<Rightarrow> channel_policy_record res) \<Rightarrow> (storage, channel_policy_record) act" where
  "updateChannelRecord L i update =
     bindS (liftS (assertUnsignedInteger ''channelIndex'' i MAX_CHANNEL_INDEX)) (\<lambda>_.
     updateAt (channelKey i) (CHANNEL_RECORD_FORMAT L) update)"

definition getDebitIntent :: "lib \<Rightarrow> string \<Rightarrow> (storage, debit_intent_record option) act" where
  "getDebitIntent L h st =
     (bindR (assertHexBytes ''boundPaymentHashHex'' h 20) (\<lambda>_. readRecord (intentKey h) (DEBIT_INTENT_FORMAT L) st), st)"

definition updateDebitIntent ::
    "lib \<Rightarrow> string \<Rightarrow> (debit_intent_record option \<Rightarrow> debit_intent_record res) \<Rightarrow> (storage, debit_intent_record) act" where
  "updateDebitIntent L h update =
     bindS (liftS (assertHexBytes ''boundPaymentHashHex'' h 20)) (\<lambda>_.
     updateAt (intentKey h) (DEBIT_INTENT_FORMAT L) update)"

definition getHoldInvoiceRecord :: "lib \<Rightarrow> string \<Rightarrow> (storage, hold_invoice_record option) act" where
  "getHoldInvoiceRecord L h st =
     (bindR (assertHexBytes ''boundPaymentHashHex'' h 20) (\<lambda>_. readRecord (invoiceKey h) (HOLD_INVOICE_FORMAT L) st), st)"

definition updateHoldInvoiceRecord ::
    "lib \<Rightarrow> string \<Rightarrow> (hold_invoice_record option \<Rightarrow> hold_invoice_record res) \<Rightarrow> (storage, hold_invoice_record) act" where
  "updateHoldInvoiceRecord L h update =
     bindS (liftS (assertHexBytes ''boundPaymentHashHex'' h 20)) (\<lambda>_.
     updateAt (invoiceKey h) (HOLD_INVOICE_FORMAT L) update)"

definition getRecord :: "string \<Rightarrow> 'a signer_record_format \<Rightarrow> (storage, 'a option) act" where
  "getRecord key fmt st = (bindR (assertForeignKey key) (\<lambda>_. readRecord key fmt st), st)"

text \<open>The updater may hand back \<open>None\<close> for a key never written, which writes nothing.\<close>

definition updateRecord ::
    "string \<Rightarrow> 'a signer_record_format \<Rightarrow> ('a option \<Rightarrow> 'a option res) \<Rightarrow> (storage, 'a option) act" where
  "updateRecord key fmt update st =
     (case bindR (assertForeignKey key) (\<lambda>_. readRecord key fmt st) of
        Inl e \<Rightarrow> (Inl e, st)
      | Inr current \<Rightarrow>
          (case update current of
             Inl e \<Rightarrow> (Inl e, st)
           | Inr nxt \<Rightarrow>
               if nxt = current then (Inr nxt, st)
               else
                 (case nxt of
                    None \<Rightarrow> (Inl (TypeErr ''updated record''), st)
                  | Some v \<Rightarrow>
                      if \<not> rf_is fmt v \<or> \<not> rf_belongsAt fmt key v then (Inl (TypeErr ''updated record''), st)
                      else (Inr nxt, writeRecord key fmt v st))))"

section \<open>What a key holds after an update\<close>

text \<open>The contract of a format: the text written for a record parses to it.\<close>

locale stored_format =
  fixes fmt :: "'a signer_record_format"
  assumes parse_stringify: "rf_parse fmt (rf_stringify fmt v) = Some v"
begin

lemma read_write: "rf_is fmt v \<Longrightarrow> rf_belongsAt fmt key v \<Longrightarrow> readRecord key fmt (writeRecord key fmt v st) = Inr (Some v)"
  by (simp add: readRecord_def writeRecord_def parseRecord_def parse_stringify)

lemma read_valid: "readRecord key fmt st = Inr (Some v) \<Longrightarrow> rf_is fmt v \<and> rf_belongsAt fmt key v"
  by (auto simp: readRecord_def parseRecord_def res_simps split: option.splits if_splits)

text \<open>An update that throws changes nothing; one that returns leaves its key holding what it returns.\<close>

lemma update_result:
  assumes "updateAt key fmt update st = (r, st')"
  shows "(\<forall>k. k \<noteq> key \<longrightarrow> st' k = st k) \<and>
    (case r of
       Inl e \<Rightarrow> st' = st
     | Inr v \<Rightarrow> readRecord key fmt st' = Inr (Some v) \<and> rf_is fmt v \<and> rf_belongsAt fmt key v \<and>
         (\<exists>current. readRecord key fmt st = Inr current \<and> update current = Inr v))"
proof (cases "readRecord key fmt st")
  case (Inl e)
  with assms show ?thesis by (auto simp: updateAt_def)
next
  case current: (Inr current)
  show ?thesis
  proof (cases "update current")
    case (Inl e)
    with assms current have "r = Inl e" "st' = st" by (simp_all add: updateAt_def)
    then show ?thesis by simp
  next
    case (Inr nxt)
    show ?thesis
    proof (cases "current = Some nxt")
      case True
      with assms current Inr have r: "r = Inr nxt" and st: "st' = st" by (simp_all add: updateAt_def)
      from True current have "readRecord key fmt st = Inr (Some nxt)" by simp
      from this read_valid [OF this] r st current Inr show ?thesis by simp
    next
      case False
      show ?thesis
      proof (cases "rf_is fmt nxt \<and> rf_belongsAt fmt key nxt")
        case True
        with assms current Inr False have r: "r = Inr nxt" and st: "st' = writeRecord key fmt nxt st"
          by (auto simp: updateAt_def split: if_splits)
        from True read_write [of nxt key st] r st current Inr show ?thesis by (simp add: writeRecord_def)
      next
        case other: False
        with assms current Inr False obtain e where "r = Inl e" "st' = st"
          by (auto simp: updateAt_def split: if_splits)
        then show ?thesis by simp
      qed
    qed
  qed
qed

end

interpretation channel_format: stored_format "CHANNEL_RECORD_FORMAT L" for L
  by unfold_locales (simp add: CHANNEL_RECORD_FORMAT_def)

interpretation intent_format: stored_format "DEBIT_INTENT_FORMAT L" for L
  by unfold_locales (simp add: DEBIT_INTENT_FORMAT_def)

interpretation invoice_format: stored_format "HOLD_INVOICE_FORMAT L" for L
  by unfold_locales (simp add: HOLD_INVOICE_FORMAT_def)

end
