(* ===== verification/Engine.thy ===== *)
theory Engine
  imports Store Claims Watchtower
begin

text \<open>
  The policy engine over the store (\<^verbatim>\<open>policy-engine.ts\<close>): every method as an action on the storage, with
  all its checks, reads and writes in order. The source runs the methods that read several records
  alone in the balance lane and every update alone in its key's lane, so a method is one action here;
  an update takes the record as stored when it runs.
\<close>

section \<open>The engine\<close>

record policy_engine =
  en_nonceReuse :: nonce_reuse_mode
  en_watchtower :: "watchtower_approval option"

definition assertUint64Shannons :: "string \<Rightarrow> string \<Rightarrow> unit res" where
  "assertUint64Shannons name v =
     bindR (assertDecimalShannons name v) (\<lambda>_. if bigInt v > UINT64_MAX then Inl (RangeErr name) else Inr ())"

definition readWatchtowerApproval :: "watchtower_approval \<Rightarrow> watchtower_approval res" where
  "readWatchtowerApproval v =
     bindR (assertScript ''options.watchtower.destination'' (wa_destination v)) (\<lambda>_.
     bindR (assertUint64Shannons ''options.watchtower.maxFeeShannons'' (wa_maxFeeShannons v)) (\<lambda>_. Inr v))"

definition newPolicyEngine :: "nonce_reuse_mode option \<Rightarrow> watchtower_approval option \<Rightarrow> policy_engine res" where
  "newPolicyEngine mode watchtower =
     bindR (case watchtower of None \<Rightarrow> Inr None
            | Some v \<Rightarrow> bindR (readWatchtowerApproval v) (\<lambda>a. Inr (Some a))) (\<lambda>a. Inr
     \<lparr> en_nonceReuse = (case mode of None \<Rightarrow> reuse_refuse | Some m \<Rightarrow> m), en_watchtower = a \<rparr>)"

definition unregisteredPolicyChannel :: error where
  "unregisteredPolicyChannel = TypeErr ''channel is not registered on this device''"

definition missingPolicyRecord :: error where
  "missingPolicyRecord = TypeErr ''channel resolves to an index which holds no record''"

definition vanishedPaymentRecord :: error where
  "vanishedPaymentRecord = TypeErr ''a payment record disappeared inside the balance lane''"

definition unlistedRecord :: error where
  "unlistedRecord = TypeErr ''a payment record lists a channel index which holds no record''"

section \<open>Channels\<close>

definition registerChannel ::
    "lib \<Rightarrow> string \<Rightarrow> int \<Rightarrow> string \<Rightarrow> script \<Rightarrow> (storage, channel_policy_record) act" where
  "registerChannel L name i funded closeScript =
     bindS (liftS (bindR (assertNonEmptyString ''channelId'' name) (\<lambda>_.
                   bindR (assertUnsignedInteger ''channelIndex'' i MAX_CHANNEL_INDEX) (\<lambda>_.
                   openingChannelPins L funded closeScript)))) (\<lambda>ps.
     bindS (resolveChannelIndex name) (\<lambda>aliased.
     if aliased \<noteq> None \<and> aliased \<noteq> Some i
     then liftS (Inl (HostErr ''ChannelRegistrationError: registered under a different channel index''))
     else
       bindS (updateChannelRecord L i (registerUpdate name funded ps)) (\<lambda>r.
       bindS (claimChannelAlias name i) (\<lambda>_. doneS r))))"

definition requireRegisteredIndex :: "string \<Rightarrow> (storage, int) act" where
  "requireRegisteredIndex name =
     bindS (resolveChannelIndex name) (\<lambda>i.
     liftS (case i of None \<Rightarrow> Inl unregisteredPolicyChannel | Some i \<Rightarrow> Inr i))"

definition requireChannelIndex :: "string \<Rightarrow> (storage, int) act" where
  "requireChannelIndex name =
     bindS (liftS (assertNonEmptyString ''channelId'' name)) (\<lambda>_.
     bindS (resolveChannelIndex name) (\<lambda>i.
     liftS (case i of None \<Rightarrow> refusePolicyRequest unknown_channel ''unregistered channel'' | Some i \<Rightarrow> Inr i)))"

definition readRegisteredRecord :: "lib \<Rightarrow> int \<Rightarrow> (storage, channel_policy_record) act" where
  "readRegisteredRecord L i =
     bindS (getChannelRecord L i) (\<lambda>r. liftS (case r of None \<Rightarrow> Inl missingPolicyRecord | Some r \<Rightarrow> Inr r))"

definition updateRegisteredRecord ::
    "lib \<Rightarrow> int \<Rightarrow> (channel_policy_record \<Rightarrow> channel_policy_record res) \<Rightarrow> (storage, channel_policy_record) act" where
  "updateRegisteredRecord L i update =
     updateChannelRecord L i (\<lambda>current. case current of None \<Rightarrow> Inl missingPolicyRecord | Some r \<Rightarrow> update r)"

definition pinHostValues :: "lib \<Rightarrow> string \<Rightarrow> stated_pins \<Rightarrow> pin_field list \<Rightarrow> (storage, unit) act" where
  "pinHostValues L name stated flds =
     bindS (requireRegisteredIndex name) (\<lambda>i.
     bindS (updateRegisteredRecord L i (pinHostValuesUpdate stated flds)) (\<lambda>_. doneS ()))"

definition pinFundingCell :: "lib \<Rightarrow> string \<Rightarrow> out_point \<Rightarrow> string \<Rightarrow> (storage, unit) act" where
  "pinFundingCell L name fundingOutPoint capacity =
     bindS (liftS (bindR (assertOutPoint ''fundingOutPoint'' fundingOutPoint) (\<lambda>_.
                   assertUint64Shannons ''capacityShannons'' capacity))) (\<lambda>_.
     pinHostValues L name (fundingCellPins L fundingOutPoint capacity) FIRST_SIGHT_CHANNEL_PINS)"

definition assertChannelTerms :: "lib \<Rightarrow> policy_channel_terms \<Rightarrow> unit res" where
  "assertChannelTerms L t =
     bindR (assertUnsignedBigInt ''terms.commitmentFeeRate'' (pt_commitmentFeeRate t) UINT64_MAX) (\<lambda>_.
     bindR (assertUint64Shannons ''terms.remoteReservedCkbShannons'' (pt_remoteReservedCkbShannons t)) (\<lambda>_.
     bindR (assertUint64Shannons ''terms.liquidCapacityShannons'' (pt_liquidCapacityShannons t)) (\<lambda>_.
     bindR (assertScript ''terms.remoteCloseScript'' (pt_remoteCloseScript t)) (\<lambda>_.
     bindR (assertCompressedPoint L ''terms.remoteFundingPubkey'' (pt_remoteFundingPubkey t)) (\<lambda>_.
     bindR (assertCompressedPoint L ''terms.remoteTlcBasePubkey'' (pt_remoteTlcBasePubkey t)) (\<lambda>_.
     assertUnsignedBigInt ''terms.commitmentDelayEpoch'' (pt_commitmentDelayEpoch t) UINT64_MAX))))))"

definition pinChannelTerms :: "lib \<Rightarrow> string \<Rightarrow> policy_channel_terms \<Rightarrow> (storage, unit) act" where
  "pinChannelTerms L name t =
     bindS (liftS (bindR (assertChannelTerms L t) (\<lambda>_. channelTermsPins L t))) (\<lambda>stated.
     pinHostValues L name stated HOST_TERMS_PINS)"

definition recordRevocation :: "lib \<Rightarrow> string \<Rightarrow> int \<Rightarrow> bytes \<Rightarrow> (storage, unit) act" where
  "recordRevocation L name version signature =
     bindS (liftS (bindR (assertUnsignedInteger ''evidence.version'' version MAX_REVOKED_VERSION) (\<lambda>_.
                   assertBytes ''evidence.signature'' signature 64))) (\<lambda>_.
     bindS (requireRegisteredIndex name) (\<lambda>i.
     bindS (updateRegisteredRecord L i (recordRevocationUpdate version (bytesToHex L signature))) (\<lambda>_. doneS ())))"

definition readChannelPins :: "lib \<Rightarrow> string \<Rightarrow> (storage, channel_pins) act" where
  "readChannelPins L name =
     bindS (requireChannelIndex name) (\<lambda>i. bindS (readRegisteredRecord L i) (\<lambda>r. doneS (pins r)))"

section \<open>Watchtower spends\<close>

text \<open>The verdict is the one decided on the record the update ran on.\<close>

definition checkWatchtowerSpend ::
    "lib \<Rightarrow> policy_engine \<Rightarrow> fiber_channel_keys \<Rightarrow> string \<Rightarrow> watchtower_spend_request
     \<Rightarrow> (storage, watchtower_spend_verdict) act" where
  "checkWatchtowerSpend L en keys name request =
     (case en_watchtower en of
        None \<Rightarrow> liftS (refusePolicyRequest policy_refusal ''watchtower option'')
      | Some approval \<Rightarrow>
          bindS (liftS (withPolicyRefusal malformed (assertNonEmptyString ''channelId'' name))) (\<lambda>_.
          bindS (requireChannelIndex name) (\<lambda>i.
          bindS (readRegisteredRecord L i) (\<lambda>current.
          bindS (updateRegisteredRecord L i (\<lambda>r. bindR (decideWatchtowerSpend L keys r approval request) (\<lambda>(v, r'). Inr r')))
            (\<lambda>_. liftS (bindR (decideWatchtowerSpend L keys current approval request) (\<lambda>(v, r'). Inr v)))))))"

definition updateSpend ::
    "lib \<Rightarrow> string \<Rightarrow> bytes \<Rightarrow> (watchtower_spend_record \<Rightarrow> watchtower_spend_record res) \<Rightarrow> (storage, unit) act" where
  "updateSpend L name requestId update =
     bindS (requireRegisteredIndex name) (\<lambda>i.
     bindS (updateRegisteredRecord L i (updateWatchtowerSpend (bytesToHex L requestId) update)) (\<lambda>_. doneS ()))"

definition recordSpendSignature :: "lib \<Rightarrow> string \<Rightarrow> bytes \<Rightarrow> bytes \<Rightarrow> (storage, unit) act" where
  "recordSpendSignature L name requestId signature =
     bindS (liftS (bindR (assertBytes ''requestId'' requestId 32) (\<lambda>_. assertBytes ''signature'' signature 65))) (\<lambda>_.
     updateSpend L name requestId (recordWatchtowerSignature (bytesToHex L signature)))"

definition markSpendApplied :: "lib \<Rightarrow> string \<Rightarrow> bytes \<Rightarrow> (storage, unit) act" where
  "markSpendApplied L name requestId =
     bindS (liftS (assertBytes ''requestId'' requestId 32)) (\<lambda>_. updateSpend L name requestId markWatchtowerSpendApplied)"

section \<open>Payments\<close>

definition assertSameHash :: "string \<Rightarrow> string \<Rightarrow> unit res" where
  "assertSameHash recorded paymentHashHex = check (recorded = paymentHashHex) (TypeErr paymentHashHex)"

definition refuseHashTwin :: "string \<Rightarrow> string \<Rightarrow> unit res" where
  "refuseHashTwin recorded paymentHashHex = check (recorded = paymentHashHex) (HostErr ''hash_twin'')"

definition listedChannel :: "lib \<Rightarrow> int \<Rightarrow> (storage, int \<times> channel_policy_record) act" where
  "listedChannel L i =
     bindS (getChannelRecord L i) (\<lambda>r. liftS (case r of None \<Rightarrow> Inl unlistedRecord | Some r \<Rightarrow> Inr (i, r)))"

definition readListedChannels :: "lib \<Rightarrow> int list \<Rightarrow> (storage, (int \<times> channel_policy_record) list) act" where
  "readListedChannels L indexes = mapS (listedChannel L) indexes"

definition chargedAnywhere :: "lib \<Rightarrow> debit_intent_record \<Rightarrow> (storage, bool) act" where
  "chargedAnywhere L intent =
     bindS (readListedChannels L (di_channelIndexes intent)) (\<lambda>channels.
     doneS (list_ex (\<lambda>(i, r). list_ex (\<lambda>view.
       get (chargedShannons (views r view)) (boundPaymentHashOf L (di_paymentHash intent)) \<noteq> None) POLICY_VIEWS) channels))"

definition checkIntentFree :: "lib \<Rightarrow> string \<Rightarrow> debit_intent_record option \<Rightarrow> (storage, unit) act" where
  "checkIntentFree L paymentHashHex current =
     (case current of
        None \<Rightarrow> doneS ()
      | Some intent \<Rightarrow>
          bindS (liftS (refuseHashTwin (di_paymentHash intent) paymentHashHex)) (\<lambda>_.
          if di_open intent then liftS (Inl (HostErr ''intent_open''))
          else bindS (chargedAnywhere L intent) (\<lambda>charged.
            liftS (check (\<not> charged) (HostErr ''intent_charged'')))))"

definition recordDebitIntent :: "lib \<Rightarrow> string \<Rightarrow> string \<Rightarrow> (storage, unit) act" where
  "recordDebitIntent L paymentHashHex maxShannons =
     bindS (liftS (bindR (assertHexBytes ''paymentHashHex'' paymentHashHex 32) (\<lambda>_.
                   assertDecimalShannons ''maxShannons'' maxShannons))) (\<lambda>_.
     let key = boundPaymentHashOf L paymentHashHex in
     bindS (getHoldInvoiceRecord L key) (\<lambda>invoice.
     bindS (liftS (case invoice of
                     None \<Rightarrow> Inr ()
                   | Some i \<Rightarrow> bindR (refuseHashTwin (hi_paymentHash i) paymentHashHex) (\<lambda>_. Inl (HostErr ''own_invoice'')))) (\<lambda>_.
     bindS (getDebitIntent L key) (\<lambda>current.
     bindS (checkIntentFree L paymentHashHex current) (\<lambda>_.
     bindS (updateDebitIntent L key (\<lambda>_. Inr
       \<lparr> di_paymentHash = paymentHashHex, di_maxShannons = maxShannons, di_open = True,
         di_channelIndexes = (case current of None \<Rightarrow> [] | Some c \<Rightarrow> di_channelIndexes c) \<rparr>)) (\<lambda>_. doneS ()))))))"

definition closeIntentUpdate :: "string \<Rightarrow> debit_intent_record option \<Rightarrow> debit_intent_record res" where
  "closeIntentUpdate paymentHashHex current =
     (case current of
        None \<Rightarrow> Inl (TypeErr ''no debit intent was recorded'')
      | Some c \<Rightarrow> bindR (assertSameHash (di_paymentHash c) paymentHashHex) (\<lambda>_.
          Inr (if di_open c then c\<lparr> di_open := False \<rparr> else c)))"

definition closeDebitIntent :: "lib \<Rightarrow> string \<Rightarrow> (storage, unit) act" where
  "closeDebitIntent L paymentHashHex =
     bindS (liftS (assertHexBytes ''paymentHashHex'' paymentHashHex 32)) (\<lambda>_.
     bindS (updateDebitIntent L (boundPaymentHashOf L paymentHashHex) (closeIntentUpdate paymentHashHex)) (\<lambda>_. doneS ()))"

definition readDebitIntent :: "lib \<Rightarrow> string \<Rightarrow> (storage, debit_intent_record option) act" where
  "readDebitIntent L paymentHashHex =
     bindS (liftS (assertHexBytes ''paymentHashHex'' paymentHashHex 32)) (\<lambda>_.
     bindS (getDebitIntent L (boundPaymentHashOf L paymentHashHex)) (\<lambda>r.
     doneS (if map_option di_paymentHash r = Some paymentHashHex then r else None)))"

definition invoiceUpdate ::
    "string \<Rightarrow> string \<Rightarrow> tlc_hash_algorithm \<Rightarrow> int \<Rightarrow> hold_invoice_record option \<Rightarrow> hold_invoice_record res" where
  "invoiceUpdate paymentHashHex amount alg invoiceIndex current =
     (case current of
        None \<Rightarrow> Inr \<lparr> hi_paymentHash = paymentHashHex, hi_amountShannons = amount, hi_hashAlgorithm = alg,
                     hi_invoiceIndex = invoiceIndex, hi_released = False, hi_channelIndexes = [] \<rparr>
      | Some c \<Rightarrow> bindR (assertSameHash (hi_paymentHash c) paymentHashHex) (\<lambda>_.
          if hi_amountShannons c \<noteq> amount \<or> hi_hashAlgorithm c \<noteq> alg \<or> hi_invoiceIndex c \<noteq> invoiceIndex
          then Inl (TypeErr ''a hold invoice is already recorded'') else Inr c))"

definition recordHoldInvoice ::
    "lib \<Rightarrow> string \<Rightarrow> string \<Rightarrow> tlc_hash_algorithm \<Rightarrow> int \<Rightarrow> (storage, unit) act" where
  "recordHoldInvoice L paymentHashHex amount alg invoiceIndex =
     bindS (liftS (bindR (assertHexBytes ''paymentHashHex'' paymentHashHex 32) (\<lambda>_.
                   bindR (assertPositiveDecimalShannons ''amountShannons'' amount) (\<lambda>_.
                   assertUnsignedInteger ''invoiceIndex'' invoiceIndex MAX_INVOICE_INDEX)))) (\<lambda>_.
     let key = boundPaymentHashOf L paymentHashHex in
     bindS (getDebitIntent L key) (\<lambda>intent.
     bindS (liftS (check (intent = None) (TypeErr ''the hash of a payment this device has authorised''))) (\<lambda>_.
     bindS (updateHoldInvoiceRecord L key (invoiceUpdate paymentHashHex amount alg invoiceIndex)) (\<lambda>_. doneS ()))))"

definition requireHoldInvoice :: "lib \<Rightarrow> string \<Rightarrow> (storage, hold_invoice_record) act" where
  "requireHoldInvoice L paymentHashHex =
     bindS (getHoldInvoiceRecord L (boundPaymentHashOf L paymentHashHex)) (\<lambda>r.
     liftS (case r of
              None \<Rightarrow> Inl (TypeErr ''no hold invoice was recorded'')
            | Some r \<Rightarrow> bindR (assertSameHash (hi_paymentHash r) paymentHashHex) (\<lambda>_. Inr r)))"

definition releaseChannel :: "int \<times> channel_policy_record \<Rightarrow> release_channel" where
  "releaseChannel = (\<lambda>(i, r).
     \<lparr> rl_index = i, rl_commitmentDelayEpoch = get (pinned (pins r)) P_commitmentDelayEpoch, rl_views = views r \<rparr>)"

definition releasedUpdate :: "hold_invoice_record option \<Rightarrow> hold_invoice_record res" where
  "releasedUpdate latest =
     (case latest of None \<Rightarrow> Inl vanishedPaymentRecord | Some r \<Rightarrow> Inr (r\<lparr> hi_released := True \<rparr>))"

text \<open>The clock is read once, inside the lane: \<open>nowMs\<close> is what it answers.\<close>

definition markHoldInvoiceReleased :: "lib \<Rightarrow> string \<Rightarrow> int \<Rightarrow> (int \<Rightarrow> int) \<Rightarrow> (storage, unit) act" where
  "markHoldInvoiceReleased L paymentHashHex nowMs releaseMarginMs =
     bindS (liftS (assertHexBytes ''paymentHashHex'' paymentHashHex 32)) (\<lambda>_.
     bindS (requireHoldInvoice L paymentHashHex) (\<lambda>current.
     if hi_released current then doneS ()
     else
       bindS (readListedChannels L (hi_channelIndexes current)) (\<lambda>channels.
       bindS (liftS (bindR (assertUnsignedInteger ''timing.now()'' nowMs MAX_SAFE_INTEGER) (\<lambda>_.
              judgeHoldInvoiceRelease L current (map releaseChannel channels) nowMs releaseMarginMs))) (\<lambda>_.
       bindS (updateHoldInvoiceRecord L (boundPaymentHashOf L paymentHashHex) releasedUpdate) (\<lambda>_. doneS ())))))"

definition readHoldInvoice :: "lib \<Rightarrow> string \<Rightarrow> (storage, hold_invoice_record) act" where
  "readHoldInvoice L paymentHashHex =
     bindS (liftS (assertHexBytes ''paymentHashHex'' paymentHashHex 32)) (\<lambda>_. requireHoldInvoice L paymentHashHex)"

definition listsHoldInvoiceTlc :: "lib \<Rightarrow> string \<Rightarrow> (storage, bool) act" where
  "listsHoldInvoiceTlc L paymentHashHex =
     bindS (liftS (assertHexBytes ''paymentHashHex'' paymentHashHex 32)) (\<lambda>_.
     bindS (requireHoldInvoice L paymentHashHex) (\<lambda>invoice.
     bindS (readListedChannels L (hi_channelIndexes invoice)) (\<lambda>channels.
     doneS (list_ex (\<lambda>(i, r). list_ex (\<lambda>view. length (listHoldInvoiceTlcs L (views r view) invoice) > 0) POLICY_VIEWS)
       channels))))"

section \<open>Claims\<close>

text \<open>\<^verbatim>\<open>new Set(list)\<close>, in insertion order.\<close>

fun distinctOf :: "'a list \<Rightarrow> 'a list" where
  "distinctOf [] = []"
| "distinctOf (x # xs) = x # filter (\<lambda>y. y \<noteq> x) (distinctOf xs)"

type_synonym hash_records =
  "(string \<times> debit_intent_record option \<times> hold_invoice_record option) list"

definition loadHash :: "lib \<Rightarrow> string \<Rightarrow> (storage, string \<times> debit_intent_record option \<times> hold_invoice_record option) act" where
  "loadHash L h =
     bindS (getDebitIntent L h) (\<lambda>intent.
     bindS (getHoldInvoiceRecord L h) (\<lambda>invoice. doneS (h, intent, invoice)))"

definition listedIndexes :: "hash_records \<Rightarrow> int list" where
  "listedIndexes loaded = distinctOf (concat (map (\<lambda>(h, intent, invoice).
     (case intent of None \<Rightarrow> [] | Some i \<Rightarrow> di_channelIndexes i) @
     (case invoice of None \<Rightarrow> [] | Some i \<Rightarrow> hi_channelIndexes i)) loaded))"

definition contextOf :: "hash_records \<Rightarrow> channel_policy_record list \<Rightarrow> balance_rule_context" where
  "contextOf loaded others =
     \<lparr> intents = (\<lambda>h. case get loaded h of None \<Rightarrow> None | Some (intent, invoice) \<Rightarrow> intent),
       invoices = (\<lambda>h. case get loaded h of None \<Rightarrow> None | Some (intent, invoice) \<Rightarrow> invoice),
       otherChannels = map views others \<rparr>"

definition loadBalanceContext ::
    "lib \<Rightarrow> int \<Rightarrow> claim \<Rightarrow> channel_policy_record \<Rightarrow> (storage, balance_rule_context) act" where
  "loadBalanceContext L i c r =
     (case cl_operation c of
        OpCommitmentTx _ \<Rightarrow>
          let hashes = distinctOf (map pv_boundPaymentHash (cl_tlcs c @ tlcs (views r remote_view) @ tlcs (views r local_view)))
          in bindS (mapS (loadHash L) hashes) (\<lambda>loaded.
             bindS (mapS (listedChannel L) (filter (\<lambda>j. j \<noteq> i) (listedIndexes loaded))) (\<lambda>others.
             doneS (contextOf loaded (map snd others))))
      | _ \<Rightarrow> doneS \<lparr> intents = (\<lambda>h. None), invoices = (\<lambda>h. None), otherChannels = [] \<rparr>)"

definition withChannelIntent :: "int \<Rightarrow> debit_intent_record option \<Rightarrow> debit_intent_record res" where
  "withChannelIntent i current =
     (case current of
        None \<Rightarrow> Inl vanishedPaymentRecord
      | Some r \<Rightarrow> Inr (if i \<in> set (di_channelIndexes r) then r
                     else r\<lparr> di_channelIndexes := di_channelIndexes r @ [i] \<rparr>))"

definition withChannelInvoice :: "int \<Rightarrow> hold_invoice_record option \<Rightarrow> hold_invoice_record res" where
  "withChannelInvoice i current =
     (case current of
        None \<Rightarrow> Inl vanishedPaymentRecord
      | Some r \<Rightarrow> Inr (if i \<in> set (hi_channelIndexes r) then r
                     else r\<lparr> hi_channelIndexes := hi_channelIndexes r @ [i] \<rparr>))"

definition fileHash :: "lib \<Rightarrow> int \<Rightarrow> balance_rule_context \<Rightarrow> string \<Rightarrow> (storage, unit) act" where
  "fileHash L i ctx h =
     bindS (if intents ctx h \<noteq> None then bindS (updateDebitIntent L h (withChannelIntent i)) (\<lambda>_. doneS ()) else doneS ()) (\<lambda>_.
     if invoices ctx h \<noteq> None then bindS (updateHoldInvoiceRecord L h (withChannelInvoice i)) (\<lambda>_. doneS ()) else doneS ())"

definition fileChannel :: "lib \<Rightarrow> int \<Rightarrow> claim \<Rightarrow> balance_rule_context \<Rightarrow> (storage, unit) act" where
  "fileChannel L i c ctx =
     bindS (mapS (fileHash L i ctx) (distinctOf (map pv_boundPaymentHash (cl_tlcs c)))) (\<lambda>_. doneS ())"

definition claimUpdate ::
    "lib \<Rightarrow> claim \<Rightarrow> balance_rule_context \<Rightarrow> channel_policy_record \<Rightarrow> channel_policy_record res" where
  "claimUpdate L c ctx r = bindR (decideClaim L c r ctx) (\<lambda>(v, r'). Inr r')"

text \<open>Inside the balance lane nothing but evidence and spends may move the record, so it is read again.\<close>

definition claimSlot :: "lib \<Rightarrow> int \<Rightarrow> claim \<Rightarrow> balance_rule_context \<Rightarrow> (storage, policy_verdict) act" where
  "claimSlot L i c ctx =
     bindS (readRegisteredRecord L i) (\<lambda>current.
     bindS (updateRegisteredRecord L i (claimUpdate L c ctx)) (\<lambda>_.
     liftS (bindR (decideClaim L c current ctx) (\<lambda>(v, r'). Inr v))))"

definition decideAndClaim :: "lib \<Rightarrow> int \<Rightarrow> claim \<Rightarrow> (storage, policy_verdict) act" where
  "decideAndClaim L i c =
     bindS (readRegisteredRecord L i) (\<lambda>current.
     bindS (loadBalanceContext L i c current) (\<lambda>ctx.
     bindS (liftS (decideClaim L c current ctx)) (\<lambda>(v, r').
     bindS (if r' \<noteq> current then fileChannel L i c ctx else doneS ()) (\<lambda>_.
     claimSlot L i c ctx))))"

definition claimOf ::
    "lib \<Rightarrow> policy_engine \<Rightarrow> policy_sign_request \<Rightarrow> sign_slot_claim \<Rightarrow> signed_commitment option \<Rightarrow> claim res" where
  "claimOf L en request slot commitment =
     bindR (buildSessionCommitment L (rq_session request)) (\<lambda>sessionCommitment. Inr
     \<lparr> cl_slot = slot, cl_sessionCommitment = sessionCommitment,
       cl_message = bytesToHex L (sn_message (rq_session request)), cl_nonceReuse = en_nonceReuse en,
       cl_operation = rq_operation request, cl_commitment = commitment,
       cl_tlcs = (case rq_operation request of
                    OpCommitmentTx input \<Rightarrow> toPolicyViewTlcs L (ci_tlcs input) (ci_lockLayout input) | _ \<Rightarrow> []) \<rparr>)"

definition checkAndClaim ::
    "lib \<Rightarrow> policy_engine \<Rightarrow> fiber_channel_keys \<Rightarrow> policy_sign_request \<Rightarrow> (storage, policy_verdict) act" where
  "checkAndClaim L en keys request =
     bindS (liftS (withPolicyRefusal malformed
       (bindR (assertNonEmptyString ''channelId'' (rq_channelId request)) (\<lambda>_.
        bindR (assertSignSession L keys (rq_session request)) (\<lambda>_.
        resolveSignSlot (rq_operation request) (rq_commitmentNumber request) (rq_counter request)))))) (\<lambda>slot.
     bindS (requireChannelIndex (rq_channelId request)) (\<lambda>i.
     bindS (liftS (withPolicyRefusal malformed (rebuildOperation L keys (rq_operation request)))) (\<lambda>(message, commitment).
     if message \<noteq> sn_message (rq_session request)
     then liftS (refusePolicyRequest malformed ''the message does not match the attached channel state'')
     else
       bindS (liftS (claimOf L en request slot commitment)) (\<lambda>c. decideAndClaim L i c))))"

end
