(* ===== verification/EngineRuns.thy ===== *)
theory EngineRuns
  imports Engine ClaimFacts WatchtowerFacts
begin

text \<open>
  The engine's methods as operations on one storage, in any order: what each of them may write, and
  what a run of them does to the record of a channel.
\<close>

section \<open>Relations an action keeps\<close>

text \<open>
  What every action of the engine does to the storage, whatever it answers, is stated as a relation
  between the storage before and the storage after. A relation that is reflexive and transitive is
  kept by an action as soon as its parts keep it.
\<close>

definition keeps :: "(storage \<Rightarrow> storage \<Rightarrow> bool) \<Rightarrow> (storage, 'a) act \<Rightarrow> bool" where
  "keeps R m \<longleftrightarrow> (\<forall>st. R st (snd (m st)))"

lemma keepsD: "keeps R m \<Longrightarrow> m st = (r, st') \<Longrightarrow> R st st'"
  unfolding keeps_def by (metis snd_conv)

lemma keeps_if: "(b \<Longrightarrow> keeps R m) \<Longrightarrow> (\<not> b \<Longrightarrow> keeps R m') \<Longrightarrow> keeps R (if b then m else m')"
  by simp

lemma keeps_option:
  "(z = None \<Longrightarrow> keeps R m) \<Longrightarrow> (\<And>x. z = Some x \<Longrightarrow> keeps R (f x)) \<Longrightarrow>
   keeps R (case z of None \<Rightarrow> m | Some x \<Rightarrow> f x)"
  by (cases z) simp_all

lemma keeps_Let: "(\<And>x. keeps R (f x)) \<Longrightarrow> keeps R (let x = z in f x)"
  by simp

lemma keeps_prod: "(\<And>x y. keeps R (f x y)) \<Longrightarrow> keeps R (case p of (x, y) \<Rightarrow> f x y)"
  by (cases p) simp

lemmas keeps_branches = keeps_if keeps_option keeps_Let keeps_prod

locale storage_preorder =
  fixes R :: "storage \<Rightarrow> storage \<Rightarrow> bool"
  assumes same: "R st st"
    and compose: "R st st' \<Longrightarrow> R st' st'' \<Longrightarrow> R st st''"
begin

lemma lift: "keeps R (liftS r)" "keeps R (doneS x)"
  by (simp_all add: keeps_def same)

lemma bind:
  assumes "keeps R m" "\<And>x. keeps R (f x)"
  shows "keeps R (bindS m f)"
  unfolding keeps_def
proof
  fix st
  obtain r st' where m: "m st = (r, st')" by fastforce
  have "R st st'" by (rule keepsD [OF assms(1) m])
  moreover have "R st' (snd (f x st'))" for x
    using assms(2) by (simp add: keeps_def)
  ultimately show "R st (snd (bindS m f st))"
    using m compose by (simp add: bindS_def split: sum.split)
qed

lemma bind_lift: "(\<And>x. r = Inr x \<Longrightarrow> keeps R (f x)) \<Longrightarrow> keeps R (bindS (liftS r) f)"
  by (cases r) (auto simp: keeps_def bindS_def same)

lemma each:
  assumes "\<And>x. x \<in> set xs \<Longrightarrow> keeps R (f x)"
  shows "keeps R (mapS f xs)"
  using assms by (induction xs) (auto intro!: bind lift)

lemma reading: "keeps (\<lambda>st st'. st' = st) m \<Longrightarrow> keeps R m"
  by (simp add: keeps_def same)

lemmas rules = lift bind each keeps_branches

end

section \<open>Frames\<close>

text \<open>An action that leaves alone every key outside \<open>K\<close>.\<close>

definition same_outside :: "string set \<Rightarrow> storage \<Rightarrow> storage \<Rightarrow> bool" where
  "same_outside K st st' \<longleftrightarrow> (\<forall>k. k \<notin> K \<longrightarrow> st' k = st k)"

abbreviation writes_only :: "string set \<Rightarrow> (storage, 'a) act \<Rightarrow> bool" where
  "writes_only K \<equiv> keeps (same_outside K)"

abbreviation reads_only :: "(storage, 'a) act \<Rightarrow> bool" where
  "reads_only \<equiv> keeps (\<lambda>st st'. st' = st)"

interpretation frame: storage_preorder "same_outside K" for K
  by unfold_locales (auto simp: same_outside_def)

interpretation reader: storage_preorder "\<lambda>st st'. st' = st"
  by unfold_locales auto

named_theorems frames and reads

lemmas [frames] = frame.rules
lemmas [reads] = reader.rules

lemma writes_onlyD: "writes_only K m \<Longrightarrow> m st = (r, st') \<Longrightarrow> k \<notin> K \<Longrightarrow> st' k = st k"
  using keepsD unfolding same_outside_def by blast

lemma reads_onlyD: "reads_only m \<Longrightarrow> m st = (r, st') \<Longrightarrow> st' = st"
  by (rule keepsD)

lemma reads_store [reads]:
  "reads_only (resolveChannelIndex name)" "reads_only (getChannelRecord L i)"
  "reads_only (getDebitIntent L h)" "reads_only (getHoldInvoiceRecord L h)"
  by (simp_all add: keeps_def resolveChannelIndex_def getChannelRecord_def getDebitIntent_def getHoldInvoiceRecord_def)

lemma reads_engine [reads]:
  "reads_only (requireRegisteredIndex name)" "reads_only (requireChannelIndex name)"
  "reads_only (readRegisteredRecord L i)" "reads_only (listedChannel L i)"
  "reads_only (readListedChannels L is)" "reads_only (requireHoldInvoice L h)"
  "reads_only (loadHash L h)" "reads_only (chargedAnywhere L d)" "reads_only (checkIntentFree L h o')"
  unfolding requireRegisteredIndex_def requireChannelIndex_def readRegisteredRecord_def listedChannel_def
    readListedChannels_def requireHoldInvoice_def loadHash_def chargedAnywhere_def checkIntentFree_def
  by (intro reads)+

lemma reads_loadBalanceContext [reads]: "reads_only (loadBalanceContext L i c r)"
  unfolding loadBalanceContext_def by (cases "cl_operation c") (auto intro!: reads)

lemmas [frames] = reads_store [THEN frame.reading] reads_engine [THEN frame.reading]
  reads_loadBalanceContext [THEN frame.reading]

lemma writes_only_updateAt [frames]: "key \<in> K \<Longrightarrow> writes_only K (updateAt key fmt update)"
  by (auto simp: keeps_def same_outside_def updateAt_def writeRecord_def split: sum.splits)

lemma writes_only_claimChannelAlias [frames]: "aliasKey name \<in> K \<Longrightarrow> writes_only K (claimChannelAlias name i)"
  by (auto simp: keeps_def same_outside_def claimChannelAlias_def split: sum.splits)

lemma writes_only_updates [frames]:
  "channelKey i \<in> K \<Longrightarrow> writes_only K (updateChannelRecord L i u)"
  "intentKey h \<in> K \<Longrightarrow> writes_only K (updateDebitIntent L h u')"
  "invoiceKey h \<in> K \<Longrightarrow> writes_only K (updateHoldInvoiceRecord L h u'')"
  by (auto simp: updateChannelRecord_def updateDebitIntent_def updateHoldInvoiceRecord_def intro!: frames)

lemma writes_only_updateRegistered [frames]:
  "channelKey i \<in> K \<Longrightarrow> writes_only K (updateRegisteredRecord L i u)"
  unfolding updateRegisteredRecord_def by (intro frames)

lemma writes_only_fileChannel [frames]:
  "range intentKey \<union> range invoiceKey \<subseteq> K \<Longrightarrow> writes_only K (fileChannel L i c ctx)"
  unfolding fileChannel_def fileHash_def by (intro frames) auto

section \<open>Runs\<close>

datatype engine_op =
    RegisterChannel string int string script
  | PinFundingCell string out_point string
  | PinChannelTerms string policy_channel_terms
  | RecordRevocation string int bytes
  | CheckWatchtowerSpend fiber_channel_keys string watchtower_spend_request
  | RecordSpendSignature string bytes bytes
  | MarkSpendApplied string bytes
  | RecordDebitIntent string string
  | CloseDebitIntent string
  | RecordHoldInvoice string string tlc_hash_algorithm int
  | MarkHoldInvoiceReleased string int "int \<Rightarrow> int"
  | CheckAndClaim fiber_channel_keys policy_sign_request

text \<open>The storage after an operation, also when it throws.\<close>

fun perform :: "lib \<Rightarrow> policy_engine \<Rightarrow> engine_op \<Rightarrow> storage \<Rightarrow> storage" where
  "perform L en (RegisterChannel name i funded closeScript) st = snd (registerChannel L name i funded closeScript st)"
| "perform L en (PinFundingCell name cell capacity) st = snd (pinFundingCell L name cell capacity st)"
| "perform L en (PinChannelTerms name terms) st = snd (pinChannelTerms L name terms st)"
| "perform L en (RecordRevocation name version signature) st = snd (recordRevocation L name version signature st)"
| "perform L en (CheckWatchtowerSpend keys name request) st = snd (checkWatchtowerSpend L en keys name request st)"
| "perform L en (RecordSpendSignature name requestId signature) st = snd (recordSpendSignature L name requestId signature st)"
| "perform L en (MarkSpendApplied name requestId) st = snd (markSpendApplied L name requestId st)"
| "perform L en (RecordDebitIntent hash maxShannons) st = snd (recordDebitIntent L hash maxShannons st)"
| "perform L en (CloseDebitIntent hash) st = snd (closeDebitIntent L hash st)"
| "perform L en (RecordHoldInvoice hash amount alg i) st = snd (recordHoldInvoice L hash amount alg i st)"
| "perform L en (MarkHoldInvoiceReleased hash nowMs margin) st = snd (markHoldInvoiceReleased L hash nowMs margin st)"
| "perform L en (CheckAndClaim keys request) st = snd (checkAndClaim L en keys request st)"

definition performed :: "lib \<Rightarrow> policy_engine \<Rightarrow> engine_op list \<Rightarrow> storage" where
  "performed L en ops = fold (perform L en) ops (\<lambda>_. None)"

lemma performed_simps [simp]:
  "performed L en [] = (\<lambda>_. None)"
  "performed L en (ops @ [op]) = perform L en op (performed L en ops)"
  by (simp_all add: performed_def)

text \<open>The channel index, slot and session an operation lets the device sign.\<close>

fun signed_by :: "lib \<Rightarrow> policy_engine \<Rightarrow> storage \<Rightarrow> engine_op \<Rightarrow> (int \<times> string \<times> string) option" where
  "signed_by L en st (CheckAndClaim keys request) =
     (case (fst (checkAndClaim L en keys request st), fst (resolveChannelIndex (rq_channelId request) st),
            resolveSignSlot (rq_operation request) (rq_commitmentNumber request) (rq_counter request),
            buildSessionCommitment L (rq_session request)) of
        (Inr v, Inr (Some i), Inr slot, Inr session) \<Rightarrow>
          Some (i, signSlotKey (sl_context slot) (sl_commitmentNumber slot), session)
      | _ \<Rightarrow> None)"
| "signed_by L en st op = None"

fun signed_over :: "lib \<Rightarrow> policy_engine \<Rightarrow> storage \<Rightarrow> engine_op list \<Rightarrow> (int \<times> string \<times> string) list" where
  "signed_over L en st [] = []"
| "signed_over L en st (op # ops) =
     (case signed_by L en st op of None \<Rightarrow> [] | Some s \<Rightarrow> [s]) @ signed_over L en (perform L en op st) ops"

lemma signed_over_append:
  "signed_over L en st (xs @ ys) = signed_over L en st xs @ signed_over L en (fold (perform L en) xs st) ys"
  by (induction xs arbitrary: st) simp_all

end
