(* ===== verification/EngineSample.thy ===== *)
theory EngineSample
  imports EngineRuns
begin

text \<open>
  The worked example as operations of the engine, on the sample library functions: a channel is
  registered, its terms are pinned, and its first commitment is checked and claimed from the request
  the node sends.
\<close>

definition sample_terms :: policy_channel_terms where
  "sample_terms = \<lparr> pt_commitmentFeeRate = 1000, pt_remoteReservedCkbShannons = ''9900000000'',
     pt_liquidCapacityShannons = ''20000000000'', pt_remoteCloseScript = sample_script,
     pt_remoteFundingPubkey = sample_point, pt_remoteTlcBasePubkey = sample_point, pt_commitmentDelayEpoch = 1 \<rparr>"

definition sample_engine :: policy_engine where
  "sample_engine = \<lparr> en_nonceReuse = reuse_refuse, en_watchtower = Some sample_approval \<rparr>"

definition sample_session :: sign_session where
  "sample_session = \<lparr> orderedPublicKeys = [2 # replicate 32 1, sample_point], aggregatedNonce = zero_bytes 66,
     sn_message = [242, 0, 0, 0, 28, 0, 0, 0, 32, 0, 0, 0, 36, 0, 0, 0, 40, 0, 0, 0, 88, 0, 0, 0, 230, 0, 0, 0, 0, 0, 0, 0] \<rparr>"

definition sample_request :: policy_sign_request where
  "sample_request = \<lparr> rq_channelId = ''c'', rq_commitmentNumber = 1, rq_counter = Some counter_local,
     rq_session = sample_session, rq_operation = OpCommitmentTx (sample_commitment_input 1 []) \<rparr>"

definition sample_registration :: engine_op where
  "sample_registration = RegisterChannel ''c'' 0 ''19900000000'' sample_script"

definition sample_ops :: "engine_op list" where
  "sample_ops = [sample_registration, PinChannelTerms ''c'' sample_terms, CheckAndClaim sample_keys sample_request]"

text \<open>The storage after the registration.\<close>

definition sample_registered_record :: channel_policy_record where
  "sample_registered_record = newChannelRecord ''c'' ''19900000000'' (sample_pins\<lparr> pinned := [] \<rparr>)"

lemma sample_registered_stored:
  "performed demo_lib sample_engine [sample_registration] (channelKey 0) = Some (StoredChannel sample_registered_record)"
  by code_simp

lemma sample_registered_valid: "isChannelPolicyRecord demo_lib sample_registered_record"
  by code_simp

text \<open>A cooperative close the record has already served, asked for again.\<close>

definition sample_served :: channel_policy_record where
  "sample_served = sample_registered_record\<lparr> lastSignedCommitmentNumbers := [(COMMITMENT_local, 2)],
     signedSessions := [(''COMMITMENT:2'', ''66696265722d6c73702d73646b207369676e2d6f6e6365207631020101010101'')] \<rparr>"

definition sample_store :: storage where
  "sample_store = (\<lambda>_. None)(aliasKey ''c'' := Some (StoredText ''0''), channelKey 0 := Some (StoredChannel sample_served))"

definition sample_close_message :: bytes where
  "sample_close_message = [22, 1, 0, 0, 28, 0, 0, 0, 32, 0, 0, 0, 36, 0, 0, 0, 40, 0, 0, 0, 88, 0, 0, 0, 2, 1, 0, 0, 0, 0, 0, 0]"

definition sample_close_request :: policy_sign_request where
  "sample_close_request = \<lparr> rq_channelId = ''c'', rq_commitmentNumber = 2, rq_counter = Some counter_local,
     rq_session = sample_session\<lparr> sn_message := sample_close_message \<rparr>, rq_operation = OpClosingTx sample_closing_input \<rparr>"

definition sample_close_slot :: sign_slot_claim where
  "sample_close_slot = \<lparr> sl_context = COMMITMENT, sl_commitmentNumber = 2, sl_lane = COMMITMENT_local \<rparr>"

definition sample_close_claim :: claim where
  "sample_close_claim =
     \<lparr> cl_slot = sample_close_slot,
       cl_sessionCommitment = ''66696265722d6c73702d73646b207369676e2d6f6e6365207631020101010101'',
       cl_message = ''160100001c000000200000002400000028000000580000000201000000000000'', cl_nonceReuse = reuse_refuse,
       cl_operation = OpClosingTx sample_closing_input, cl_commitment = None, cl_tlcs = [] \<rparr>"

lemma sample_served_valid: "isChannelPolicyRecord demo_lib sample_served"
  by code_simp

lemma sample_served_read: "getChannelRecord demo_lib 0 sample_store = (Inr (Some sample_served), sample_store)"
  by (simp add: getChannelRecord_def readRecord_def parseRecord_def CHANNEL_RECORD_FORMAT_def sample_store_def
      sample_served_valid assertUnsignedInteger_def isUnsignedInteger_def)

lemma sample_close_steps:
  "withPolicyRefusal malformed
     (bindR (assertNonEmptyString ''channelId'' ''c'') (\<lambda>_.
      bindR (assertSignSession demo_lib sample_keys (rq_session sample_close_request)) (\<lambda>_.
      resolveSignSlot (rq_operation sample_close_request) (rq_commitmentNumber sample_close_request)
        (rq_counter sample_close_request)))) = Inr sample_close_slot"
  "withPolicyRefusal malformed (rebuildOperation demo_lib sample_keys (rq_operation sample_close_request))
     = Inr (sn_message (rq_session sample_close_request), None)"
  "claimOf demo_lib sample_engine sample_close_request sample_close_slot None = Inr sample_close_claim"
  "decideClaim demo_lib sample_close_claim sample_served sample_ctx = Inr (verdict_of sample_close_slot already_signed, sample_served)"
  by code_simp+

lemma sample_close_index:
  "requireChannelIndex ''c'' sample_store = (Inr 0, sample_store)"
proof -
  have "isCanonicalDecimal ''0'' \<and> isUnsignedInteger (bigInt ''0'') MAX_CHANNEL_INDEX \<and> bigInt ''0'' = 0"
    by code_simp
  then show ?thesis
    by (simp add: requireChannelIndex_def resolveChannelIndex_def readChannelIndex_def sample_store_def bindS_def
        assertNonEmptyString_def isUnsignedInteger_def)
qed

lemma sample_close_repeated:
  "checkAndClaim demo_lib sample_engine sample_keys sample_close_request sample_store
     = (Inr (verdict_of sample_close_slot already_signed), sample_store)"
proof -
  have read: "readRegisteredRecord demo_lib 0 sample_store = (Inr sample_served, sample_store)"
    by (simp add: readRegisteredRecord_def bindS_def sample_served_read)
  have load: "loadBalanceContext demo_lib 0 sample_close_claim sample_served sample_store = (Inr sample_ctx, sample_store)"
    by (simp add: loadBalanceContext_def sample_close_claim_def sample_ctx_def)
  have upd: "updateRegisteredRecord demo_lib 0 (claimUpdate demo_lib sample_close_claim sample_ctx) sample_store
      = (Inr sample_served, sample_store)"
    using sample_served_read
    by (simp add: updateRegisteredRecord_def updateChannelRecord_def updateAt_def getChannelRecord_def bindS_def
        claimUpdate_def sample_close_steps(4) assertUnsignedInteger_def isUnsignedInteger_def)
  have id: "rq_channelId sample_close_request = ''c''" by (simp add: sample_close_request_def)
  show ?thesis
    unfolding checkAndClaim_def id sample_close_steps(1)
    by (simp add: bindS_def sample_close_index sample_close_steps(2,3,4) decideAndClaim_def claimSlot_def read load upd)
qed

end
