(* ===== verification/EngineFacts.thy ===== *)
theory EngineFacts
  imports EngineSample
begin

text \<open>
  From the record to the engine: whatever methods run, in whatever order, the record at a channel index is
  created by a registration and then only moves by the record steps of the claims, so what holds of
  every run of a record holds of the storage.
\<close>

section \<open>What a key holds\<close>

definition channel_at :: "lib \<Rightarrow> storage \<Rightarrow> int \<Rightarrow> channel_policy_record option res" where
  "channel_at L st i = readRecord (channelKey i) (CHANNEL_RECORD_FORMAT L) st"

definition intent_at :: "lib \<Rightarrow> storage \<Rightarrow> string \<Rightarrow> debit_intent_record option res" where
  "intent_at L st h = readRecord (intentKey h) (DEBIT_INTENT_FORMAT L) st"

definition invoice_at :: "lib \<Rightarrow> storage \<Rightarrow> string \<Rightarrow> hold_invoice_record option res" where
  "invoice_at L st h = readRecord (invoiceKey h) (HOLD_INVOICE_FORMAT L) st"

lemma at_cong:
  "st' (channelKey i) = st (channelKey i) \<Longrightarrow> channel_at L st' i = channel_at L st i"
  "st' (intentKey h) = st (intentKey h) \<Longrightarrow> intent_at L st' h = intent_at L st h"
  "st' (invoiceKey h) = st (invoiceKey h) \<Longrightarrow> invoice_at L st' h = invoice_at L st h"
  by (simp_all add: channel_at_def intent_at_def invoice_at_def readRecord_def)

lemma at_empty [simp]:
  "channel_at L (\<lambda>_. None) i = Inr None" "intent_at L (\<lambda>_. None) h = Inr None" "invoice_at L (\<lambda>_. None) h = Inr None"
  by (simp_all add: channel_at_def intent_at_def invoice_at_def readRecord_def)

lemma key_ranges [simp]:
  "channelKey i \<notin> range aliasKey" "channelKey i \<notin> range intentKey" "channelKey i \<notin> range invoiceKey"
  "intentKey h \<notin> range channelKey" "intentKey h \<notin> range aliasKey" "intentKey h \<notin> range invoiceKey"
  "invoiceKey h \<notin> range channelKey" "invoiceKey h \<notin> range aliasKey" "invoiceKey h \<notin> range intentKey"
  by auto

lemma getChannelRecord_Inr: "getChannelRecord L i st = (Inr r, st') \<Longrightarrow> st' = st \<and> channel_at L st i = Inr r"
  by (auto simp: getChannelRecord_def channel_at_def bindR_Inr_iff)

lemma readRegisteredRecord_Inr:
  "readRegisteredRecord L i st = (Inr r, st') \<Longrightarrow> st' = st \<and> channel_at L st i = Inr (Some r)"
  by (auto simp: readRegisteredRecord_def bindS_Inr_iff dest!: getChannelRecord_Inr split: option.splits)

text \<open>An update that throws changes nothing; one that returns leaves its key holding what it returned.\<close>

lemma updateChannelRecord_cases:
  assumes "updateChannelRecord L i u st = (r, st')"
  obtains (failed) e where "r = Inl e" "st' = st"
  | (written) cur nxt where "r = Inr nxt" "channel_at L st i = Inr cur" "u cur = Inr nxt"
      "channel_at L st' i = Inr (Some nxt)" "isChannelPolicyRecord L nxt"
proof (cases r)
  case (Inl e)
  from assms Inl have "updateAt (channelKey i) (CHANNEL_RECORD_FORMAT L) u st = (Inl e, st') \<or> st' = st"
    by (auto simp: updateChannelRecord_def bindS_def split: sum.splits)
  then have "st' = st" using channel_format.update_result by fastforce
  with Inl show thesis by (rule failed)
next
  case (Inr nxt)
  from assms Inr have "updateAt (channelKey i) (CHANNEL_RECORD_FORMAT L) u st = (Inr nxt, st')"
    by (auto simp: updateChannelRecord_def bindS_def split: sum.splits)
  from channel_format.update_result [OF this] Inr show thesis
    by (auto simp: channel_at_def CHANNEL_RECORD_FORMAT_def intro: written)
qed

lemma updateDebitIntent_cases:
  assumes "updateDebitIntent L h u st = (r, st')"
  obtains (failed) e where "r = Inl e" "st' = st"
  | (written) cur nxt where "r = Inr nxt" "intent_at L st h = Inr cur" "u cur = Inr nxt"
      "intent_at L st' h = Inr (Some nxt)" "isDebitIntentRecord nxt" "h = boundPaymentHashOf L (di_paymentHash nxt)"
proof (cases r)
  case (Inl e)
  from assms Inl have "updateAt (intentKey h) (DEBIT_INTENT_FORMAT L) u st = (Inl e, st') \<or> st' = st"
    by (auto simp: updateDebitIntent_def bindS_def split: sum.splits)
  then have "st' = st" using intent_format.update_result by fastforce
  with Inl show thesis by (rule failed)
next
  case (Inr nxt)
  from assms Inr have "updateAt (intentKey h) (DEBIT_INTENT_FORMAT L) u st = (Inr nxt, st')"
    by (auto simp: updateDebitIntent_def bindS_def split: sum.splits)
  from intent_format.update_result [OF this] Inr show thesis
    by (auto simp: intent_at_def DEBIT_INTENT_FORMAT_def intentKey_def intro: written)
qed

lemma updateHoldInvoiceRecord_cases:
  assumes "updateHoldInvoiceRecord L h u st = (r, st')"
  obtains (failed) e where "r = Inl e" "st' = st"
  | (written) cur nxt where "r = Inr nxt" "invoice_at L st h = Inr cur" "u cur = Inr nxt"
      "invoice_at L st' h = Inr (Some nxt)" "isHoldInvoicePolicyRecord nxt" "h = boundPaymentHashOf L (hi_paymentHash nxt)"
proof (cases r)
  case (Inl e)
  from assms Inl have "updateAt (invoiceKey h) (HOLD_INVOICE_FORMAT L) u st = (Inl e, st') \<or> st' = st"
    by (auto simp: updateHoldInvoiceRecord_def bindS_def split: sum.splits)
  then have "st' = st" using invoice_format.update_result by fastforce
  with Inl show thesis by (rule failed)
next
  case (Inr nxt)
  from assms Inr have "updateAt (invoiceKey h) (HOLD_INVOICE_FORMAT L) u st = (Inr nxt, st')"
    by (auto simp: updateHoldInvoiceRecord_def bindS_def split: sum.splits)
  from invoice_format.update_result [OF this] Inr show thesis
    by (auto simp: invoice_at_def HOLD_INVOICE_FORMAT_def invoiceKey_def intro: written)
qed

section \<open>How a channel's record moves\<close>

lemma record_run_append:
  assumes "record_run L r es r'" "record_run L r' es' r''"
  shows "record_run L r (es @ es') r''"
  using assms(2)
proof (induction rule: record_run.induct)
  case (snoc es1 r1 e r2)
  then show ?case
    using record_run.snoc [of L r "es @ es1" r1 e r2] by simp
qed (use assms(1) in simp)

text \<open>Claims of a run all carry the engine's mode.\<close>

definition in_mode :: "nonce_reuse_mode \<Rightarrow> record_event list \<Rightarrow> bool" where
  "in_mode mode es \<longleftrightarrow> (\<forall>c\<in>set (claims_of es). cl_nonceReuse c = mode)"

lemma claims_of_append: "claims_of (es @ es') = claims_of es @ claims_of es'"
  by (simp add: claims_of_def List.map_filter_def)

lemma in_mode_append [simp]: "in_mode mode (es @ es') \<longleftrightarrow> in_mode mode es \<and> in_mode mode es'"
  by (auto simp: in_mode_def claims_of_append)

definition moved ::
    "lib \<Rightarrow> nonce_reuse_mode \<Rightarrow> channel_policy_record option res \<Rightarrow> channel_policy_record option res \<Rightarrow> bool" where
  "moved L mode c c' \<longleftrightarrow> c' = c
     \<or> (\<exists>r es r'. c = Inr (Some r) \<and> c' = Inr (Some r') \<and> record_run L r es r' \<and> in_mode mode es)
     \<or> (\<exists>name funded ps es r. c = Inr None \<and> c' = Inr (Some r)
          \<and> record_run L (newChannelRecord name funded ps) es r \<and> in_mode mode es)"

lemma moved_refl [simp]: "moved L mode c c"
  by (simp add: moved_def)

lemma moved_trans: "moved L mode c c' \<Longrightarrow> moved L mode c' c'' \<Longrightarrow> moved L mode c c''"
  unfolding moved_def
  by (elim disjE exE conjE) (auto, (metis record_run_append in_mode_append)+)

lemma moved_step:
  assumes "record_step L r e r'" "\<And>c. claim_of e = Some c \<Longrightarrow> cl_nonceReuse c = mode"
  shows "moved L mode (Inr (Some r)) (Inr (Some r'))"
proof -
  have "record_run L r ([] @ [e]) r'" by (rule record_run.snoc [OF record_run.start assms(1)])
  moreover have "in_mode mode ([] @ [e])"
    using assms(2) unfolding in_mode_def claims_of_simps by (auto split: option.splits)
  ultimately show ?thesis unfolding moved_def by blast
qed

text \<open>An action that moves every channel's record by record steps alone.\<close>

definition records_move :: "lib \<Rightarrow> nonce_reuse_mode \<Rightarrow> storage \<Rightarrow> storage \<Rightarrow> bool" where
  "records_move L mode st st' \<longleftrightarrow> (\<forall>i. moved L mode (channel_at L st i) (channel_at L st' i))"

abbreviation moves :: "lib \<Rightarrow> nonce_reuse_mode \<Rightarrow> (storage, 'a) act \<Rightarrow> bool" where
  "moves L mode \<equiv> keeps (records_move L mode)"

interpretation moving: storage_preorder "records_move L mode" for L mode
  by unfold_locales (auto simp: records_move_def intro: moved_trans)

named_theorems moves_intros

lemmas [moves_intros] = moving.rules

lemma moves_frame: "writes_only K m \<Longrightarrow> (\<And>i. channelKey i \<notin> K) \<Longrightarrow> moves L mode m"
  unfolding keeps_def records_move_def same_outside_def by (metis at_cong(1) moved_refl)

lemma moves_others [moves_intros]:
  "moves L mode (resolveChannelIndex name)" "moves L mode (claimChannelAlias name i)"
  "moves L mode (getDebitIntent L h)" "moves L mode (getHoldInvoiceRecord L h)"
  "moves L mode (updateDebitIntent L h u)" "moves L mode (updateHoldInvoiceRecord L h u')"
  "moves L mode (requireRegisteredIndex name)" "moves L mode (requireChannelIndex name)"
  "moves L mode (readRegisteredRecord L i)" "moves L mode (readListedChannels L is)"
  "moves L mode (requireHoldInvoice L h)" "moves L mode (checkIntentFree L h o')"
  "moves L mode (loadBalanceContext L i c r)" "moves L mode (fileChannel L i c ctx)"
  by (rule moves_frame [where K = "range aliasKey \<union> range intentKey \<union> range invoiceKey"], (intro frames; simp), auto)+

lemma moves_updateRegistered [moves_intros]:
  assumes "\<And>r r'. u r = Inr r' \<Longrightarrow> \<exists>e. record_step L r e r' \<and> (\<forall>c. claim_of e = Some c \<longrightarrow> cl_nonceReuse c = mode)"
  shows "moves L mode (updateRegisteredRecord L i u)"
  unfolding keeps_def records_move_def
proof (intro allI)
  fix st j
  obtain x st' where m: "updateRegisteredRecord L i u st = (x, st')" by fastforce
  show "moved L mode (channel_at L st j) (channel_at L (snd (updateRegisteredRecord L i u st)) j)"
  proof (cases "j = i")
    case True
    from m [unfolded updateRegisteredRecord_def] show ?thesis
    proof (cases rule: updateChannelRecord_cases)
      case (written cur nxt)
      from written(3) obtain r where r: "cur = Some r" "u r = Inr nxt" by (cases cur) simp_all
      from assms [OF r(2)] obtain e where e: "record_step L r e nxt" "\<forall>c. claim_of e = Some c \<longrightarrow> cl_nonceReuse c = mode"
        by (elim exE conjE)
      from moved_step [OF e(1), of mode] e(2) have "moved L mode (Inr (Some r)) (Inr (Some nxt))" by simp
      then show ?thesis
        unfolding m snd_conv True written(2,4) r(1) .
    next
      case (failed e)
      then show ?thesis unfolding m snd_conv by simp
    qed
  next
    case False
    have "writes_only {channelKey i} (updateRegisteredRecord L i u)" by (rule frames) simp
    from writes_onlyD [OF this m] False have "st' (channelKey j) = st (channelKey j)" by force
    from at_cong(1) [of st' j st, OF this] show ?thesis unfolding m snd_conv by simp
  qed
qed

lemma moves_registerUpdate [moves_intros]: "moves L mode (updateChannelRecord L i (registerUpdate name funded ps))"
  unfolding keeps_def records_move_def
proof (intro allI)
  fix st j
  obtain x st' where m: "updateChannelRecord L i (registerUpdate name funded ps) st = (x, st')" by fastforce
  show "moved L mode (channel_at L st j) (channel_at L (snd (updateChannelRecord L i (registerUpdate name funded ps) st)) j)"
  proof (cases "j = i")
    case True
    from m show ?thesis
    proof (cases rule: updateChannelRecord_cases)
      case (written cur nxt)
      show ?thesis
      proof (cases cur)
        case None
        with written(3) have "nxt = newChannelRecord name funded ps" by (simp add: registerUpdate_def)
        moreover have "record_run L (newChannelRecord name funded ps) [] (newChannelRecord name funded ps)" "in_mode mode []"
          by (auto intro: record_run.start simp: in_mode_def)
        ultimately have "moved L mode (Inr None) (Inr (Some nxt))" unfolding moved_def by blast
        then show ?thesis unfolding m snd_conv True written(2,4) None .
      next
        case (Some r)
        with written(3) have "record_step L r Registered nxt" by (simp add: record_step.register)
        then have "moved L mode (Inr (Some r)) (Inr (Some nxt))" by (rule moved_step) simp
        then show ?thesis unfolding m snd_conv True written(2,4) Some .
      qed
    next
      case (failed e)
      then show ?thesis unfolding m snd_conv by simp
    qed
  next
    case False
    have "writes_only {channelKey i} (updateChannelRecord L i (registerUpdate name funded ps))" by (rule frames) simp
    from writes_onlyD [OF this m] False have "st' (channelKey j) = st (channelKey j)" by force
    from at_cong(1) [of st' j st, OF this] show ?thesis unfolding m snd_conv by simp
  qed
qed

lemma claim_step:
  assumes "decideClaim L c r ctx = Inr (v, r')"
  shows "record_step L r (if r' = r then Repeated c v else Granted c v) r'"
  using assms record_step.grant record_step.repeat by auto

lemma moves_claimSlot [moves_intros]: "cl_nonceReuse c = mode \<Longrightarrow> moves L mode (claimSlot L i c ctx)"
  unfolding claimSlot_def
proof (intro moves_intros)
  fix r r' assume m: "cl_nonceReuse c = mode" and "claimUpdate L c ctx r = Inr r'"
  then obtain v where "decideClaim L c r ctx = Inr (v, r')" by (auto simp: claimUpdate_def bindR_Inr_iff)
  from claim_step [OF this] m show "\<exists>e. record_step L r e r' \<and> (\<forall>c. claim_of e = Some c \<longrightarrow> cl_nonceReuse c = mode)"
    by (intro exI conjI) (auto split: if_splits)
qed

lemma moves_decideAndClaim [moves_intros]: "cl_nonceReuse c = mode \<Longrightarrow> moves L mode (decideAndClaim L i c)"
  unfolding decideAndClaim_def by (intro moves_intros)

lemma claimOf_Inr:
  assumes "claimOf L en request slot commitment = Inr c"
  shows "cl_nonceReuse c = en_nonceReuse en" "cl_slot c = slot"
    "buildSessionCommitment L (rq_session request) = Inr (cl_sessionCommitment c)" "cl_operation c = rq_operation request"
  using assms by (auto simp: claimOf_def bindR_Inr_iff)

lemma moves_checkAndClaim: "moves L (en_nonceReuse en) (checkAndClaim L en keys request)"
  unfolding checkAndClaim_def
  by (intro moves_intros moving.bind_lift) (auto dest: claimOf_Inr)

lemma moves_watchtower [moves_intros]:
  "moves L mode (updateRegisteredRecord L i (\<lambda>r. bindR (decideWatchtowerSpend L keys r approval request) (\<lambda>(v, r'). Inr r')))"
proof (intro moves_intros)
  fix r r' assume "bindR (decideWatchtowerSpend L keys r approval request) (\<lambda>(v, r'). Inr r') = Inr r'"
  then obtain v where "decideWatchtowerSpend L keys r approval request = Inr (v, r')" by (auto simp: bindR_Inr_iff)
  then show "\<exists>e. record_step L r e r' \<and> (\<forall>c. claim_of e = Some c \<longrightarrow> cl_nonceReuse c = mode)"
    by (intro exI [of _ WatchtowerUpdated]) (auto intro: record_step.watchtower_claim)
qed

lemma moves_pinHostValues [moves_intros]: "moves L mode (pinHostValues L name stated flds)"
  unfolding pinHostValues_def
proof (intro moves_intros)
  fix r r' assume "pinHostValuesUpdate stated flds r = Inr r'"
  then show "\<exists>e. record_step L r e r' \<and> (\<forall>c. claim_of e = Some c \<longrightarrow> cl_nonceReuse c = mode)"
    by (intro exI [of _ HostPinned]) (auto intro: record_step.host_pins)
qed

lemma moves_recordRevocation [moves_intros]: "moves L mode (recordRevocation L name version signature)"
  unfolding recordRevocation_def
proof (intro moves_intros)
  fix r r' assume "recordRevocationUpdate version (bytesToHex L signature) r = Inr r'"
  then show "\<exists>e. record_step L r e r' \<and> (\<forall>c. claim_of e = Some c \<longrightarrow> cl_nonceReuse c = mode)"
    by (intro exI [of _ "RevocationRecorded version"]) (auto intro: record_step.revocation)
qed

lemma moves_updateSpend:
  assumes "\<And>r r'. updateWatchtowerSpend (bytesToHex L requestId) u r = Inr r' \<Longrightarrow> record_step L r WatchtowerUpdated r'"
  shows "moves L mode (updateSpend L name requestId u)"
  unfolding updateSpend_def
proof (intro moves_intros)
  fix r r' assume "updateWatchtowerSpend (bytesToHex L requestId) u r = Inr r'"
  then show "\<exists>e. record_step L r e r' \<and> (\<forall>c. claim_of e = Some c \<longrightarrow> cl_nonceReuse c = mode)"
    by (intro exI [of _ WatchtowerUpdated]) (auto intro: assms)
qed

text \<open>Every operation of the engine.\<close>

lemma moves_operations:
  "moves L mode (registerChannel L name i funded closeScript)" "moves L mode (pinFundingCell L name cell capacity)"
  "moves L mode (pinChannelTerms L name terms)" "moves L mode (checkWatchtowerSpend L en keys name spend)"
  "moves L mode (recordSpendSignature L name requestId signature)" "moves L mode (markSpendApplied L name requestId)"
  "moves L mode (recordDebitIntent L h mx)" "moves L mode (closeDebitIntent L h)"
  "moves L mode (recordHoldInvoice L h amount alg j)" "moves L mode (markHoldInvoiceReleased L h nowMs margin)"
  unfolding registerChannel_def pinFundingCell_def pinChannelTerms_def checkWatchtowerSpend_def recordSpendSignature_def
    markSpendApplied_def recordDebitIntent_def closeDebitIntent_def recordHoldInvoice_def markHoldInvoiceReleased_def
  by (intro moves_intros moves_updateSpend record_step.watchtower_signature record_step.watchtower_applied; assumption?)+

lemma perform_moved: "moved L (en_nonceReuse en) (channel_at L st i) (channel_at L (perform L en op st) i)"
proof (cases op)
  case (CheckAndClaim keys request)
  then show ?thesis using moves_checkAndClaim [of L en keys request] by (simp add: keeps_def records_move_def)
qed (use moves_operations [of L "en_nonceReuse en"] moves_recordRevocation [of L "en_nonceReuse en"] in \<open>simp_all add: keeps_def records_move_def\<close>)

section \<open>What a signature goes through\<close>

lemma updateRegisteredRecord_Inr:
  assumes "updateRegisteredRecord L i u st = (Inr r', st')"
  obtains r where "channel_at L st i = Inr (Some r)" "u r = Inr r'" "channel_at L st' i = Inr (Some r')"
    "isChannelPolicyRecord L r'"
  using assms [unfolded updateRegisteredRecord_def]
proof (cases rule: updateChannelRecord_cases)
  case (written cur nxt)
  then show thesis by (cases cur) (simp_all add: that)
qed simp

lemma requireChannelIndex_Inr:
  assumes "requireChannelIndex name st = (Inr i, st')"
  shows "st' = st" "fst (resolveChannelIndex name st) = Inr (Some i)"
  using assms
  by (auto simp: requireChannelIndex_def bindS_Inr_iff resolveChannelIndex_def split: option.splits)

text \<open>The verdict of a claim is decided on the record its update moves.\<close>

lemma claimSlot_Inr:
  assumes "claimSlot L i c ctx st = (Inr v, st')"
  obtains r r' where "channel_at L st i = Inr (Some r)" "channel_at L st' i = Inr (Some r')"
    "decideClaim L c r ctx = Inr (v, r')" "isChannelPolicyRecord L r'"
proof -
  from assms obtain r r' st1 st2 where read: "readRegisteredRecord L i st = (Inr r, st1)"
    and upd: "updateRegisteredRecord L i (claimUpdate L c ctx) st1 = (Inr r', st2)"
    and w: "liftS (bindR (decideClaim L c r ctx) (\<lambda>(v, r'). Inr v)) st2 = (Inr v, st')"
    unfolding claimSlot_def bindS_Inr_iff by blast
  from w have v: "bindR (decideClaim L c r ctx) (\<lambda>(v, r'). Inr v) = Inr v" "st' = st2"
    by simp_all
  from readRegisteredRecord_Inr [OF read] have r: "st1 = st" "channel_at L st i = Inr (Some r)" by auto
  from upd show thesis
  proof (rule updateRegisteredRecord_Inr)
    fix q assume q: "channel_at L st1 i = Inr (Some q)" "claimUpdate L c ctx q = Inr r'" "channel_at L st2 i = Inr (Some r')"
      "isChannelPolicyRecord L r'"
    with r have "q = r" by simp
    with q(2) v(1) have "decideClaim L c r ctx = Inr (v, r')" by (auto simp: claimUpdate_def bindR_Inr_iff)
    with r(2) q(3,4) v(2) show thesis by (intro that) simp_all
  qed
qed

lemma fileChannel_channel_at:
  assumes "fileChannel L i c ctx st = (x, st')"
  shows "channel_at L st' j = channel_at L st j"
proof -
  have "writes_only (range intentKey \<union> range invoiceKey) (fileChannel L i c ctx)" by (rule frames) simp
  from writes_onlyD [OF this assms, of "channelKey j"] have "st' (channelKey j) = st (channelKey j)" by auto
  then show ?thesis by (rule at_cong(1) [of st' j st])
qed

lemma decideAndClaim_Inr:
  assumes "decideAndClaim L i c st = (Inr v, st')"
  obtains r ctx r' st1 where "channel_at L st i = Inr (Some r)" "loadBalanceContext L i c r st = (Inr ctx, st)"
    "decideClaim L c r ctx = Inr (v, r')" "channel_at L st' i = Inr (Some r')"
    "(if r' \<noteq> r then fileChannel L i c ctx else doneS ()) st = (Inr (), st1)" "claimSlot L i c ctx st1 = (Inr v, st')"
proof -
  from assms obtain r ctx w r' st1 where read: "readRegisteredRecord L i st = (Inr r, st)"
    and load: "loadBalanceContext L i c r st = (Inr ctx, st)" and dec: "decideClaim L c r ctx = Inr (w, r')"
    and filed: "(if r' \<noteq> r then fileChannel L i c ctx else doneS ()) st = (Inr (), st1)"
    and slot: "claimSlot L i c ctx st1 = (Inr v, st')"
    unfolding decideAndClaim_def bindS_Inr_iff
    using readRegisteredRecord_Inr reads_onlyD [OF reads_loadBalanceContext] by (fastforce simp: bindS_Inr_iff)
  from filed have "channel_at L st1 i = channel_at L st i"
    by (auto split: if_splits intro: fileChannel_channel_at)
  with readRegisteredRecord_Inr [OF read] have r: "channel_at L st i = Inr (Some r)" "channel_at L st1 i = Inr (Some r)"
    by auto
  from slot show thesis
  proof (rule claimSlot_Inr)
    fix q q' assume "channel_at L st1 i = Inr (Some q)" "channel_at L st' i = Inr (Some q')" "decideClaim L c q ctx = Inr (v, q')"
    with r dec have "channel_at L st' i = Inr (Some r')" "decideClaim L c r ctx = Inr (v, r')" by auto
    with r load filed slot show thesis by (intro that) simp_all
  qed
qed

lemma checkAndClaim_Inr:
  assumes "checkAndClaim L en keys request st = (Inr v, st')"
  obtains slot i c where "resolveSignSlot (rq_operation request) (rq_commitmentNumber request) (rq_counter request) = Inr slot"
    "fst (resolveChannelIndex (rq_channelId request) st) = Inr (Some i)" "cl_slot c = slot"
    "buildSessionCommitment L (rq_session request) = Inr (cl_sessionCommitment c)" "cl_nonceReuse c = en_nonceReuse en"
    "cl_operation c = rq_operation request" "decideAndClaim L i c st = (Inr v, st')"
proof -
  from assms obtain slot i st1 x st2 where slot: "withPolicyRefusal malformed
       (bindR (assertNonEmptyString ''channelId'' (rq_channelId request)) (\<lambda>_.
        bindR (assertSignSession L keys (rq_session request)) (\<lambda>_.
        resolveSignSlot (rq_operation request) (rq_commitmentNumber request) (rq_counter request)))) = Inr slot"
    and i: "requireChannelIndex (rq_channelId request) st = (Inr i, st1)"
    and rest: "(case x of (message, commitment) \<Rightarrow>
      if message \<noteq> sn_message (rq_session request)
      then liftS (refusePolicyRequest malformed ''the message does not match the attached channel state'')
      else bindS (liftS (claimOf L en request slot commitment)) (\<lambda>c. decideAndClaim L i c)) st1 = (Inr v, st')"
    unfolding checkAndClaim_def bindS_Inr_iff liftS_simps by blast
  obtain c where c: "claimOf L en request slot (snd x) = Inr c" "decideAndClaim L i c st1 = (Inr v, st')"
    using rest by (cases x) (auto simp: bindS_Inr_iff split: if_splits)
  from slot have "resolveSignSlot (rq_operation request) (rq_commitmentNumber request) (rq_counter request) = Inr slot"
    by (auto simp: withPolicyRefusal_Inr_iff bindR_Inr_iff)
  from that [OF this _ claimOf_Inr(2,3,1,4) [OF c(1)]] requireChannelIndex_Inr [OF i] c(2) show thesis by simp
qed

section \<open>Sign once, over the engine\<close>

text \<open>What the engine let the device sign on a channel index is among the claims of the run that made its record.\<close>

definition tracked ::
    "lib \<Rightarrow> nonce_reuse_mode \<Rightarrow> channel_policy_record option res \<Rightarrow> (string \<times> string) set \<Rightarrow> bool" where
  "tracked L mode c sg \<longleftrightarrow> (c = Inr None \<and> sg = {})
     \<or> (\<exists>name funded ps es r. c = Inr (Some r) \<and> record_run L (newChannelRecord name funded ps) es r \<and> in_mode mode es
          \<and> sg \<subseteq> {(k, s). s \<in> sessions_signed es k})"

lemma sessions_signed_append [simp]: "sessions_signed (es @ es') k = sessions_signed es k \<union> sessions_signed es' k"
  by (auto simp: sessions_signed_def claims_of_append)

lemma tracked_moved: "tracked L mode c sg \<Longrightarrow> moved L mode c c' \<Longrightarrow> tracked L mode c' sg"
proof -
  assume t: "tracked L mode c sg" and m: "moved L mode c c'"
  from m consider "c' = c" | r es r' where "c = Inr (Some r)" "c' = Inr (Some r')" "record_run L r es r'" "in_mode mode es"
    | name funded ps es r where "c = Inr None" "c' = Inr (Some r)" "record_run L (newChannelRecord name funded ps) es r"
        "in_mode mode es"
    unfolding moved_def by blast
  then show "tracked L mode c' sg"
  proof cases
    case 2
    with t obtain name funded ps es0 where "record_run L (newChannelRecord name funded ps) es0 r" "in_mode mode es0"
      "sg \<subseteq> {(k, s). s \<in> sessions_signed es0 k}"
      by (auto simp: tracked_def)
    with 2 have "record_run L (newChannelRecord name funded ps) (es0 @ es) r'" "in_mode mode (es0 @ es)"
      "sg \<subseteq> {(k, s). s \<in> sessions_signed (es0 @ es) k}"
      by (auto intro: record_run_append)
    with 2(2) show ?thesis unfolding tracked_def by blast
  next
    case 3
    with t have "sg = {}" by (simp add: tracked_def)
    with 3 show ?thesis unfolding tracked_def by blast
  qed (use t in simp)
qed

definition signed_on :: "int \<Rightarrow> (int \<times> string \<times> string) list \<Rightarrow> (string \<times> string) set" where
  "signed_on i xs = {(k, s). (i, k, s) \<in> set xs}"

lemma signed_on_simps [simp]:
  "signed_on i [] = {}" "signed_on i (xs @ ys) = signed_on i xs \<union> signed_on i ys"
  "signed_on i [(j, k, s)] = (if i = j then {(k, s)} else {})"
  by (auto simp: signed_on_def)

lemma signed_by_tracked:
  assumes "signed_by L en st op = Some (i, k, s)" "tracked L (en_nonceReuse en) (channel_at L st i) sg"
  shows "tracked L (en_nonceReuse en) (channel_at L (perform L en op st) i) (insert (k, s) sg)"
proof -
  from assms(1) obtain keys request where op: "op = CheckAndClaim keys request"
    by (cases op) auto
  obtain x st' where run: "checkAndClaim L en keys request st = (x, st')" by fastforce
  from assms(1) obtain v where x: "x = Inr v"
    by (auto simp: op run split: sum.splits)
  from run x have "checkAndClaim L en keys request st = (Inr v, st')" by simp
  then show ?thesis
  proof (rule checkAndClaim_Inr)
    fix slot j c
    assume *: "resolveSignSlot (rq_operation request) (rq_commitmentNumber request) (rq_counter request) = Inr slot"
      "fst (resolveChannelIndex (rq_channelId request) st) = Inr (Some j)" "cl_slot c = slot"
      "buildSessionCommitment L (rq_session request) = Inr (cl_sessionCommitment c)" "cl_nonceReuse c = en_nonceReuse en"
      "decideAndClaim L j c st = (Inr v, st')"
    with assms(1) have id: "j = i" "k = slot_key c" "s = cl_sessionCommitment c"
      by (auto simp: op run x)
    from *(6) show ?thesis
    proof (rule decideAndClaim_Inr)
      fix r ctx r'
      assume r: "channel_at L st j = Inr (Some r)" "decideClaim L c r ctx = Inr (v, r')" "channel_at L st' j = Inr (Some r')"
      let ?e = "if r' = r then Repeated c v else Granted c v"
      from assms(2) r(1) id(1) obtain name funded ps es where
        es: "record_run L (newChannelRecord name funded ps) es r" "in_mode (en_nonceReuse en) es"
          "sg \<subseteq> {(k, s). s \<in> sessions_signed es k}"
        by (auto simp: tracked_def)
      have run': "record_run L (newChannelRecord name funded ps) (es @ [?e]) r'"
        by (rule record_run.snoc [OF es(1) claim_step [OF r(2)]])
      have e: "claims_of [?e] = [c]" by (simp add: claims_of_def List.map_filter_def)
      then have "s \<in> sessions_signed [?e] k" by (simp add: sessions_signed_def id)
      moreover have "in_mode (en_nonceReuse en) [?e]" using *(5) by (simp only: in_mode_def e) simp
      ultimately have "in_mode (en_nonceReuse en) (es @ [?e])" "insert (k, s) sg \<subseteq> {(k, s). s \<in> sessions_signed (es @ [?e]) k}"
        using es(2,3) unfolding in_mode_append sessions_signed_append by auto
      with run' r(3) id(1) show ?thesis
        unfolding tracked_def op perform.simps run snd_conv by blast
    qed
  qed
qed

lemma signed_over_tracked:
  "tracked L (en_nonceReuse en) (channel_at L (performed L en ops) i) (signed_on i (signed_over L en (\<lambda>_. None) ops))"
proof (induction ops rule: rev_induct)
  case Nil
  show ?case by (simp add: tracked_def)
next
  case (snoc op ops)
  let ?st = "performed L en ops" and ?sg = "signed_on i (signed_over L en (\<lambda>_. None) ops)"
  have over: "signed_over L en (\<lambda>_. None) (ops @ [op]) = signed_over L en (\<lambda>_. None) ops
      @ (case signed_by L en ?st op of None \<Rightarrow> [] | Some s \<Rightarrow> [s])"
    by (simp add: signed_over_append performed_def split: option.split)
  from tracked_moved [OF snoc.IH perform_moved]
  have kept: "tracked L (en_nonceReuse en) (channel_at L (performed L en (ops @ [op])) i) ?sg" by simp
  show ?case
  proof (cases "signed_by L en ?st op")
    case None
    with kept show ?thesis by (simp add: over)
  next
    case (Some x)
    obtain j k s where x: "x = (j, k, s)" by (cases x)
    show ?thesis
    proof (cases "j = i")
      case True
      with Some x signed_by_tracked [OF _ snoc.IH] show ?thesis by (simp add: over)
    qed (use kept Some x in \<open>simp add: over\<close>)
  qed
qed

lemma signed_over_once:
  assumes "en_nonceReuse en = reuse_refuse"
  shows "card {s. (i, k, s) \<in> set (signed_over L en (\<lambda>_. None) ops)} \<le> 1"
proof -
  have S: "{s. (i, k, s) \<in> set (signed_over L en (\<lambda>_. None) ops)} = {s. (k, s) \<in> signed_on i (signed_over L en (\<lambda>_. None) ops)}"
    by (simp add: signed_on_def)
  from signed_over_tracked [of L en ops i] show ?thesis
    unfolding tracked_def S assms
  proof (elim disjE exE conjE)
    fix name funded ps es r
    assume run: "record_run L (newChannelRecord name funded ps) es r" and m: "in_mode reuse_refuse es"
      and s: "signed_on i (signed_over L en (\<lambda>_. None) ops) \<subseteq> {(k, s). s \<in> sessions_signed es k}"
    have "get (nonceReuse (newChannelRecord name funded ps)) k = None" by (simp add: newChannelRecord_def)
    with run m have "sessions_signed es k \<subseteq> set_option (get (signedSessions r) k)"
      by (intro run_one_session) (simp_all add: in_mode_def)
    with s have "{s. (k, s) \<in> signed_on i (signed_over L en (\<lambda>_. None) ops)} \<subseteq> set_option (get (signedSessions r) k)"
      by auto
    then show "card {s. (k, s) \<in> signed_on i (signed_over L en (\<lambda>_. None) ops)} \<le> 1" by (rule card_option)
  qed simp
qed

text \<open>C5 The engine signs once. In the default mode, whatever sequence of methods runs on an empty storage, by
  whatever names the channels are called and whatever requests are refused between, the device signs at
  most one session in each slot of each channel index.\<close>

theorem engine_signs_once:
  assumes "en_nonceReuse en = reuse_refuse"
  shows "card {s. (i, k, s) \<in> set (signed_over L en (\<lambda>_. None) ops)} \<le> 1"
  using assms by (rule signed_over_once)

lemma engine_signs_once_witness:
  "card {s. (0, signSlotKey COMMITMENT 1, s) \<in> set (signed_over demo_lib sample_engine (\<lambda>_. None) sample_ops)} \<le> 1"
  by (rule engine_signs_once) (simp add: sample_engine_def)

text \<open>C22 The storage refines the life of a record. Whatever methods run on an empty storage, the record found at a
  channel index is the one a registration created, moved by the record steps alone: no method, and no
  method of another channel, writes it in any other way.\<close>

theorem storage_refines_record_run:
  assumes "channel_at L (performed L en ops) i = Inr (Some r)"
  shows "\<exists>name funded ps es. record_run L (newChannelRecord name funded ps) es r"
  using signed_over_tracked [of L en ops i] assms by (auto simp: tracked_def)

lemma sample_registered_at: "channel_at demo_lib (performed demo_lib sample_engine [sample_registration]) 0 = Inr (Some sample_registered_record)"
  using sample_registered_stored sample_registered_valid
  by (simp add: channel_at_def readRecord_def parseRecord_def CHANNEL_RECORD_FORMAT_def)

lemma storage_refines_record_run_witness:
  "\<exists>name funded ps es. record_run demo_lib (newChannelRecord name funded ps) es sample_registered_record"
  by (rule storage_refines_record_run [OF sample_registered_at])

section \<open>Repeats and refusals write nothing\<close>





text \<open>An action whose errors are never refusals of the policy.\<close>

definition host_errors :: "(storage, 'a) act \<Rightarrow> bool" where
  "host_errors m \<longleftrightarrow> (\<forall>st st' code rule. m st \<noteq> (Inl (PolicyRefusalErr code rule), st'))"

definition no_refusal :: "'a res \<Rightarrow> bool" where
  "no_refusal r \<longleftrightarrow> (\<forall>code rule. r \<noteq> Inl (PolicyRefusalErr code rule))"

lemma no_refusal_simps [simp]:
  "no_refusal (Inr x)" "no_refusal (Inl (TypeErr n))" "no_refusal (Inl (RangeErr n))"
  "no_refusal (bindR m f) \<longleftrightarrow> no_refusal m \<and> (\<forall>x. m = Inr x \<longrightarrow> no_refusal (f x))"
  by (auto simp: no_refusal_def bindR_Inl_iff)

lemma host_errors_bindS: "host_errors m \<Longrightarrow> (\<And>x. host_errors (f x)) \<Longrightarrow> host_errors (bindS m f)"
  unfolding host_errors_def bindS_def by (fastforce split: sum.splits prod.splits)

lemma host_errors_simple:
  "no_refusal r \<Longrightarrow> host_errors (liftS r)" "host_errors (doneS x)"
  "(b \<Longrightarrow> host_errors m) \<Longrightarrow> (\<not> b \<Longrightarrow> host_errors m') \<Longrightarrow> host_errors (if b then m else m')"
  by (auto simp: host_errors_def no_refusal_def)

lemma host_errors_mapS: "(\<And>x. host_errors (f x)) \<Longrightarrow> host_errors (mapS f xs)"
  by (induction xs) (auto intro!: host_errors_bindS host_errors_simple)

lemma no_refusal_readRecord [simp]: "no_refusal (readRecord key fmt st)"
  by (auto simp: readRecord_def parseRecord_def no_refusal_def bindR_Inl_iff split: option.splits if_splits)

lemma host_errors_updateAt:
  assumes "\<And>x. no_refusal (u x)"
  shows "host_errors (updateAt key fmt u)"
  unfolding host_errors_def
proof (intro allI notI)
  fix st st' code rule assume *: "updateAt key fmt u st = (Inl (PolicyRefusalErr code rule), st')"
  have "readRecord key fmt st \<noteq> Inl (PolicyRefusalErr code rule)" "u x \<noteq> Inl (PolicyRefusalErr code rule)" for x
    using no_refusal_readRecord [of key fmt st] assms by (auto simp: no_refusal_def)
  with * show False by (auto simp: updateAt_def split: sum.splits if_splits)
qed

lemma no_refusal_checks [simp]:
  "no_refusal (assertHexBytes name h n)" "no_refusal (assertUnsignedInteger name i m)"
  "no_refusal (withChannelIntent i o1)" "no_refusal (withChannelInvoice i o2)"
  by (auto simp: no_refusal_def assertHexBytes_def assertUnsignedInteger_def withChannelIntent_def withChannelInvoice_def
      vanishedPaymentRecord_def check_def split: option.splits)

lemma host_errors_fileChannel: "host_errors (fileChannel L i c ctx)"
  unfolding fileChannel_def fileHash_def updateDebitIntent_def updateHoldInvoiceRecord_def
  by (intro host_errors_bindS host_errors_mapS host_errors_simple host_errors_updateAt; simp)

lemma claimSlot_no_refusal:
  assumes "claimSlot L i c ctx st = (Inl (PolicyRefusalErr code rule), st')"
    and "readRegisteredRecord L i st = (Inr r, st)" "decideClaim L c r ctx = Inr (v, r')"
  shows False
proof -
  have i: "assertUnsignedInteger ''channelIndex'' i MAX_CHANNEL_INDEX = Inr ()"
    using assms(2) by (auto simp: readRegisteredRecord_def getChannelRecord_def bindS_Inr_iff bindR_Inr_iff)
  have r: "readRecord (channelKey i) (CHANNEL_RECORD_FORMAT L) st = Inr (Some r)"
    using readRegisteredRecord_Inr [OF assms(2)] by (simp add: channel_at_def)
  show False
    using assms(1,3) i r
    by (auto simp: claimSlot_def bindS_def assms(2) updateRegisteredRecord_def updateChannelRecord_def updateAt_def claimUpdate_def
        split: if_splits)
qed

lemma readRegisteredRecord_same:
  "channel_at L st' i = channel_at L st i \<Longrightarrow> readRegisteredRecord L i st = (Inr r, st) \<Longrightarrow>
   readRegisteredRecord L i st' = (Inr r, st')"
  by (auto simp: readRegisteredRecord_def getChannelRecord_def bindS_def channel_at_def bindR_Inr_iff
      split: sum.splits option.splits)

text \<open>C34 A refusal writes nothing. When the engine refuses a signing request under a rule of the policy, no
  record has moved: neither the channel's, nor any payment's.\<close>

theorem refusal_writes_nothing:
  assumes "checkAndClaim L en keys request st = (Inl (PolicyRefusalErr code rule), st')"
  shows "st' = st"
proof -
  have decide: "st' = st" if "decideAndClaim L i c st = (Inl (PolicyRefusalErr code rule), st')" for i c
  proof -
    obtain x1 where read: "readRegisteredRecord L i st = (x1, st)"
      using reads_onlyD [OF reads_engine(3)] by (metis prod.exhaust)
    show ?thesis
    proof (cases x1)
      case (Inl e)
      with that read show ?thesis by (simp add: decideAndClaim_def bindS_def)
    next
      case r: (Inr r)
      obtain x2 where load: "loadBalanceContext L i c r st = (x2, st)"
        using reads_onlyD [OF reads_loadBalanceContext] by (metis prod.exhaust)
      show ?thesis
      proof (cases "bindR x2 (\<lambda>ctx. bindR (decideClaim L c r ctx) (\<lambda>d. Inr (ctx, d)))")
        case (Inl e)
        then show ?thesis
          using that read r load by (auto simp: decideAndClaim_def bindS_def bindR_Inl_iff)
      next
        case (Inr y)
        then obtain ctx v r' where d: "x2 = Inr ctx" "decideClaim L c r ctx = Inr (v, r')"
          by (auto simp: bindR_Inr_iff)
        obtain x st1 where f: "(if r' \<noteq> r then fileChannel L i c ctx else doneS ()) st = (x, st1)" by fastforce
        have "bindS (if r' \<noteq> r then fileChannel L i c ctx else doneS ()) (\<lambda>_. claimSlot L i c ctx) st
            = (Inl (PolicyRefusalErr code rule), st')"
          using that read r load d by (simp add: decideAndClaim_def bindS_def)
        moreover have "host_errors (if r' \<noteq> r then fileChannel L i c ctx else doneS ())"
          by (intro host_errors_simple host_errors_fileChannel)
        ultimately obtain u where "claimSlot L i c ctx st1 = (Inl (PolicyRefusalErr code rule), st')"
          using f unfolding host_errors_def by (cases x) (auto simp: bindS_def)
        moreover have "channel_at L st1 i = channel_at L st i"
          using f by (auto split: if_splits intro: fileChannel_channel_at)
        ultimately show ?thesis
          using claimSlot_no_refusal readRegisteredRecord_same read d(2) unfolding r by blast
      qed
    qed
  qed
  obtain x where index: "requireChannelIndex (rq_channelId request) st = (x, st)"
    using reads_onlyD [OF reads_engine(2)] by (metis prod.exhaust)
  show ?thesis
    using assms decide index unfolding checkAndClaim_def
    by (auto simp: bindS_def split: sum.splits prod.splits if_splits)
qed

lemma refusal_writes_nothing_witness:
  "snd (checkAndClaim demo_lib sample_engine sample_keys sample_close_request (\<lambda>_. None)) = (\<lambda>_. None)"
proof -
  have "requireChannelIndex ''c'' (\<lambda>_. None) = (refusePolicyRequest unknown_channel ''unregistered channel'', \<lambda>_. None)"
    by (simp add: requireChannelIndex_def resolveChannelIndex_def readChannelIndex_def bindS_def assertNonEmptyString_def)
  moreover have "rq_channelId sample_close_request = ''c''" by (simp add: sample_close_request_def)
  ultimately have "checkAndClaim demo_lib sample_engine sample_keys sample_close_request (\<lambda>_. None)
      = (Inl (PolicyRefusalErr unknown_channel ''unregistered channel''), \<lambda>_. None)"
    by (simp add: checkAndClaim_def sample_close_steps(1) bindS_def)
  from refusal_writes_nothing [OF this] this show ?thesis by simp
qed

end
