(* ===== verification/PaymentFacts.thy ===== *)
theory PaymentFacts
  imports EngineFacts
begin

text \<open>
  Payments over the whole storage: what the channels draw on a payment's hash never exceeds what the user
  approved for it, a hash is never both a payment out and an invoice of this device, and a released
  invoice stays released.
\<close>

section \<open>Draws\<close>

definition view_draw :: "policy_view_snapshot \<Rightarrow> string \<Rightarrow> int" where
  "view_draw s h = drawnBy (tlcs s) (chargedShannons s) h"

text \<open>What a channel may cost the device under a hash: its worse view.\<close>

definition channel_draw :: "(policy_view \<Rightarrow> policy_view_snapshot) \<Rightarrow> string \<Rightarrow> int" where
  "channel_draw vs h = max (view_draw (vs remote_view) h) (view_draw (vs local_view) h)"

lemma drawnOtherChannels_eq: "drawnOtherChannels ctx h = sum_list (map (\<lambda>vs. channel_draw vs h) (otherChannels ctx))"
proof -
  have "foldl (\<lambda>s other. s + max (drawnBy (tlcs (other remote_view)) (chargedShannons (other remote_view)) h)
       (drawnBy (tlcs (other local_view)) (chargedShannons (other local_view)) h)) a xs
    = a + sum_list (map (\<lambda>vs. channel_draw vs h) xs)" for a xs
    by (induction xs arbitrary: a) (simp_all add: channel_draw_def view_draw_def)
  then show ?thesis by (simp add: drawnOtherChannels_def)
qed

lemma readAmount_nonneg: "isAmountByHashMap m \<Longrightarrow> 0 \<le> readAmount m h"
proof -
  have "bigInt ''0'' = 0" by code_simp
  then show "isAmountByHashMap m \<Longrightarrow> 0 \<le> readAmount m h"
    by (auto simp: isAmountByHashMap_def readAmount_def list_all_iff split: option.splits
        dest!: map_of_SomeD intro: isDecimalShannons_nonneg)
qed

lemma sum_amounts_filter_nonneg: "nonneg_tlcs ts \<Longrightarrow> 0 \<le> sum_amounts (filter P ts)"
  by (intro sum_amounts_nonneg) (auto simp: nonneg_tlcs_def list_all_iff)

lemma view_draw_nonneg: "isViewSnapshot s \<Longrightarrow> 0 \<le> view_draw s h"
  using readAmount_nonneg [of "chargedShannons s" h] sum_amounts_filter_nonneg [OF isViewSnapshot_nonneg, of s]
  by (fastforce simp: view_draw_def drawnBy_eq isViewSnapshot_def)

text \<open>A list that leaves out elements of another sums to less, per hash.\<close>

lemma sum_amounts_mset: "sum_amounts ts = sum_mset (image_mset amount_of (mset ts))"
  by (simp add: sum_amounts_def sum_mset_sum_list [symmetric])

lemma sum_amounts_subset:
  assumes "mset ts \<subseteq># mset us" "nonneg_tlcs us"
  shows "sum_amounts (filter P ts) \<le> sum_amounts (filter P us)"
proof -
  from assms(1) obtain M where M: "mset us = mset ts + M" by (metis mset_subset_eq_exists_conv)
  obtain ms where ms: "M = mset ms" by (metis ex_mset)
  have "set ms \<subseteq> set us" using M ms by (metis Un_upper2 set_mset_mset set_mset_union)
  with assms(2) have "0 \<le> sum_amounts (filter P ms)"
    by (intro sum_amounts_filter_nonneg) (auto simp: nonneg_tlcs_def list_all_iff)
  then show ?thesis by (simp add: sum_amounts_mset M ms)
qed

lemma mset_multisetDifference: "mset (multisetDifference from remove) \<subseteq># mset from"
proof -
  have "mset (differenceLoop r ts) \<subseteq># mset ts" for r ts
    by (induction r ts rule: differenceLoop.induct)
       (auto simp: Let_def subseteq_mset_def le_SucI)
  then show ?thesis by (simp add: multisetDifference_def Let_def)
qed

lemma mset_filterIndexes: "mset (filterIndexes K xs) \<subseteq># mset xs"
proof -
  have "mset (map snd (filter P ys)) \<subseteq># mset (map snd ys)" for P and ys :: "(nat \<times> 'a) list"
    by (induction ys) (auto simp: subseteq_mset_def le_SucI)
  from this [of _ "entries xs"] show ?thesis by (simp add: filterIndexes_def del: mset_map)
qed

lemma chargedTlcs_mset:
  assumes "chargedTlcs left shortfall uncredited = Inr charged"
  shows "mset charged \<subseteq># mset left"
proof -
  define off where "off = filter (\<lambda>t. pv_direction t = offered) left"
  have off: "mset off \<subseteq># mset left" by (simp add: off_def)
  from assms have "charged = [] \<or> charged = off \<or> (\<exists>K. charged = filterIndexes K off)"
    unfolding chargedTlcs_def Let_def off_def [symmetric] by (auto split: if_splits)
  with off mset_filterIndexes [of _ off] show ?thesis
    by (auto intro: subset_mset.order_trans)
qed

text \<open>A judged view draws no more than the view or the other view did, or what an open intent still leaves.\<close>

lemma judgeCommitment_draw:
  assumes "judgeCommitment view vs nxt ctx = Inr s" "nonneg_tlcs (tlcs (vs view))"
  shows "view_draw s h \<le> max (view_draw (vs view) h) (view_draw (vs (other_view view)) h)
    \<or> h \<in> pv_boundPaymentHash ` set (bc_tlcs nxt) \<and> (\<exists>i. intents ctx h = Some i \<and> di_open i
         \<and> view_draw s h + drawnOtherChannels ctx h \<le> bigInt (di_maxShannons i))"
proof -
  let ?left = "multisetDifference (tlcs (vs view)) (bc_tlcs nxt)"
  from assms(1) obtain credit uncredited charged where
    ch: "chargedTlcs ?left (holdings (bigInt (exposureShannons (vs view))) (tlcs (vs view)) + credit
        - holdings (bc_exposureShannons nxt) (bc_tlcs nxt)) uncredited = Inr charged"
    and s: "chargedShannons s = fold addCharge charged (chargedShannons (vs view))" "tlcs s = bc_tlcs nxt"
    and budget: "\<forall>h\<in>fst ` set (sumByHash (bc_tlcs nxt) offered).
       checkBudget ctx (drawnBy (bc_tlcs nxt) (chargedShannons s)) (drawnBy (tlcs (vs view)) (chargedShannons (vs view)))
         (drawnBy (tlcs (vs (other_view view))) (chargedShannons (vs (other_view view)))) h = Inr ()"
    by (rule judgeCommitment_Inr)
  show ?thesis
  proof (cases "h \<in> fst ` set (sumByHash (bc_tlcs nxt) offered)")
    case True
    then have "h \<in> pv_boundPaymentHash ` set (bc_tlcs nxt)" unfolding sumByHash_keys by auto
    with True budget show ?thesis by (auto simp: checkBudget_Inr_iff view_draw_def s(2))
  next
    case False
    then have none: "filter (of_hash offered h) (bc_tlcs nxt) = []"
      unfolding sumByHash_keys by (auto simp: filter_empty_conv of_hash_def)
    have "filter (\<lambda>t. pv_boundPaymentHash t = h) charged = filter (of_hash offered h) charged"
      using chargedTlcs_offered [OF ch] by (intro filter_cong) (auto simp: of_hash_def)
    moreover have "sum_amounts (filter (of_hash offered h) charged) \<le> sum_amounts (filter (of_hash offered h) (tlcs (vs view)))"
      using chargedTlcs_mset [OF ch] mset_multisetDifference assms(2)
      by (blast intro: sum_amounts_subset subset_mset.order_trans)
    ultimately have "view_draw s h \<le> view_draw (vs view) h"
      by (simp add: view_draw_def drawnBy_eq s none readAmount_addCharges)
    then show ?thesis by (intro disjI1) (rule max.coboundedI1)
  qed
qed

text \<open>The whole channel, worse view against worse view.\<close>

lemma applyBalanceRule_draw:
  assumes "applyBalanceRule r c ctx = Inr vs" "\<And>v. nonneg_tlcs (tlcs (views r v))"
  shows "channel_draw vs h \<le> channel_draw (views r) h
    \<or> h \<in> pv_boundPaymentHash ` set (cl_tlcs c) \<and> (\<exists>i. intents ctx h = Some i \<and> di_open i
         \<and> channel_draw vs h + drawnOtherChannels ctx h \<le> bigInt (di_maxShannons i))"
proof -
  have split: "channel_draw ws h = max (view_draw (ws view) h) (view_draw (ws (other_view view)) h)" for ws view
    by (cases view) (simp_all add: channel_draw_def max.commute)
  from applyBalanceRule_Inr [OF assms(1)] show ?thesis
  proof (elim disjE exE conjE)
    fix view nxt s
    assume j: "judgeCommitment view (views r) nxt ctx = Inr s" "bc_tlcs nxt = cl_tlcs c" "vs = (views r)(view := s)"
    have o: "((views r)(view := s)) (other_view view) = views r (other_view view)" by (cases view) simp_all
    have "channel_draw vs h = max (view_draw s h) (view_draw (views r (other_view view)) h)"
      unfolding j(3) split [of "(views r)(view := s)" view] fun_upd_same o ..
    with judgeCommitment_draw [OF j(1) assms(2), of h] split [of "views r" view] j(2) show ?thesis
      by (auto simp: max_def split: if_splits)
  qed simp
qed

section \<open>Draws over the storage\<close>

definition drawn_at :: "lib \<Rightarrow> storage \<Rightarrow> string \<Rightarrow> int \<Rightarrow> int" where
  "drawn_at L st h i = (case channel_at L st i of Inr (Some r) \<Rightarrow> channel_draw (views r) h | _ \<Rightarrow> 0)"

lemma channel_at_valid: "channel_at L st i = Inr (Some r) \<Longrightarrow> isChannelPolicyRecord L r"
  using channel_format.read_valid by (auto simp: channel_at_def CHANNEL_RECORD_FORMAT_def)

lemma valid_views: "isChannelPolicyRecord L r \<Longrightarrow> isViewSnapshot (views r v)"
  by (cases v) (simp_all add: isChannelPolicyRecord_def isViewSnapshotPair_def POLICY_VIEWS_def)

lemma drawn_at_nonneg: "0 \<le> drawn_at L st h i"
  by (auto simp: drawn_at_def channel_draw_def le_max_iff_disj split: sum.splits option.splits
      dest!: channel_at_valid intro: view_draw_nonneg valid_views)

lemma drawn_at_cong: "channel_at L st' i = channel_at L st i \<Longrightarrow> drawn_at L st' h i = drawn_at L st h i"
  by (simp add: drawn_at_def)

text \<open>What every operation keeps but a claim and a new approval: no draw grows, and an intent keeps its
  maximum and its channels, and is never opened again.\<close>

definition intent_kept :: "debit_intent_record option res \<Rightarrow> debit_intent_record option res \<Rightarrow> bool" where
  "intent_kept c c' \<longleftrightarrow> c' = c \<or> (\<exists>d d'. c = Inr (Some d) \<and> c' = Inr (Some d')
     \<and> di_paymentHash d' = di_paymentHash d \<and> di_maxShannons d' = di_maxShannons d
     \<and> (di_open d' \<longrightarrow> di_open d) \<and> set (di_channelIndexes d) \<subseteq> set (di_channelIndexes d'))"

lemma intent_kept_refl [simp]: "intent_kept c c"
  by (simp add: intent_kept_def)

lemma intent_kept_trans: "intent_kept a b \<Longrightarrow> intent_kept b c \<Longrightarrow> intent_kept a c"
  unfolding intent_kept_def by (elim disjE exE conjE) auto

definition calm :: "lib \<Rightarrow> storage \<Rightarrow> storage \<Rightarrow> bool" where
  "calm L st st' \<longleftrightarrow> (\<forall>i h. drawn_at L st' h i \<le> drawn_at L st h i)
     \<and> (\<forall>h. intent_kept (intent_at L st h) (intent_at L st' h))"

interpretation calm: storage_preorder "calm L" for L
proof
  fix a b c assume "calm L a b" "calm L b c"
  then show "calm L a c" unfolding calm_def by (meson intent_kept_trans order.trans)
qed (simp add: calm_def)

named_theorems calms

lemmas [calms] = calm.rules reads_store [THEN calm.reading] reads_engine [THEN calm.reading]
  reads_loadBalanceContext [THEN calm.reading]

lemma calm_frame: "writes_only K m \<Longrightarrow> (\<And>i. channelKey i \<notin> K) \<Longrightarrow> (\<And>h. intentKey h \<notin> K) \<Longrightarrow> keeps (calm L) m"
  unfolding keeps_def calm_def same_outside_def
  by (metis at_cong(1) at_cong(2) drawn_at_cong intent_kept_refl order.refl)

lemma calm_invoice [calms]: "keeps (calm L) (updateHoldInvoiceRecord L h u)" "keeps (calm L) (claimChannelAlias name i)"
  by (rule calm_frame [where K = "range invoiceKey \<union> range aliasKey"], (intro frames; simp), auto)+

lemma calm_intent:
  assumes "\<And>d. u None \<noteq> Inr d"
    and "\<And>d d'. u (Some d) = Inr d' \<Longrightarrow> intent_kept (Inr (Some d)) (Inr (Some d'))"
  shows "keeps (calm L) (updateDebitIntent L h u)"
  unfolding keeps_def
proof
  fix st
  obtain x st' where m: "updateDebitIntent L h u st = (x, st')" by fastforce
  have w: "writes_only {intentKey h} (updateDebitIntent L h u)" by (rule frames) simp
  have ch: "drawn_at L st' g i = drawn_at L st g i" for i g
    using writes_onlyD [OF w m, of "channelKey i"] by (intro drawn_at_cong at_cong(1)) simp
  have "intent_kept (intent_at L st g) (intent_at L st' g)" for g
  proof (cases "g = h")
    case True
    from m show ?thesis
    proof (cases rule: updateDebitIntent_cases)
      case (written cur nxt)
      from written(3) assms(1) obtain d where d: "cur = Some d" by (cases cur) auto
      from assms(2) written(3) have "intent_kept (Inr (Some d)) (Inr (Some nxt))" by (simp add: d)
      then show ?thesis unfolding True written(2,4) d .
    qed simp
  next
    case False
    with writes_onlyD [OF w m, of "intentKey g"] have "st' (intentKey g) = st (intentKey g)" by simp
    from at_cong(2) [of st' g st, OF this] show ?thesis by simp
  qed
  then show "calm L st (snd (updateDebitIntent L h u st))"
    by (simp add: calm_def m ch)
qed

lemma calm_intents [calms]:
  "keeps (calm L) (updateDebitIntent L h (withChannelIntent i))"
  "keeps (calm L) (updateDebitIntent L h (closeIntentUpdate ph))"
  by (rule calm_intent; force simp: withChannelIntent_def closeIntentUpdate_def intent_kept_def bindR_Inr_iff
      split: option.splits if_splits)+

lemma calm_fileHash [calms]: "keeps (calm L) (fileHash L i ctx h)"
  unfolding fileHash_def by (intro calms)

lemma calm_fileChannel [calms]: "keeps (calm L) (fileChannel L i c ctx)"
  unfolding fileChannel_def by (intro calms)

lemma calm_channel:
  assumes "\<And>cur r'. u cur = Inr r' \<Longrightarrow> (case cur of None \<Rightarrow> \<forall>v. views r' v = openingSnapshot funded | Some r \<Rightarrow> views r' = views r)"
  shows "keeps (calm L) (updateChannelRecord L i u)"
  unfolding keeps_def
proof
  fix st
  obtain x st' where m: "updateChannelRecord L i u st = (x, st')" by fastforce
  have w: "writes_only {channelKey i} (updateChannelRecord L i u)" by (rule frames) simp
  have int: "intent_at L st' g = intent_at L st g" for g
    using writes_onlyD [OF w m, of "intentKey g"] by (intro at_cong(2)) simp
  have "drawn_at L st' h j \<le> drawn_at L st h j" for h j
  proof (cases "j = i")
    case True
    from m show ?thesis
    proof (cases rule: updateChannelRecord_cases)
      case (written cur nxt)
      have "channel_draw (\<lambda>v. openingSnapshot funded) h = 0"
        by (simp add: channel_draw_def view_draw_def drawnBy_def openingSnapshot_def sumByHash_def readAmount_def) code_simp
      with assms [OF written(3)] have "channel_draw (views nxt) h = (case cur of None \<Rightarrow> 0 | Some r \<Rightarrow> channel_draw (views r) h)"
        by (auto simp: channel_draw_def split: option.splits)
      then show ?thesis unfolding True drawn_at_def written(2,4) by (auto split: option.splits)
    qed simp
  next
    case False
    with writes_onlyD [OF w m, of "channelKey j"] have "st' (channelKey j) = st (channelKey j)" by simp
    from drawn_at_cong [OF at_cong(1) [of st' j st, OF this]] show ?thesis by simp
  qed
  then show "calm L st (snd (updateChannelRecord L i u st))"
    by (simp add: calm_def m int)
qed

lemma calm_registered:
  "(\<And>r r'. u r = Inr r' \<Longrightarrow> views r' = views r) \<Longrightarrow> keeps (calm L) (updateRegisteredRecord L i u)"
  unfolding updateRegisteredRecord_def by (rule calm_channel) (auto split: option.splits)

lemma calm_registerUpdate [calms]: "keeps (calm L) (updateChannelRecord L i (registerUpdate name funded ps))"
  by (rule calm_channel [where funded = funded])
     (auto simp: registerUpdate_def newChannelRecord_def bindR_Inr_iff split: option.splits if_splits)

lemma calm_updates [calms]:
  "keeps (calm L) (updateRegisteredRecord L i (pinHostValuesUpdate stated flds))"
  "keeps (calm L) (updateRegisteredRecord L i (recordRevocationUpdate version signature))"
  "keeps (calm L) (updateRegisteredRecord L i (updateWatchtowerSpend requestId u))"
  "keeps (calm L) (updateRegisteredRecord L i (\<lambda>r. bindR (decideWatchtowerSpend L keys r approval request) (\<lambda>(v, r'). Inr r')))"
  by (rule calm_registered; auto simp: pinHostValuesUpdate_def recordRevocationUpdate_def updateWatchtowerSpend_def Let_def
      bindR_Inr_iff split: if_splits option.splits dest!: decideWatchtowerSpend_frame)+

lemma calm_released [calms]: "keeps (calm L) (updateSpend L name requestId u)" "keeps (calm L) (pinHostValues L name stated flds)"
  unfolding updateSpend_def pinHostValues_def by (intro calms)+

fun is_quiet :: "engine_op \<Rightarrow> bool" where
  "is_quiet (RecordDebitIntent h m) = False"
| "is_quiet (CheckAndClaim keys request) = False"
| "is_quiet op = True"

lemma calm_operations:
  "keeps (calm L) (registerChannel L name i funded closeScript)" "keeps (calm L) (pinFundingCell L name cell capacity)"
  "keeps (calm L) (pinChannelTerms L name terms)" "keeps (calm L) (checkWatchtowerSpend L en keys name spend)"
  "keeps (calm L) (recordSpendSignature L name requestId signature)" "keeps (calm L) (markSpendApplied L name requestId)"
  "keeps (calm L) (closeDebitIntent L h)" "keeps (calm L) (recordHoldInvoice L h amount alg j)"
  "keeps (calm L) (markHoldInvoiceReleased L h nowMs margin)" "keeps (calm L) (recordRevocation L name version signature)"
  unfolding registerChannel_def pinFundingCell_def pinChannelTerms_def checkWatchtowerSpend_def recordSpendSignature_def
    markSpendApplied_def closeDebitIntent_def recordHoldInvoice_def markHoldInvoiceReleased_def recordRevocation_def
  by (intro calms)+

lemma calm_perform: "is_quiet op \<Longrightarrow> calm L st (perform L en op st)"
  by (cases op) (use calm_operations [of L] in \<open>simp_all add: keeps_def\<close>)

section \<open>Approvals and claims\<close>

lemma bindS_assoc: "bindS (bindS m f) g = bindS m (\<lambda>x. bindS (f x) g)"
  by (auto simp: bindS_def split: sum.splits prod.splits)

lemma bindS_doneS: "bindS (doneS x) f = f x"
  by (auto simp: bindS_def)

lemma bindS_run: "m st = (y, st1) \<Longrightarrow> bindS m f st = (case y of Inl e \<Rightarrow> (Inl e, st1) | Inr x \<Rightarrow> f x st1)"
  by (simp add: bindS_def)

lemma getDebitIntent_Inr: "getDebitIntent L h st = (Inr r, st') \<Longrightarrow> st' = st \<and> intent_at L st h = Inr r"
  by (auto simp: getDebitIntent_def intent_at_def bindR_Inr_iff)

lemma getHoldInvoiceRecord_Inr: "getHoldInvoiceRecord L h st = (Inr r, st') \<Longrightarrow> st' = st \<and> invoice_at L st h = Inr r"
  by (auto simp: getHoldInvoiceRecord_def invoice_at_def bindR_Inr_iff)

lemma recordDebitIntent_cases:
  assumes "recordDebitIntent L ph mx st = (x, st')"
  obtains (failed) e where "x = Inl e" "st' = st"
  | (recorded) cur where "x = Inr ()" "intent_at L st (boundPaymentHashOf L ph) = Inr cur"
      "invoice_at L st (boundPaymentHashOf L ph) = Inr None"
      "intent_at L st' (boundPaymentHashOf L ph) = Inr (Some \<lparr> di_paymentHash = ph, di_maxShannons = mx, di_open = True,
         di_channelIndexes = (case cur of None \<Rightarrow> [] | Some c \<Rightarrow> di_channelIndexes c) \<rparr>)"
      "\<And>k. k \<noteq> intentKey (boundPaymentHashOf L ph) \<Longrightarrow> st' k = st k"
proof -
  let ?key = "boundPaymentHashOf L ph"
  let ?new = "\<lambda>current. \<lparr> di_paymentHash = ph, di_maxShannons = mx, di_open = True,
         di_channelIndexes = (case current of None \<Rightarrow> [] | Some c \<Rightarrow> di_channelIndexes c) \<rparr>"
  define pre where "pre = bindS (liftS (bindR (assertHexBytes ''paymentHashHex'' ph 32) (\<lambda>_. assertDecimalShannons ''maxShannons'' mx)))
      (\<lambda>_. bindS (getHoldInvoiceRecord L ?key) (\<lambda>invoice.
           bindS (liftS (case invoice of None \<Rightarrow> Inr ()
               | Some i \<Rightarrow> bindR (refuseHashTwin (hi_paymentHash i) ph) (\<lambda>_. Inl (HostErr ''own_invoice'')))) (\<lambda>_.
           bindS (getDebitIntent L ?key) (\<lambda>current. bindS (checkIntentFree L ph current) (\<lambda>_. doneS current)))))"
  have pre: "reads_only pre" unfolding pre_def by (intro reads)
  have all: "recordDebitIntent L ph mx st = bindS pre (\<lambda>current. bindS (updateDebitIntent L ?key (\<lambda>_. Inr (?new current))) (\<lambda>_. doneS ())) st"
    unfolding recordDebitIntent_def Let_def pre_def bindS_assoc bindS_doneS ..
  obtain y s0 where y0: "pre st = (y, s0)" by (rule prod.exhaust)
  with reads_onlyD [OF pre y0] have y: "pre st = (y, st)" by (simp only:)
  show thesis
  proof (cases y)
    case (Inl e)
    with assms show thesis unfolding all bindS_run [of pre st, OF y] by (intro failed [of e]) simp_all
  next
    case (Inr current)
    have last: "(x, st') = bindS (updateDebitIntent L ?key (\<lambda>_. Inr (?new current))) (\<lambda>_. doneS ()) st"
      using assms unfolding all bindS_run [of pre st, OF y] Inr by simp
    from y have "pre st = (Inr current, st)" unfolding Inr .
    then obtain invoice u1 u2 where g: "getHoldInvoiceRecord L ?key st = (Inr invoice, u1)"
      "(case invoice of None \<Rightarrow> Inr () | Some i \<Rightarrow> bindR (refuseHashTwin (hi_paymentHash i) ph) (\<lambda>_. Inl (HostErr ''own_invoice'')))
         = (Inr () :: unit res)"
      "getDebitIntent L ?key u1 = (Inr current, u2)"
      unfolding pre_def bindS_Inr_iff liftS_simps prod.inject by (elim exE conjE) simp
    from g(2) have "invoice = None" by (cases invoice) (auto simp: bindR_Inr_iff)
    with getHoldInvoiceRecord_Inr [OF g(1)] getDebitIntent_Inr [OF g(3)]
    have rd: "intent_at L st ?key = Inr current" "invoice_at L st ?key = Inr None" by simp_all
    obtain z st1 where u: "updateDebitIntent L ?key (\<lambda>_. Inr (?new current)) st = (z, st1)" by fastforce
    have w: "writes_only {intentKey ?key} (updateDebitIntent L ?key (\<lambda>_. Inr (?new current)))" by (rule frames) simp
    from u show thesis
    proof (cases rule: updateDebitIntent_cases)
      case f: (failed e)
      with last show thesis unfolding bindS_run [of "updateDebitIntent L ?key (\<lambda>_. Inr (?new current))" st, OF u] by (intro failed [of e]) simp_all
    next
      case (written cur nxt)
      from last have "x = Inr ()" "st' = st1" unfolding bindS_run [of "updateDebitIntent L ?key (\<lambda>_. Inr (?new current))" st, OF u] written(1) by simp_all
      moreover from written(3) have nxt: "nxt = ?new current" by simp
      ultimately show thesis
        using rd written(4) writes_onlyD [OF w u] by (intro recorded [of current]) (simp_all add: nxt)
    qed
  qed
qed

lemma claimSlot_cases:
  assumes "claimSlot L i c ctx st = (x, st')"
  obtains (kept) "st' = st"
  | (moved) r v r' where "channel_at L st i = Inr (Some r)" "decideClaim L c r ctx = Inr (v, r')"
      "channel_at L st' i = Inr (Some r')" "\<And>k. k \<noteq> channelKey i \<Longrightarrow> st' k = st k"
proof -
  obtain y where y: "readRegisteredRecord L i st = (y, st)"
    using reads_onlyD [OF reads_engine(3)] by (metis prod.exhaust)
  obtain z st1 where u: "updateRegisteredRecord L i (claimUpdate L c ctx) st = (z, st1)" by fastforce
  have w: "writes_only {channelKey i} (updateRegisteredRecord L i (claimUpdate L c ctx))" by (rule frames) simp
  from assms y u have st': "st' = (if isl y then st else st1)"
    by (auto simp: claimSlot_def bindS_def split: sum.splits)
  from u [unfolded updateRegisteredRecord_def] show thesis
  proof (cases rule: updateChannelRecord_cases)
    case (failed e)
    with st' show thesis by (intro kept) simp
  next
    case (written cur nxt)
    from written(3) obtain r v where r: "cur = Some r" "decideClaim L c r ctx = Inr (v, nxt)"
      by (cases cur) (auto simp: claimUpdate_def bindR_Inr_iff)
    show thesis
    proof (cases "isl y")
      case False
      with st' written r writes_onlyD [OF w u] show thesis by (intro moved) simp_all
    qed (use st' kept in simp)
  qed
qed

section \<open>What a claim reads and files\<close>

lemma set_distinctOf [simp]: "set (distinctOf xs) = set xs"
  by (induction xs rule: distinctOf.induct) auto

lemma distinct_distinctOf [simp]: "distinct (distinctOf xs)"
  by (induction xs rule: distinctOf.induct) auto

lemma mapS_reads:
  assumes "\<And>x. reads_only (f x)" "mapS f xs st = (Inr ys, st')"
  shows "st' = st \<and> list_all2 (\<lambda>x y. f x st = (Inr y, st)) xs ys"
  using assms(2)
proof (induction xs arbitrary: ys st')
  case (Cons x xs)
  from Cons.prems obtain y s1 zs s2 where *: "f x st = (Inr y, s1)" "mapS f xs s1 = (Inr zs, s2)" "ys = y # zs" "st' = s2"
    by (auto simp: bindS_Inr_iff)
  have "s1 = st" by (rule reads_onlyD [OF assms(1) *(1)])
  with * Cons.IH [of zs s2] show ?case by simp
qed simp

lemma loadHash_Inr:
  "loadHash L h st = (Inr y, st') \<Longrightarrow> \<exists>d v. y = (h, d, v) \<and> intent_at L st h = Inr d \<and> invoice_at L st h = Inr v"
  by (auto simp: loadHash_def bindS_Inr_iff dest!: getDebitIntent_Inr getHoldInvoiceRecord_Inr)

lemma listedChannel_Inr:
  "listedChannel L i st = (Inr y, st') \<Longrightarrow> \<exists>r. y = (i, r) \<and> channel_at L st i = Inr (Some r)"
  by (auto simp: listedChannel_def bindS_Inr_iff dest!: getChannelRecord_Inr split: option.splits)

text \<open>The context of a claim: the stored payment records, and the other channels they list, each once.\<close>

lemma loadBalanceContext_Inr:
  assumes "loadBalanceContext L i c r st = (Inr ctx, st')" and "intents ctx h = Some d"
  shows "intent_at L st h = Inr (Some d)"
    and "\<exists>D. distinct D \<and> i \<notin> set D \<and> set (di_channelIndexes d) - {i} \<subseteq> set D
      \<and> drawnOtherChannels ctx g = (\<Sum>j\<in>set D. drawn_at L st g j)"
proof -
  from assms obtain hashes loaded others s1 s2 where
    l: "mapS (loadHash L) hashes st = (Inr loaded, s1)"
    and o: "mapS (listedChannel L) (filter (\<lambda>j. j \<noteq> i) (listedIndexes loaded)) s1 = (Inr others, s2)"
    and ctx: "ctx = contextOf loaded (map snd others)"
    unfolding loadBalanceContext_def by (cases "cl_operation c") (auto simp: bindS_Inr_iff Let_def)
  from mapS_reads [OF reads_engine(7) l] have s1: "s1 = st"
    and la: "list_all2 (\<lambda>h y. loadHash L h st = (Inr y, st)) hashes loaded" by auto
  from assms(2) obtain v where "get loaded h = Some (Some d, v)"
    by (auto simp: ctx contextOf_def split: option.splits prod.splits)
  then have mem: "(h, Some d, v) \<in> set loaded" by (rule map_of_SomeD)
  with la obtain h' where "loadHash L h' st = (Inr (h, Some d, v), st)"
    by (auto simp: list_all2_conv_all_nth in_set_conv_nth)
  then show "intent_at L st h = Inr (Some d)" by (auto dest: loadHash_Inr)
  let ?D = "filter (\<lambda>j. j \<noteq> i) (listedIndexes loaded)"
  from mapS_reads [OF reads_engine(4) o] have lo: "list_all2 (\<lambda>j y. listedChannel L j st = (Inr y, st)) ?D others"
    by (simp add: s1)
  have "map (\<lambda>vs. channel_draw vs g) (map views (map snd others)) = map (drawn_at L st g) ?D"
    using lo by (induction rule: list_all2_induct) (auto simp: drawn_at_def dest!: listedChannel_Inr)
  moreover have D: "distinct ?D" by (simp add: listedIndexes_def)
  ultimately have "drawnOtherChannels ctx g = (\<Sum>j\<in>set ?D. drawn_at L st g j)"
    unfolding drawnOtherChannels_eq by (simp add: ctx contextOf_def sum_list_distinct_conv_sum_set)
  moreover have "set (di_channelIndexes d) \<subseteq> set (listedIndexes loaded)"
    using mem by (force simp: listedIndexes_def)
  ultimately show "\<exists>D. distinct D \<and> i \<notin> set D \<and> set (di_channelIndexes d) - {i} \<subseteq> set D
      \<and> drawnOtherChannels ctx g = (\<Sum>j\<in>set D. drawn_at L st g j)"
    using D by (intro exI [of _ ?D]) auto
qed

definition filed :: "lib \<Rightarrow> storage \<Rightarrow> string \<Rightarrow> int \<Rightarrow> bool" where
  "filed L st h i \<longleftrightarrow> (\<exists>d. intent_at L st h = Inr (Some d) \<and> i \<in> set (di_channelIndexes d))"

lemma filed_calm: "filed L st h i \<Longrightarrow> calm L st st' \<Longrightarrow> filed L st' h i"
  unfolding filed_def calm_def intent_kept_def by (elim exE conjE) (metis (no_types, lifting) old.sum.inject(2) option.inject subsetD)

lemma fileHash_files:
  assumes "fileHash L i ctx h st = (Inr u, st')" "intents ctx h \<noteq> None"
  shows "filed L st' h i"
proof -
  from assms obtain d s1 where u: "updateDebitIntent L h (withChannelIntent i) st = (Inr d, s1)"
    and rest: "(if invoices ctx h \<noteq> None then bindS (updateHoldInvoiceRecord L h (withChannelInvoice i)) (\<lambda>_. doneS ()) else doneS ()) s1
        = (Inr u, st')"
    unfolding fileHash_def by (auto simp: bindS_Inr_iff)
  from u have "filed L s1 h i"
  proof (cases rule: updateDebitIntent_cases)
    case (written cur nxt)
    then show ?thesis by (auto simp: filed_def withChannelIntent_def split: option.splits if_splits)
  qed simp
  moreover let ?m = "if invoices ctx h \<noteq> None then bindS (updateHoldInvoiceRecord L h (withChannelInvoice i)) (\<lambda>_. doneS ()) else doneS ()"
  have "keeps (calm L) ?m" by (intro calms)
  from keepsD [of "calm L" ?m, OF this rest] have "calm L s1 st'" .
  ultimately show ?thesis by (rule filed_calm)
qed

lemma fileChannel_files:
  assumes "fileChannel L i c ctx st = (Inr u, st')" "h \<in> pv_boundPaymentHash ` set (cl_tlcs c)" "intents ctx h \<noteq> None"
  shows "filed L st' h i"
proof -
  have each: "filed L st' h i" if "mapS (fileHash L i ctx) hs st = (Inr us, st')" "h \<in> set hs" for hs us st
    using that
  proof (induction hs arbitrary: st us)
    case (Cons g hs)
    from Cons.prems(1) obtain x s1 xs where s1: "fileHash L i ctx g st = (Inr x, s1)" "mapS (fileHash L i ctx) hs s1 = (Inr xs, st')"
      by (auto simp: bindS_Inr_iff)
    have "keeps (calm L) (mapS (fileHash L i ctx) hs)" by (intro calms)
    from keepsD [of "calm L" "mapS (fileHash L i ctx) hs", OF this s1(2)] have rest: "calm L s1 st'" .
    show ?case
    proof (cases "g = h")
      case True
      from fileHash_files [OF s1(1)] assms(3) have "filed L s1 h i" by (simp add: True)
      then show ?thesis using rest by (rule filed_calm)
    next
      case False
      with Cons.prems(2) Cons.IH [OF s1(2)] show ?thesis by simp
    qed
  qed simp
  from assms(1) obtain us where us: "mapS (fileHash L i ctx) (distinctOf (map pv_boundPaymentHash (cl_tlcs c))) st = (Inr us, st')"
    by (auto simp: fileChannel_def bindS_Inr_iff)
  from assms(2) show ?thesis by (intro each [OF us]) simp
qed

section \<open>The budget of a payment\<close>

text \<open>
  What the budget rests on: no draw without the channel listed in its intent, no intent above what was
  approved, and no draws above it over any channels.
\<close>

definition budget :: "lib \<Rightarrow> storage \<Rightarrow> (string \<Rightarrow> int) \<Rightarrow> bool" where
  "budget L st A \<longleftrightarrow> (\<forall>h d. intent_at L st h = Inr (Some d) \<longrightarrow> bigInt (di_maxShannons d) \<le> A h)
     \<and> (\<forall>h i. 0 < drawn_at L st h i \<longrightarrow> filed L st h i)
     \<and> (\<forall>h I. finite I \<longrightarrow> (\<Sum>i\<in>I. drawn_at L st h i) \<le> A h)"

lemma budgetI:
  assumes "\<And>h d. intent_at L st h = Inr (Some d) \<Longrightarrow> bigInt (di_maxShannons d) \<le> A h"
    and "\<And>h i. 0 < drawn_at L st h i \<Longrightarrow> filed L st h i"
    and "\<And>h I. finite I \<Longrightarrow> (\<Sum>i\<in>I. drawn_at L st h i) \<le> A h"
  shows "budget L st A"
  using assms by (simp add: budget_def)

lemma budgetD:
  assumes "budget L st A"
  shows "intent_at L st h = Inr (Some d) \<Longrightarrow> bigInt (di_maxShannons d) \<le> A h"
    and "0 < drawn_at L st h i \<Longrightarrow> filed L st h i"
    and "finite I \<Longrightarrow> (\<Sum>i\<in>I. drawn_at L st h i) \<le> A h"
  using assms by (simp_all add: budget_def)

lemma calm_drawn: "calm L st st' \<Longrightarrow> drawn_at L st' h i \<le> drawn_at L st h i"
  by (simp add: calm_def)

lemma calm_intent_back:
  "calm L st st' \<Longrightarrow> intent_at L st' h = Inr (Some d') \<Longrightarrow>
   \<exists>d. intent_at L st h = Inr (Some d) \<and> di_maxShannons d' = di_maxShannons d"
  unfolding calm_def intent_kept_def by (metis Inr_inject option.inject)

lemma budget_calm:
  assumes "budget L st A" "calm L st st'"
  shows "budget L st' A"
proof (rule budgetI)
  fix h d assume "intent_at L st' h = Inr (Some d)"
  with calm_intent_back [OF assms(2)] budgetD(1) [OF assms(1)] show "bigInt (di_maxShannons d) \<le> A h" by metis
next
  fix h i assume "0 < drawn_at L st' h i"
  with calm_drawn [OF assms(2), of h i] have "0 < drawn_at L st h i" by simp
  then show "filed L st' h i" by (rule filed_calm [OF budgetD(2) [OF assms(1)] assms(2)])
next
  fix h and I :: "int set" assume "finite I"
  with budgetD(3) [OF assms(1)] have "(\<Sum>i\<in>I. drawn_at L st h i) \<le> A h" .
  moreover have "(\<Sum>i\<in>I. drawn_at L st' h i) \<le> (\<Sum>i\<in>I. drawn_at L st h i)"
    by (rule sum_mono) (rule calm_drawn [OF assms(2)])
  ultimately show "(\<Sum>i\<in>I. drawn_at L st' h i) \<le> A h" by simp
qed

lemma budget_mono: "budget L st A \<Longrightarrow> (\<And>h. A h \<le> B h) \<Longrightarrow> budget L st B"
  unfolding budget_def by (meson order.trans)

text \<open>A claim: the judged channel may draw what its open intent leaves beside the others it lists.\<close>

lemma budget_judged:
  assumes b: "budget L st A" and c: "calm L st st1" and load: "loadBalanceContext L i c r st = (Inr ctx, st)"
    and int: "\<And>h. intent_at L st' h = intent_at L st1 h"
    and others: "\<And>h j. j \<noteq> i \<Longrightarrow> drawn_at L st' h j = drawn_at L st1 h j"
    and here: "\<And>h. drawn_at L st' h i \<le> drawn_at L st1 h i
      \<or> filed L st1 h i \<and> (\<exists>d. intents ctx h = Some d \<and> drawn_at L st' h i + drawnOtherChannels ctx h \<le> bigInt (di_maxShannons d))"
  shows "budget L st' A"
proof (rule budgetI)
  note b1 = budget_calm [OF b c]
  have fl: "filed L st' h j = filed L st1 h j" for h j by (simp add: filed_def int)
  { fix h d assume "intent_at L st' h = Inr (Some d)"
    then show "bigInt (di_maxShannons d) \<le> A h" unfolding int by (rule budgetD(1) [OF b1])
  next
    fix h j assume "0 < drawn_at L st' h j"
    with here [of h] others [of j h] budgetD(2) [OF b1, of h] show "filed L st' h j"
      unfolding fl by (cases "j = i") fastforce+
  next
    fix h and I :: "int set" assume fin: "finite I"
    from budgetD(3) [OF b1 fin] have old: "(\<Sum>j\<in>I. drawn_at L st1 h j) \<le> A h" .
    show "(\<Sum>j\<in>I. drawn_at L st' h j) \<le> A h"
    proof (cases "i \<in> I \<and> \<not> drawn_at L st' h i \<le> drawn_at L st1 h i")
      case False
      then have "(\<Sum>j\<in>I. drawn_at L st' h j) \<le> (\<Sum>j\<in>I. drawn_at L st1 h j)"
        using others by (intro sum_mono) (metis order.refl)
      with old show ?thesis by simp
    next
      case True
      with here [of h] obtain d where d: "intents ctx h = Some d" "drawn_at L st' h i + drawnOtherChannels ctx h \<le> bigInt (di_maxShannons d)" by blast
      from loadBalanceContext_Inr [OF load d(1)] obtain D where at: "intent_at L st h = Inr (Some d)"
        and D: "i \<notin> set D" "set (di_channelIndexes d) - {i} \<subseteq> set D" "drawnOtherChannels ctx h = (\<Sum>j\<in>set D. drawn_at L st h j)" by blast
      have "(\<Sum>j\<in>I - {i}. drawn_at L st1 h j) \<le> (\<Sum>j\<in>I - {i}. drawn_at L st h j)"
        by (rule sum_mono) (rule calm_drawn [OF c])
      also have "\<dots> = (\<Sum>j\<in>(I - {i}) \<inter> set D. drawn_at L st h j)"
      proof (rule sum.mono_neutral_right)
        show "\<forall>j\<in>I - {i} - (I - {i}) \<inter> set D. drawn_at L st h j = 0"
        proof
          fix j assume j: "j \<in> I - {i} - (I - {i}) \<inter> set D"
          have "\<not> 0 < drawn_at L st h j"
            using budgetD(2) [OF b, of h j] j D(2) at by (auto simp: filed_def)
          with drawn_at_nonneg [of L st h j] show "drawn_at L st h j = 0" by simp
        qed
      qed (use fin in auto)
      also have "\<dots> \<le> (\<Sum>j\<in>set D. drawn_at L st h j)"
        by (rule sum_mono2) (auto simp: drawn_at_nonneg)
      finally have "(\<Sum>j\<in>I - {i}. drawn_at L st1 h j) \<le> drawnOtherChannels ctx h" by (simp only: D(3))
      moreover have "(\<Sum>j\<in>I - {i}. drawn_at L st' h j) = (\<Sum>j\<in>I - {i}. drawn_at L st1 h j)"
        by (rule sum.cong) (auto simp: others)
      moreover have "(\<Sum>j\<in>I. drawn_at L st' h j) = drawn_at L st' h i + (\<Sum>j\<in>I - {i}. drawn_at L st' h j)"
        using True by (intro sum.remove [OF fin]) simp
      ultimately show ?thesis using d(2) budgetD(1) [OF b at] by simp
    qed }
qed

text \<open>An action that keeps every budget.\<close>

definition budgeted :: "lib \<Rightarrow> storage \<Rightarrow> storage \<Rightarrow> bool" where
  "budgeted L st st' \<longleftrightarrow> (\<forall>A. budget L st A \<longrightarrow> budget L st' A)"

interpretation budgeted: storage_preorder "budgeted L" for L
  by unfold_locales (simp_all add: budgeted_def)

lemma calm_budgeted: "calm L st st' \<Longrightarrow> budgeted L st st'"
  by (simp add: budgeted_def budget_calm)

lemma channel_at_payments: "(\<And>k. k \<notin> range intentKey \<union> range invoiceKey \<Longrightarrow> st' k = st k) \<Longrightarrow> channel_at L st' i = channel_at L st i"
  by (rule at_cong(1)) auto

lemma claimSlot_budgeted:
  assumes r: "channel_at L st i = Inr (Some r)" and load: "loadBalanceContext L i c r st = (Inr ctx, st)"
    and dec: "decideClaim L c r ctx = Inr (v, r')"
    and fc: "(if r' \<noteq> r then fileChannel L i c ctx else doneS ()) st = (Inr (), st1)"
    and slot: "claimSlot L i c ctx st1 = (x, st')"
  shows "budgeted L st st'"
proof -
  let ?m = "if r' \<noteq> r then fileChannel L i c ctx else doneS ()"
  have "keeps (calm L) ?m" by (intro calms)
  from keepsD [of "calm L" ?m, OF this fc] have c: "calm L st st1" .
  have "writes_only (range intentKey \<union> range invoiceKey) ?m" by (intro frames) simp
  from writes_onlyD [OF this fc] have r1: "channel_at L st1 i = Inr (Some r)"
    using r by (subst channel_at_payments [of st1 st]) auto
  from slot show ?thesis
  proof (cases rule: claimSlot_cases)
    case kept
    with c show ?thesis by (simp add: calm_budgeted)
  next
    case (moved q w q')
    from moved(1,2) r1 dec have q: "q' = r'" by simp
    have int: "intent_at L st' h = intent_at L st1 h" for h by (rule at_cong(2)) (simp add: moved(4))
    have others: "drawn_at L st' h j = drawn_at L st1 h j" if "j \<noteq> i" for h j
      using that by (intro drawn_at_cong at_cong(1)) (simp add: moved(4))
    have old: "drawn_at L st1 h i = channel_draw (views r) h" and new: "drawn_at L st' h i = channel_draw (views r') h" for h
      using r1 moved(3) q by (simp_all add: drawn_at_def)
    have here: "drawn_at L st' h i \<le> drawn_at L st1 h i
      \<or> filed L st1 h i \<and> (\<exists>d. intents ctx h = Some d \<and> drawn_at L st' h i + drawnOtherChannels ctx h \<le> bigInt (di_maxShannons d))" for h
    proof (cases "r' = r")
      case False
      with decideClaim_Inr [OF dec] have vs: "applyBalanceRule r c ctx = Inr (views r')" by (auto simp: claim_checks_def)
      have "nonneg_tlcs (tlcs (views r u))" for u
        using isViewSnapshot_nonneg valid_views [OF channel_at_valid [OF r]] .
      from applyBalanceRule_draw [OF vs this, of h] old new False fc show ?thesis
        by (auto intro: fileChannel_files)
    qed (simp add: old new)
    from budget_judged [OF _ c load int others here] show ?thesis unfolding budgeted_def by blast
  qed
qed

lemma decideAndClaim_budgeted: "keeps (budgeted L) (decideAndClaim L i c)"
  unfolding keeps_def
proof
  fix st
  obtain y1 where read: "readRegisteredRecord L i st = (y1, st)"
    using reads_onlyD [OF reads_engine(3)] by (metis prod.exhaust)
  show "budgeted L st (snd (decideAndClaim L i c st))"
  proof (cases y1)
    case (Inl e)
    then show ?thesis by (simp add: decideAndClaim_def bindS_run [of "readRegisteredRecord L i" st, OF read] budgeted.same)
  next
    case r: (Inr r)
    obtain y2 where load: "loadBalanceContext L i c r st = (y2, st)"
      using reads_onlyD [OF reads_loadBalanceContext] by (metis prod.exhaust)
    show ?thesis
    proof (cases "bindR y2 (\<lambda>ctx. bindR (decideClaim L c r ctx) (\<lambda>d. Inr (ctx, d)))")
      case (Inl e)
      with read load r show ?thesis
        by (auto simp: decideAndClaim_def bindS_def bindR_Inl_iff budgeted.same)
    next
      case (Inr q)
      then obtain ctx v r' where q: "y2 = Inr ctx" "decideClaim L c r ctx = Inr (v, r')" by (auto simp: bindR_Inr_iff)
      let ?m = "if r' \<noteq> r then fileChannel L i c ctx else doneS ()"
      obtain y3 st1 where fc: "?m st = (y3, st1)" by fastforce
      have run: "decideAndClaim L i c st = (case y3 of Inl e \<Rightarrow> (Inl e, st1) | Inr u \<Rightarrow> claimSlot L i c ctx st1)"
        using read load r q fc by (simp add: decideAndClaim_def bindS_def split: if_splits)
      show ?thesis
      proof (cases y3)
        case (Inl e)
        have "keeps (calm L) ?m" by (intro calms)
        from keepsD [of "calm L" ?m, OF this fc] show ?thesis by (simp add: run Inl calm_budgeted)
      next
        case (Inr u)
        obtain x st' where slot: "claimSlot L i c ctx st1 = (x, st')" by fastforce
        from read r have "channel_at L st i = Inr (Some r)" by (auto dest: readRegisteredRecord_Inr)
        from claimSlot_budgeted [OF this _ q(2) _ slot] load q(1) fc Inr show ?thesis by (simp add: run slot)
      qed
    qed
  qed
qed

lemma checkAndClaim_budgeted: "keeps (budgeted L) (checkAndClaim L en keys request)"
  unfolding checkAndClaim_def
  by (intro budgeted.rules reads_engine [THEN budgeted.reading] decideAndClaim_budgeted)

text \<open>An approval raises its own hash's budget to its maximum, when it is above.\<close>

definition approved_by :: "lib \<Rightarrow> storage \<Rightarrow> engine_op \<Rightarrow> string \<Rightarrow> int" where
  "approved_by L st op h = (case op of
       RecordDebitIntent ph m \<Rightarrow> if fst (recordDebitIntent L ph m st) = Inr () \<and> boundPaymentHashOf L ph = h then bigInt m else 0
     | _ \<Rightarrow> 0)"

fun approved_over :: "lib \<Rightarrow> policy_engine \<Rightarrow> storage \<Rightarrow> engine_op list \<Rightarrow> string \<Rightarrow> int" where
  "approved_over L en st [] h = 0"
| "approved_over L en st (op # ops) h = max (approved_by L st op h) (approved_over L en (perform L en op st) ops h)"

lemma approved_over_snoc:
  "approved_over L en st (ops @ [op]) h = max (approved_over L en st ops h) (max 0 (approved_by L (fold (perform L en) ops st) op h))"
  by (induction ops arbitrary: st) (simp_all add: max.commute max.left_commute)

lemma recordDebitIntent_budget:
  assumes "budget L st A" "recordDebitIntent L ph mx st = (x, st')"
  shows "budget L st' (\<lambda>h. max (A h) (max 0 (approved_by L st (RecordDebitIntent ph mx) h)))"
  using assms(2)
proof (cases rule: recordDebitIntent_cases)
  case failed
  show ?thesis unfolding failed(2) by (rule budget_mono [OF assms(1)]) simp
next
  case (recorded cur)
  let ?key = "boundPaymentHashOf L ph" and ?A = "\<lambda>h. max (A h) (max 0 (approved_by L st (RecordDebitIntent ph mx) h))"
  have ch: "drawn_at L st' h i = drawn_at L st h i" for h i
    by (intro drawn_at_cong at_cong(1)) (simp add: recorded(5))
  have int: "intent_at L st' h = intent_at L st h" if "h \<noteq> ?key" for h
    using that by (intro at_cong(2)) (simp add: recorded(5))
  show ?thesis
  proof (rule budgetI)
    fix h d assume d: "intent_at L st' h = Inr (Some d)"
    show "bigInt (di_maxShannons d) \<le> ?A h"
    proof (cases "h = ?key")
      case True
      with d recorded(4) assms(2) recorded(1) show ?thesis by (auto simp: approved_by_def)
    next
      case False
      with d int budgetD(1) [OF assms(1), of h d] show ?thesis by simp
    qed
  next
    fix h i assume "0 < drawn_at L st' h i"
    then have "filed L st h i" unfolding ch by (rule budgetD(2) [OF assms(1)])
    then show "filed L st' h i"
      using int [of h] recorded(2,4) by (cases "h = ?key") (auto simp: filed_def)
  next
    fix h and I :: "int set" assume "finite I"
    from budgetD(3) [OF assms(1) this, of h] show "(\<Sum>i\<in>I. drawn_at L st' h i) \<le> ?A h" unfolding ch by simp
  qed
qed

lemma budget_performed: "budget L (performed L en ops) (approved_over L en (\<lambda>_. None) ops)"
proof (induction ops rule: rev_induct)
  case Nil
  show ?case by (rule budgetI) (simp_all add: at_empty drawn_at_def)
next
  case (snoc op ops)
  let ?st = "performed L en ops" and ?A = "approved_over L en (\<lambda>_. None) ops"
  have over: "approved_over L en (\<lambda>_. None) (ops @ [op]) = (\<lambda>h. max (?A h) (max 0 (approved_by L ?st op h)))"
    by (rule ext) (simp add: approved_over_snoc performed_def)
  have "budget L (perform L en op ?st) (\<lambda>h. max (?A h) (max 0 (approved_by L ?st op h)))"
  proof (cases "is_quiet op")
    case True
    from budget_calm [OF snoc.IH calm_perform [OF this]] show ?thesis by (rule budget_mono) simp
  next
    case False
    then consider (approve) ph mx where "op = RecordDebitIntent ph mx" | (claim) keys request where "op = CheckAndClaim keys request"
      by (cases op) auto
    then show ?thesis
    proof cases
      case approve
      obtain x st' where "recordDebitIntent L ph mx ?st = (x, st')" by fastforce
      from recordDebitIntent_budget [OF snoc.IH this] this show ?thesis by (simp add: approve)
    next
      case claim
      have "budgeted L ?st (perform L en op ?st)"
        using checkAndClaim_budgeted by (simp add: claim keeps_def)
      with snoc.IH have "budget L (perform L en op ?st) ?A" by (simp add: budgeted_def)
      then show ?thesis by (rule budget_mono) simp
    qed
  qed
  then show ?case by (simp only: over performed_simps)
qed

text \<open>C2 Payments stay within what the user approved. Whatever methods run on an empty storage, whatever
  commitments the node asks signatures for and over whichever channels, what all the channels together
  offer and have paid under a payment's hash, each at the worse of its two commitments, is at most the
  largest maximum the user has approved for that hash.\<close>

theorem payments_within_approval:
  "(\<Sum>i\<in>I. drawn_at L (performed L en ops) h i) \<le> approved_over L en (\<lambda>_. None) ops h"
proof (cases "finite I")
  case True
  then show ?thesis by (rule budgetD(3) [OF budget_performed])
next
  case False
  from budgetD(3) [OF budget_performed, of "{}"] have "0 \<le> approved_over L en (\<lambda>_. None) ops h" by (metis finite.emptyI sum.empty)
  with False show ?thesis by simp
qed

end
