(* ===== verification/HoldFacts.thy ===== *)
theory HoldFacts
  imports PaymentFacts
begin

text \<open>
  Hold invoices and debit intents over the whole storage: one hash is never both, an invoice keeps its
  terms, and its preimage is released only while the channels hold its amount, and then for good.
\<close>

section \<open>What every operation keeps of an invoice\<close>

definition invoice_kept :: "hold_invoice_record option res \<Rightarrow> hold_invoice_record option res \<Rightarrow> bool" where
  "invoice_kept c c' \<longleftrightarrow> c' = c \<or> (\<exists>v v'. c = Inr (Some v) \<and> c' = Inr (Some v') \<and> hi_released v' = hi_released v
     \<and> hi_paymentHash v' = hi_paymentHash v \<and> hi_amountShannons v' = hi_amountShannons v
     \<and> hi_hashAlgorithm v' = hi_hashAlgorithm v \<and> hi_invoiceIndex v' = hi_invoiceIndex v
     \<and> set (hi_channelIndexes v) \<subseteq> set (hi_channelIndexes v'))"

lemma invoice_kept_refl [simp]: "invoice_kept c c"
  by (simp add: invoice_kept_def)

lemma invoice_kept_trans: "invoice_kept a b \<Longrightarrow> invoice_kept b c \<Longrightarrow> invoice_kept a c"
  unfolding invoice_kept_def by (elim disjE exE conjE) auto

definition settled :: "lib \<Rightarrow> storage \<Rightarrow> storage \<Rightarrow> bool" where
  "settled L st st' \<longleftrightarrow> (\<forall>h. intent_kept (intent_at L st h) (intent_at L st' h) \<and> invoice_kept (invoice_at L st h) (invoice_at L st' h))"

interpretation settled: storage_preorder "settled L" for L
proof
  fix a b c assume "settled L a b" "settled L b c"
  then show "settled L a c" unfolding settled_def by (meson intent_kept_trans invoice_kept_trans)
qed (simp add: settled_def)

named_theorems settles

lemmas [settles] = settled.rules reads_store [THEN settled.reading] reads_engine [THEN settled.reading]
  reads_loadBalanceContext [THEN settled.reading]

lemma settled_frame: "writes_only K m \<Longrightarrow> (\<And>h. intentKey h \<notin> K) \<Longrightarrow> (\<And>h. invoiceKey h \<notin> K) \<Longrightarrow> keeps (settled L) m"
  unfolding keeps_def settled_def same_outside_def
  by (metis at_cong(2) at_cong(3) intent_kept_refl invoice_kept_refl)

lemma settled_channels [settles]:
  "keeps (settled L) (updateChannelRecord L i u)" "keeps (settled L) (updateRegisteredRecord L i u')"
  "keeps (settled L) (claimChannelAlias name i)"
  by (rule settled_frame [where K = "range channelKey \<union> range aliasKey"], (intro frames; simp), auto)+

lemma updateDebitIntent_invoices: "invoice_at L (snd (updateDebitIntent L h u st)) g = invoice_at L st g"
proof (rule at_cong(3))
  obtain x st' where m: "updateDebitIntent L h u st = (x, st')" by fastforce
  have "writes_only {intentKey h} (updateDebitIntent L h u)" by (rule frames) simp
  from writes_onlyD [OF this m, of "invoiceKey g"] show "snd (updateDebitIntent L h u st) (invoiceKey g) = st (invoiceKey g)"
    by (simp add: m)
qed

lemma settled_intents [settles]:
  "keeps (settled L) (updateDebitIntent L h (withChannelIntent i))"
  "keeps (settled L) (updateDebitIntent L h (closeIntentUpdate ph))"
  using calm_intents [of L h] by (auto simp: keeps_def settled_def calm_def updateDebitIntent_invoices)

lemma settled_invoice [settles]: "keeps (settled L) (updateHoldInvoiceRecord L h (withChannelInvoice i))"
  unfolding keeps_def
proof
  fix st
  obtain x st' where m: "updateHoldInvoiceRecord L h (withChannelInvoice i) st = (x, st')" by fastforce
  have w: "writes_only {invoiceKey h} (updateHoldInvoiceRecord L h (withChannelInvoice i))" by (rule frames) simp
  have int: "intent_at L st' g = intent_at L st g" for g
    using writes_onlyD [OF w m, of "intentKey g"] by (intro at_cong(2)) simp
  have "invoice_kept (invoice_at L st g) (invoice_at L st' g)" for g
  proof (cases "g = h")
    case True
    from m show ?thesis
    proof (cases rule: updateHoldInvoiceRecord_cases)
      case (written cur nxt)
      from written(3) obtain v where "cur = Some v" "nxt = v \<or> nxt = v\<lparr> hi_channelIndexes := hi_channelIndexes v @ [i] \<rparr>"
        by (auto simp: withChannelInvoice_def split: option.splits if_splits)
      then show ?thesis unfolding True written(2,4) invoice_kept_def by auto
    qed simp
  next
    case False
    with writes_onlyD [OF w m, of "invoiceKey g"] have "st' (invoiceKey g) = st (invoiceKey g)" by simp
    from at_cong(3) [of st' g st, OF this] show ?thesis by simp
  qed
  then show "settled L st (snd (updateHoldInvoiceRecord L h (withChannelInvoice i) st))"
    by (simp add: settled_def m int)
qed

lemma settled_claims [settles]:
  "keeps (settled L) (fileChannel L i c ctx)" "keeps (settled L) (claimSlot L i c ctx)"
  unfolding fileChannel_def fileHash_def claimSlot_def by (intro settles)+

lemma settled_spends [settles]: "keeps (settled L) (updateSpend L name requestId u)" "keeps (settled L) (pinHostValues L name stated flds)"
  unfolding updateSpend_def pinHostValues_def by (intro settles)+

lemma settled_operations:
  "keeps (settled L) (registerChannel L name i funded closeScript)" "keeps (settled L) (pinFundingCell L name cell capacity)"
  "keeps (settled L) (pinChannelTerms L name terms)" "keeps (settled L) (checkWatchtowerSpend L en keys name spend)"
  "keeps (settled L) (recordSpendSignature L name requestId signature)" "keeps (settled L) (markSpendApplied L name requestId)"
  "keeps (settled L) (closeDebitIntent L h)" "keeps (settled L) (recordRevocation L name version signature)"
  "keeps (settled L) (checkAndClaim L en keys request)"
  unfolding registerChannel_def pinFundingCell_def pinChannelTerms_def checkWatchtowerSpend_def recordSpendSignature_def
    markSpendApplied_def closeDebitIntent_def recordRevocation_def checkAndClaim_def decideAndClaim_def
  by (intro settles)+

fun moves_payments :: "engine_op \<Rightarrow> bool" where
  "moves_payments (RecordDebitIntent h m) = True"
| "moves_payments (RecordHoldInvoice h a alg j) = True"
| "moves_payments (MarkHoldInvoiceReleased h nowMs margin) = True"
| "moves_payments op = False"

lemma settled_perform: "\<not> moves_payments op \<Longrightarrow> settled L st (perform L en op st)"
  by (cases op) (use settled_operations [of L] in \<open>simp_all add: keeps_def\<close>)

section \<open>The three operations that move a payment's records\<close>

lemma keeps_intents_only:
  assumes "writes_only (range invoiceKey) m" "m st = (x, st')"
  shows "intent_at L st' g = intent_at L st g"
  using writes_onlyD [OF assms, of "intentKey g"] by (intro at_cong(2)) simp

text \<open>A new invoice takes a hash no payment and no invoice has; an invoice recorded again stays as it is.\<close>

lemma updateHoldInvoiceRecord_same:
  assumes "updateHoldInvoiceRecord L h u st = (x, st')"
    and "\<And>cur nxt. u cur = Inr nxt \<Longrightarrow> P cur nxt"
  shows "invoice_at L st' g = invoice_at L st g
    \<or> g = h \<and> (\<exists>cur nxt. invoice_at L st h = Inr cur \<and> P cur nxt \<and> invoice_at L st' h = Inr (Some nxt))"
proof (cases "g = h")
  case True
  from assms(1) show ?thesis
  proof (cases rule: updateHoldInvoiceRecord_cases)
    case (written cur nxt)
    with assms(2) [OF written(3)] True show ?thesis by blast
  qed simp
next
  case False
  have "writes_only {invoiceKey h} (updateHoldInvoiceRecord L h u)" by (rule frames) simp
  from writes_onlyD [OF this assms(1), of "invoiceKey g"] False have "st' (invoiceKey g) = st (invoiceKey g)" by simp
  from at_cong(3) [of st' g st, OF this] show ?thesis by simp
qed

lemma recordHoldInvoice_moves:
  assumes "recordHoldInvoice L ph amount alg j st = (x, st')"
  shows "intent_at L st' g = intent_at L st g"
    and "invoice_at L st' g = invoice_at L st g
      \<or> intent_at L st g = Inr None \<and> invoice_at L st g = Inr None \<and> (\<exists>v. invoice_at L st' g = Inr (Some v) \<and> \<not> hi_released v)"
proof -
  let ?key = "boundPaymentHashOf L ph" and ?u = "invoiceUpdate ph amount alg j"
  have "writes_only (range invoiceKey) (recordHoldInvoice L ph amount alg j)"
    unfolding recordHoldInvoice_def by (intro frames) auto
  from keeps_intents_only [OF this assms] show "intent_at L st' g = intent_at L st g" .
  have "st' = st \<or> intent_at L st ?key = Inr None \<and> (\<exists>y. updateHoldInvoiceRecord L ?key ?u st = (y, st'))"
    using assms by (auto simp: recordHoldInvoice_def bindS_def Let_def getDebitIntent_def intent_at_def check_def bindR_Inl_iff bindR_Inr_iff
        split: sum.splits prod.splits if_splits)
  then show "invoice_at L st' g = invoice_at L st g
      \<or> intent_at L st g = Inr None \<and> invoice_at L st g = Inr None \<and> (\<exists>v. invoice_at L st' g = Inr (Some v) \<and> \<not> hi_released v)"
  proof (elim disjE conjE exE)
    fix y assume i: "intent_at L st ?key = Inr None" and u: "updateHoldInvoiceRecord L ?key ?u st = (y, st')"
    have "cur = None \<and> \<not> hi_released nxt \<or> cur = Some nxt" if "?u cur = Inr nxt" for cur nxt
      using that by (auto simp: invoiceUpdate_def bindR_Inr_iff split: option.splits if_splits)
    from updateHoldInvoiceRecord_same [where g = g and P = "\<lambda>cur nxt. cur = None \<and> \<not> hi_released nxt \<or> cur = Some nxt", OF u this] i show ?thesis by auto
  qed simp
qed

text \<open>
  What the channels hold of an invoice, each at the view holding less, and the time its TLCs leave for it:
  none may expire within the margin the channel's commitment delay calls for.
\<close>

definition held_at :: "lib \<Rightarrow> storage \<Rightarrow> hold_invoice_record \<Rightarrow> int \<Rightarrow> int" where
  "held_at L st v i = (case channel_at L st i of
       Inr (Some r) \<Rightarrow> min (sum_amounts (listHoldInvoiceTlcs L (views r remote_view) v)) (sum_amounts (listHoldInvoiceTlcs L (views r local_view) v))
     | _ \<Rightarrow> 0)"

definition in_time :: "lib \<Rightarrow> storage \<Rightarrow> hold_invoice_record \<Rightarrow> int \<Rightarrow> (int \<Rightarrow> int) \<Rightarrow> int \<Rightarrow> bool" where
  "in_time L st v nowMs margin i \<longleftrightarrow> (case channel_at L st i of
       Inr (Some r) \<Rightarrow> \<forall>view. \<forall>t\<in>set (listHoldInvoiceTlcs L (views r view) v). pv_hashAlgorithm t = hi_hashAlgorithm v
         \<and> (\<exists>delay. get (pinned (pins r)) P_commitmentDelayEpoch = Some delay
              \<and> nowMs + margin (bigInt delay) < bigInt (pv_expirySeconds t) * 1000)
     | _ \<Rightarrow> False)"

definition holds_invoice :: "lib \<Rightarrow> storage \<Rightarrow> hold_invoice_record \<Rightarrow> int \<Rightarrow> (int \<Rightarrow> int) \<Rightarrow> bool" where
  "holds_invoice L st v nowMs margin \<longleftrightarrow> bigInt (hi_amountShannons v) \<le> (\<Sum>i\<in>set (hi_channelIndexes v). held_at L st v i)
     \<and> (\<forall>i\<in>set (hi_channelIndexes v). in_time L st v nowMs margin i)"

lemma heldChannel_Inr:
  assumes "heldChannel L v (releaseChannel (i, r)) = Inr c" "channel_at L st i = Inr (Some r)"
  shows "hc_amount c = held_at L st v i"
    and "checkDeadline nowMs margin c = Inr () \<Longrightarrow> in_time L st v nowMs margin i"
proof -
  have sum: "sumAmounts ts = sum_amounts ts" for ts
    by (simp add: sumAmounts_def foldl_amounts)
  from assms(1) have c: "hc_tlcs c = listHoldInvoiceTlcs L (views r remote_view) v @ listHoldInvoiceTlcs L (views r local_view) v"
      "hc_commitmentDelayEpoch c = get (pinned (pins r)) P_commitmentDelayEpoch"
      "\<forall>t\<in>set (hc_tlcs c). pv_hashAlgorithm t = hi_hashAlgorithm v"
      "hc_amount c = min (sum_amounts (listHoldInvoiceTlcs L (views r remote_view) v)) (sum_amounts (listHoldInvoiceTlcs L (views r local_view) v))"
    by (auto simp: heldChannel_def releaseChannel_def Let_def sum min_def list_ex_iff split: if_splits)
  show "hc_amount c = held_at L st v i" using assms(2) c(4) by (simp add: held_at_def)
  assume ok: "checkDeadline nowMs margin c = Inr ()"
  have "\<exists>delay. get (pinned (pins r)) P_commitmentDelayEpoch = Some delay \<and> nowMs + margin (bigInt delay) < bigInt (pv_expirySeconds t) * 1000"
    if "t \<in> set (hc_tlcs c)" for t
    using that ok c(2) by (auto simp: checkDeadline_def releaseMargin_def checkExpiry_def bindR_Inr_iff forR_Inr_iff Let_def
        split: if_splits option.splits)
  moreover have "t \<in> set (hc_tlcs c)" if "t \<in> set (listHoldInvoiceTlcs L (views r view) v)" for t view
    using that c(1) by (cases view) auto
  ultimately show "in_time L st v nowMs margin i" using assms(2) c(3) by (simp add: in_time_def)
qed

lemma judgeHoldInvoiceRelease_Inr:
  assumes "judgeHoldInvoiceRelease L v (map releaseChannel channels) nowMs margin = Inr ()"
    and "list_all2 (\<lambda>i c. fst c = i \<and> channel_at L st i = Inr (Some (snd c))) (hi_channelIndexes v) channels"
    and "distinct (hi_channelIndexes v)"
  shows "holds_invoice L st v nowMs margin"
proof -
  from assms(1) obtain held where h: "list_all2 (\<lambda>c hc. heldChannel L v (releaseChannel c) = Inr hc) channels held"
    and a: "bigInt (hi_amountShannons v) \<le> foldl (\<lambda>s h. s + hc_amount h) 0 held"
    and d: "\<forall>c\<in>set held. checkDeadline nowMs margin c = Inr ()"
    by (auto simp: judgeHoldInvoiceRelease_def bindR_Inr_iff mapR_Inr_list_all2 list_all2_map1 forR_Inr_iff Let_def split: if_splits)
  have each: "list_all2 (\<lambda>i hc. \<exists>r. channel_at L st i = Inr (Some r) \<and> heldChannel L v (releaseChannel (i, r)) = Inr hc) (hi_channelIndexes v) held"
    by (rule list_all2_trans [OF _ assms(2) h]) (metis prod.collapse)
  then have "list_all2 (\<lambda>i hc. hc_amount hc = held_at L st v i) (hi_channelIndexes v) held"
    by (rule list_all2_mono) (auto dest: heldChannel_Inr(1))
  then have "foldl (\<lambda>s h. s + hc_amount h) a held = a + sum_list (map (held_at L st v) (hi_channelIndexes v))" for a
    by (induction arbitrary: a rule: list_all2_induct) simp_all
  with a assms(3) have "bigInt (hi_amountShannons v) \<le> (\<Sum>i\<in>set (hi_channelIndexes v). held_at L st v i)"
    by (simp add: sum_list_distinct_conv_sum_set)
  moreover have "in_time L st v nowMs margin i" if "i \<in> set (hi_channelIndexes v)" for i
  proof -
    from that each obtain hc r where "hc \<in> set held" "channel_at L st i = Inr (Some r)" "heldChannel L v (releaseChannel (i, r)) = Inr hc"
      unfolding list_all2_conv_all_nth in_set_conv_nth by (metis nth_mem)
    with d show ?thesis by (auto intro: heldChannel_Inr(2))
  qed
  ultimately show ?thesis by (simp add: holds_invoice_def)
qed

lemma invoice_at_distinct:
  assumes "invoice_at L st h = Inr (Some v)"
  shows "distinct (hi_channelIndexes v)"
proof -
  from invoice_format.read_valid [OF assms [unfolded invoice_at_def]]
  have "card (set (hi_channelIndexes v)) = length (hi_channelIndexes v)"
    by (simp add: HOLD_INVOICE_FORMAT_def isHoldInvoicePolicyRecord_def isChannelIndexSet_def)
  then show ?thesis by (rule card_distinct)
qed

lemma readListedChannels_Inr:
  assumes "readListedChannels L js st = (Inr channels, st')"
  shows "list_all2 (\<lambda>i c. fst c = i \<and> channel_at L st i = Inr (Some (snd c))) js channels"
proof -
  have "mapS (listedChannel L) js st = (Inr channels, st')" using assms unfolding readListedChannels_def .
  with mapS_reads [of "listedChannel L" js st channels st'] reads_engine(4)
  have "list_all2 (\<lambda>i c. listedChannel L i st = (Inr c, st)) js channels" by blast
  then show ?thesis
  proof (rule list_all2_mono)
    fix i c assume "listedChannel L i st = (Inr c, st)"
    from listedChannel_Inr [OF this] show "fst c = i \<and> channel_at L st i = Inr (Some (snd c))" by auto
  qed
qed

text \<open>Only an invoice the channels hold is marked, and marking moves nothing else.\<close>

lemma markHoldInvoiceReleased_moves:
  assumes "markHoldInvoiceReleased L ph nowMs margin st = (x, st')"
  shows "intent_at L st' g = intent_at L st g"
    and "invoice_at L st' g = invoice_at L st g
      \<or> (\<exists>v. invoice_at L st g = Inr (Some v) \<and> invoice_at L st' g = Inr (Some (v\<lparr> hi_released := True \<rparr>)) \<and> holds_invoice L st v nowMs margin)"
proof -
  let ?key = "boundPaymentHashOf L ph"
  have "writes_only (range invoiceKey) (markHoldInvoiceReleased L ph nowMs margin)"
    unfolding markHoldInvoiceReleased_def by (intro frames) auto
  from keeps_intents_only [OF this assms] show "intent_at L st' g = intent_at L st g" .
  define pre where "pre = bindS (liftS (assertHexBytes ''paymentHashHex'' ph 32)) (\<lambda>_. requireHoldInvoice L ph)"
  have all: "markHoldInvoiceReleased L ph nowMs margin st = bindS pre (\<lambda>current.
     if hi_released current then doneS ()
     else
       bindS (readListedChannels L (hi_channelIndexes current)) (\<lambda>channels.
       bindS (liftS (bindR (assertUnsignedInteger ''timing.now()'' nowMs MAX_SAFE_INTEGER) (\<lambda>_.
              judgeHoldInvoiceRelease L current (map releaseChannel channels) nowMs margin))) (\<lambda>_.
       bindS (updateHoldInvoiceRecord L ?key releasedUpdate) (\<lambda>_. doneS ())))) st"
    unfolding markHoldInvoiceReleased_def pre_def bindS_assoc ..
  obtain y where y: "pre st = (y, st)"
    using reads_onlyD [of pre] by (metis pre_def prod.exhaust reader.bind reader.lift(1) reads_engine(6))
  have "st' = st \<or> (\<exists>v z. invoice_at L st ?key = Inr (Some v) \<and> holds_invoice L st v nowMs margin
      \<and> updateHoldInvoiceRecord L ?key releasedUpdate st = (z, st'))"
  proof (cases y)
    case (Inl e)
    with assms show ?thesis unfolding all bindS_run [of pre st, OF y] by simp
  next
    case (Inr v)
    with y have "pre st = (Inr v, st)" by simp
    then have v: "invoice_at L st ?key = Inr (Some v)"
      unfolding pre_def requireHoldInvoice_def
      by (auto simp: bindS_Inr_iff bindR_Inr_iff dest!: getHoldInvoiceRecord_Inr split: option.splits)
    obtain z st1 where z: "readListedChannels L (hi_channelIndexes v) st = (z, st1)" by fastforce
    have st1: "st1 = st" by (rule reads_onlyD [OF reads_engine(5) z])
    show ?thesis
    proof (cases z)
      case (Inl e)
      with assms st1 show ?thesis unfolding all bindS_run [of pre st, OF y] Inr
        by (auto simp: bindS_run [of "readListedChannels L (hi_channelIndexes v)" st, OF z] Inl split: if_splits)
    next
      case c: (Inr channels)
      note judged = judgeHoldInvoiceRelease_Inr [OF _ readListedChannels_Inr [OF z [unfolded c]] invoice_at_distinct [OF v]]
      obtain u st2 where u: "updateHoldInvoiceRecord L ?key releasedUpdate st = (u, st2)" by fastforce
      from assms st1 v judged u show ?thesis unfolding all bindS_run [of pre st, OF y] Inr
        by (auto simp: z c bindS_def bindR_Inr_iff split: if_splits sum.splits)
    qed
  qed
  then show "invoice_at L st' g = invoice_at L st g
      \<or> (\<exists>v. invoice_at L st g = Inr (Some v) \<and> invoice_at L st' g = Inr (Some (v\<lparr> hi_released := True \<rparr>)) \<and> holds_invoice L st v nowMs margin)"
  proof (elim disjE exE conjE)
    fix v z assume v: "invoice_at L st ?key = Inr (Some v)" "holds_invoice L st v nowMs margin"
      and u: "updateHoldInvoiceRecord L ?key releasedUpdate st = (z, st')"
    have "\<exists>w. cur = Some w \<and> nxt = w\<lparr> hi_released := True \<rparr>" if "releasedUpdate cur = Inr nxt" for cur nxt
      using that by (auto simp: releasedUpdate_def split: option.splits)
    from updateHoldInvoiceRecord_same [where g = g and P = "\<lambda>cur nxt. \<exists>w. cur = Some w \<and> nxt = w\<lparr> hi_released := True \<rparr>", OF u this] v
    show ?thesis by auto
  qed simp
qed

section \<open>Payments over a run\<close>

lemma recordDebitIntent_moves:
  assumes "recordDebitIntent L ph mx st = (x, st')"
  shows "invoice_at L st' g = invoice_at L st g \<and> (intent_at L st' g = intent_at L st g \<or> invoice_at L st g = Inr None)"
  using assms
proof (cases rule: recordDebitIntent_cases)
  case (recorded cur)
  have "invoice_at L st' g = invoice_at L st g" by (intro at_cong(3)) (simp add: recorded(5))
  moreover have "intent_at L st' g = intent_at L st g \<or> invoice_at L st g = Inr None"
  proof (cases "g = boundPaymentHashOf L ph")
    case False
    then have "st' (intentKey g) = st (intentKey g)" by (simp add: recorded(5))
    from at_cong(2) [of st' g st, OF this] show ?thesis by simp
  qed (simp add: recorded(3))
  ultimately show ?thesis ..
qed simp

text \<open>What an operation may do to the invoice of a hash, and what a new record of one kind needs of the other.\<close>

lemma perform_invoice:
  "invoice_kept (invoice_at L st h) (invoice_at L (perform L en op st) h)
    \<or> intent_at L st h = Inr None \<and> invoice_at L st h = Inr None
        \<and> (\<exists>v. invoice_at L (perform L en op st) h = Inr (Some v) \<and> \<not> hi_released v) \<and> intent_at L (perform L en op st) h = Inr None
    \<or> (\<exists>ph nowMs margin v. op = MarkHoldInvoiceReleased ph nowMs margin \<and> invoice_at L st h = Inr (Some v)
        \<and> invoice_at L (perform L en op st) h = Inr (Some (v\<lparr> hi_released := True \<rparr>)) \<and> holds_invoice L st v nowMs margin)"
proof (cases "moves_payments op")
  case False
  from settled_perform [OF this, of L st en] show ?thesis by (simp add: settled_def)
next
  case True
  then consider ph mx where "op = RecordDebitIntent ph mx" | ph a alg j where "op = RecordHoldInvoice ph a alg j"
    | ph nowMs margin where "op = MarkHoldInvoiceReleased ph nowMs margin"
    by (cases op) auto
  then show ?thesis
  proof cases
    case (1 ph mx)
    obtain x st' where "recordDebitIntent L ph mx st = (x, st')" by fastforce
    with recordDebitIntent_moves [OF this, of h] 1 show ?thesis by auto
  next
    case (2 ph a alg j)
    obtain x st' where "recordHoldInvoice L ph a alg j st = (x, st')" by fastforce
    with recordHoldInvoice_moves [OF this, of h] 2 show ?thesis by auto
  next
    case (3 ph nowMs margin)
    obtain x st' where "markHoldInvoiceReleased L ph nowMs margin st = (x, st')" by fastforce
    with markHoldInvoiceReleased_moves(2) [OF this, of h] 3 show ?thesis by auto
  qed
qed

lemma perform_intent:
  "intent_kept (intent_at L st h) (intent_at L (perform L en op st) h)
    \<or> invoice_at L st h = Inr None \<and> invoice_at L (perform L en op st) h = Inr None"
proof (cases "moves_payments op")
  case False
  from settled_perform [OF this, of L st en] show ?thesis by (simp add: settled_def)
next
  case True
  then consider ph mx where "op = RecordDebitIntent ph mx" | ph a alg j where "op = RecordHoldInvoice ph a alg j"
    | ph nowMs margin where "op = MarkHoldInvoiceReleased ph nowMs margin"
    by (cases op) auto
  then show ?thesis
  proof cases
    case (1 ph mx)
    obtain x st' where "recordDebitIntent L ph mx st = (x, st')" by fastforce
    with recordDebitIntent_moves [OF this, of h] 1 show ?thesis by auto
  next
    case (2 ph a alg j)
    obtain x st' where "recordHoldInvoice L ph a alg j st = (x, st')" by fastforce
    with recordHoldInvoice_moves(1) [OF this, of h] 2 show ?thesis by auto
  next
    case (3 ph nowMs margin)
    obtain x st' where "markHoldInvoiceReleased L ph nowMs margin st = (x, st')" by fastforce
    with markHoldInvoiceReleased_moves(1) [OF this, of h] 3 show ?thesis by auto
  qed
qed

text \<open>C15 A payment is never an own invoice. Whatever methods run on an empty storage, no hash has both a debit
  intent and a hold invoice of the device: it never pays itself, and never collects what it sends.\<close>

theorem payment_is_no_own_invoice:
  "\<not> (\<exists>d v. intent_at L (performed L en ops) h = Inr (Some d) \<and> invoice_at L (performed L en ops) h = Inr (Some v))"
proof (induction ops rule: rev_induct)
  case (snoc op ops)
  let ?st = "performed L en ops"
  from perform_invoice [of L ?st h en op] perform_intent [of L ?st h en op] snoc.IH show ?case
    by (auto simp: invoice_kept_def intent_kept_def) metis+
qed simp

text \<open>Runs from any storage.\<close>

lemma run_invoice:
  assumes "invoice_at L st h = Inr (Some v)"
  shows "\<exists>v'. invoice_at L (fold (perform L en) ops st) h = Inr (Some v') \<and> hi_paymentHash v' = hi_paymentHash v
    \<and> hi_amountShannons v' = hi_amountShannons v \<and> hi_hashAlgorithm v' = hi_hashAlgorithm v
    \<and> hi_invoiceIndex v' = hi_invoiceIndex v \<and> (hi_released v \<longrightarrow> hi_released v')"
proof (induction ops rule: rev_induct)
  case Nil
  show ?case using assms by simp
next
  case (snoc op ops)
  let ?st = "fold (perform L en) ops st"
  from snoc.IH obtain w where "invoice_at L ?st h = Inr (Some w)" "hi_paymentHash w = hi_paymentHash v"
    "hi_amountShannons w = hi_amountShannons v" "hi_hashAlgorithm w = hi_hashAlgorithm v" "hi_invoiceIndex w = hi_invoiceIndex v"
    "hi_released v \<longrightarrow> hi_released w" by blast
  with perform_invoice [of L ?st h en op] show ?case by (auto simp: invoice_kept_def)
qed

definition released_at :: "lib \<Rightarrow> storage \<Rightarrow> string \<Rightarrow> bool" where
  "released_at L st h = (case invoice_at L st h of Inr (Some v) \<Rightarrow> hi_released v | _ \<Rightarrow> False)"

lemma released_at_iff: "released_at L st h \<longleftrightarrow> (\<exists>v. invoice_at L st h = Inr (Some v) \<and> hi_released v)"
  by (auto simp: released_at_def split: sum.splits option.splits)

text \<open>C36 An invoice keeps its terms. Once recorded, a hold invoice keeps its hash, amount, algorithm and index
  over any sequence of methods, and once released it stays released, for the commitments signed since
  rely on it.\<close>

theorem invoice_terms_stand:
  assumes "invoice_at L st h = Inr (Some v)"
  shows "\<exists>v'. invoice_at L (fold (perform L en) ops st) h = Inr (Some v') \<and> hi_paymentHash v' = hi_paymentHash v
    \<and> hi_amountShannons v' = hi_amountShannons v \<and> hi_hashAlgorithm v' = hi_hashAlgorithm v
    \<and> hi_invoiceIndex v' = hi_invoiceIndex v \<and> hi_released v \<le> hi_released v'"
  using run_invoice [OF assms, of en ops] unfolding le_bool_def .

text \<open>C8 Release needs holding. An invoice that becomes released over a sequence of methods was marked by one of
  them, and just then its channels, each at the view holding less, held the invoice's amount, every TLC
  under the invoice's algorithm and expiring later than the margin its channel's delay calls for.\<close>

theorem release_needs_holding:
  assumes "\<not> released_at L st h" and "released_at L (fold (perform L en) ops st) h"
  shows "\<exists>ops1 ph nowMs margin ops2 v. ops = ops1 @ MarkHoldInvoiceReleased ph nowMs margin # ops2
    \<and> invoice_at L (fold (perform L en) ops1 st) h = Inr (Some v)
    \<and> holds_invoice L (fold (perform L en) ops1 st) v nowMs margin"
  using assms(2)
proof (induction ops rule: rev_induct)
  case Nil
  with assms(1) show ?case by simp
next
  case (snoc op ops)
  let ?st = "fold (perform L en) ops st"
  show ?case
  proof (cases "released_at L ?st h")
    case True
    from snoc.IH [OF this] show ?thesis by (metis append_Cons append_assoc)
  next
    case False
    with perform_invoice [of L ?st h en op] snoc.prems obtain ph nowMs margin v where
      "op = MarkHoldInvoiceReleased ph nowMs margin" "invoice_at L ?st h = Inr (Some v)" "holds_invoice L ?st v nowMs margin"
      by (auto simp: released_at_iff invoice_kept_def)
    then show ?thesis by blast
  qed
qed

section \<open>A release at concrete values\<close>

definition sample_held_view :: policy_view_snapshot where
  "sample_held_view = \<lparr> exposureShannons = ''0'',
     tlcs = [\<lparr> pv_direction = received, pv_hashAlgorithm = CkbHash, pv_boundPaymentHash = replicate 40 CHR ''0'',
       pv_fullPaymentHash = None, pv_amountShannons = ''30'', pv_expirySeconds = ''5'' \<rparr>],
     chargedShannons = [], creditedShannons = [] \<rparr>"

definition sample_holding :: channel_policy_record where
  "sample_holding = sample_registered_record\<lparr> views := (\<lambda>_. sample_held_view),
     pins := (pins sample_registered_record)\<lparr> pinned := [(P_commitmentDelayEpoch, ''1'')] \<rparr> \<rparr>"

definition sample_invoice :: hold_invoice_record where
  "sample_invoice = \<lparr> hi_paymentHash = replicate 64 CHR ''0'', hi_amountShannons = ''30'', hi_hashAlgorithm = CkbHash,
     hi_invoiceIndex = 0, hi_released = False, hi_channelIndexes = [0] \<rparr>"

definition sample_held_store :: storage where
  "sample_held_store = (\<lambda>_. None)(channelKey 0 := Some (StoredChannel sample_holding),
     invoiceKey (replicate 40 CHR ''0'') := Some (StoredInvoice sample_invoice))"

definition sample_release :: engine_op where
  "sample_release = MarkHoldInvoiceReleased (replicate 64 CHR ''0'') 0 (\<lambda>_. 1000)"

lemma sample_held_guards:
  "isChannelPolicyRecord demo_lib sample_holding" "isHoldInvoicePolicyRecord sample_invoice"
  "isHoldInvoicePolicyRecord (sample_invoice\<lparr> hi_released := True \<rparr>)"
  "boundPaymentHashOf demo_lib (replicate 64 CHR ''0'') = replicate 40 CHR ''0''"
  "isHexBytes (replicate 64 CHR ''0'') 32" "isHexBytes (replicate 40 CHR ''0'') 20"
  "judgeHoldInvoiceRelease demo_lib sample_invoice [releaseChannel (0, sample_holding)] 0 (\<lambda>_. 1000) = Inr ()"
  by code_simp+

lemma sample_held_invoice:
  "invoice_at demo_lib sample_held_store (replicate 40 CHR ''0'') = Inr (Some sample_invoice)"
  using sample_held_guards(2,4)
  by (simp add: invoice_at_def readRecord_def parseRecord_def HOLD_INVOICE_FORMAT_def sample_held_store_def sample_invoice_def invoiceKey_def)

lemma sample_invoice_fields [simp]:
  "hi_paymentHash sample_invoice = replicate 64 CHR ''0''" "hi_released sample_invoice = False" "hi_channelIndexes sample_invoice = [0]"
  by (simp_all add: sample_invoice_def)

lemma sample_released:
  "perform demo_lib sample_engine sample_release sample_held_store
     = sample_held_store(invoiceKey (replicate 40 CHR ''0'') := Some (StoredInvoice (sample_invoice\<lparr> hi_released := True \<rparr>)))"
proof -
  have now: "assertUnsignedInteger ''timing.now()'' 0 MAX_SAFE_INTEGER = Inr ()" "assertUnsignedInteger ''channelIndex'' 0 MAX_CHANNEL_INDEX = Inr ()"
    by (simp_all add: assertUnsignedInteger_def isUnsignedInteger_def)
  have hash: "assertHexBytes n (replicate 64 CHR ''0'') 32 = Inr ()" "assertHexBytes n (replicate 40 CHR ''0'') 20 = Inr ()" for n
    using sample_held_guards(5,6) by (simp_all add: assertHexBytes_def)
  have inv: "readRecord (invoiceKey (replicate 40 CHR ''0'')) (HOLD_INVOICE_FORMAT demo_lib) sample_held_store = Inr (Some sample_invoice)"
    using sample_held_invoice by (simp add: invoice_at_def)
  have ch: "readRecord (channelKey 0) (CHANNEL_RECORD_FORMAT demo_lib) sample_held_store = Inr (Some sample_holding)"
    using sample_held_guards(1) by (simp add: readRecord_def parseRecord_def CHANNEL_RECORD_FORMAT_def sample_held_store_def)
  have req: "requireHoldInvoice demo_lib (replicate 64 CHR ''0'') sample_held_store = (Inr sample_invoice, sample_held_store)"
    by (simp add: requireHoldInvoice_def getHoldInvoiceRecord_def bindS_def sample_held_guards(4) hash inv assertSameHash_def)
  have list: "readListedChannels demo_lib [0] sample_held_store = (Inr [(0, sample_holding)], sample_held_store)"
    by (simp add: readListedChannels_def listedChannel_def getChannelRecord_def bindS_def now ch)
  have fmt: "rf_is (HOLD_INVOICE_FORMAT demo_lib) (sample_invoice\<lparr> hi_released := True \<rparr>)"
    "rf_belongsAt (HOLD_INVOICE_FORMAT demo_lib) (invoiceKey (replicate 40 CHR ''0'')) (sample_invoice\<lparr> hi_released := True \<rparr>)"
    "writeRecord key (HOLD_INVOICE_FORMAT demo_lib) v st = st(key := Some (StoredInvoice v))" for key v st
    using sample_held_guards(3,4) by (simp_all add: HOLD_INVOICE_FORMAT_def writeRecord_def invoiceKey_def)
  have changed: "sample_invoice\<lparr> hi_released := True \<rparr> \<noteq> sample_invoice"
    by (simp add: sample_invoice_def)
  have upd: "updateHoldInvoiceRecord demo_lib (replicate 40 CHR ''0'') releasedUpdate sample_held_store
      = (Inr (sample_invoice\<lparr> hi_released := True \<rparr>), sample_held_store(invoiceKey (replicate 40 CHR ''0'') := Some (StoredInvoice (sample_invoice\<lparr> hi_released := True \<rparr>))))"
    by (simp add: updateHoldInvoiceRecord_def bindS_def hash updateAt_def inv releasedUpdate_def fmt changed)
  show ?thesis
    by (simp add: sample_release_def markHoldInvoiceReleased_def bindS_def hash req list now sample_held_guards(4,7) upd)
qed

lemma invoice_terms_stand_witness:
  "\<exists>v'. invoice_at demo_lib (fold (perform demo_lib sample_engine) [sample_release] sample_held_store) (replicate 40 CHR ''0'') = Inr (Some v')
    \<and> hi_paymentHash v' = hi_paymentHash sample_invoice \<and> hi_amountShannons v' = hi_amountShannons sample_invoice
    \<and> hi_hashAlgorithm v' = hi_hashAlgorithm sample_invoice \<and> hi_invoiceIndex v' = hi_invoiceIndex sample_invoice
    \<and> hi_released sample_invoice \<le> hi_released v'"
  by (rule invoice_terms_stand [OF sample_held_invoice])

lemma release_needs_holding_witness:
  "\<exists>ops1 ph nowMs margin ops2 v. [sample_release] = ops1 @ MarkHoldInvoiceReleased ph nowMs margin # ops2
    \<and> invoice_at demo_lib (fold (perform demo_lib sample_engine) ops1 sample_held_store) (replicate 40 CHR ''0'') = Inr (Some v)
    \<and> holds_invoice demo_lib (fold (perform demo_lib sample_engine) ops1 sample_held_store) v nowMs margin"
proof (rule release_needs_holding)
  show "\<not> released_at demo_lib sample_held_store (replicate 40 CHR ''0'')"
    by (simp add: released_at_def sample_held_invoice)
  show "released_at demo_lib (fold (perform demo_lib sample_engine) [sample_release] sample_held_store) (replicate 40 CHR ''0'')"
    using sample_held_guards(3,4)
    by (simp add: sample_released released_at_def invoice_at_def readRecord_def parseRecord_def HOLD_INVOICE_FORMAT_def invoiceKey_def)
qed

end
