(* ===== verification/Coder.thy ===== *)
theory Coder
  imports Common
begin

text \<open>
  The adaptive arithmetic coder of \<^verbatim>\<open>invoice/arithmetic-coder.ts\<close>: its model of byte counts, the
  double-precision arithmetic that shares a range out, the encoder with its owed bits and the decoder
  over a zero-padded input. Bits are truth values; a loop that might not end is a \<open>partial_function\<close>,
  so \<open>None\<close> is a call that never returns.
\<close>

section \<open>Doubles\<close>

text \<open>
  A double in the normal range is an integer of at most 53 bits over a power of two. A quotient is
  scaled until its mantissa has 53 bits and rounded to nearest, ties to even; a product is exact in the
  integers and cut to 53 bits the same way.
\<close>

definition roundHalfEven :: "int \<Rightarrow> int \<Rightarrow> int" where
  "roundHalfEven a b = (let q = a div b; r = a mod b in if 2 * r < b \<or> 2 * r = b \<and> even q then q else q + 1)"

text \<open>How often \<open>a\<close>, positive, is doubled to reach \<open>b\<close>.\<close>

function doublings :: "int \<Rightarrow> int \<Rightarrow> nat" where
  "doublings a b = (if a \<le> 0 \<or> b \<le> a then 0 else Suc (doublings (2 * a) b))"
  by pat_completeness auto
termination by (relation "measure (\<lambda>(a, b). nat (b - a))") auto

declare doublings.simps [simp del]

text \<open>How many low bits a positive integer has beyond 53.\<close>

function excessBits :: "int \<Rightarrow> nat" where
  "excessBits p = (if p < 2 ^ 53 then 0 else Suc (excessBits (p div 2)))"
  by pat_completeness auto
termination by (relation "measure nat") auto

declare excessBits.simps [simp del]

text \<open>\<^verbatim>\<open>Math.floor(width * (part / whole))\<close>, for \<open>0 \<le> part \<le> whole\<close>.\<close>

definition floorShare :: "int \<Rightarrow> int \<Rightarrow> int \<Rightarrow> int" where
  "floorShare width part whole =
     (let e = 52 + doublings part whole;
          m = roundHalfEven (part * 2 ^ e) whole;
          p = width * m;
          s = excessBits p
      in roundHalfEven p (2 ^ s) * 2 ^ s div 2 ^ e)"

section \<open>The model\<close>

abbreviation PRECISION :: nat where "PRECISION \<equiv> 48"
abbreviation FULL :: int where "FULL \<equiv> 2 ^ 48"
abbreviation HALF :: int where "HALF \<equiv> 2 ^ 47"
abbreviation QUARTER :: int where "QUARTER \<equiv> 2 ^ 46"
abbreviation THREE_QUARTERS :: int where "THREE_QUARTERS \<equiv> 3 * 2 ^ 46"
abbreviation END_OF_DATA :: nat where "END_OF_DATA \<equiv> 256"
abbreviation SYMBOLS :: nat where "SYMBOLS \<equiv> 257"
abbreviation MAX_INVOICE_DATA_LENGTH :: nat where "MAX_INVOICE_DATA_LENGTH \<equiv> 16384"

record coder_range =
  rg_low :: int
  rg_high :: int

record coder_model =
  md_counts :: "int list"
  md_total :: int

definition newCoderModel :: coder_model where
  "newCoderModel = \<lparr> md_counts = replicate SYMBOLS 1, md_total = 257 \<rparr>"

text \<open>\<^verbatim>\<open>counts[symbol] ?? 0\<close>.\<close>

definition countOf :: "coder_model \<Rightarrow> nat \<Rightarrow> int" where
  "countOf m symbol = (if symbol < length (md_counts m) then md_counts m ! symbol else 0)"

definition share :: "coder_model \<Rightarrow> coder_range \<Rightarrow> int \<Rightarrow> int \<Rightarrow> coder_range" where
  "share m r below count =
     (let width = rg_high r - rg_low r
      in \<lparr> rg_low = rg_low r + floorShare width below (md_total m),
           rg_high = rg_low r + floorShare width (below + count) (md_total m) \<rparr>)"

definition subRange :: "coder_model \<Rightarrow> coder_range \<Rightarrow> nat \<Rightarrow> coder_range" where
  "subRange m r symbol = share m r (sum_list (take symbol (md_counts m))) (countOf m symbol)"

text \<open>\<^verbatim>\<open>find\<close> walks the symbols below the end marker.\<close>

fun findLoop :: "coder_model \<Rightarrow> coder_range \<Rightarrow> int \<Rightarrow> nat \<Rightarrow> int \<Rightarrow> int list \<Rightarrow> nat \<times> coder_range" where
  "findLoop m r v symbol below [] = (END_OF_DATA, share m r below 0)"
| "findLoop m r v symbol below (c # cs) =
     (if symbol < END_OF_DATA
      then let candidate = share m r below c
           in if rg_low candidate \<le> v \<and> v < rg_high candidate then (symbol, candidate)
              else findLoop m r v (Suc symbol) (below + c) cs
      else (END_OF_DATA, share m r below c))"

definition findSymbol :: "coder_model \<Rightarrow> coder_range \<Rightarrow> int \<Rightarrow> nat \<times> coder_range" where
  "findSymbol m r v = findLoop m r v 0 0 (md_counts m)"

definition updateModel :: "coder_model \<Rightarrow> nat \<Rightarrow> coder_model" where
  "updateModel m symbol = \<lparr> md_counts = (md_counts m)[symbol := countOf m symbol + 1], md_total = md_total m + 1 \<rparr>"

section \<open>Bits out and in\<close>

record coder_output =
  co_bits :: "bool list"
  co_pending :: nat

definition emit :: "bool \<Rightarrow> coder_output \<Rightarrow> coder_output" where
  "emit b out = \<lparr> co_bits = co_bits out @ b # replicate (co_pending out) (\<not> b), co_pending = 0 \<rparr>"

definition packBits :: "bool list \<Rightarrow> bytes" where
  "packBits bs = foldl (\<lambda>out (i, b). out[i div 8 := or (out ! (i div 8)) (push_bit (7 - i mod 8) (of_bool b))])
     (zero_bytes ((length bs + 7) div 8)) (entries bs)"

record coder_input =
  ip_bytes :: bytes
  ip_position :: nat
  ip_padding :: nat

definition newCoderInput :: "bytes \<Rightarrow> coder_input" where
  "newCoderInput bs = \<lparr> ip_bytes = bs, ip_position = 0, ip_padding = PRECISION \<rparr>"

definition readBit :: "coder_input \<Rightarrow> (bool \<times> coder_input) res" where
  "readBit inp =
     (if ip_position inp < length (ip_bytes inp) * 8
      then Inr (bit (ip_bytes inp ! (ip_position inp div 8)) (7 - ip_position inp mod 8),
                inp\<lparr> ip_position := ip_position inp + 1 \<rparr>)
      else if ip_padding inp = 0 then Inl (InvoiceErr ''compressed'' ''must reach the coder's end marker before its input runs out'')
      else Inr (False, inp\<lparr> ip_padding := ip_padding inp - 1 \<rparr>))"

section \<open>Encoder\<close>

partial_function (option) narrowHalves :: "coder_range \<Rightarrow> coder_output \<Rightarrow> (coder_range \<times> coder_output) option" where
  "narrowHalves r out =
     (if rg_high r < HALF \<or> rg_low r > HALF
      then (let upper = rg_low r > HALF; offset = (if upper then HALF else 0)
            in narrowHalves \<lparr> rg_low = (rg_low r - offset) * 2, rg_high = (rg_high r - offset) * 2 \<rparr> (emit upper out))
      else Some (r, out))"

partial_function (option) narrowMiddle :: "coder_range \<Rightarrow> coder_output \<Rightarrow> (coder_range \<times> coder_output) option" where
  "narrowMiddle r out =
     (if rg_low r > QUARTER \<and> rg_high r < THREE_QUARTERS
      then narrowMiddle \<lparr> rg_low = (rg_low r - QUARTER) * 2, rg_high = (rg_high r - QUARTER) * 2 \<rparr>
             (out\<lparr> co_pending := co_pending out + 1 \<rparr>)
      else Some (r, out))"

fun encodeLoop :: "nat list \<Rightarrow> coder_model \<Rightarrow> coder_range \<Rightarrow> coder_output \<Rightarrow> (coder_range \<times> coder_output) option" where
  "encodeLoop [] m r out = Some (r, out)"
| "encodeLoop (symbol # symbols) m r out =
     (case narrowHalves (subRange m r symbol) out of
        None \<Rightarrow> None
      | Some (r1, out1) \<Rightarrow>
          (case narrowMiddle r1 out1 of
             None \<Rightarrow> None
           | Some (r2, out2) \<Rightarrow> encodeLoop symbols (if symbol \<noteq> END_OF_DATA then updateModel m symbol else m) r2 out2))"

definition arEncompress :: "bytes \<Rightarrow> bytes option" where
  "arEncompress d =
     (case encodeLoop (map unat d @ [END_OF_DATA]) newCoderModel \<lparr> rg_low = 0, rg_high = FULL \<rparr> \<lparr> co_bits = [], co_pending = 0 \<rparr> of
        None \<Rightarrow> None
      | Some (r, out) \<Rightarrow>
          Some (packBits (co_bits (emit (\<not> rg_low r \<le> QUARTER) (out\<lparr> co_pending := co_pending out + 1 \<rparr>)))))"

section \<open>Decoder\<close>

fun readBits :: "nat \<Rightarrow> int \<Rightarrow> coder_input \<Rightarrow> (int \<times> coder_input) res" where
  "readBits 0 v inp = Inr (v, inp)"
| "readBits (Suc n) v inp = bindR (readBit inp) (\<lambda>(b, inp). readBits n (v * 2 + of_bool b) inp)"

partial_function (option) readHalves :: "coder_range \<Rightarrow> int \<Rightarrow> coder_input \<Rightarrow> (coder_range \<times> int \<times> coder_input) res option" where
  "readHalves r v inp =
     (if rg_high r < HALF \<or> rg_low r > HALF
      then (let offset = (if rg_low r > HALF then HALF else 0)
            in case readBit inp of
                 Inl e \<Rightarrow> Some (Inl e)
               | Inr (b, inp') \<Rightarrow>
                   readHalves \<lparr> rg_low = (rg_low r - offset) * 2, rg_high = (rg_high r - offset) * 2 \<rparr>
                     ((v - offset) * 2 + of_bool b) inp')
      else Some (Inr (r, v, inp)))"

partial_function (option) readMiddle :: "coder_range \<Rightarrow> int \<Rightarrow> coder_input \<Rightarrow> (coder_range \<times> int \<times> coder_input) res option" where
  "readMiddle r v inp =
     (if rg_low r > QUARTER \<and> rg_high r < THREE_QUARTERS
      then (case readBit inp of
              Inl e \<Rightarrow> Some (Inl e)
            | Inr (b, inp') \<Rightarrow>
                readMiddle \<lparr> rg_low = (rg_low r - QUARTER) * 2, rg_high = (rg_high r - QUARTER) * 2 \<rparr>
                  ((v - QUARTER) * 2 + of_bool b) inp')
      else Some (Inr (r, v, inp)))"

partial_function (option) decodeLoop ::
    "coder_model \<Rightarrow> coder_range \<Rightarrow> int \<Rightarrow> coder_input \<Rightarrow> bytes \<Rightarrow> bytes res option" where
  "decodeLoop m r v inp out =
     (case findSymbol m r v of (symbol, symbolRange) \<Rightarrow>
        if symbol = END_OF_DATA then Some (Inr out)
        else (case readHalves symbolRange v inp of
                None \<Rightarrow> None
              | Some (Inl e) \<Rightarrow> Some (Inl e)
              | Some (Inr (r1, v1, inp1)) \<Rightarrow>
                  (case readMiddle r1 v1 inp1 of
                     None \<Rightarrow> None
                   | Some (Inl e) \<Rightarrow> Some (Inl e)
                   | Some (Inr (r2, v2, inp2)) \<Rightarrow>
                       if length out + 1 > MAX_INVOICE_DATA_LENGTH
                       then Some (Inl (InvoiceErr ''compressed'' ''must decompress to at most 16384 bytes''))
                       else decodeLoop (updateModel m symbol) r2 v2 inp2 (out @ [of_nat symbol]))))"

definition arDecompress :: "bytes \<Rightarrow> bytes res option" where
  "arDecompress compressed =
     (case readBits PRECISION 0 (newCoderInput compressed) of
        Inl e \<Rightarrow> Some (Inl e)
      | Inr (v, inp) \<Rightarrow> decodeLoop newCoderModel \<lparr> rg_low = 0, rg_high = FULL \<rparr> v inp [])"

end
