(* ===== verification/Bech32m.thy ===== *)
theory Bech32m
  imports Common
begin

text \<open>
  The bech32m envelope of an invoice, \<^verbatim>\<open>invoice/bech32m.ts\<close>: the checksum, the string form, and the
  regrouping between bytes and five-bit groups. Checksums are 32-bit words, for the bit operators of the
  source work on 32 bits; groups are natural numbers.
\<close>

unbundle bit_operations_syntax

definition refuseInvoice :: "string \<Rightarrow> string \<Rightarrow> 'a res" where
  "refuseInvoice path reason = Inl (InvoiceErr path reason)"

definition CHARSET :: string where
  "CHARSET = ''qpzry9x8gf2tvdw0s3jn54khce6mua7l''"

abbreviation SEPARATOR :: char where "SEPARATOR \<equiv> CHR ''1''"
abbreviation CHECKSUM_GROUPS :: nat where "CHECKSUM_GROUPS \<equiv> 6"

definition BECH32M_CONSTANT :: "32 word" where
  "BECH32M_CONSTANT = 0x2bc830a3"

definition GENERATOR :: "32 word list" where
  "GENERATOR = [0x3b6a57b2, 0x26508e6d, 0x1ea119fa, 0x3d4233dd, 0x2a1462b3]"

text \<open>One value of the checksum polynomial.\<close>

definition polymodStep :: "32 word \<Rightarrow> 32 word \<Rightarrow> 32 word" where
  "polymodStep checksum value =
     (let top = drop_bit 25 checksum
      in foldl (\<lambda>c (i, g). if (drop_bit i top) AND 1 \<noteq> 0 then c XOR g else c)
           ((push_bit 5 (checksum AND 0x1ffffff)) XOR value) (entries GENERATOR))"

definition polymod :: "nat list \<Rightarrow> 32 word" where
  "polymod values = foldl (\<lambda>c v. polymodStep c (of_nat v)) 1 values"

definition expandHrp :: "string \<Rightarrow> nat list" where
  "expandHrp hrp = (let codes = map of_char hrp in map (drop_bit 5) codes @ 0 # map (\<lambda>code. code AND 31) codes)"

definition UPPERCASE :: string where
  "UPPERCASE = ''ABCDEFGHIJKLMNOPQRSTUVWXYZ''"

text \<open>\<^verbatim>\<open>indexOf\<close> and \<^verbatim>\<open>lastIndexOf\<close> of a character, -1 where it does not occur.\<close>

fun indexOf :: "char \<Rightarrow> string \<Rightarrow> int" where
  "indexOf c [] = -1"
| "indexOf c (x # xs) = (if x = c then 0 else let i = indexOf c xs in if i = -1 then -1 else i + 1)"

fun lastIndexOf :: "char \<Rightarrow> string \<Rightarrow> int" where
  "lastIndexOf c [] = -1"
| "lastIndexOf c (x # xs) = (let i = lastIndexOf c xs in if i \<noteq> -1 then i + 1 else if x = c then 0 else -1)"

definition charAt :: "string \<Rightarrow> nat \<Rightarrow> string" where
  "charAt s i = (if i < length s then [s ! i] else [])"

record invoice_bech32m_parts =
  bp_hrp :: string
  bp_groups :: "nat list"

definition decodeInvoiceBech32m :: "string \<Rightarrow> invoice_bech32m_parts res" where
  "decodeInvoiceBech32m txt =
     (if list_ex (\<lambda>c. c \<in> set UPPERCASE) txt then refuseInvoice ''invoice'' ''must be lowercase''
      else
        let separator = lastIndexOf SEPARATOR txt in
        if separator < 1 then refuseInvoice ''invoice'' ''must have a human-readable part before the last 1''
        else
          let hrp = take (nat separator) txt;
              found = map (\<lambda>c. indexOf c CHARSET) (drop (nat separator + 1) txt);
              groups = map nat found
          in if -1 \<in> set found then refuseInvoice ''invoice'' ''must write its data in the bech32 charset''
             else if length groups < CHECKSUM_GROUPS then refuseInvoice ''invoice'' ''must end with a six-character checksum''
             else if polymod (expandHrp hrp @ groups) \<noteq> BECH32M_CONSTANT
             then refuseInvoice ''invoice'' ''must carry a valid bech32m checksum''
             else Inr \<lparr> bp_hrp = hrp, bp_groups = take (length groups - CHECKSUM_GROUPS) groups \<rparr>)"

definition checksumOf :: "string \<Rightarrow> nat list \<Rightarrow> nat list" where
  "checksumOf hrp groups =
     (let residue = polymod (expandHrp hrp @ groups @ replicate CHECKSUM_GROUPS 0) XOR BECH32M_CONSTANT
      in map (\<lambda>i. unat (drop_bit (5 * (CHECKSUM_GROUPS - 1 - i)) residue AND 31)) [0..<CHECKSUM_GROUPS])"

definition encodeInvoiceBech32m :: "string \<Rightarrow> nat list \<Rightarrow> string" where
  "encodeInvoiceBech32m hrp groups = hrp @ [SEPARATOR] @ concat (map (charAt CHARSET) (groups @ checksumOf hrp groups))"

section \<open>Regrouping\<close>

text \<open>The inner loop gives up groups while it has five bits.\<close>

function takeGroups :: "32 word \<Rightarrow> nat \<Rightarrow> nat \<times> nat list" where
  "takeGroups acc bits =
     (if bits < 5 then (bits, [])
      else case takeGroups acc (bits - 5) of (rest, gs) \<Rightarrow> (rest, unat (drop_bit (bits - 5) acc AND 31) # gs))"
  by pat_completeness auto
termination by (relation "measure snd") auto

declare takeGroups.simps [simp del]

fun groupsLoop :: "32 word \<Rightarrow> nat \<Rightarrow> bytes \<Rightarrow> nat list" where
  "groupsLoop acc bits [] = (if bits > 0 then [unat (push_bit (5 - bits) acc AND 31)] else [])"
| "groupsLoop acc bits (b # bs) =
     (let acc' = (push_bit 8 acc OR ucast b) AND 0xfff
      in case takeGroups acc' (bits + 8) of (bits', gs) \<Rightarrow> gs @ groupsLoop acc' bits' bs)"

definition bytesToInvoiceGroups :: "bytes \<Rightarrow> nat list" where
  "bytesToInvoiceGroups bs = groupsLoop 0 0 bs"

fun bytesLoop :: "32 word \<Rightarrow> nat \<Rightarrow> nat list \<Rightarrow> bytes \<Rightarrow> string \<Rightarrow> bytes res" where
  "bytesLoop acc bits [] out path =
     (if bits \<ge> 5 \<or> acc AND (push_bit bits 1 - 1) \<noteq> 0
      then refuseInvoice path ''must be whole bytes with zero padding'' else Inr out)"
| "bytesLoop acc bits (g # gs) out path =
     (let acc' = (push_bit 5 acc OR of_nat g) AND 0xfff; bits' = bits + 5
      in if bits' \<ge> 8 then bytesLoop acc' (bits' - 8) gs (out @ [ucast (drop_bit (bits' - 8) acc' AND 0xff)]) path
         else bytesLoop acc' bits' gs out path)"

definition invoiceGroupsToBytes :: "nat list \<Rightarrow> string \<Rightarrow> bytes res" where
  "invoiceGroupsToBytes groups path = bytesLoop 0 0 groups [] path"

end
