(* ===== verification/Invoice.thy ===== *)
theory Invoice
  imports Molecule Coder Bech32m
begin

text \<open>
  Invoices as fiber writes them: the text codec of \<^verbatim>\<open>common/utils/utf8.utils.ts\<close> and
  \<^verbatim>\<open>invoice/utils/utf8.utils.ts\<close>, the molecule data of \<^verbatim>\<open>invoice/invoice-data.ts\<close>, and the string with its
  signature, \<^verbatim>\<open>invoice/invoice.ts\<close>. A text is the list of the code points a \<^verbatim>\<open>for of\<close> over it yields.
\<close>

unbundle bit_operations_syntax

section \<open>UTF-8\<close>

type_synonym code_points = "nat list"

definition encodeCodePoint :: "nat \<Rightarrow> bytes" where
  "encodeCodePoint point =
     map of_nat
       (if point < 0x80 then [point]
        else if point < 0x800 then [0xc0 OR drop_bit 6 point, 0x80 OR (point AND 0x3f)]
        else if point < 0x10000 then [0xe0 OR drop_bit 12 point, 0x80 OR (drop_bit 6 point AND 0x3f), 0x80 OR (point AND 0x3f)]
        else [0xf0 OR drop_bit 18 point, 0x80 OR (drop_bit 12 point AND 0x3f), 0x80 OR (drop_bit 6 point AND 0x3f),
              0x80 OR (point AND 0x3f)])"

definition encodeWellFormedUtf8 :: "string \<Rightarrow> code_points \<Rightarrow> bytes res" where
  "encodeWellFormedUtf8 name points =
     bindR (mapR (\<lambda>point. if 0xd800 \<le> point \<and> point \<le> 0xdfff then Inl (TypeErr name) else Inr (encodeCodePoint point)) points)
       (\<lambda>bs. Inr (concat bs))"

text \<open>The payload of the continuation bytes that follow, six bits each.\<close>

fun continuationBits :: "nat \<Rightarrow> nat \<Rightarrow> bytes \<Rightarrow> string \<Rightarrow> nat res" where
  "continuationBits 0 point bs path = Inr point"
| "continuationBits (Suc n) point [] path = refuseInvoice path ''must be UTF-8''"
| "continuationBits (Suc n) point (b # bs) path =
     (if unat b AND 0xc0 \<noteq> 0x80 then refuseInvoice path ''must be UTF-8''
      else continuationBits n (push_bit 6 point OR (unat b AND 0x3f)) bs path)"

definition leadOf :: "nat \<Rightarrow> (nat \<times> nat \<times> nat) option" where
  "leadOf lead =
     (if lead < 0x80 then Some (1, lead, 0)
      else if lead AND 0xe0 = 0xc0 then Some (2, lead AND 0x1f, 0x80)
      else if lead AND 0xf0 = 0xe0 then Some (3, lead AND 0x0f, 0x800)
      else if lead AND 0xf8 = 0xf0 then Some (4, lead AND 0x07, 0x10000)
      else None)"

function decodeInvoiceUtf8 :: "bytes \<Rightarrow> string \<Rightarrow> code_points res" where
  "decodeInvoiceUtf8 [] path = Inr []"
| "decodeInvoiceUtf8 (b # bs) path =
     (case leadOf (unat b) of
        None \<Rightarrow> refuseInvoice path ''must be UTF-8''
      | Some (len, start, minimum) \<Rightarrow>
          bindR (continuationBits (len - 1) start bs path) (\<lambda>point.
          if point < minimum \<or> 0x10ffff < point \<or> 0xd800 \<le> point \<and> point \<le> 0xdfff
          then refuseInvoice path ''must be UTF-8''
          else bindR (decodeInvoiceUtf8 (drop (len - 1) bs) path) (\<lambda>points. Inr (point # points))))"
  by pat_completeness auto
termination by (relation "measure (length \<circ> fst)") auto

section \<open>Attributes\<close>

datatype invoice_attribute_type =
    T_expiryTime | T_description | T_finalHtlcTimeout | T_finalHtlcMinimumExpiryDelta | T_fallbackAddr | T_feature
  | T_udtScript | T_payeePublicKey | T_hashAlgorithm | T_paymentSecret | T_trampolineRouteHint

datatype invoice_attribute =
    ExpiryTime int
  | Description code_points
  | FinalHtlcTimeout int
  | FinalHtlcMinimumExpiryDelta int
  | FallbackAddr code_points
  | Feature bytes
  | UdtScript script
  | PayeePublicKey bytes
  | HashAlgorithm tlc_hash_algorithm
  | PaymentSecret bytes
  | TrampolineRouteHint bytes

fun typeOf :: "invoice_attribute \<Rightarrow> invoice_attribute_type" where
  "typeOf (ExpiryTime v) = T_expiryTime"
| "typeOf (Description v) = T_description"
| "typeOf (FinalHtlcTimeout v) = T_finalHtlcTimeout"
| "typeOf (FinalHtlcMinimumExpiryDelta v) = T_finalHtlcMinimumExpiryDelta"
| "typeOf (FallbackAddr v) = T_fallbackAddr"
| "typeOf (Feature v) = T_feature"
| "typeOf (UdtScript v) = T_udtScript"
| "typeOf (PayeePublicKey v) = T_payeePublicKey"
| "typeOf (HashAlgorithm v) = T_hashAlgorithm"
| "typeOf (PaymentSecret v) = T_paymentSecret"
| "typeOf (TrampolineRouteHint v) = T_trampolineRouteHint"

definition INVOICE_ATTRIBUTE_TYPES :: "invoice_attribute_type list" where
  "INVOICE_ATTRIBUTE_TYPES =
     [T_expiryTime, T_description, T_finalHtlcTimeout, T_finalHtlcMinimumExpiryDelta, T_fallbackAddr, T_feature,
      T_udtScript, T_payeePublicKey, T_hashAlgorithm, T_paymentSecret, T_trampolineRouteHint]"

fun attributeTypeName :: "invoice_attribute_type \<Rightarrow> string" where
  "attributeTypeName T_expiryTime = ''expiryTime''"
| "attributeTypeName T_description = ''description''"
| "attributeTypeName T_finalHtlcTimeout = ''finalHtlcTimeout''"
| "attributeTypeName T_finalHtlcMinimumExpiryDelta = ''finalHtlcMinimumExpiryDelta''"
| "attributeTypeName T_fallbackAddr = ''fallbackAddr''"
| "attributeTypeName T_feature = ''feature''"
| "attributeTypeName T_udtScript = ''udtScript''"
| "attributeTypeName T_payeePublicKey = ''payeePublicKey''"
| "attributeTypeName T_hashAlgorithm = ''hashAlgorithm''"
| "attributeTypeName T_paymentSecret = ''paymentSecret''"
| "attributeTypeName T_trampolineRouteHint = ''trampolineRouteHint''"

record invoice_data =
  iv_timestampMs :: int
  iv_paymentHash :: bytes
  iv_attributes :: "invoice_attribute list"

definition indexInList :: "'a \<Rightarrow> 'a list \<Rightarrow> int" where
  "indexInList x xs = (case find (\<lambda>(i, y). y = x) (entries xs) of None \<Rightarrow> -1 | Some (i, y) \<Rightarrow> int i)"

section \<open>Writing the data\<close>

definition publicKeyTable :: "lib \<Rightarrow> bytes \<Rightarrow> string \<Rightarrow> bytes res" where
  "publicKeyTable L key name =
     (if \<not> isCompressedPoint L key then Inl (TypeErr name)
      else bindR (moleculeBytes key) (\<lambda>b. moleculeTable [b]))"

fun encodeAttributeItem :: "lib \<Rightarrow> invoice_attribute \<Rightarrow> string \<Rightarrow> bytes res" where
  "encodeAttributeItem L (ExpiryTime v) name = bindR (assertUnsignedBigInt (name @ ''.seconds'') v UINT64_MAX) (\<lambda>_. uint64Le v)"
| "encodeAttributeItem L (Description t) name =
     bindR (encodeWellFormedUtf8 (name @ ''.text'') t) (\<lambda>u. bindR (moleculeBytes u) (\<lambda>b. moleculeTable [b]))"
| "encodeAttributeItem L (FinalHtlcTimeout v) name = bindR (assertUnsignedBigInt (name @ ''.milliseconds'') v UINT64_MAX) (\<lambda>_. uint64Le v)"
| "encodeAttributeItem L (FinalHtlcMinimumExpiryDelta v) name =
     bindR (assertUnsignedBigInt (name @ ''.milliseconds'') v UINT64_MAX) (\<lambda>_. uint64Le v)"
| "encodeAttributeItem L (FallbackAddr t) name =
     bindR (encodeWellFormedUtf8 (name @ ''.address'') t) (\<lambda>u. bindR (moleculeBytes u) (\<lambda>b. moleculeTable [b]))"
| "encodeAttributeItem L (Feature bs) name = bindR (moleculeBytes bs) (\<lambda>b. moleculeTable [b])"
| "encodeAttributeItem L (UdtScript s) name = bindR (moleculeScript (name @ ''.script'') s) (\<lambda>b. moleculeTable [b])"
| "encodeAttributeItem L (PayeePublicKey k) name = publicKeyTable L k (name @ ''.publicKey'')"
| "encodeAttributeItem L (HashAlgorithm a) name = Inr [tlcHashAlgorithmByte a]"
| "encodeAttributeItem L (PaymentSecret s) name = bindR (assertBytes (name @ ''.secret'') s 32) (\<lambda>_. Inr s)"
| "encodeAttributeItem L (TrampolineRouteHint k) name = publicKeyTable L k (name @ ''.nodeId'')"

text \<open>The attributes are written in order; a type met before is refused.\<close>

fun encodeAttributes :: "lib \<Rightarrow> invoice_attribute_type list \<Rightarrow> int \<Rightarrow> invoice_attribute list \<Rightarrow> bytes list res" where
  "encodeAttributes L seen i [] = Inr []"
| "encodeAttributes L seen i (a # as) =
     (let name = ''attributes['' @ toString i @ '']'' in
      if typeOf a \<in> set seen then Inl (TypeErr name)
      else
        bindR (uint32Le (indexInList (typeOf a) INVOICE_ATTRIBUTE_TYPES)) (\<lambda>itemId.
        bindR (encodeAttributeItem L a name) (\<lambda>item.
        bindR (encodeAttributes L (typeOf a # seen) (i + 1) as) (\<lambda>items. Inr ((itemId @ item) # items)))))"

definition encodeInvoiceData :: "lib \<Rightarrow> invoice_data \<Rightarrow> bytes res" where
  "encodeInvoiceData L d =
     bindR (assertUnsignedBigInt ''timestampMs'' (iv_timestampMs d) UINT128_MAX) (\<lambda>_.
     bindR (assertBytes ''paymentHash'' (iv_paymentHash d) 32) (\<lambda>_.
     bindR (encodeAttributes L [] 0 (iv_attributes d)) (\<lambda>items.
     bindR (uint128Le (iv_timestampMs d)) (\<lambda>timestamp.
     bindR (moleculeDynvec items) (\<lambda>attributes.
     bindR (moleculeTable [timestamp, iv_paymentHash d, attributes]) (\<lambda>bs.
     if length bs > MAX_INVOICE_DATA_LENGTH then Inl (RangeErr ''the invoice data'') else Inr bs))))))"

section \<open>Reading the data\<close>

definition refuseInvoiceMolecule :: molecule_refuse where
  "refuseInvoiceMolecule path fault = InvoiceErr path (moleculeFaultReason fault)"

definition readInvoiceMoleculeTable :: "bytes \<Rightarrow> nat \<Rightarrow> string \<Rightarrow> bytes list res" where
  "readInvoiceMoleculeTable b n path = readMoleculeTable b n path refuseInvoiceMolecule"

definition readInvoiceMoleculeDynvec :: "bytes \<Rightarrow> string \<Rightarrow> bytes list res" where
  "readInvoiceMoleculeDynvec b path = readMoleculeDynvec b path refuseInvoiceMolecule"

definition readInvoiceMoleculeFixed :: "bytes \<Rightarrow> nat \<Rightarrow> string \<Rightarrow> bytes res" where
  "readInvoiceMoleculeFixed b n path = readMoleculeFixed b n path refuseInvoiceMolecule"

definition readInvoiceMoleculeBytes :: "bytes \<Rightarrow> string \<Rightarrow> bytes res" where
  "readInvoiceMoleculeBytes b path = readMoleculeBytes b path refuseInvoiceMolecule"

definition readInvoiceMoleculeUint :: "bytes \<Rightarrow> nat \<Rightarrow> string \<Rightarrow> int res" where
  "readInvoiceMoleculeUint b n path = readMoleculeUint b n path refuseInvoiceMolecule"

definition readInvoiceMoleculeUnion :: "bytes \<Rightarrow> 'name list \<Rightarrow> string \<Rightarrow> ('name \<times> bytes) res" where
  "readInvoiceMoleculeUnion b items path = readMoleculeUnion b items path refuseInvoiceMolecule"

definition readInvoiceMoleculeScript :: "bytes \<Rightarrow> string \<Rightarrow> script res" where
  "readInvoiceMoleculeScript b path = readMoleculeScript b path SCRIPT_FIELD_NAMES refuseInvoiceMolecule"

definition readBytesTable :: "bytes \<Rightarrow> string \<Rightarrow> string \<Rightarrow> bytes res" where
  "readBytesTable item path field =
     bindR (readInvoiceMoleculeTable item 1 path) (\<lambda>fs. readInvoiceMoleculeBytes (fs ! 0) (path @ ''.'' @ field))"

definition readPublicKeyTable :: "lib \<Rightarrow> bytes \<Rightarrow> string \<Rightarrow> string \<Rightarrow> bytes res" where
  "readPublicKeyTable L item path field =
     bindR (readBytesTable item path field) (\<lambda>key.
     if \<not> isCompressedPoint L key then refuseInvoice (path @ ''.'' @ field) ''must be a 33-byte compressed public key''
     else Inr key)"

definition TLC_HASH_ALGORITHMS :: "tlc_hash_algorithm list" where
  "TLC_HASH_ALGORITHMS = [CkbHash, Sha256]"

fun decodeAttributeItem :: "lib \<Rightarrow> invoice_attribute_type \<Rightarrow> bytes \<Rightarrow> string \<Rightarrow> invoice_attribute res" where
  "decodeAttributeItem L T_expiryTime item path = bindR (readInvoiceMoleculeUint item 8 path) (\<lambda>v. Inr (ExpiryTime v))"
| "decodeAttributeItem L T_description item path =
     bindR (readBytesTable item path ''value'') (\<lambda>b. bindR (decodeInvoiceUtf8 b (path @ ''.value'')) (\<lambda>t. Inr (Description t)))"
| "decodeAttributeItem L T_finalHtlcTimeout item path = bindR (readInvoiceMoleculeUint item 8 path) (\<lambda>v. Inr (FinalHtlcTimeout v))"
| "decodeAttributeItem L T_finalHtlcMinimumExpiryDelta item path =
     bindR (readInvoiceMoleculeUint item 8 path) (\<lambda>v. Inr (FinalHtlcMinimumExpiryDelta v))"
| "decodeAttributeItem L T_fallbackAddr item path =
     bindR (readBytesTable item path ''value'') (\<lambda>b. bindR (decodeInvoiceUtf8 b (path @ ''.value'')) (\<lambda>t. Inr (FallbackAddr t)))"
| "decodeAttributeItem L T_feature item path = bindR (readBytesTable item path ''value'') (\<lambda>b. Inr (Feature b))"
| "decodeAttributeItem L T_udtScript item path =
     bindR (readInvoiceMoleculeTable item 1 path) (\<lambda>fs. bindR (readInvoiceMoleculeScript (fs ! 0) (path @ ''.value'')) (\<lambda>s. Inr (UdtScript s)))"
| "decodeAttributeItem L T_payeePublicKey item path = bindR (readPublicKeyTable L item path ''value'') (\<lambda>k. Inr (PayeePublicKey k))"
| "decodeAttributeItem L T_hashAlgorithm item path =
     bindR (readInvoiceMoleculeFixed item 1 path) (\<lambda>b.
     case find (\<lambda>candidate. tlcHashAlgorithmByte candidate = b ! 0) TLC_HASH_ALGORITHMS of
       None \<Rightarrow> refuseInvoice path ''must be 0 (ckb-hash) or 1 (sha256)''
     | Some a \<Rightarrow> Inr (HashAlgorithm a))"
| "decodeAttributeItem L T_paymentSecret item path = bindR (readInvoiceMoleculeFixed item 32 path) (\<lambda>b. Inr (PaymentSecret b))"
| "decodeAttributeItem L T_trampolineRouteHint item path = bindR (readPublicKeyTable L item path ''nodeId'') (\<lambda>k. Inr (TrampolineRouteHint k))"

fun decodeAttributes :: "lib \<Rightarrow> invoice_attribute_type list \<Rightarrow> int \<Rightarrow> bytes list \<Rightarrow> invoice_attribute list res" where
  "decodeAttributes L seen i [] = Inr []"
| "decodeAttributes L seen i (u # us) =
     (let path = ''data.attributes['' @ toString i @ '']'' in
      bindR (readInvoiceMoleculeUnion u INVOICE_ATTRIBUTE_TYPES path) (\<lambda>(name, item).
      bindR (decodeAttributeItem L name item (path @ ''.'' @ attributeTypeName name)) (\<lambda>a.
      if typeOf a \<in> set seen then refuseInvoice path ''must not repeat an attribute type''
      else bindR (decodeAttributes L (typeOf a # seen) (i + 1) us) (\<lambda>as. Inr (a # as)))))"

definition decodeInvoiceData :: "lib \<Rightarrow> bytes \<Rightarrow> invoice_data res" where
  "decodeInvoiceData L bs =
     bindR (readInvoiceMoleculeTable bs 3 ''data'') (\<lambda>fs.
     bindR (readInvoiceMoleculeUint (fs ! 0) 16 ''data.timestamp'') (\<lambda>timestamp.
     bindR (readInvoiceMoleculeFixed (fs ! 1) 32 ''data.paymentHash'') (\<lambda>paymentHash.
     bindR (readInvoiceMoleculeDynvec (fs ! 2) ''data.attributes'') (\<lambda>unions.
     bindR (decodeAttributes L [] 0 unions) (\<lambda>attributes.
     Inr \<lparr> iv_timestampMs = timestamp, iv_paymentHash = paymentHash, iv_attributes = attributes \<rparr>)))))"

section \<open>The invoice string\<close>

datatype invoice_currency = Fibb | Fibt | Fibd

definition INVOICE_CURRENCIES :: "invoice_currency list" where
  "INVOICE_CURRENCIES = [Fibb, Fibt, Fibd]"

fun currencyPrefix :: "invoice_currency \<Rightarrow> string" where
  "currencyPrefix Fibb = ''fibb''"
| "currencyPrefix Fibt = ''fibt''"
| "currencyPrefix Fibd = ''fibd''"

record invoice =
  in_currency :: invoice_currency
  in_amountShannons :: "string option"
  in_data :: invoice_data
  in_signature :: bytes

definition hrpOf :: "invoice_currency \<Rightarrow> string option \<Rightarrow> string res" where
  "hrpOf currency amount =
     bindR (case amount of None \<Rightarrow> Inr () | Some a \<Rightarrow> assertDecimalShannons ''amountShannons'' a) (\<lambda>_.
     Inr (currencyPrefix currency @ (case amount of None \<Rightarrow> [] | Some a \<Rightarrow> a)))"

definition hasPrefix :: "string \<Rightarrow> string \<Rightarrow> bool" where
  "hasPrefix s p \<longleftrightarrow> take (length p) s = p"

definition parseHrp :: "string \<Rightarrow> (invoice_currency \<times> string option) res" where
  "parseHrp hrp =
     (case find (\<lambda>candidate. hasPrefix hrp (currencyPrefix candidate)) INVOICE_CURRENCIES of
        None \<Rightarrow> refuseInvoice ''currency'' ''must be one of fibb, fibt, fibd''
      | Some currency \<Rightarrow>
          let amount = drop (length (currencyPrefix currency)) hrp in
          if amount \<noteq> [] \<and> \<not> isDecimalShannons amount
          then refuseInvoice ''amount'' ''must be decimal shannons within u128, without leading zeros''
          else Inr (currency, if amount = [] then None else Some amount))"

definition signedDigest :: "lib \<Rightarrow> string \<Rightarrow> bytes \<Rightarrow> bytes res" where
  "signedDigest L hrp compressed =
     bindR (encodeWellFormedUtf8 ''hrp'' (map of_char hrp)) (\<lambda>u.
     Inr (sha256 L (u @ compressed @ (if length compressed mod 5 = 0 then [] else [0]))))"

text \<open>The encoder's own loops might not end, so these answer an option.\<close>

definition computeInvoiceDigest :: "lib \<Rightarrow> invoice_currency \<Rightarrow> string option \<Rightarrow> invoice_data \<Rightarrow> bytes res option" where
  "computeInvoiceDigest L currency amount d =
     (case hrpOf currency amount of
        Inl e \<Rightarrow> Some (Inl e)
      | Inr hrp \<Rightarrow>
          (case encodeInvoiceData L d of
             Inl e \<Rightarrow> Some (Inl e)
           | Inr bs \<Rightarrow> map_option (signedDigest L hrp) (arEncompress bs)))"

definition encodeInvoice :: "lib \<Rightarrow> invoice \<Rightarrow> string res option" where
  "encodeInvoice L v =
     (case hrpOf (in_currency v) (in_amountShannons v) of
        Inl e \<Rightarrow> Some (Inl e)
      | Inr hrp \<Rightarrow>
          (case encodeInvoiceData L (in_data v) of
             Inl e \<Rightarrow> Some (Inl e)
           | Inr bs \<Rightarrow>
               map_option (\<lambda>compressed. bindR (assertBytes ''signature'' (in_signature v) 65) (\<lambda>_.
                 Inr (encodeInvoiceBech32m hrp (1 # bytesToInvoiceGroups compressed @ bytesToInvoiceGroups (in_signature v)))))
                 (arEncompress bs)))"

text \<open>What the signature check asks of the curve library.\<close>

record invoice_curve =
  fromCompact :: "bytes \<Rightarrow> bool"                         \<comment> \<open>\<^verbatim>\<open>Signature.fromBytes(r || s)\<close> returns\<close>
  hasHighS :: "bytes \<Rightarrow> bool"
  recoverPublicKey :: "bytes \<Rightarrow> nat \<Rightarrow> bytes \<Rightarrow> bytes option"  \<comment> \<open>compressed, or none where it throws\<close>

definition verifySignature :: "invoice_curve \<Rightarrow> bytes \<Rightarrow> bytes \<Rightarrow> bytes option \<Rightarrow> unit res" where
  "verifySignature C signature digest payee =
     (let compact = take 64 signature; recoveryId = unat (signature ! 64) in
      if \<not> fromCompact C compact then refuseInvoice ''signature'' ''must have r and s within the curve order''
      else if recoveryId > 3 then refuseInvoice ''signature'' ''must have a recovery id of at most 3''
      else if hasHighS C compact then refuseInvoice ''signature'' ''must be low-S''
      else
        (case recoverPublicKey C compact recoveryId digest of
           None \<Rightarrow> refuseInvoice ''signature'' ''must recover a public key''
         | Some recovered \<Rightarrow>
             (case payee of
                None \<Rightarrow> Inr ()
              | Some key \<Rightarrow> if compareBytes recovered key \<noteq> 0
                  then refuseInvoice ''signature'' ''must be by the payee key the invoice carries'' else Inr ())))"

definition findInvoiceAttribute :: "invoice_data \<Rightarrow> invoice_attribute_type \<Rightarrow> invoice_attribute option" where
  "findInvoiceAttribute d type = find (\<lambda>a. typeOf a = type) (iv_attributes d)"

fun payeeKey :: "invoice_attribute option \<Rightarrow> bytes option" where
  "payeeKey (Some (PayeePublicKey k)) = Some k"
| "payeeKey _ = None"

abbreviation INVOICE_SIGNATURE_GROUPS :: nat where "INVOICE_SIGNATURE_GROUPS \<equiv> 104"

definition readInvoiceData :: "lib \<Rightarrow> invoice_curve \<Rightarrow> string \<Rightarrow> invoice_currency \<Rightarrow> string option \<Rightarrow> bytes \<Rightarrow> bytes \<Rightarrow> bytes \<Rightarrow> invoice res" where
  "readInvoiceData L C hrp currency amount compressed signature molecule =
     bindR (decodeInvoiceData L molecule) (\<lambda>d.
     bindR (signedDigest L hrp compressed) (\<lambda>digest.
     bindR (verifySignature C signature digest (payeeKey (findInvoiceAttribute d T_payeePublicKey))) (\<lambda>_.
     Inr \<lparr> in_currency = currency, in_amountShannons = amount, in_data = d, in_signature = signature \<rparr>)))"

definition splitInvoice :: "string \<Rightarrow> (string \<times> invoice_currency \<times> string option \<times> bytes \<times> bytes) res" where
  "splitInvoice s =
     bindR (decodeInvoiceBech32m s) (\<lambda>parts.
     let groups = bp_groups parts in
     bindR (parseHrp (bp_hrp parts)) (\<lambda>(currency, amount).
     if groups = [] \<or> groups ! 0 \<noteq> 1 then refuseInvoice ''flag'' ''must mark a signed invoice''
     else if length groups \<le> 1 + INVOICE_SIGNATURE_GROUPS
     then refuseInvoice ''invoice'' ''must carry a compressed stream and a signature''
     else
       bindR (invoiceGroupsToBytes (drop 1 (take (length groups - INVOICE_SIGNATURE_GROUPS) groups)) ''compressed'') (\<lambda>compressed.
       bindR (invoiceGroupsToBytes (drop (length groups - INVOICE_SIGNATURE_GROUPS) groups) ''signature'') (\<lambda>signature.
       Inr (bp_hrp parts, currency, amount, compressed, signature)))))"

definition decodeInvoice :: "lib \<Rightarrow> invoice_curve \<Rightarrow> string \<Rightarrow> invoice res option" where
  "decodeInvoice L C s =
     (case splitInvoice s of
        Inl e \<Rightarrow> Some (Inl e)
      | Inr (hrp, currency, amount, compressed, signature) \<Rightarrow>
          (case arDecompress compressed of
             None \<Rightarrow> None
           | Some (Inl e) \<Rightarrow> Some (Inl e)
           | Some (Inr molecule) \<Rightarrow>
               (case arEncompress molecule of
                  None \<Rightarrow> None
                | Some again \<Rightarrow>
                    Some (if compareBytes again compressed \<noteq> 0
                          then refuseInvoice ''compressed'' ''must be the stream fiber's coder writes''
                          else readInvoiceData L C hrp currency amount compressed signature molecule))))"

end
