(* ===== verification/CoderFacts.thy ===== *)
theory CoderFacts
  imports Coder Complex_Main
begin

text \<open>
  The arithmetic coder is lossless: the decoder reads back every byte string the encoder writes, both
  always return, and the doubles the ranges are shared with never let two symbols overlap.
\<close>

section \<open>Rounding\<close>

lemma roundHalfEven_bound:
  assumes "0 < b"
  shows "2 * \<bar>roundHalfEven a b * b - a\<bar> \<le> b"
proof -
  have a: "a div b * b = a - a mod b" by (simp add: minus_mod_eq_div_mult)
  have r: "0 \<le> a mod b" "a mod b < b" using assms by simp_all
  show ?thesis
  proof (cases "2 * (a mod b) < b \<or> 2 * (a mod b) = b \<and> even (a div b)")
    case True
    then have "roundHalfEven a b * b - a = - (a mod b)"
      using a by (simp add: roundHalfEven_def Let_def)
    with True r show ?thesis by auto
  next
    case False
    then have "roundHalfEven a b * b - a = b - a mod b"
      using a by (auto simp: roundHalfEven_def Let_def algebra_simps)
    with False r show ?thesis by auto
  qed
qed

lemma roundHalfEven_exact:
  assumes "0 < b" "b dvd a"
  shows "roundHalfEven a b * b = a"
  using assms by (auto simp: roundHalfEven_def Let_def)

lemma doublings_bounds:
  assumes "0 < a" "a \<le> b"
  shows "b \<le> a * 2 ^ doublings a b \<and> a * 2 ^ doublings a b < 2 * b"
  using assms
proof (induction a b rule: doublings.induct)
  case (1 a b)
  show ?case
  proof (cases "b \<le> a")
    case True
    with 1 show ?thesis by (simp add: doublings.simps)
  next
    case False
    with 1(2,3) have d: "doublings a b = Suc (doublings (2 * a) b)" by (simp add: doublings.simps [of a b])
    show ?thesis
    proof (cases "2 * a \<le> b")
      case True
      with 1 False show ?thesis by (simp add: d mult.assoc mult.left_commute)
    next
      case False2: False
      then have "doublings (2 * a) b = 0" by (simp add: doublings.simps [of "2 * a"])
      with False False2 show ?thesis by (simp add: d)
    qed
  qed
qed

lemma excessBits_bound: "excessBits p \<noteq> 0 \<Longrightarrow> 2 ^ excessBits p * 2 ^ 52 \<le> p"
proof (induction p rule: excessBits.induct)
  case (1 p)
  show ?case
  proof (cases "p < 2 ^ 53")
    case True
    with 1(2) show ?thesis by (simp add: excessBits.simps [of p])
  next
    case False
    then have e: "excessBits p = Suc (excessBits (p div 2))" by (simp add: excessBits.simps [of p])
    show ?thesis
    proof (cases "excessBits (p div 2) = 0")
      case True
      with False e show ?thesis by simp
    next
      case False2: False
      from 1(1) [OF False False2] have "2 * (2 ^ excessBits (p div 2) * 2 ^ 52) \<le> 2 * (p div 2)" by simp
      also have "\<dots> \<le> p" by simp
      finally show ?thesis by (simp add: e)
    qed
  qed
qed

text \<open>The double arithmetic is off by less than a half before the floor is taken.\<close>

lemma floorShare_near:
  assumes "0 < whole" "0 \<le> part" "part \<le> whole" "0 \<le> width" "width \<le> 2 ^ 48"
  shows "\<exists>y :: real. floorShare width part whole = \<lfloor>y\<rfloor> \<and> \<bar>y - width * part / whole\<bar> \<le> 1 / 2"
proof -
  define e where "e = 52 + doublings part whole"
  define m where "m = roundHalfEven (part * 2 ^ e) whole"
  define p where "p = width * m"
  define s where "s = excessBits p"
  define V where "V = roundHalfEven p (2 ^ s) * 2 ^ s"
  define y :: real where "y = V / 2 ^ e"
  have share: "floorShare width part whole = V div 2 ^ e"
    by (simp add: floorShare_def Let_def V_def s_def p_def m_def e_def)
  have fl: "V div 2 ^ e = \<lfloor>y\<rfloor>"
    using floor_divide_of_int_eq [of V "2 ^ e", where 'a = real] by (simp add: y_def)
  have e52: "(2::real) ^ 52 \<le> 2 ^ e" by (rule power_increasing) (simp_all add: e_def)
  have epos: "(0::real) < 2 ^ e" by simp
  from roundHalfEven_bound [OF assms(1), of "part * 2 ^ e"] have "\<bar>m * whole - part * 2 ^ e\<bar> * 2 \<le> whole"
    by (simp add: m_def)
  then have "\<bar>real_of_int (m * whole - part * 2 ^ e)\<bar> * 2 \<le> real_of_int whole" by linarith
  then have m_err: "\<bar>real_of_int m - part / whole * 2 ^ e\<bar> \<le> 1 / 2"
  proof -
    assume a: "\<bar>real_of_int (m * whole - part * 2 ^ e)\<bar> * 2 \<le> real_of_int whole"
    have w: "real_of_int whole > 0" using assms(1) by simp
    have "real_of_int m - part / whole * 2 ^ e = real_of_int (m * whole - part * 2 ^ e) / whole"
      using w by (simp add: field_simps)
    then have "\<bar>real_of_int m - part / whole * 2 ^ e\<bar> = \<bar>real_of_int (m * whole - part * 2 ^ e)\<bar> / whole"
      using w by (simp add: abs_divide)
    with a w show ?thesis by (simp add: field_simps)
  qed
  have quot: "0 \<le> real_of_int part / whole" "real_of_int part / whole \<le> 1"
    using assms(1,2,3) by simp_all
  have m_hi: "real_of_int m \<le> 2 * 2 ^ e"
  proof -
    have "real_of_int m \<le> part / whole * 2 ^ e + 1 / 2" using m_err by linarith
    moreover have "part / whole * 2 ^ e \<le> 1 * (2::real) ^ e" by (rule mult_right_mono) (use quot in simp_all)
    moreover have "(1::real) \<le> 2 ^ e" using e52 by simp
    ultimately show ?thesis by linarith
  qed
  have V_err: "\<bar>real_of_int V - p\<bar> \<le> width * 2 ^ e / 2 ^ 52"
  proof (cases "s = 0")
    case True
    from roundHalfEven_exact [of 1 p] have "roundHalfEven p 1 = p" by simp
    with True have "V = p" by (simp add: V_def)
    with assms(4) show ?thesis by simp
  next
    case False
    from roundHalfEven_bound [of "2 ^ s" p] have "2 * \<bar>V - p\<bar> \<le> 2 ^ s" by (simp add: V_def)
    then have "real_of_int (2 * \<bar>V - p\<bar>) \<le> real_of_int (2 ^ s)" by (simp only: of_int_le_iff)
    then have "2 * \<bar>real_of_int V - p\<bar> \<le> 2 ^ s" by simp
    moreover have "2 ^ s * 2 ^ 52 \<le> real_of_int p"
    proof -
      have "2 ^ s * 2 ^ 52 \<le> p" using excessBits_bound [of p] False unfolding s_def [symmetric] .
      then have "real_of_int (2 ^ s * 2 ^ 52) \<le> real_of_int p" by (simp only: of_int_le_iff)
      then show ?thesis by simp
    qed
    moreover have "real_of_int p \<le> real_of_int width * (2 * 2 ^ e)"
      unfolding p_def of_int_mult by (rule mult_left_mono [OF m_hi]) (use assms(4) in simp)
    ultimately show ?thesis by (simp add: field_simps)
  qed
  have "y - width * part / whole = (real_of_int V - width * (part / whole * 2 ^ e)) / 2 ^ e"
    by (simp add: y_def field_simps)
  then have "\<bar>y - width * part / whole\<bar> = \<bar>real_of_int V - width * (part / whole * 2 ^ e)\<bar> / 2 ^ e"
    by (simp add: abs_divide)
  also have "\<dots> \<le> (width * 2 ^ e / 2 ^ 52 + width / 2) / 2 ^ e"
  proof (rule divide_right_mono)
    have "real_of_int p - width * (part / whole * 2 ^ e) = width * (real_of_int m - part / whole * 2 ^ e)"
      by (simp only: p_def of_int_mult right_diff_distrib)
    then have "\<bar>real_of_int p - width * (part / whole * 2 ^ e)\<bar> = width * \<bar>real_of_int m - part / whole * 2 ^ e\<bar>"
      using assms(4) by (simp add: abs_mult)
    also have "\<dots> \<le> width * (1 / 2)" by (rule mult_left_mono [OF m_err]) (use assms(4) in simp)
    finally show "\<bar>real_of_int V - width * (part / whole * 2 ^ e)\<bar> \<le> width * 2 ^ e / 2 ^ 52 + width / 2"
      using V_err by linarith
  qed simp
  also have "\<dots> = width / 2 ^ 52 + width / 2 / 2 ^ e" by (simp add: add_divide_distrib)
  also have "\<dots> \<le> width / 2 ^ 52 + width / 2 / 2 ^ 52"
    using e52 assms(4) by (intro add_left_mono divide_left_mono) simp_all
  also have "\<dots> \<le> 1 / 2" using assms(5) by simp
  finally show ?thesis using share fl by auto
qed

section \<open>Sharing a range\<close>

text \<open>
  What the coder relies on in \<^verbatim>\<open>share\<close>: the cuts of a wide range start at its low, end at its high, and
  grow strictly with the count.
\<close>

locale range_cut =
  fixes cut :: "int \<Rightarrow> int \<Rightarrow> int \<Rightarrow> int"
  assumes cut_none: "0 < whole \<Longrightarrow> cut width 0 whole = 0"
    and cut_all: "0 < whole \<Longrightarrow> 2 ^ 46 \<le> width \<Longrightarrow> width \<le> 2 ^ 48 \<Longrightarrow> cut width whole whole = width"
    and cut_mono: "0 \<le> part \<Longrightarrow> part < part' \<Longrightarrow> part' \<le> whole \<Longrightarrow> whole \<le> 2 ^ 15 \<Longrightarrow>
      2 ^ 46 \<le> width \<Longrightarrow> width \<le> 2 ^ 48 \<Longrightarrow> cut width part whole < cut width part' whole"
begin

lemma cut_le: "0 \<le> part \<Longrightarrow> part \<le> part' \<Longrightarrow> part' \<le> whole \<Longrightarrow> whole \<le> 2 ^ 15 \<Longrightarrow>
    2 ^ 46 \<le> width \<Longrightarrow> width \<le> 2 ^ 48 \<Longrightarrow> cut width part whole \<le> cut width part' whole"
  using cut_mono [of part part' whole width] by (cases "part = part'") auto

lemma cut_bounds:
  assumes "0 \<le> part" "part \<le> whole" "0 < whole" "whole \<le> 2 ^ 15" "2 ^ 46 \<le> width" "width \<le> 2 ^ 48"
  shows "0 \<le> cut width part whole \<and> cut width part whole \<le> width"
  using cut_le [of 0 part whole width] cut_le [of part whole whole width] cut_none cut_all assms by simp

end

lemma floorShare_less:
  assumes "0 \<le> part" "part < part'" "part' \<le> whole" "whole \<le> 2 ^ 15" "2 ^ 46 \<le> width" "width \<le> 2 ^ 48"
  shows "floorShare width part whole < floorShare width part' whole"
proof -
  from assms have w: "0 < whole" by linarith
  from floorShare_near [of whole part width] assms w obtain y where
    y: "floorShare width part whole = \<lfloor>y\<rfloor>" "\<bar>y - width * part / whole\<bar> \<le> 1 / 2" by auto
  from floorShare_near [of whole part' width] assms w obtain z where
    z: "floorShare width part' whole = \<lfloor>z\<rfloor>" "\<bar>z - width * part' / whole\<bar> \<le> 1 / 2" by auto
  have "(4::real) \<le> 2 ^ 46 / 2 ^ 15" by simp
  also have "\<dots> \<le> width / whole"
  proof (rule frac_le)
    show "(2::real) ^ 46 \<le> width" using assms(5) by (metis of_int_le_iff of_int_numeral of_int_power)
    show "real_of_int whole \<le> 2 ^ 15" using assms(4) by (metis of_int_le_iff of_int_numeral of_int_power)
    show "0 \<le> real_of_int width" using assms(5) by simp
  qed (use w in simp)
  also have "\<dots> \<le> width * (part' - part) / whole"
  proof (rule divide_right_mono)
    have "0 \<le> width" using assms(5) by (rule order_trans [rotated]) simp
    then have "width * 1 \<le> width * (part' - part)" using assms(2) by (intro mult_left_mono) simp_all
    then show "real_of_int width \<le> real_of_int (width * (part' - part))" by linarith
  qed (use w in simp)
  also have "\<dots> = width * part' / whole - width * part / whole"
    by (simp add: diff_divide_distrib right_diff_distrib)
  finally have "y + 3 \<le> z" using y(2) z(2) by linarith
  then have "\<lfloor>y\<rfloor> < \<lfloor>z\<rfloor>" by linarith
  then show ?thesis by (simp add: y(1) z(1))
qed

lemma floorShare_none: "0 < whole \<Longrightarrow> floorShare width 0 whole = 0"
  by (simp add: floorShare_def Let_def doublings.simps [of 0] roundHalfEven_def excessBits.simps [of 0])

lemma floorShare_all:
  assumes "0 < whole" "2 ^ 46 \<le> width" "width \<le> 2 ^ 48"
  shows "floorShare width whole whole = width"
proof -
  have d: "doublings whole whole = 0" by (simp add: doublings.simps [of whole whole])
  have m: "roundHalfEven (whole * 2 ^ 52) whole = 2 ^ 52"
    using assms(1) by (simp add: roundHalfEven_def Let_def)
  define s where "s = excessBits (width * 2 ^ 52)"
  have "s \<le> 52"
  proof (cases "s = 0")
    case False
    with excessBits_bound [of "width * 2 ^ 52"] have "2 ^ s * 2 ^ 52 \<le> width * 2 ^ 52" by (simp add: s_def)
    then have "(2::int) ^ s \<le> 2 ^ 48" using assms(3) by simp
    then have "s \<le> 48" by (simp only: power_increasing_iff) 
    then show ?thesis by simp
  qed simp
  then have "(2::int) ^ s dvd width * 2 ^ 52" by (intro dvd_mult le_imp_power_dvd)
  then have "roundHalfEven (width * 2 ^ 52) (2 ^ s) * 2 ^ s = width * 2 ^ 52" by (intro roundHalfEven_exact) simp_all
  moreover have "floorShare width whole whole = roundHalfEven (width * 2 ^ 52) (2 ^ s) * 2 ^ s div 2 ^ 52"
    unfolding floorShare_def Let_def d add_0_right m s_def ..
  ultimately show ?thesis by simp
qed

interpretation doubles: range_cut floorShare
  by unfold_locales (rule floorShare_none floorShare_all floorShare_less; assumption)+

section \<open>Bits as numbers\<close>

definition num :: "bool list \<Rightarrow> int" where
  "num bs = foldl (\<lambda>n b. 2 * n + of_bool b) 0 bs"

lemma num_simps [simp]: "num [] = 0" "num (bs @ [b]) = 2 * num bs + of_bool b"
  by (simp_all add: num_def)

lemma num_append: "num (xs @ ys) = num xs * 2 ^ length ys + num ys"
  by (induction ys rule: rev_induct) (simp_all add: append_assoc [symmetric] algebra_simps del: append_assoc)

lemma num_Cons: "num (b # bs) = of_bool b * 2 ^ length bs + num bs"
  using num_append [of "[b]" bs] num_simps(2) [of "[]" b] by simp

lemma num_bounds: "0 \<le> num bs \<and> num bs < 2 ^ length bs"
  by (induction bs rule: rev_induct) auto

lemma num_replicate: "num (replicate n b) = (if b then 2 ^ n - 1 else 0)"
  by (induction n) (simp_all add: num_Cons)

lemma num_take_Suc: "n < length T \<Longrightarrow> num (take (Suc n) T) = 2 * num (take n T) + of_bool (T ! n)"
  by (simp add: take_Suc_conv_app_nth)

text \<open>The value the decoder holds when \<open>p\<close> bits are owed: the next bits, less what the middle halves took.\<close>

definition window :: "bool list \<Rightarrow> nat \<Rightarrow> int" where
  "window T p = num (take (48 + p) T) - HALF * (2 ^ p - 1)"

lemma window_emit:
  assumes "48 \<le> length T"
  shows "(window (b # replicate p (\<not> b) @ T) p - (if b then HALF else 0)) * 2 + of_bool (T ! 47) = window T 0"
proof -
  have n: "48 + p = Suc (p + 47)" by simp
  have "take (48 + p) (b # replicate p (\<not> b) @ T) = (b # replicate p (\<not> b)) @ take 47 T"
    by (simp only: n take_Suc_Cons) simp
  then have "num (take (48 + p) (b # replicate p (\<not> b) @ T)) = num (b # replicate p (\<not> b)) * 2 ^ 47 + num (take 47 T)"
    using assms by (simp only: num_append) simp
  moreover have "num (b # replicate p (\<not> b)) = (if b then 2 ^ p else 2 ^ p - 1)"
    by (simp add: num_Cons num_replicate)
  moreover have "window T 0 = 2 * num (take 47 T) + of_bool (T ! 47)"
    using assms num_take_Suc [of 47 T] by (simp add: window_def)
  ultimately show ?thesis by (simp add: window_def algebra_simps)
qed

lemma window_owe:
  assumes "49 + p \<le> length T"
  shows "(window T p - QUARTER) * 2 + of_bool (T ! (48 + p)) = window T (Suc p)"
  using assms num_take_Suc [of "48 + p" T] by (simp add: window_def algebra_simps)

section \<open>The bits of an input\<close>

definition byte_bits :: "byte \<Rightarrow> bool list" where
  "byte_bits b = map (\<lambda>i. bit b (7 - i)) [0..<8]"

definition bytes_bits :: "bytes \<Rightarrow> bool list" where
  "bytes_bits bs = concat (map byte_bits bs)"

lemma length_byte_bits [simp]: "length (byte_bits b) = 8"
  by (simp add: byte_bits_def)

lemma length_bytes_bits [simp]: "length (bytes_bits bs) = 8 * length bs"
  by (induction bs) (simp_all add: bytes_bits_def)

lemma bytes_bits_simps [simp]: "bytes_bits [] = []" "bytes_bits (b # bs) = byte_bits b @ bytes_bits bs"
  by (simp_all add: bytes_bits_def)

lemma nth_bytes_bits: "i < 8 * length bs \<Longrightarrow> bytes_bits bs ! i = bit (bs ! (i div 8)) (7 - i mod 8)"
proof (induction bs arbitrary: i)
  case (Cons b bs)
  show ?case
  proof (cases "i < 8")
    case True
    then show ?thesis by (simp add: nth_append) (simp add: byte_bits_def)
  next
    case False
    then obtain j where "i = j + 8" by (metis add.commute le_Suc_ex not_less)
    with Cons show ?thesis by (simp add: nth_append)
  qed
qed simp

definition input_bits :: "coder_input \<Rightarrow> bool list" where
  "input_bits inp = drop (ip_position inp) (bytes_bits (ip_bytes inp)) @ replicate (ip_padding inp) False"

lemma readBit_bits:
  assumes "input_bits inp = b # bs"
  shows "\<exists>inp'. readBit inp = Inr (b, inp') \<and> input_bits inp' = bs"
proof (cases "ip_position inp < 8 * length (ip_bytes inp)")
  case True
  then have "drop (ip_position inp) (bytes_bits (ip_bytes inp))
      = bytes_bits (ip_bytes inp) ! ip_position inp # drop (Suc (ip_position inp)) (bytes_bits (ip_bytes inp))"
    by (intro Cons_nth_drop_Suc [symmetric]) simp
  with assms True show ?thesis
    by (simp add: input_bits_def readBit_def nth_bytes_bits mult.commute)
next
  case False
  with assms have "ip_padding inp \<noteq> 0" "b = False" "bs = replicate (ip_padding inp - 1) False"
    by (cases "ip_padding inp"; simp add: input_bits_def)+
  with False show ?thesis by (simp add: input_bits_def readBit_def mult.commute)
qed

lemma readBits_bits:
  assumes "input_bits inp = bs @ rest"
  shows "\<exists>inp'. readBits (length bs) v inp = Inr (v * 2 ^ length bs + num bs, inp') \<and> input_bits inp' = rest"
  using assms
proof (induction bs arbitrary: v inp)
  case (Cons b bs)
  from Cons.prems readBit_bits [of inp b "bs @ rest"] obtain inp1 where
    1: "readBit inp = Inr (b, inp1)" "input_bits inp1 = bs @ rest" by auto
  from Cons.IH [OF 1(2), of "v * 2 + of_bool b"] obtain inp2 where
    "readBits (length bs) (v * 2 + of_bool b) inp1 = Inr ((v * 2 + of_bool b) * 2 ^ length bs + num bs, inp2)" "input_bits inp2 = rest" by blast
  with 1 show ?case by (simp add: num_Cons algebra_simps)
qed simp

section \<open>Narrowing, bit by bit on both sides\<close>

definition inside :: "coder_range \<Rightarrow> int \<Rightarrow> bool" where
  "inside r v \<longleftrightarrow> rg_low r \<le> v \<and> v < rg_high r"

definition narrowed :: "coder_range \<Rightarrow> bool" where
  "narrowed r \<longleftrightarrow> 0 \<le> rg_low r \<and> rg_low r < rg_high r \<and> rg_high r \<le> FULL"

text \<open>
  The encoder's step from \<open>r\<close>, \<open>out\<close> to \<open>r'\<close>, \<open>out'\<close> is one the reader follows: over the bits it emits and
  whatever comes after, the reader arrives at the same range with the value of that rest, and a value
  inside the range at the end was inside it at the start.
\<close>

definition followed ::
    "(coder_range \<Rightarrow> int \<Rightarrow> coder_input \<Rightarrow> (coder_range \<times> int \<times> coder_input) res option)
     \<Rightarrow> coder_range \<Rightarrow> coder_output \<Rightarrow> coder_range \<Rightarrow> coder_output \<Rightarrow> bool list \<Rightarrow> bool" where
  "followed rd r out r' out' es \<longleftrightarrow> co_bits out' = co_bits out @ es \<and>
     (\<forall>T. 48 + co_pending out' \<le> length T \<longrightarrow>
        (inside r' (window T (co_pending out')) \<longrightarrow> inside r (window (es @ T) (co_pending out))) \<and>
        (\<forall>inp. input_bits inp = drop (48 + co_pending out) (es @ T) \<longrightarrow>
          (\<exists>inp'. rd r (window (es @ T) (co_pending out)) inp = Some (Inr (r', window T (co_pending out'), inp'))
             \<and> input_bits inp' = drop (48 + co_pending out') T)))"

lemma followed_stop:
  assumes "\<And>v inp. rd r v inp = Some (Inr (r, v, inp))"
  shows "followed rd r out r out []"
  using assms by (simp add: followed_def)

lemma followed_step:
  assumes rd: "\<And>v inp b inp'. readBit inp = Inr (b, inp') \<Longrightarrow> rd r v inp = rd r1 ((v - offset) * 2 + of_bool b) inp'"
    and r1: "rg_low r1 = (rg_low r - offset) * 2" "rg_high r1 = (rg_high r - offset) * 2"
    and out1: "co_bits out1 = co_bits out @ es"
    and win: "\<And>T. 48 + co_pending out1 \<le> length T \<Longrightarrow> \<exists>b.
        (window (es @ T) (co_pending out) - offset) * 2 + of_bool b = window T (co_pending out1)
        \<and> drop (48 + co_pending out) (es @ T) = b # drop (48 + co_pending out1) T"
    and rest: "followed rd r1 out1 r' out' es'" and pend: "co_pending out1 \<le> length es' + co_pending out'"
  shows "followed rd r out r' out' (es @ es')"
  unfolding followed_def
proof (intro conjI allI impI)
  show "co_bits out' = co_bits out @ es @ es'" using rest out1 by (simp add: followed_def)
next
  fix T :: "bool list"
  assume T: "48 + co_pending out' \<le> length T"
  from win [of "es' @ T"] pend T obtain b where b: "(window (es @ es' @ T) (co_pending out) - offset) * 2 + of_bool b = window (es' @ T) (co_pending out1)"
    "drop (48 + co_pending out) (es @ es' @ T) = b # drop (48 + co_pending out1) (es' @ T)" by auto
  {
    fix inp assume inp: "input_bits inp = drop (48 + co_pending out) ((es @ es') @ T)"
    from readBit_bits [of inp b "drop (48 + co_pending out1) (es' @ T)"] inp b(2) obtain inp1 where
      1: "readBit inp = Inr (b, inp1)" "input_bits inp1 = drop (48 + co_pending out1) (es' @ T)" by auto
    from rest T 1(2) obtain inp' where
      2: "rd r1 (window (es' @ T) (co_pending out1)) inp1 = Some (Inr (r', window T (co_pending out'), inp'))"
        "input_bits inp' = drop (48 + co_pending out') T"
      unfolding followed_def by blast
    from rd [OF 1(1), of "window ((es @ es') @ T) (co_pending out)"] b(1) 2
    show "\<exists>inp'. rd r (window ((es @ es') @ T) (co_pending out)) inp = Some (Inr (r', window T (co_pending out'), inp'))
             \<and> input_bits inp' = drop (48 + co_pending out') T" by simp
  }
  assume "inside r' (window T (co_pending out'))"
  with rest T have "inside r1 (window (es' @ T) (co_pending out1))" unfolding followed_def by blast
  then show "inside r (window ((es @ es') @ T) (co_pending out))"
    unfolding inside_def r1 b(1) [symmetric] append_assoc by (cases b) auto
qed

text \<open>One more bit of each kind.\<close>

lemma window_emit_bits:
  assumes "48 + co_pending (emit b out) \<le> length T"
  shows "\<exists>c. (window ((b # replicate (co_pending out) (\<not> b)) @ T) (co_pending out) - (if b then HALF else 0)) * 2 + of_bool c
      = window T (co_pending (emit b out))
    \<and> drop (48 + co_pending out) ((b # replicate (co_pending out) (\<not> b)) @ T) = c # drop (48 + co_pending (emit b out)) T"
proof (intro exI conjI)
  have T: "48 \<le> length T" using assms by (simp add: emit_def)
  from window_emit [OF T, of b "co_pending out"] show "(window ((b # replicate (co_pending out) (\<not> b)) @ T) (co_pending out) - (if b then HALF else 0)) * 2 + of_bool (T ! 47)
      = window T (co_pending (emit b out))" by (simp add: emit_def)
  have "drop (48 + co_pending out) ((b # replicate (co_pending out) (\<not> b)) @ T) = drop 47 T" by (simp add: drop_Cons')
  also have "\<dots> = T ! 47 # drop 48 T" using T by (simp add: Cons_nth_drop_Suc [of 47 T, symmetric])
  finally show "drop (48 + co_pending out) ((b # replicate (co_pending out) (\<not> b)) @ T) = T ! 47 # drop (48 + co_pending (emit b out)) T"
    by (simp add: emit_def)
qed

lemma narrowHalves_followed:
  assumes "narrowed r"
  shows "\<exists>r' out' es. narrowHalves r out = Some (r', out') \<and> followed readHalves r out r' out' es
    \<and> narrowed r' \<and> rg_low r' \<le> HALF \<and> HALF \<le> rg_high r' \<and> co_pending out \<le> length es + co_pending out'"
  using assms
proof (induction "nat (FULL - (rg_high r - rg_low r))" arbitrary: r out rule: less_induct)
  case less
  show ?case
  proof (cases "rg_high r < HALF \<or> rg_low r > HALF")
    case False
    have "followed readHalves r out r out []"
      by (rule followed_stop) (subst readHalves.simps, rule if_not_P [OF False])
    moreover have "narrowHalves r out = Some (r, out)" by (subst narrowHalves.simps) (rule if_not_P [OF False])
    ultimately show ?thesis using False less.prems by (intro exI [of _ r] exI [of _ out] exI [of _ "[]"]) auto
  next
    case True
    define upper where "upper = (rg_low r > HALF)"
    define offset where "offset = (if upper then HALF else 0)"
    define r1 where "r1 = \<lparr> rg_low = (rg_low r - offset) * 2, rg_high = (rg_high r - offset) * 2 \<rparr>"
    have n1: "narrowed r1" using less.prems True by (auto simp: narrowed_def r1_def offset_def upper_def)
    have "nat (FULL - (rg_high r1 - rg_low r1)) < nat (FULL - (rg_high r - rg_low r))"
      using less.prems n1 by (auto simp: narrowed_def r1_def)
    from less.hyps [OF this n1, of "emit upper out"] obtain r' out' es' where
      rest: "narrowHalves r1 (emit upper out) = Some (r', out')" "followed readHalves r1 (emit upper out) r' out' es'"
        "narrowed r' \<and> rg_low r' \<le> HALF \<and> HALF \<le> rg_high r'" by blast
    have "narrowHalves r out = Some (r', out')"
      using True rest(1) by (simp add: narrowHalves.simps [of r] Let_def r1_def offset_def upper_def)
    moreover have "followed readHalves r out r' out' ((upper # replicate (co_pending out) (\<not> upper)) @ es')"
    proof (rule followed_step [where ?r1.0 = r1 and offset = offset and ?out1.0 = "emit upper out"])
      show "readHalves r v inp = readHalves r1 ((v - offset) * 2 + of_bool b) inp'" if "readBit inp = Inr (b, inp')" for v inp b inp'
        using that True by (simp add: readHalves.simps [of r] Let_def r1_def offset_def upper_def)
      show "\<exists>b. (window ((upper # replicate (co_pending out) (\<not> upper)) @ T) (co_pending out) - offset) * 2 + of_bool b = window T (co_pending (emit upper out))
        \<and> drop (48 + co_pending out) ((upper # replicate (co_pending out) (\<not> upper)) @ T) = b # drop (48 + co_pending (emit upper out)) T"
        if "48 + co_pending (emit upper out) \<le> length T" for T
        unfolding offset_def by (rule window_emit_bits [OF that])
    qed (use rest in \<open>simp_all add: r1_def emit_def\<close>)
    ultimately show ?thesis using rest(3) by (intro exI [of _ r'] exI [of _ out'] exI conjI) auto
  qed
qed

definition wide :: "coder_range \<Rightarrow> bool" where
  "wide r \<longleftrightarrow> narrowed r \<and> rg_low r \<le> HALF \<and> HALF \<le> rg_high r \<and> (rg_low r \<le> QUARTER \<or> THREE_QUARTERS \<le> rg_high r)"

lemma narrowMiddle_followed:
  assumes "narrowed r" "rg_low r \<le> HALF" "HALF \<le> rg_high r"
  shows "\<exists>r' out' es. narrowMiddle r out = Some (r', out') \<and> followed readMiddle r out r' out' es \<and> wide r'
    \<and> co_pending out \<le> length es + co_pending out'"
  using assms
proof (induction "nat (FULL - (rg_high r - rg_low r))" arbitrary: r out rule: less_induct)
  case less
  show ?case
  proof (cases "rg_low r > QUARTER \<and> rg_high r < THREE_QUARTERS")
    case False
    have "followed readMiddle r out r out []"
      by (rule followed_stop) (subst readMiddle.simps, rule if_not_P [OF False])
    moreover have "narrowMiddle r out = Some (r, out)" by (subst narrowMiddle.simps) (rule if_not_P [OF False])
    ultimately show ?thesis using False less.prems by (intro exI [of _ r] exI [of _ out] exI [of _ "[]"]) (auto simp: wide_def)
  next
    case True
    define r1 where "r1 = \<lparr> rg_low = (rg_low r - QUARTER) * 2, rg_high = (rg_high r - QUARTER) * 2 \<rparr>"
    define out1 where "out1 = out\<lparr> co_pending := co_pending out + 1 \<rparr>"
    have n1: "narrowed r1" "rg_low r1 \<le> HALF" "HALF \<le> rg_high r1" using less.prems True by (auto simp: narrowed_def r1_def)
    have "nat (FULL - (rg_high r1 - rg_low r1)) < nat (FULL - (rg_high r - rg_low r))"
      using less.prems n1 by (auto simp: narrowed_def r1_def)
    from less.hyps [OF this n1, of out1] obtain r' out' es' where
      rest: "narrowMiddle r1 out1 = Some (r', out')" "followed readMiddle r1 out1 r' out' es'" "wide r'"
        "co_pending out1 \<le> length es' + co_pending out'" by blast
    have "narrowMiddle r out = Some (r', out')"
      using True rest(1) by (simp add: narrowMiddle.simps [of r] r1_def out1_def)
    moreover have "followed readMiddle r out r' out' ([] @ es')"
    proof (rule followed_step [where ?r1.0 = r1 and offset = QUARTER and ?out1.0 = out1])
      show "readMiddle r v inp = readMiddle r1 ((v - QUARTER) * 2 + of_bool b) inp'" if "readBit inp = Inr (b, inp')" for v inp b inp'
        using that True by (simp add: readMiddle.simps [of r] r1_def)
      show "\<exists>b. (window ([] @ T) (co_pending out) - QUARTER) * 2 + of_bool b = window T (co_pending out1)
        \<and> drop (48 + co_pending out) ([] @ T) = b # drop (48 + co_pending out1) T"
        if "48 + co_pending out1 \<le> length T" for T
        using window_owe [of "co_pending out" T] that Cons_nth_drop_Suc [of "48 + co_pending out" T]
        by (intro exI [of _ "T ! (48 + co_pending out)"]) (simp add: out1_def)
    qed (use rest in \<open>simp_all add: r1_def out1_def\<close>)
    ultimately show ?thesis using rest(3,4) by (auto simp: out1_def intro!: exI [of _ r'])
  qed
qed

section \<open>Symbols\<close>

text \<open>A model every byte string of the size limit keeps: one count per symbol, each positive, few in all.\<close>

definition good_model :: "coder_model \<Rightarrow> bool" where
  "good_model m \<longleftrightarrow> length (md_counts m) = SYMBOLS \<and> (\<forall>c\<in>set (md_counts m). 1 \<le> c) \<and> md_total m = sum_list (md_counts m)"

lemma good_newCoderModel: "good_model newCoderModel"
  by (simp add: good_model_def newCoderModel_def sum_list_replicate)

lemma good_updateModel:
  assumes "good_model m" "symbol < SYMBOLS"
  shows "good_model (updateModel m symbol)" "md_total (updateModel m symbol) = md_total m + 1"
proof -
  let ?c = "md_counts m"
  have s: "symbol < length ?c" using assms by (simp add: good_model_def)
  have "sum_list (?c[symbol := ?c ! symbol + 1]) = sum_list ?c + 1"
    using s arg_cong [OF id_take_nth_drop [OF s], of sum_list] by (simp add: upd_conv_take_nth_drop)
  moreover have "\<forall>c\<in>set (?c[symbol := ?c ! symbol + 1]). 1 \<le> c"
    using assms(1) s set_update_subset_insert [of ?c symbol "?c ! symbol + 1"] by (fastforce simp: good_model_def dest: nth_mem)
  ultimately show "good_model (updateModel m symbol)"
    using assms s by (simp add: good_model_def updateModel_def countOf_def)
  show "md_total (updateModel m symbol) = md_total m + 1" by (simp add: updateModel_def)
qed

text \<open>The cuts of a range below each symbol.\<close>

definition below :: "coder_model \<Rightarrow> nat \<Rightarrow> int" where
  "below m k = sum_list (take k (md_counts m))"

lemma below_Suc: "good_model m \<Longrightarrow> k < SYMBOLS \<Longrightarrow> below m (Suc k) = below m k + countOf m k"
  by (simp add: below_def countOf_def good_model_def take_Suc_conv_app_nth)

lemma below_bounds:
  assumes "good_model m"
  shows "0 \<le> below m k" and "k < j \<Longrightarrow> j \<le> SYMBOLS \<Longrightarrow> below m k < below m j" and "below m k \<le> md_total m"
proof -
  have nonneg: "0 \<le> sum_list xs" if "set xs \<subseteq> set (md_counts m)" for xs
    using that assms by (intro sum_list_nonneg) (force simp: good_model_def)
  show "0 \<le> below m k" by (simp add: below_def nonneg set_take_subset)
  have "md_total m = below m k + sum_list (drop k (md_counts m))"
    using assms by (simp add: below_def good_model_def sum_list_append [symmetric] del: sum_list_append)
  then show "below m k \<le> md_total m" using nonneg [OF set_drop_subset] by simp
  assume "k < j" "j \<le> SYMBOLS"
  then show "below m k < below m j"
  proof (induction j)
    case (Suc j)
    have "1 \<le> countOf m j" using assms Suc.prems(2) by (simp add: good_model_def countOf_def)
    with Suc below_Suc [OF assms, of j] show ?case by (cases "k = j") auto
  qed simp
qed

definition cut_at :: "coder_model \<Rightarrow> coder_range \<Rightarrow> nat \<Rightarrow> int" where
  "cut_at m r k = rg_low r + floorShare (rg_high r - rg_low r) (below m k) (md_total m)"

lemma share_cuts: "good_model m \<Longrightarrow> k < SYMBOLS \<Longrightarrow> share m r (below m k) (countOf m k) = \<lparr> rg_low = cut_at m r k, rg_high = cut_at m r (Suc k) \<rparr>"
  by (simp add: share_def cut_at_def below_Suc Let_def)

lemma subRange_cuts: "good_model m \<Longrightarrow> k < SYMBOLS \<Longrightarrow> subRange m r k = \<lparr> rg_low = cut_at m r k, rg_high = cut_at m r (Suc k) \<rparr>"
  using share_cuts by (simp add: subRange_def below_def)

lemma wide_width: "wide r \<Longrightarrow> 2 ^ 46 \<le> rg_high r - rg_low r \<and> rg_high r - rg_low r \<le> 2 ^ 48"
  by (auto simp: wide_def narrowed_def)

lemma cuts_increase:
  assumes "good_model m" "wide r" "md_total m \<le> 2 ^ 15" "k < j" "j \<le> SYMBOLS"
  shows "cut_at m r k < cut_at m r j"
  using doubles.cut_mono [OF below_bounds(1,2) [OF assms(1)] below_bounds(3) [OF assms(1)] assms(3)] assms wide_width [OF assms(2)]
  by (simp add: cut_at_def)

lemma cuts_inside:
  assumes "good_model m" "wide r" "md_total m \<le> 2 ^ 15" "k \<le> SYMBOLS"
  shows "rg_low r \<le> cut_at m r k" "cut_at m r k \<le> rg_high r"
proof -
  have "0 < md_total m" using below_bounds(1,2,3) [OF assms(1)] by (smt (verit) zero_less_numeral order_refl)
  from doubles.cut_bounds [OF below_bounds(1,3) [OF assms(1)] this assms(3), of "rg_high r - rg_low r" k] wide_width [OF assms(2)]
  show "rg_low r \<le> cut_at m r k" "cut_at m r k \<le> rg_high r" by (auto simp: cut_at_def)
qed

lemma subRange_narrowed:
  assumes "good_model m" "wide r" "md_total m \<le> 2 ^ 15" "k < SYMBOLS"
  shows "narrowed (subRange m r k)" and "inside (subRange m r k) v \<Longrightarrow> inside r v"
  using cuts_inside [OF assms(1,2,3), of k] cuts_inside [OF assms(1,2,3), of "Suc k"] cuts_increase [OF assms(1,2,3), of k "Suc k"] assms
  by (auto simp: subRange_cuts narrowed_def inside_def wide_def)

text \<open>The walk finds the one symbol whose cuts hold the value.\<close>

lemma findLoop_finds:
  assumes "good_model m" "wide r" "md_total m \<le> 2 ^ 15" "symbol < SYMBOLS" "inside (subRange m r symbol) v" "k \<le> symbol"
  shows "findLoop m r v k (below m k) (drop k (md_counts m)) = (symbol, subRange m r symbol)"
  using assms(6)
proof (induction "symbol - k" arbitrary: k)
  case (0 k)
  then have k: "k = symbol" by simp
  have d: "drop symbol (md_counts m) = countOf m symbol # drop (Suc symbol) (md_counts m)"
    using assms(1,4) by (simp add: good_model_def countOf_def Cons_nth_drop_Suc)
  from assms(4,5) show ?case unfolding k
    by (auto simp: d share_cuts [OF assms(1,4)] subRange_cuts [OF assms(1,4)] inside_def)
next
  case (Suc n k)
  then have k: "k < symbol" "k < SYMBOLS" "k < END_OF_DATA" using assms(4) by simp_all
  have d: "drop k (md_counts m) = countOf m k # drop (Suc k) (md_counts m)"
    using assms(1) k by (simp add: good_model_def countOf_def Cons_nth_drop_Suc)
  have "cut_at m r (Suc k) \<le> cut_at m r symbol"
    using cuts_increase [OF assms(1,2,3), of "Suc k" symbol] k assms(4) by (cases "Suc k = symbol") auto
  with assms(5) have "\<not> v < cut_at m r (Suc k)" by (simp add: subRange_cuts [OF assms(1,4)] inside_def)
  moreover have "findLoop m r v (Suc k) (below m (Suc k)) (drop (Suc k) (md_counts m)) = (symbol, subRange m r symbol)"
    using Suc.hyps(1) [of "Suc k"] Suc.hyps(2) k(1) by simp
  ultimately show ?case using k by (simp add: d share_cuts [OF assms(1)] below_Suc [OF assms(1)])
qed

lemma findSymbol_finds:
  assumes "good_model m" "wide r" "md_total m \<le> 2 ^ 15" "symbol < SYMBOLS" "inside (subRange m r symbol) v"
  shows "findSymbol m r v = (symbol, subRange m r symbol)"
  using findLoop_finds [OF assms, of 0] by (simp add: findSymbol_def below_def)

section \<open>The whole stream\<close>

lemma final_inside:
  assumes "wide r" "46 \<le> length Z"
  shows "inside r (window ((\<not> rg_low r \<le> QUARTER) # replicate (Suc p) (rg_low r \<le> QUARTER) @ Z) p)"
proof -
  let ?b = "\<not> rg_low r \<le> QUARTER"
  define x where "x = num (take 46 Z)"
  have x: "0 \<le> x" "x < 2 ^ 46" using num_bounds [of "take 46 Z"] assms(2) by (simp_all add: x_def)
  have n: "48 + p = Suc (Suc p + 46)" by simp
  have "take (48 + p) (?b # replicate (Suc p) (\<not> ?b) @ Z) = (?b # replicate (Suc p) (\<not> ?b)) @ take 46 Z"
    by (simp only: n take_Suc_Cons) (simp del: replicate_Suc)
  then have "num (take (48 + p) (?b # replicate (Suc p) (\<not> ?b) @ Z)) = num (?b # replicate (Suc p) (\<not> ?b)) * 2 ^ 46 + x"
    using assms(2) by (simp only: num_append x_def) simp
  moreover have "num (?b # replicate (Suc p) (\<not> ?b)) = (if ?b then 2 * 2 ^ p else 2 * 2 ^ p - 1)"
    unfolding num_Cons num_replicate by simp
  ultimately have "window (?b # replicate (Suc p) (\<not> ?b) @ Z) p = (if ?b then HALF else QUARTER) + x"
    by (simp add: window_def algebra_simps del: replicate_Suc)
  with assms(1) x show ?thesis by (auto simp: wide_def inside_def simp del: replicate_Suc)
qed

text \<open>One coded symbol, both loops in one.\<close>

definition coded ::
    "coder_model \<Rightarrow> coder_range \<Rightarrow> nat \<Rightarrow> coder_range \<Rightarrow> nat \<Rightarrow> bool list \<Rightarrow> nat \<Rightarrow> bool" where
  "coded m r p r2 p2 es symbol \<longleftrightarrow> (\<forall>T. 48 + p2 \<le> length T \<longrightarrow> inside r2 (window T p2) \<longrightarrow>
     inside r (window (es @ T) p) \<and> findSymbol m r (window (es @ T) p) = (symbol, subRange m r symbol) \<and>
     (\<forall>inp. input_bits inp = drop (48 + p) (es @ T) \<longrightarrow>
        (\<exists>r1 v1 inp1 inp2. readHalves (subRange m r symbol) (window (es @ T) p) inp = Some (Inr (r1, v1, inp1))
          \<and> readMiddle r1 v1 inp1 = Some (Inr (r2, window T p2, inp2)) \<and> input_bits inp2 = drop (48 + p2) T)))"

lemma symbol_coded:
  assumes "good_model m" "wide r" "md_total m \<le> 2 ^ 15" "symbol < SYMBOLS"
  shows "\<exists>r1 out1 r2 out2 es. narrowHalves (subRange m r symbol) out = Some (r1, out1) \<and> narrowMiddle r1 out1 = Some (r2, out2)
    \<and> wide r2 \<and> co_bits out2 = co_bits out @ es \<and> co_pending out \<le> length es + co_pending out2
    \<and> coded m r (co_pending out) r2 (co_pending out2) es symbol"
proof -
  let ?s = "subRange m r symbol"
  note sub = subRange_narrowed [OF assms]
  from narrowHalves_followed [OF sub(1), of out] obtain r1 out1 es1 where
    h: "narrowHalves ?s out = Some (r1, out1)" "followed readHalves ?s out r1 out1 es1" "narrowed r1" "rg_low r1 \<le> HALF" "HALF \<le> rg_high r1"
      "co_pending out \<le> length es1 + co_pending out1" by blast
  from narrowMiddle_followed [OF h(3-5), of out1] obtain r2 out2 es2 where
    m: "narrowMiddle r1 out1 = Some (r2, out2)" "followed readMiddle r1 out1 r2 out2 es2" "wide r2" "co_pending out1 \<le> length es2 + co_pending out2" by blast
  have "coded m r (co_pending out) r2 (co_pending out2) (es1 @ es2) symbol"
    unfolding coded_def append_assoc
  proof (intro allI impI)
    fix T
    assume T: "48 + co_pending out2 \<le> length T" and v2: "inside r2 (window T (co_pending out2))"
    have T1: "48 + co_pending out1 \<le> length (es2 @ T)" using T m(4) by simp
    from m(2) T v2 have b: "inside r1 (window (es2 @ T) (co_pending out1))" unfolding followed_def by blast
    with h(2) T1 have ins: "inside ?s (window (es1 @ es2 @ T) (co_pending out))" unfolding followed_def by blast
    have "\<exists>r1 v1 inp1 inp2. readHalves ?s (window (es1 @ es2 @ T) (co_pending out)) inp = Some (Inr (r1, v1, inp1))
          \<and> readMiddle r1 v1 inp1 = Some (Inr (r2, window T (co_pending out2), inp2)) \<and> input_bits inp2 = drop (48 + co_pending out2) T"
      if inp: "input_bits inp = drop (48 + co_pending out) (es1 @ es2 @ T)" for inp
    proof -
      from h(2) T1 inp obtain inp1 where
        i1: "readHalves ?s (window (es1 @ es2 @ T) (co_pending out)) inp = Some (Inr (r1, window (es2 @ T) (co_pending out1), inp1))"
          "input_bits inp1 = drop (48 + co_pending out1) (es2 @ T)"
        unfolding followed_def by blast
      from m(2) T i1(2) obtain inp2 where
        "readMiddle r1 (window (es2 @ T) (co_pending out1)) inp1 = Some (Inr (r2, window T (co_pending out2), inp2))"
          "input_bits inp2 = drop (48 + co_pending out2) T"
        unfolding followed_def by blast
      with i1(1) show ?thesis by blast
    qed
    with findSymbol_finds [OF assms ins] sub(2) [OF ins] show "inside r (window (es1 @ es2 @ T) (co_pending out))
      \<and> findSymbol m r (window (es1 @ es2 @ T) (co_pending out)) = (symbol, ?s)
      \<and> (\<forall>inp. input_bits inp = drop (48 + co_pending out) (es1 @ es2 @ T) \<longrightarrow>
        (\<exists>r1 v1 inp1 inp2. readHalves ?s (window (es1 @ es2 @ T) (co_pending out)) inp = Some (Inr (r1, v1, inp1))
          \<and> readMiddle r1 v1 inp1 = Some (Inr (r2, window T (co_pending out2), inp2)) \<and> input_bits inp2 = drop (48 + co_pending out2) T))"
      by blast
  qed
  moreover have "co_bits out2 = co_bits out @ es1 @ es2" using h(2) m(2) by (simp add: followed_def)
  moreover have "co_pending out \<le> length (es1 @ es2) + co_pending out2" using h(6) m(4) by simp
  ultimately show ?thesis using h(1) m(1,3)
    by (intro exI [of _ r1] exI [of _ out1] exI [of _ r2] exI [of _ out2] exI [of _ "es1 @ es2"] conjI)
qed

text \<open>The whole stream is read back, as long as the counts stay within the doubles' reach.\<close>

definition decodes :: "coder_model \<Rightarrow> coder_range \<Rightarrow> nat \<Rightarrow> bool list \<Rightarrow> bytes \<Rightarrow> bytes \<Rightarrow> bool" where
  "decodes m r p es acc result \<longleftrightarrow> (\<forall>Z. 48 \<le> length Z \<longrightarrow> inside r (window (es @ Z) p) \<and>
     (\<forall>inp. input_bits inp = drop (48 + p) (es @ Z) \<longrightarrow> decodeLoop m r (window (es @ Z) p) inp acc = Some (Inr result)))"

lemma decodes_end:
  assumes "coded m r p r2 p2 es END_OF_DATA" "wide r2"
  shows "decodes m r p (es @ (\<not> rg_low r2 \<le> QUARTER) # replicate (Suc p2) (rg_low r2 \<le> QUARTER)) acc acc"
  unfolding decodes_def
proof (intro allI impI)
  let ?low = "rg_low r2 \<le> QUARTER"
  fix Z :: "bool list" assume Z: "48 \<le> length Z"
  let ?T = "(\<not> ?low) # replicate (Suc p2) ?low @ Z"
  have eq: "(es @ (\<not> ?low) # replicate (Suc p2) ?low) @ Z = es @ ?T" by simp
  have "48 + p2 \<le> length ?T" "inside r2 (window ?T p2)" using Z final_inside [OF assms(2), of Z p2] by simp_all
  with assms(1) have f: "inside r (window (es @ ?T) p)" "findSymbol m r (window (es @ ?T) p) = (END_OF_DATA, subRange m r END_OF_DATA)"
    unfolding coded_def by blast+
  from f(2) have "decodeLoop m r (window (es @ ?T) p) inp acc = Some (Inr acc)" for inp
    by (simp add: decodeLoop.simps [of m])
  with f(1) show "inside r (window ((es @ (\<not> ?low) # replicate (Suc p2) ?low) @ Z) p) \<and>
     (\<forall>inp. input_bits inp = drop (48 + p) ((es @ (\<not> ?low) # replicate (Suc p2) ?low) @ Z) \<longrightarrow>
       decodeLoop m r (window ((es @ (\<not> ?low) # replicate (Suc p2) ?low) @ Z) p) inp acc = Some (Inr acc))"
    unfolding eq by blast
qed

lemma decodes_symbol:
  assumes "coded m r p r2 p2 es symbol" "p2 \<le> length es'" "symbol < END_OF_DATA" "length acc < MAX_INVOICE_DATA_LENGTH"
    and "decodes (updateModel m symbol) r2 p2 es' (acc @ [of_nat symbol]) result"
  shows "decodes m r p (es @ es') acc result"
  unfolding decodes_def append_assoc
proof (intro allI impI)
  fix Z :: "bool list" assume Z: "48 \<le> length Z"
  with assms(2) have T: "48 + p2 \<le> length (es' @ Z)" by simp
  from assms(5) Z have r2: "inside r2 (window (es' @ Z) p2)" unfolding decodes_def by blast
  with assms(1) T have f: "inside r (window (es @ es' @ Z) p)" "findSymbol m r (window (es @ es' @ Z) p) = (symbol, subRange m r symbol)"
    unfolding coded_def by blast+
  have "decodeLoop m r (window (es @ es' @ Z) p) inp acc = Some (Inr result)" if inp: "input_bits inp = drop (48 + p) (es @ es' @ Z)" for inp
  proof -
    from assms(1) T r2 inp obtain r1 v1 inp1 inp2 where
      "readHalves (subRange m r symbol) (window (es @ es' @ Z) p) inp = Some (Inr (r1, v1, inp1))"
      "readMiddle r1 v1 inp1 = Some (Inr (r2, window (es' @ Z) p2, inp2))" "input_bits inp2 = drop (48 + p2) (es' @ Z)"
      unfolding coded_def by blast
    moreover from assms(5) Z this(3) have "decodeLoop (updateModel m symbol) r2 (window (es' @ Z) p2) inp2 (acc @ [of_nat symbol]) = Some (Inr result)"
      unfolding decodes_def by blast
    ultimately show ?thesis using f(2) assms(3,4) by (simp add: decodeLoop.simps [of m])
  qed
  with f(1) show "inside r (window (es @ es' @ Z) p) \<and>
     (\<forall>inp. input_bits inp = drop (48 + p) (es @ es' @ Z) \<longrightarrow> decodeLoop m r (window (es @ es' @ Z) p) inp acc = Some (Inr result))"
    by blast
qed

lemma encodeLoop_decodes:
  assumes "good_model m" "wide r" "md_total m + int (length symbols) \<le> 2 ^ 15" "\<forall>s\<in>set symbols. s < END_OF_DATA"
    and "length acc + length symbols \<le> MAX_INVOICE_DATA_LENGTH"
  shows "\<exists>r' out' es. encodeLoop (symbols @ [END_OF_DATA]) m r out = Some (r', out')
    \<and> co_bits (emit (\<not> rg_low r' \<le> QUARTER) (out'\<lparr> co_pending := co_pending out' + 1 \<rparr>)) = co_bits out @ es
    \<and> co_pending out \<le> length es \<and> decodes m r (co_pending out) es acc (acc @ map of_nat symbols)"
  using assms
proof (induction symbols arbitrary: m r out acc)
  case Nil
  then have t: "md_total m \<le> 2 ^ 15" by simp
  from symbol_coded [OF Nil.prems(1,2) t, of END_OF_DATA out] obtain r1 out1 r2 out2 es where
    e: "narrowHalves (subRange m r END_OF_DATA) out = Some (r1, out1)" "narrowMiddle r1 out1 = Some (r2, out2)" "wide r2"
      "co_bits out2 = co_bits out @ es" "co_pending out \<le> length es + co_pending out2"
      "coded m r (co_pending out) r2 (co_pending out2) es END_OF_DATA" by auto
  show ?case
    by (rule exI [of _ r2], rule exI [of _ out2],
        rule exI [of _ "es @ (\<not> rg_low r2 \<le> QUARTER) # replicate (Suc (co_pending out2)) (rg_low r2 \<le> QUARTER)"])
       (use e decodes_end [OF e(6,3), of acc] in \<open>simp add: emit_def\<close>)
next
  case (Cons symbol symbols)
  then have t: "md_total m \<le> 2 ^ 15" "symbol < SYMBOLS" "symbol < END_OF_DATA" by simp_all
  from symbol_coded [OF Cons.prems(1,2) t(1,2), of out] obtain r1 out1 r2 out2 es where
    e: "narrowHalves (subRange m r symbol) out = Some (r1, out1)" "narrowMiddle r1 out1 = Some (r2, out2)" "wide r2"
      "co_bits out2 = co_bits out @ es" "co_pending out \<le> length es + co_pending out2"
      "coded m r (co_pending out) r2 (co_pending out2) es symbol" by blast
  let ?m = "updateModel m symbol" and ?acc = "acc @ [of_nat symbol]"
  have prems: "good_model ?m" "md_total ?m + int (length symbols) \<le> 2 ^ 15" "\<forall>s\<in>set symbols. s < END_OF_DATA"
    "length ?acc + length symbols \<le> MAX_INVOICE_DATA_LENGTH"
    using good_updateModel [OF Cons.prems(1) t(2)] Cons.prems(3-5) by simp_all
  from Cons.IH [OF prems(1) e(3) prems(2-4), of out2] obtain r' out' es' where
    r: "encodeLoop (symbols @ [END_OF_DATA]) ?m r2 out2 = Some (r', out')"
      "co_bits (emit (\<not> rg_low r' \<le> QUARTER) (out'\<lparr> co_pending := co_pending out' + 1 \<rparr>)) = co_bits out2 @ es'"
      "co_pending out2 \<le> length es'" "decodes ?m r2 (co_pending out2) es' ?acc (?acc @ map of_nat symbols)" by blast
  have "decodes m r (co_pending out) (es @ es') acc (?acc @ map of_nat symbols)"
    by (rule decodes_symbol [OF e(6) r(3) t(3) _ r(4)]) (use Cons.prems(5) in simp)
  then show ?case using e r t(3)
    by (intro exI [of _ r'] exI [of _ out'] exI [of _ "es @ es'"]) simp
qed

section \<open>Whole bytes\<close>

text \<open>\<^verbatim>\<open>toBytes\<close> sets the bits in place, which leaves them in order with zeros after them.\<close>

definition setBit :: "bytes \<Rightarrow> nat \<times> bool \<Rightarrow> bytes" where
  "setBit out = (\<lambda>(i, b). out[i div 8 := or (out ! (i div 8)) (push_bit (7 - i mod 8) (of_bool b))])"

lemma packBits_setBit: "packBits bs = foldl setBit (zero_bytes ((length bs + 7) div 8)) (entries bs)"
  unfolding packBits_def setBit_def [abs_def] ..

lemma entries_snoc: "entries (bs @ [b]) = entries bs @ [(length bs, b)]"
  by (simp add: entries_def)

lemma bytes_bits_setBit:
  assumes "i < 8 * length out" "j < 8 * length out"
  shows "bytes_bits (setBit out (j, b)) ! i = (bytes_bits out ! i \<or> i = j \<and> b)"
proof (cases "i div 8 = j div 8")
  case True
  have ij: "i = j \<longleftrightarrow> i mod 8 = j mod 8"
    using True by (metis div_mult_mod_eq)
  have "7 - j mod 8 \<le> 7 - i mod 8 \<and> 7 - i mod 8 - (7 - j mod 8) = 0 \<longleftrightarrow> i mod 8 = j mod 8"
    using mod_less_divisor [of 8 i] mod_less_divisor [of 8 j] by linarith
  then have "bit (push_bit (7 - j mod 8) (of_bool b) :: byte) (7 - i mod 8) \<longleftrightarrow> i = j \<and> b"
    by (auto simp: bit_push_bit_iff bit_of_bool_iff ij)
  with True assms show ?thesis
    by (simp add: setBit_def nth_bytes_bits bit_or_iff)
next
  case False
  with assms show ?thesis by (auto simp: setBit_def nth_bytes_bits)
qed

lemma length_setBit [simp]: "length (setBit out e) = length out"
  by (simp add: setBit_def split: prod.split)

lemma setBits_bits:
  assumes "length bs \<le> 8 * n"
  shows "length (foldl setBit (zero_bytes n) (entries bs)) = n
    \<and> (\<forall>i < 8 * n. bytes_bits (foldl setBit (zero_bytes n) (entries bs)) ! i = (i < length bs \<and> bs ! i))"
  using assms
proof (induction bs rule: rev_induct)
  case Nil
  show ?case by (simp add: nth_bytes_bits entries_def)
next
  case (snoc b bs)
  then show ?case by (auto simp: entries_snoc bytes_bits_setBit nth_append)
qed

lemma packBits_bits: "\<exists>k < 8. bytes_bits (packBits bs) = bs @ replicate k False"
proof -
  let ?n = "(length bs + 7) div 8"
  have le: "length bs \<le> 8 * ?n" "8 * ?n < length bs + 8" by simp_all
  from setBits_bits [OF le(1)] have n: "length (packBits bs) = ?n"
    and i: "\<And>i. i < 8 * ?n \<Longrightarrow> bytes_bits (packBits bs) ! i = (i < length bs \<and> bs ! i)" by (auto simp: packBits_setBit)
  have "bytes_bits (packBits bs) = bs @ replicate (8 * ?n - length bs) False"
    by (rule nth_equalityI) (use n i le in \<open>auto simp: nth_append\<close>)
  with le(2) show ?thesis by (intro exI [of _ "8 * ?n - length bs"]) auto
qed

section \<open>The coder is lossless\<close>

lemma input_bits_new: "input_bits (newCoderInput bs) = bytes_bits bs @ replicate 48 False"
  by (simp add: input_bits_def newCoderInput_def)

lemma wide_full: "wide \<lparr> rg_low = 0, rg_high = FULL \<rparr>"
  by (simp add: wide_def narrowed_def)

lemma arDecompress_arEncompress:
  assumes "length d \<le> MAX_INVOICE_DATA_LENGTH"
  shows "\<exists>compressed. arEncompress d = Some compressed \<and> arDecompress compressed = Some (Inr d)"
proof -
  let ?r = "\<lparr> rg_low = 0, rg_high = FULL \<rparr>" and ?out = "\<lparr> co_bits = [], co_pending = 0 \<rparr>"
  have "md_total newCoderModel + int (length (map unat d)) \<le> 2 ^ 15" "\<forall>s\<in>set (map unat d). s < END_OF_DATA"
    "length ([] :: bytes) + length (map unat d) \<le> MAX_INVOICE_DATA_LENGTH"
    using assms by (simp_all add: newCoderModel_def byte_less_256)
  from encodeLoop_decodes [OF good_newCoderModel wide_full this, of ?out] obtain r' out' es where
    e: "encodeLoop (map unat d @ [END_OF_DATA]) newCoderModel ?r ?out = Some (r', out')"
      "co_bits (emit (\<not> rg_low r' \<le> QUARTER) (out'\<lparr> co_pending := co_pending out' + 1 \<rparr>)) = es"
    and d: "decodes newCoderModel ?r 0 es [] (map of_nat (map unat d))" by auto
  from packBits_bits obtain k where k: "bytes_bits (packBits es) = es @ replicate k False" by blast
  let ?Z = "replicate k False @ replicate 48 False"
  have bits: "input_bits (newCoderInput (packBits es)) = take 48 (es @ ?Z) @ drop 48 (es @ ?Z)"
    by (simp only: input_bits_new k append_assoc append_take_drop_id)
  have "length (take 48 (es @ ?Z)) = 48" by simp
  with readBits_bits [OF bits, of 0] obtain inp where
    i: "readBits 48 0 (newCoderInput (packBits es)) = Inr (window (es @ ?Z) 0, inp)" "input_bits inp = drop 48 (es @ ?Z)"
    by (auto simp: window_def)
  from d i(2) have "decodeLoop newCoderModel ?r (window (es @ ?Z) 0) inp [] = Some (Inr d)"
    unfolding decodes_def by (auto simp: map_idI)
  with i(1) e show ?thesis by (simp add: arEncompress_def arDecompress_def)
qed

text \<open>C12 The coder is lossless. The decoder reads back every byte string within fiber's size limit from what
  the encoder writes for it, and neither loops for ever.\<close>

theorem coder_roundtrip:
  assumes "length d \<le> MAX_INVOICE_DATA_LENGTH"
  shows "\<exists>compressed. arEncompress d = Some compressed \<and> arDecompress compressed = Some (Inr d)"
  using assms by (rule arDecompress_arEncompress)

lemma coder_roundtrip_witness:
  "\<exists>compressed. arEncompress [0, 255, 7] = Some compressed \<and> arDecompress compressed = Some (Inr [0, 255, 7])"
  by (rule coder_roundtrip) simp

section \<open>The decoder returns on any input\<close>

text \<open>What a reading loop leaves, when it does not run out of input.\<close>

definition read_to :: "(coder_range \<Rightarrow> bool) \<Rightarrow> (coder_range \<times> int \<times> coder_input) res option \<Rightarrow> bool" where
  "read_to P x = (case x of None \<Rightarrow> False | Some (Inl e) \<Rightarrow> True | Some (Inr (r, v, inp)) \<Rightarrow> P r \<and> inside r v)"

lemma readHalves_returns:
  assumes "narrowed r" "inside r v"
  shows "read_to (\<lambda>r. narrowed r \<and> rg_low r \<le> HALF \<and> HALF \<le> rg_high r) (readHalves r v inp)"
  using assms
proof (induction "nat (FULL - (rg_high r - rg_low r))" arbitrary: r v inp rule: less_induct)
  case less
  show ?case
  proof (cases "rg_high r < HALF \<or> rg_low r > HALF")
    case False
    have "readHalves r v inp = Some (Inr (r, v, inp))" by (subst readHalves.simps) (rule if_not_P [OF False])
    with False less.prems show ?thesis by (simp add: read_to_def)
  next
    case True
    define offset where "offset = (if rg_low r > HALF then HALF else 0)"
    define r1 where "r1 = \<lparr> rg_low = (rg_low r - offset) * 2, rg_high = (rg_high r - offset) * 2 \<rparr>"
    have n1: "narrowed r1" using less.prems True by (auto simp: narrowed_def r1_def offset_def)
    have "nat (FULL - (rg_high r1 - rg_low r1)) < nat (FULL - (rg_high r - rg_low r))"
      using less.prems n1 by (auto simp: narrowed_def r1_def)
    note IH = less.hyps [OF this n1]
    have in1: "inside r1 ((v - offset) * 2 + of_bool b)" for b using less.prems(2) by (cases b) (auto simp: inside_def r1_def)
    have "readHalves r v inp = (case readBit inp of Inl e \<Rightarrow> Some (Inl e)
        | Inr (b, inp') \<Rightarrow> readHalves r1 ((v - offset) * 2 + of_bool b) inp')"
      by (subst readHalves.simps) (simp only: if_P [OF True] Let_def offset_def r1_def)
    with IH [OF in1] show ?thesis by (simp add: read_to_def split: sum.split prod.split)
  qed
qed

lemma readMiddle_returns:
  assumes "narrowed r" "rg_low r \<le> HALF" "HALF \<le> rg_high r" "inside r v"
  shows "read_to wide (readMiddle r v inp)"
  using assms
proof (induction "nat (FULL - (rg_high r - rg_low r))" arbitrary: r v inp rule: less_induct)
  case less
  show ?case
  proof (cases "rg_low r > QUARTER \<and> rg_high r < THREE_QUARTERS")
    case False
    have "readMiddle r v inp = Some (Inr (r, v, inp))" by (subst readMiddle.simps) (rule if_not_P [OF False])
    with False less.prems show ?thesis by (auto simp: read_to_def wide_def)
  next
    case True
    define r1 where "r1 = \<lparr> rg_low = (rg_low r - QUARTER) * 2, rg_high = (rg_high r - QUARTER) * 2 \<rparr>"
    have n1: "narrowed r1" "rg_low r1 \<le> HALF" "HALF \<le> rg_high r1" using less.prems True by (auto simp: narrowed_def r1_def)
    have "nat (FULL - (rg_high r1 - rg_low r1)) < nat (FULL - (rg_high r - rg_low r))"
      using less.prems n1 by (auto simp: narrowed_def r1_def)
    note IH = less.hyps [OF this n1]
    have in1: "inside r1 ((v - QUARTER) * 2 + of_bool b)" for b using less.prems(4) by (cases b) (auto simp: inside_def r1_def)
    have "readMiddle r v inp = (case readBit inp of Inl e \<Rightarrow> Some (Inl e)
        | Inr (b, inp') \<Rightarrow> readMiddle r1 ((v - QUARTER) * 2 + of_bool b) inp')"
      by (subst readMiddle.simps) (simp only: if_P [OF True] r1_def)
    with IH [OF in1] show ?thesis by (simp add: read_to_def split: sum.split prod.split)
  qed
qed

text \<open>Some symbol is always found, the end marker's when no byte's.\<close>

lemma findLoop_symbol:
  assumes "good_model m" "k \<le> END_OF_DATA"
  shows "\<exists>s < SYMBOLS. findLoop m r v k (below m k) (drop k (md_counts m)) = (s, subRange m r s)
    \<and> (s \<noteq> END_OF_DATA \<longrightarrow> inside (subRange m r s) v)"
  using assms(2)
proof (induction "END_OF_DATA - k" arbitrary: k)
  case (0 k)
  then have k: "k = END_OF_DATA" by simp
  have "drop END_OF_DATA (md_counts m) = countOf m END_OF_DATA # drop SYMBOLS (md_counts m)"
    using assms(1) Cons_nth_drop_Suc [of END_OF_DATA "md_counts m"] by (simp add: good_model_def countOf_def)
  then show ?case unfolding k
    by (intro exI [of _ END_OF_DATA]) (simp add: share_cuts [OF assms(1)] subRange_cuts [OF assms(1)])
next
  case (Suc n k)
  then have k: "k < END_OF_DATA" "k < SYMBOLS" by simp_all
  have d: "drop k (md_counts m) = countOf m k # drop (Suc k) (md_counts m)"
    using assms(1) k by (simp add: good_model_def countOf_def Cons_nth_drop_Suc)
  show ?case
  proof (cases "inside (subRange m r k) v")
    case True
    with k show ?thesis by (intro exI [of _ k]) (simp add: d inside_def share_cuts [OF assms(1)] subRange_cuts [OF assms(1)])
  next
    case False
    with k have "findLoop m r v k (below m k) (drop k (md_counts m)) = findLoop m r v (Suc k) (below m (Suc k)) (drop (Suc k) (md_counts m))"
      by (auto simp: d inside_def share_cuts [OF assms(1)] subRange_cuts [OF assms(1)] below_Suc [OF assms(1)])
    with Suc.hyps(1) [of "Suc k"] Suc.hyps(2) k(1) show ?thesis by simp
  qed
qed

lemma findSymbol_symbol:
  assumes "good_model m"
  shows "\<exists>s < SYMBOLS. findSymbol m r v = (s, subRange m r s) \<and> (s \<noteq> END_OF_DATA \<longrightarrow> inside (subRange m r s) v)"
  using findLoop_symbol [OF assms, of 0] by (simp add: findSymbol_def below_def)

definition within_limit :: "bytes res option \<Rightarrow> bool" where
  "within_limit x = (case x of None \<Rightarrow> False | Some (Inl e) \<Rightarrow> True | Some (Inr d) \<Rightarrow> length d \<le> MAX_INVOICE_DATA_LENGTH)"

lemma decodeLoop_returns:
  assumes "good_model m" "md_total m = 257 + int (length out)" "wide r" "inside r v" "length out \<le> MAX_INVOICE_DATA_LENGTH"
  shows "within_limit (decodeLoop m r v inp out)"
  using assms
proof (induction "MAX_INVOICE_DATA_LENGTH - length out" arbitrary: m r v inp out rule: less_induct)
  case less
  have total: "md_total m \<le> 2 ^ 15" using less.prems(2,5) by simp
  from findSymbol_symbol [OF less.prems(1), of r v] obtain s where
    s: "s < SYMBOLS" "findSymbol m r v = (s, subRange m r s)" "s \<noteq> END_OF_DATA \<longrightarrow> inside (subRange m r s) v" by blast
  show ?case
  proof (cases "s = END_OF_DATA")
    case True
    with s less.prems(5) show ?thesis by (simp add: within_limit_def decodeLoop.simps [of m])
  next
    case False
    have run: "decodeLoop m r v inp out = (case readHalves (subRange m r s) v inp of
        None \<Rightarrow> None | Some (Inl e) \<Rightarrow> Some (Inl e)
      | Some (Inr (r1, v1, inp1)) \<Rightarrow> (case readMiddle r1 v1 inp1 of
            None \<Rightarrow> None | Some (Inl e) \<Rightarrow> Some (Inl e)
          | Some (Inr (r2, v2, inp2)) \<Rightarrow>
              if length out + 1 > MAX_INVOICE_DATA_LENGTH
              then Some (Inl (InvoiceErr ''compressed'' ''must decompress to at most 16384 bytes''))
              else decodeLoop (updateModel m s) r2 v2 inp2 (out @ [of_nat s])))"
      using False s(2) by (simp add: decodeLoop.simps [of m])
    have next_call: "within_limit (decodeLoop (updateModel m s) r2 v2 inp2 (out @ [of_nat s]))"
      if "wide r2" "inside r2 v2" "\<not> length out + 1 > MAX_INVOICE_DATA_LENGTH" for r2 v2 inp2
      by (rule less.hyps) (use that less.prems good_updateModel [OF less.prems(1) s(1)] in simp_all)
    from readHalves_returns [OF subRange_narrowed(1) [OF less.prems(1,3) total s(1)], of v inp] s(3) False
    have h: "read_to (\<lambda>r. narrowed r \<and> rg_low r \<le> HALF \<and> HALF \<le> rg_high r) (readHalves (subRange m r s) v inp)" by blast
    show ?thesis
    proof (cases "readHalves (subRange m r s) v inp")
      case None
      with h show ?thesis by (simp add: read_to_def)
    next
      case (Some x)
      show ?thesis
      proof (cases x)
        case (Inl e)
        with Some show ?thesis by (simp add: run within_limit_def)
      next
        case (Inr y)
        obtain r1 v1 inp1 where y: "y = (r1, v1, inp1)" by (cases y)
        with h Some Inr have n: "narrowed r1" "rg_low r1 \<le> HALF" "HALF \<le> rg_high r1" "inside r1 v1" by (simp_all add: read_to_def)
        from readMiddle_returns [OF this, of inp1] next_call show ?thesis
          unfolding run Some Inr y
          by (auto simp: read_to_def within_limit_def [of "Some (Inl _)"] split: option.splits sum.splits)
      qed
    qed
  qed
qed

lemma arDecompress_within_limit: "within_limit (arDecompress compressed)"
proof -
  have bits: "input_bits (newCoderInput compressed) = take 48 (input_bits (newCoderInput compressed)) @ drop 48 (input_bits (newCoderInput compressed))"
    by (rule append_take_drop_id [symmetric])
  define bs where "bs = take 48 (input_bits (newCoderInput compressed))"
  have len: "length bs = 48" by (simp add: bs_def input_bits_new)
  from readBits_bits [OF bits, of 0] obtain inp where
    "readBits 48 0 (newCoderInput compressed) = Inr (num bs, inp)" unfolding bs_def [symmetric] len by auto
  moreover have "inside \<lparr> rg_low = 0, rg_high = FULL \<rparr> (num bs)" using num_bounds [of bs] len by (simp add: inside_def)
  then have "within_limit (decodeLoop newCoderModel \<lparr> rg_low = 0, rg_high = FULL \<rparr> (num bs) inp [])"
    by (intro decodeLoop_returns good_newCoderModel wide_full) (simp_all add: newCoderModel_def)
  ultimately show ?thesis by (simp add: arDecompress_def)
qed

text \<open>The decoder always returns, on whatever bytes: with a refusal, or with data within fiber's size limit, so
  no string, however short, makes the device loop or fill its memory.\<close>

theorem decoder_returns: "within_limit (arDecompress compressed)"
  by (rule arDecompress_within_limit)

end
