(* ===== verification/Bech32mFacts.thy ===== *)
theory Bech32mFacts
  imports Bech32m CoderFacts
begin

text \<open>
  The envelope of an invoice has one form: the regrouping is a bijection between byte strings and the
  group lists it writes, and a string decodes exactly when it is the one encoded for its parts.
\<close>

section \<open>The checksum is linear\<close>

definition below_bit :: "nat \<Rightarrow> 32 word \<Rightarrow> bool" where
  "below_bit k w \<longleftrightarrow> (\<forall>n. bit w n \<longrightarrow> n < k)"

lemma below_bitI: "(\<And>n. bit w n \<Longrightarrow> n < k) \<Longrightarrow> below_bit k w"
  by (simp add: below_bit_def)

lemma below_bit_xor: "below_bit k a \<Longrightarrow> below_bit k b \<Longrightarrow> below_bit k (a XOR b)"
  by (auto simp: below_bit_def bit_xor_iff)

lemma below_bit_nat: "n < 2 ^ k \<Longrightarrow> below_bit k (of_nat n)"
proof (rule below_bitI)
  fix j assume n: "n < 2 ^ k" and b: "bit (of_nat n :: 32 word) j"
  from b have "bit n j" by (simp add: bit_of_nat_iff)
  moreover have "take_bit k n = n" using n by (simp add: take_bit_nat_eq_self)
  ultimately show "j < k" by (metis bit_take_bit_iff)
qed

definition feedback :: "32 word \<Rightarrow> 32 word" where
  "feedback c = (if bit c 25 then 0x3b6a57b2 else 0) XOR (if bit c 26 then 0x26508e6d else 0)
     XOR (if bit c 27 then 0x1ea119fa else 0) XOR (if bit c 28 then 0x3d4233dd else 0) XOR (if bit c 29 then 0x2a1462b3 else 0)"

lemma and_one_bit: "(drop_bit i w AND 1 \<noteq> (0 :: 32 word)) = bit w i"
  by (simp add: and_one_eq bit_iff_odd_drop_bit odd_iff_mod_2_eq_one)

lemma polymodStep_eq: "polymodStep c v = push_bit 5 (c AND 0x1ffffff) XOR feedback c XOR v"
proof -
  have x: "(if b then a XOR g else a) = a XOR (if b then g else 0)" for b and a g :: "32 word" by simp
  show ?thesis
    unfolding polymodStep_def Let_def and_one_bit feedback_def GENERATOR_def
    by (simp add: entries_def bit_drop_bit_eq x xor.assoc xor.left_commute xor.commute)
qed

lemma feedback_xor: "feedback (a XOR b) = feedback a XOR feedback b"
proof -
  have x: "(if p \<noteq> q then g else 0) = (if p then g else 0) XOR (if q then g else 0)" for p q and g :: "32 word" by simp
  show ?thesis unfolding feedback_def bit_xor_iff x by (simp only: xor.assoc xor.left_commute xor.commute)
qed

lemma feedback_low: "below_bit 25 d \<Longrightarrow> feedback d = 0"
  by (force simp: feedback_def below_bit_def)

lemma mask25: "(0x1ffffff :: 32 word) = mask 25"
  by (simp add: mask_eq_exp_minus_1)

lemma polymodStep_xor:
  assumes "below_bit 25 d"
  shows "polymodStep (c XOR d) v = polymodStep c 0 XOR (push_bit 5 d XOR v)"
proof -
  have "(c XOR d) AND 0x1ffffff = (c AND 0x1ffffff) XOR d"
    unfolding mask25 by (rule bit_word_eqI) (use assms in \<open>auto simp: bit_and_iff bit_xor_iff bit_mask_iff below_bit_def\<close>)
  then show ?thesis
    unfolding polymodStep_eq feedback_xor feedback_low [OF assms]
    by (simp add: push_bit_xor xor.assoc xor.left_commute xor.commute)
qed

text \<open>Groups written one after the other, five bits each.\<close>

definition joined :: "nat list \<Rightarrow> 32 word" where
  "joined gs = foldl (\<lambda>d g. push_bit 5 d XOR of_nat g) 0 gs"

lemma joined_snoc [simp]: "joined [] = 0" "joined (gs @ [g]) = push_bit 5 (joined gs) XOR of_nat g"
  by (simp_all add: joined_def)

lemma joined_below:
  assumes "\<forall>g\<in>set gs. g < 32"
  shows "below_bit (5 * length gs) (joined gs)"
  using assms
proof (induction gs rule: rev_induct)
  case Nil
  show ?case by (simp add: below_bit_def)
next
  case (snoc g gs)
  then have "below_bit (5 * length gs) (joined gs)" "below_bit 5 (of_nat g)" using below_bit_nat [of g 5] by simp_all
  then show ?case by (force simp: below_bit_def bit_xor_iff bit_push_bit_iff)
qed

lemma polymod_checksum:
  assumes "\<forall>g\<in>set gs. g < 32" "length gs \<le> 6"
  shows "polymod (xs @ gs) = polymod (xs @ replicate (length gs) 0) XOR joined gs"
  using assms
proof (induction gs rule: rev_induct)
  case (snoc g gs)
  have "below_bit (5 * length gs) (joined gs)" using joined_below snoc.prems(1) by simp
  then have d: "below_bit 25 (joined gs)" using snoc.prems(2) by (force simp: below_bit_def)
  have "polymod (xs @ gs @ [g]) = polymodStep (polymod (xs @ gs)) (of_nat g)"
    by (simp add: polymod_def)
  also have "\<dots> = polymodStep (polymod (xs @ replicate (length gs) 0)) 0 XOR (push_bit 5 (joined gs) XOR of_nat g)"
    using snoc polymodStep_xor [OF d] by simp
  also have "polymodStep (polymod (xs @ replicate (length gs) 0)) 0 = polymod (xs @ replicate (length gs) 0 @ [0])"
    by (simp add: polymod_def)
  finally show ?case by (simp add: replicate_append_same)
qed simp

text \<open>Thirty bits as six groups.\<close>

fun split_groups :: "nat \<Rightarrow> 32 word \<Rightarrow> nat list" where
  "split_groups 0 w = []"
| "split_groups (Suc n) w = split_groups n (drop_bit 5 w) @ [unat (w AND 31)]"

lemma length_split_groups [simp]: "length (split_groups n w) = n"
  by (induction n arbitrary: w) simp_all

lemma and31_mask: "(31 :: 32 word) = mask 5"
  by (simp add: mask_eq_exp_minus_1)

lemma unat_and31: "unat (w AND 31 :: 32 word) < 32"
  using take_bit_nat_less_exp [of 5 "unat w"]
  unfolding and31_mask by (simp add: take_bit_eq_mask [symmetric] unsigned_take_bit_eq)

lemma joined_split:
  assumes "below_bit (5 * n) w" "n \<le> 6"
  shows "joined (split_groups n w) = w"
  using assms
proof (induction n arbitrary: w)
  case 0
  then show ?case by (auto intro!: bit_word_eqI simp: below_bit_def)
next
  case (Suc n)
  have "below_bit (5 * n) (drop_bit 5 w)" using Suc.prems(1) by (auto simp: below_bit_def bit_drop_bit_eq)
  with Suc have "joined (split_groups n (drop_bit 5 w)) = drop_bit 5 w" by simp
  moreover have "push_bit 5 (drop_bit 5 w) XOR (w AND 31) = w"
    unfolding and31_mask by (rule bit_word_eqI) (auto simp: bit_xor_iff bit_push_bit_iff bit_drop_bit_eq bit_and_iff bit_mask_iff)
  ultimately show ?case by simp
qed

lemma split_joined:
  assumes "\<forall>g\<in>set gs. g < 32" "length gs \<le> 6"
  shows "split_groups (length gs) (joined gs) = gs"
  using assms
proof (induction gs rule: rev_induct)
  case (snoc g gs)
  have j: "below_bit (5 * length gs) (joined gs)" using joined_below snoc.prems(1) by simp
  have g: "below_bit 5 (of_nat g)" using below_bit_nat [of g 5] snoc.prems(1) by simp
  let ?w = "push_bit 5 (joined gs) XOR (of_nat g :: 32 word)"
  have "drop_bit 5 ?w = joined gs"
  proof (rule bit_word_eqI)
    fix n assume "n < LENGTH(32)"
    show "bit (drop_bit 5 ?w) n = bit (joined gs) n"
      using j g snoc.prems(2) by (force simp: below_bit_def bit_drop_bit_eq bit_xor_iff bit_push_bit_iff)
  qed
  moreover have "?w AND 31 = of_nat g"
    unfolding and31_mask
  proof (rule bit_word_eqI)
    fix n assume "n < LENGTH(32)"
    show "bit (?w AND mask 5) n = bit (of_nat g :: 32 word) n"
      using g by (auto simp: below_bit_def bit_and_iff bit_mask_iff bit_xor_iff bit_push_bit_iff)
  qed
  moreover have "unat (of_nat g :: 32 word) = g" using snoc.prems(1) by (simp add: unat_of_nat)
  ultimately show ?case using snoc by simp
qed simp

lemma below_bit_if: "below_bit k w \<Longrightarrow> below_bit k (if b then w else 0)"
  by (simp add: below_bit_def)

lemma feedback_below: "below_bit 30 (feedback c)"
proof -
  have "below_bit 30 (of_nat 0x3b6a57b2)" "below_bit 30 (of_nat 0x26508e6d)" "below_bit 30 (of_nat 0x1ea119fa)"
    "below_bit 30 (of_nat 0x3d4233dd)" "below_bit 30 (of_nat 0x2a1462b3)"
    by (rule below_bit_nat, simp)+
  then show ?thesis unfolding feedback_def by (intro below_bit_xor below_bit_if) simp_all
qed

lemma polymod_below:
  assumes "v < 32"
  shows "below_bit 30 (polymod (xs @ [v]))"
proof -
  let ?c = "polymod xs"
  have "below_bit 30 (push_bit 5 (?c AND 0x1ffffff))"
    unfolding mask25 by (rule below_bitI) (auto simp: bit_push_bit_iff bit_and_iff bit_mask_iff)
  moreover have "below_bit 30 (of_nat v)" by (rule below_bit_nat) (use assms in simp)
  moreover have "polymod (xs @ [v]) = polymodStep ?c (of_nat v)" by (simp add: polymod_def)
  then have "polymod (xs @ [v]) = push_bit 5 (?c AND 0x1ffffff) XOR feedback ?c XOR of_nat v"
    unfolding polymodStep_eq .
  ultimately show ?thesis using feedback_below by (auto intro: below_bit_xor)
qed

section \<open>The string has one form\<close>

lemma checksumOf_split: "checksumOf hrp gs = split_groups 6 (polymod (expandHrp hrp @ gs @ replicate 6 0) XOR BECH32M_CONSTANT)"
proof -
  have n: "[0..<6] = [0, 1, 2, 3, 4, 5 :: nat]" by (simp add: upt_rec)
  have s: "(6 :: nat) = Suc (Suc (Suc (Suc (Suc (Suc 0)))))" by simp
  show ?thesis unfolding checksumOf_def Let_def n
    by (subst (2) s) (simp add: drop_bit_drop_bit)
qed

lemma xor_cancel: "a XOR b = c \<longleftrightarrow> b = a XOR (c :: 32 word)"
proof -
  have "a XOR (a XOR x) = x" for x by (simp add: xor.assoc [symmetric])
  then show ?thesis by metis
qed

text \<open>Six groups close the checksum exactly when they are the ones written.\<close>

lemma checksum_exact:
  assumes "\<forall>g\<in>set cs. g < 32" "length cs = 6"
  shows "polymod (expandHrp hrp @ gs @ cs) = BECH32M_CONSTANT \<longleftrightarrow> cs = checksumOf hrp gs"
proof -
  let ?p = "polymod (expandHrp hrp @ gs @ replicate 6 0)"
  have "polymod ((expandHrp hrp @ gs) @ cs) = polymod ((expandHrp hrp @ gs) @ replicate 6 0) XOR joined cs"
    using polymod_checksum [OF assms(1), of "expandHrp hrp @ gs"] assms(2) by simp
  then have "polymod (expandHrp hrp @ gs @ cs) = BECH32M_CONSTANT \<longleftrightarrow> joined cs = ?p XOR BECH32M_CONSTANT"
    using xor_cancel [of ?p "joined cs"] by simp
  also have "\<dots> \<longleftrightarrow> cs = split_groups 6 (?p XOR BECH32M_CONSTANT)"
  proof
    assume "joined cs = ?p XOR BECH32M_CONSTANT"
    with split_joined [OF assms(1)] assms(2) show "cs = split_groups 6 (?p XOR BECH32M_CONSTANT)" by simp
  next
    assume c: "cs = split_groups 6 (?p XOR BECH32M_CONSTANT)"
    have r: "replicate 6 (0 :: nat) = replicate 5 0 @ [0]" by (simp add: numeral_eq_Suc)
    have "below_bit 30 ?p"
      using polymod_below [of 0 "expandHrp hrp @ gs @ replicate 5 0"] unfolding r by simp
    moreover have "below_bit 30 BECH32M_CONSTANT"
      using below_bit_nat [of "0x2bc830a3" 30] by (simp add: BECH32M_CONSTANT_def)
    ultimately have "below_bit (5 * 6) (?p XOR BECH32M_CONSTANT)" by (simp add: below_bit_xor)
    from joined_split [OF this] show "joined cs = ?p XOR BECH32M_CONSTANT" by (simp add: c)
  qed
  finally show ?thesis by (simp only: checksumOf_split)
qed

lemma checksumOf_groups: "\<forall>g\<in>set (checksumOf hrp gs). g < 32" "length (checksumOf hrp gs) = 6"
proof -
  have "\<forall>g\<in>set (split_groups n w). g < 32" for n w by (induction n arbitrary: w) (auto simp: unat_and31)
  then show "\<forall>g\<in>set (checksumOf hrp gs). g < 32" by (simp add: checksumOf_split)
qed (simp add: checksumOf_split)


lemma charset_distinct: "distinct CHARSET" "length CHARSET = 32" "SEPARATOR \<notin> set CHARSET" "set CHARSET \<inter> set UPPERCASE = {}"
  by (simp_all add: CHARSET_def UPPERCASE_def)

lemma indexOf_nth: "distinct s \<Longrightarrow> i < length s \<Longrightarrow> indexOf (s ! i) s = int i"
proof (induction s arbitrary: i)
  case (Cons x s)
  show ?case
  proof (cases i)
    case (Suc j)
    with Cons.prems have "x \<noteq> s ! j" by (metis distinct.simps(2) length_Cons not_less_eq nth_mem)
    with Cons Suc show ?thesis by simp
  qed simp
qed simp

lemma indexOf_found: "indexOf c s = -1 \<or> (\<exists>i < length s. indexOf c s = int i \<and> s ! i = c)"
proof (induction s)
  case (Cons x s)
  then show ?case
  proof (elim disjE exE conjE)
    fix i assume "i < length s" "indexOf c s = int i" "s ! i = c"
    then show ?case by (cases "x = c") (auto intro: exI [of _ 0] exI [of _ "Suc i"])
  qed (auto intro: exI [of _ 0])
qed simp

lemma lastIndexOf_split:
  assumes "c \<notin> set ys"
  shows "lastIndexOf c (xs @ c # ys) = int (length xs)"
proof -
  have "lastIndexOf c ys = -1" using assms by (induction ys) auto
  then show ?thesis by (induction xs) simp_all
qed

lemma lastIndexOf_cases:
  "lastIndexOf c s = -1 \<or> (\<exists>xs ys. s = xs @ c # ys \<and> c \<notin> set ys \<and> lastIndexOf c s = int (length xs))"
proof (cases "c \<in> set s")
  case True
  from split_list_last [OF this] lastIndexOf_split show ?thesis by metis
next
  case False
  then have "lastIndexOf c s = -1" by (induction s) auto
  then show ?thesis by blast
qed

text \<open>Characters of the charset and the groups they stand for.\<close>

lemma groups_chars:
  assumes "\<forall>g\<in>set gs. g < 32"
  shows "map (\<lambda>c. indexOf c CHARSET) (concat (map (charAt CHARSET) gs)) = map int gs"
    and "set (concat (map (charAt CHARSET) gs)) \<subseteq> set CHARSET"
proof -
  have at: "charAt CHARSET g = [CHARSET ! g]" "indexOf (CHARSET ! g) CHARSET = int g" "CHARSET ! g \<in> set CHARSET" if "g \<in> set gs" for g
    using that assms indexOf_nth [OF charset_distinct(1)] charset_distinct(2) by (simp_all add: charAt_def)
  have c: "concat (map (charAt CHARSET) gs) = map (\<lambda>g. CHARSET ! g) gs"
    using at(1) by (induction gs) simp_all
  show "map (\<lambda>c. indexOf c CHARSET) (concat (map (charAt CHARSET) gs)) = map int gs"
    unfolding c using at(2) by simp
  show "set (concat (map (charAt CHARSET) gs)) \<subseteq> set CHARSET"
    unfolding c using at(3) by auto
qed

lemma chars_groups:
  assumes "-1 \<notin> set (map (\<lambda>c. indexOf c CHARSET) s)"
  shows "concat (map (charAt CHARSET) (map nat (map (\<lambda>c. indexOf c CHARSET) s))) = s
    \<and> (\<forall>g\<in>set (map nat (map (\<lambda>c. indexOf c CHARSET) s)). g < 32)"
  using assms
proof (induction s)
  case (Cons c s)
  from Cons.prems indexOf_found [of c CHARSET] obtain i where "i < 32" "indexOf c CHARSET = int i" "CHARSET ! i = c"
    using charset_distinct(2) by auto
  with Cons show ?case using charset_distinct(2) by (simp add: charAt_def)
qed simp

text \<open>What is left to decide once the separator is found.\<close>

definition decodeFound :: "string \<Rightarrow> int list \<Rightarrow> invoice_bech32m_parts res" where
  "decodeFound hrp found =
     (if -1 \<in> set found then refuseInvoice ''invoice'' ''must write its data in the bech32 charset''
      else if length found < CHECKSUM_GROUPS then refuseInvoice ''invoice'' ''must end with a six-character checksum''
      else if polymod (expandHrp hrp @ map nat found) \<noteq> BECH32M_CONSTANT
      then refuseInvoice ''invoice'' ''must carry a valid bech32m checksum''
      else Inr \<lparr> bp_hrp = hrp, bp_groups = take (length found - CHECKSUM_GROUPS) (map nat found) \<rparr>)"

lemma decode_split:
  assumes "SEPARATOR \<notin> set ys" "hrp \<noteq> []" "(set hrp \<union> set ys) \<inter> set UPPERCASE = {}"
  shows "decodeInvoiceBech32m (hrp @ SEPARATOR # ys) = decodeFound hrp (map (\<lambda>c. indexOf c CHARSET) ys)"
proof -
  have "\<not> list_ex (\<lambda>c. c \<in> set UPPERCASE) (hrp @ SEPARATOR # ys)"
    using assms(3) by (auto simp: list_ex_iff UPPERCASE_def)
  moreover have "\<not> int (length hrp) < 1" using assms(2) by (simp add: Suc_le_eq)
  ultimately show ?thesis
    unfolding decodeInvoiceBech32m_def decodeFound_def lastIndexOf_split [OF assms(1)] Let_def by simp
qed

lemma decode_encode_bech32m:
  assumes "hrp \<noteq> []" "set hrp \<inter> set UPPERCASE = {}" "\<forall>g\<in>set gs. g < 32"
  shows "decodeInvoiceBech32m (encodeInvoiceBech32m hrp gs) = Inr \<lparr> bp_hrp = hrp, bp_groups = gs \<rparr>"
proof -
  define groups where "groups = gs @ checksumOf hrp gs"
  define ys where "ys = concat (map (charAt CHARSET) groups)"
  have g: "\<forall>g\<in>set groups. g < 32" using assms(3) checksumOf_groups(1) by (auto simp: groups_def)
  from groups_chars [OF g] charset_distinct(3,4) have ys: "map (\<lambda>c. indexOf c CHARSET) ys = map int groups"
    "SEPARATOR \<notin> set ys" "set ys \<inter> set UPPERCASE = {}" unfolding ys_def by blast+
  have "encodeInvoiceBech32m hrp gs = hrp @ SEPARATOR # ys" by (simp add: encodeInvoiceBech32m_def groups_def ys_def)
  moreover have "decodeInvoiceBech32m (hrp @ SEPARATOR # ys) = decodeFound hrp (map int groups)"
    using decode_split [OF ys(2) assms(1)] assms(2) ys(1,3) by (simp add: Int_Un_distrib2)
  moreover have "polymod (expandHrp hrp @ groups) = BECH32M_CONSTANT"
    using checksum_exact [OF checksumOf_groups] by (simp add: groups_def)
  moreover have "map nat (map int groups) = groups" by (simp add: map_idI)
  moreover have "length groups = length gs + 6" by (simp add: groups_def checksumOf_groups)
  ultimately show ?thesis by (auto simp: decodeFound_def) (simp add: groups_def)
qed

lemma encode_decode_bech32m:
  assumes "decodeInvoiceBech32m s = Inr p"
  shows "s = encodeInvoiceBech32m (bp_hrp p) (bp_groups p) \<and> bp_hrp p \<noteq> [] \<and> set (bp_hrp p) \<inter> set UPPERCASE = {}
    \<and> (\<forall>g\<in>set (bp_groups p). g < 32)"
proof -
  from assms have up: "\<not> list_ex (\<lambda>c. c \<in> set UPPERCASE) s" and sep: "\<not> lastIndexOf SEPARATOR s < 1"
    by (auto simp: decodeInvoiceBech32m_def refuseInvoice_def Let_def split: if_splits)
  from sep lastIndexOf_cases [of SEPARATOR s] obtain xs ys where
    s: "s = xs @ SEPARATOR # ys" "SEPARATOR \<notin> set ys" "lastIndexOf SEPARATOR s = int (length xs)" by auto
  have xs: "xs \<noteq> []" using sep s(3) by auto
  have low: "(set xs \<union> set ys) \<inter> set UPPERCASE = {}" using up by (auto simp: s(1) list_ex_iff)
  define found where "found = map (\<lambda>c. indexOf c CHARSET) ys"
  define groups where "groups = map nat found"
  define gs where "gs = take (length groups - 6) groups"
  define cs where "cs = drop (length groups - 6) groups"
  from assms decode_split [OF s(2) xs low] have "decodeFound xs found = Inr p" by (simp add: s(1) found_def)
  then have d: "-1 \<notin> set found" "6 \<le> length groups" "polymod (expandHrp xs @ groups) = BECH32M_CONSTANT"
    "p = \<lparr> bp_hrp = xs, bp_groups = gs \<rparr>"
    by (auto simp: decodeFound_def refuseInvoice_def groups_def gs_def split: if_splits)
  from chars_groups [OF d(1) [unfolded found_def]] have cg: "concat (map (charAt CHARSET) groups) = ys" "\<forall>g\<in>set groups. g < 32"
    unfolding groups_def found_def by blast+
  have all: "groups = gs @ cs" by (simp add: gs_def cs_def)
  have "\<forall>g\<in>set cs. g < 32" using cg(2) by (simp add: all)
  moreover have "length cs = 6" unfolding cs_def length_drop using d(2) by simp
  ultimately have "cs = checksumOf xs gs" using checksum_exact [of cs xs gs] d(3) by (simp add: all)
  then have "s = encodeInvoiceBech32m xs gs" by (simp add: s(1) cg(1) [symmetric] all encodeInvoiceBech32m_def)
  with xs low cg(2) show ?thesis by (auto simp: d(4) all)
qed

text \<open>C19 A bech32m string has one form. A string decodes into parts exactly when it is the string the encoder
  writes for them, the human-readable part being lowercase and not empty and the groups of five bits: no
  two strings carry one invoice.\<close>

theorem bech32m_exact:
  "decodeInvoiceBech32m txt = Inr p \<longleftrightarrow> txt = encodeInvoiceBech32m (bp_hrp p) (bp_groups p)
     \<and> bp_hrp p \<noteq> [] \<and> set (bp_hrp p) \<inter> set UPPERCASE = {} \<and> set (bp_groups p) \<subseteq> {..<32}"
  using encode_decode_bech32m [of "txt" p] decode_encode_bech32m [of "bp_hrp p" "bp_groups p"] by fastforce

section \<open>Regrouping is exact\<close>

definition group_bits :: "nat \<Rightarrow> bool list" where
  "group_bits g = map (\<lambda>i. bit g (4 - i)) [0..<5]"

definition groups_bits :: "nat list \<Rightarrow> bool list" where
  "groups_bits gs = concat (map group_bits gs)"

text \<open>The bits an accumulator still holds.\<close>

definition held_bits :: "32 word \<Rightarrow> nat \<Rightarrow> bool list" where
  "held_bits acc n = map (\<lambda>i. bit acc (n - 1 - i)) [0..<n]"

lemma groups_bits_simps [simp]: "groups_bits [] = []" "groups_bits (g # gs) = group_bits g @ groups_bits gs"
  "groups_bits (gs @ hs) = groups_bits gs @ groups_bits hs"
  by (simp_all add: groups_bits_def)

lemma length_bits [simp]: "length (group_bits g) = 5" "length (groups_bits gs) = 5 * length gs" "length (held_bits acc n) = n"
  by (simp_all add: group_bits_def held_bits_def) (induction gs; simp add: group_bits_def)

lemma held_bits_0 [simp]: "held_bits acc 0 = []"
  by (simp add: held_bits_def)

lemma held_split:
  assumes "m \<le> n"
  shows "held_bits acc n = held_bits (drop_bit (n - m) acc) m @ held_bits acc (n - m)"
  by (rule nth_equalityI) (use assms in \<open>auto simp: held_bits_def nth_append bit_drop_bit_eq intro!: arg_cong [of _ _ "bit acc"]\<close>)

lemma held_cong: "(\<And>i. i < n \<Longrightarrow> bit a i = bit b i) \<Longrightarrow> held_bits a n = held_bits b n"
  by (simp add: held_bits_def)

lemma held_group: "group_bits (unat (w AND 31)) = held_bits w 5"
proof -
  have "bit (unat (w AND 31)) j = bit w j" if "j < 5" for j
    unfolding and31_mask using that by (simp add: bit_unsigned_iff bit_and_iff bit_mask_iff)
  then show ?thesis by (simp add: group_bits_def held_bits_def)
qed

lemma held_byte: "byte_bits (ucast (w AND 0xff)) = held_bits w 8"
proof -
  have m: "(0xff :: 32 word) = mask 8" by (simp add: mask_eq_exp_minus_1)
  have "bit (ucast (w AND 0xff) :: byte) j = bit w j" if "j < 8" for j
    unfolding m using that by (simp add: bit_ucast_iff bit_and_iff bit_mask_iff)
  then show ?thesis by (simp add: byte_bits_def held_bits_def)
qed

lemma group_bits_inj: "g < 32 \<Longrightarrow> h < 32 \<Longrightarrow> group_bits g = group_bits h \<Longrightarrow> g = h"
proof -
  assume s: "g < 32" "h < 32" and e: "group_bits g = group_bits h"
  have "take_bit 5 g = take_bit 5 h"
  proof (rule bit_eqI)
    fix j
    show "bit (take_bit 5 g) j = bit (take_bit 5 h) j"
    proof (cases "j < 5")
      case True
      have "[0..<5] ! (4 - j) = 4 - j" using nth_upt [of 0 "4 - j" 5] by simp
      with arg_cong [OF e, of "\<lambda>l. l ! (4 - j)"] True show ?thesis by (simp add: group_bits_def bit_take_bit_iff)
    qed (simp add: bit_take_bit_iff)
  qed
  with s show "g = h" by (simp add: take_bit_nat_eq_self)
qed

lemma groups_bits_inj:
  assumes "\<forall>g\<in>set gs. g < 32" "\<forall>g\<in>set hs. g < 32" "groups_bits gs = groups_bits hs"
  shows "gs = hs"
  using assms
proof (induction gs arbitrary: hs)
  case Nil
  from arg_cong [OF Nil.prems(3), of length] show ?case by simp
next
  case (Cons g gs)
  from arg_cong [OF Cons.prems(3), of length] obtain h hs' where hs: "hs = h # hs'" by (cases hs) simp_all
  from Cons.prems(3) have "group_bits g = group_bits h \<and> groups_bits gs = groups_bits hs'"
    unfolding hs groups_bits_simps by (subst (asm) append_eq_append_conv) simp_all
  with Cons.IH [of hs'] Cons.prems(1,2) group_bits_inj [of g h] show ?case by (simp add: hs)
qed

lemma bytes_bits_inj: "bytes_bits bs = bytes_bits cs \<Longrightarrow> bs = cs"
proof (induction bs arbitrary: cs)
  case Nil
  then show ?case by (cases cs) (auto dest: arg_cong [of _ _ length])
next
  case (Cons b bs)
  then obtain c cs' where cs: "cs = c # cs'" by (cases cs) (auto dest: arg_cong [of _ _ length])
  with Cons.prems have e: "byte_bits b = byte_bits c" "bytes_bits bs = bytes_bits cs'" by simp_all
  have "b = c"
  proof (rule bit_word_eqI)
    fix j assume "j < LENGTH(8)"
    with arg_cong [OF e(1), of "\<lambda>l. l ! (7 - j)"] show "bit b j = bit c j" by (simp add: byte_bits_def)
  qed
  with Cons.IH e(2) cs show ?case by simp
qed

lemma takeGroups_bits:
  "takeGroups acc n = (rest, gs) \<Longrightarrow> rest < 5 \<and> groups_bits gs @ held_bits acc rest = held_bits acc n \<and> (\<forall>g\<in>set gs. g < 32)"
proof (induction acc n arbitrary: rest gs rule: takeGroups.induct)
  case (1 acc n)
  show ?case
  proof (cases "n < 5")
    case True
    with 1(2) show ?thesis by (simp add: takeGroups.simps [of acc n])
  next
    case False
    obtain r hs where t: "takeGroups acc (n - 5) = (r, hs)" by fastforce
    with 1(2) False have r: "rest = r" "gs = unat (drop_bit (n - 5) acc AND 31) # hs"
      by (simp_all add: takeGroups.simps [of acc n])
    from 1(1) [OF False t] held_split [of 5 n acc] False show ?thesis by (simp add: r held_group unat_and31)
  qed
qed

lemma mask12: "(0xfff :: 32 word) = mask 12"
  by (simp add: mask_eq_exp_minus_1)

lemma held_push_byte:
  assumes "n \<le> 4"
  shows "held_bits ((push_bit 8 acc OR ucast b) AND 0xfff) (n + 8) = held_bits acc n @ byte_bits b"
proof -
  let ?a = "(push_bit 8 acc OR ucast b) AND 0xfff :: 32 word"
  have "held_bits (drop_bit 8 ?a) n = held_bits acc n"
    unfolding mask12 by (rule held_cong) (use assms in \<open>auto simp: bit_drop_bit_eq bit_and_iff bit_or_iff bit_push_bit_iff bit_ucast_iff bit_mask_iff dest: bit_imp_le_length\<close>)
  moreover have "bit ?a j = bit b j" if "j < 8" for j
    unfolding mask12 using that by (auto simp: bit_and_iff bit_or_iff bit_push_bit_iff bit_ucast_iff bit_mask_iff)
  then have "held_bits ?a 8 = byte_bits b" by (simp add: held_bits_def byte_bits_def)
  ultimately show ?thesis using held_split [of n "n + 8" ?a] by simp
qed

lemma held_push_group:
  assumes "n \<le> 7" "g < 32"
  shows "held_bits ((push_bit 5 acc OR of_nat g) AND 0xfff) (n + 5) = held_bits acc n @ group_bits g"
proof -
  let ?a = "(push_bit 5 acc OR of_nat g) AND 0xfff :: 32 word"
  from below_bit_nat [of g 5] assms(2) have g: "bit (of_nat g :: 32 word) j \<longrightarrow> j < 5" for j by (simp add: below_bit_def)
  have "held_bits (drop_bit 5 ?a) n = held_bits acc n"
    unfolding mask12 by (rule held_cong) (use assms(1) g in \<open>auto simp: bit_drop_bit_eq bit_and_iff bit_or_iff bit_push_bit_iff bit_mask_iff\<close>)
  moreover have "bit ?a j = bit g j" if "j < 5" for j
    unfolding mask12 using that by (auto simp: bit_and_iff bit_or_iff bit_push_bit_iff bit_mask_iff bit_of_nat_iff)
  then have "held_bits ?a 5 = group_bits g" by (simp add: held_bits_def group_bits_def)
  ultimately show ?thesis using held_split [of n "n + 5" ?a] by simp
qed

lemma groupsLoop_bits:
  assumes "n < 5"
  shows "(\<exists>k < 5. groups_bits (groupsLoop acc n bs) = held_bits acc n @ bytes_bits bs @ replicate k False)
    \<and> (\<forall>g\<in>set (groupsLoop acc n bs). g < 32)"
  using assms
proof (induction bs arbitrary: acc n)
  case Nil
  show ?case
  proof (cases "n = 0")
    case False
    have "held_bits (drop_bit (5 - n) (push_bit (5 - n) acc)) n = held_bits acc n"
      by (rule held_cong) (use Nil in \<open>auto simp: bit_drop_bit_eq bit_push_bit_iff\<close>)
    moreover have "held_bits (push_bit (5 - n) acc) (5 - n) = replicate (5 - n) False"
      by (rule nth_equalityI) (use False in \<open>auto simp: held_bits_def bit_push_bit_iff\<close>)
    ultimately have "groups_bits [unat (push_bit (5 - n) acc AND 31)] = held_bits acc n @ replicate (5 - n) False"
      using Nil held_split [of n 5 "push_bit (5 - n) acc"] by (simp add: held_group)
    with False Nil show ?thesis by (auto simp: unat_and31 intro!: exI [of _ "5 - n"])
  qed (auto intro: exI [of _ 0])
next
  case (Cons b bs)
  let ?a = "(push_bit 8 acc OR ucast b) AND 0xfff :: 32 word"
  obtain r gs where t: "takeGroups ?a (n + 8) = (r, gs)" by fastforce
  from takeGroups_bits [OF t] have r: "r < 5" "groups_bits gs @ held_bits ?a r = held_bits ?a (n + 8)" "\<forall>g\<in>set gs. g < 32" by blast+
  from Cons.IH [OF r(1), of ?a] obtain k where k: "k < 5" "groups_bits (groupsLoop ?a r bs) = held_bits ?a r @ bytes_bits bs @ replicate k False"
    "\<forall>g\<in>set (groupsLoop ?a r bs). g < 32" by blast
  have "groups_bits gs @ held_bits ?a r = held_bits acc n @ byte_bits b"
    using r(2) held_push_byte [of n acc b] Cons.prems by simp
  then have "groups_bits (groupsLoop acc n (b # bs)) = held_bits acc n @ bytes_bits (b # bs) @ replicate k False"
    using k(2) by (simp add: t Let_def append_assoc [symmetric] del: append_assoc)
  with k r(3) show ?case by (auto simp: t Let_def)
qed

lemma bytesLoop_bits:
  assumes "n < 8" "\<forall>g\<in>set gs. g < 32"
  shows "bytesLoop acc n gs out path = Inr res \<longleftrightarrow>
    (\<exists>ws k. res = out @ ws \<and> k < 5 \<and> held_bits acc n @ groups_bits gs = bytes_bits ws @ replicate k False)"
  using assms
proof (induction gs arbitrary: acc n out)
  case Nil
  have m: "(push_bit n 1 - 1 :: 32 word) = mask n" by (simp add: mask_eq_exp_minus_1 push_bit_eq_mult)
  have "acc AND (push_bit n 1 - 1) = 0 \<longleftrightarrow> (\<forall>i < n. \<not> bit acc i)"
  proof
    assume a: "acc AND (push_bit n 1 - 1) = 0"
    show "\<forall>i < n. \<not> bit acc i"
    proof (intro allI impI)
      fix i assume "i < n"
      moreover have "\<not> bit (acc AND mask n) i" using a unfolding m by simp
      ultimately show "\<not> bit acc i" using Nil(1) by (simp add: bit_and_iff bit_mask_iff)
    qed
  next
    assume "\<forall>i < n. \<not> bit acc i"
    then show "acc AND (push_bit n 1 - 1) = 0" unfolding m by (auto intro!: bit_word_eqI simp: bit_and_iff bit_mask_iff)
  qed
  also have "\<dots> \<longleftrightarrow> held_bits acc n = replicate n False"
  proof
    assume h: "held_bits acc n = replicate n False"
    show "\<forall>i < n. \<not> bit acc i"
    proof (intro allI impI)
      fix i assume "i < n"
      with arg_cong [OF h, of "\<lambda>l. l ! (n - 1 - i)"] show "\<not> bit acc i" by (simp add: held_bits_def)
    qed
  next
    assume "\<forall>i < n. \<not> bit acc i"
    then show "held_bits acc n = replicate n False" by (intro nth_equalityI) (simp_all add: held_bits_def)
  qed
  finally have z: "acc AND (push_bit n 1 - 1) = 0 \<longleftrightarrow> held_bits acc n = replicate n False" .
  have "(\<exists>ws k. res = out @ ws \<and> k < 5 \<and> held_bits acc n = bytes_bits ws @ replicate k False)
      \<longleftrightarrow> res = out \<and> n < 5 \<and> held_bits acc n = replicate n False"
  proof
    assume "\<exists>ws k. res = out @ ws \<and> k < 5 \<and> held_bits acc n = bytes_bits ws @ replicate k False"
    then obtain ws k where w: "res = out @ ws" "k < 5" "held_bits acc n = bytes_bits ws @ replicate k False" by blast
    from arg_cong [OF w(3), of length] Nil(1) have "ws = []" "k = n" by (cases ws; simp)+
    with w show "res = out \<and> n < 5 \<and> held_bits acc n = replicate n False" by simp
  qed (auto intro: exI [of _ "[]"])
  with z show ?case by (auto simp: refuseInvoice_def)
next
  case (Cons g gs)
  let ?a = "(push_bit 5 acc OR of_nat g) AND 0xfff :: 32 word"
  have held: "held_bits ?a (n + 5) = held_bits acc n @ group_bits g"
    using held_push_group [of n g acc] Cons.prems by simp
  have gs: "\<forall>g\<in>set gs. g < 32" using Cons.prems(2) by simp
  show ?case
  proof (cases "n + 5 \<ge> 8")
    case False
    with Cons.IH [OF _ gs, of "n + 5" ?a out] show ?thesis
      by (simp add: Let_def append_assoc [symmetric] held del: append_assoc)
  next
    case True
    let ?n = "n + 5 - 8" and ?w = "ucast (drop_bit (n + 5 - 8) ?a AND 0xff) :: byte"
    have bits: "held_bits acc n @ groups_bits (g # gs) = byte_bits ?w @ held_bits ?a ?n @ groups_bits gs"
      using held_split [of 8 "n + 5" ?a] True by (simp add: held held_byte)
    have step: "bytesLoop acc n (g # gs) out path = bytesLoop ?a ?n gs (out @ [?w]) path"
      using True by (simp add: Let_def)
    have "bytesLoop acc n (g # gs) out path = Inr res \<longleftrightarrow> (\<exists>ws k. res = (out @ [?w]) @ ws \<and> k < 5 \<and> held_bits ?a ?n @ groups_bits gs = bytes_bits ws @ replicate k False)"
      unfolding step by (rule Cons.IH [OF _ gs]) (use Cons.prems in simp)
    also have "\<dots> \<longleftrightarrow> (\<exists>ws k. res = out @ ws \<and> k < 5 \<and> held_bits acc n @ groups_bits (g # gs) = bytes_bits ws @ replicate k False)"
    proof
      assume "\<exists>ws k. res = (out @ [?w]) @ ws \<and> k < 5 \<and> held_bits ?a ?n @ groups_bits gs = bytes_bits ws @ replicate k False"
      then obtain ws k where "res = (out @ [?w]) @ ws" "k < 5" "held_bits ?a ?n @ groups_bits gs = bytes_bits ws @ replicate k False" by blast
      then show "\<exists>ws k. res = out @ ws \<and> k < 5 \<and> held_bits acc n @ groups_bits (g # gs) = bytes_bits ws @ replicate k False"
        unfolding bits by (intro exI [of _ "?w # ws"] exI [of _ k]) simp
    next
      assume "\<exists>ws k. res = out @ ws \<and> k < 5 \<and> held_bits acc n @ groups_bits (g # gs) = bytes_bits ws @ replicate k False"
      then obtain ws k where w: "res = out @ ws" "k < 5" "byte_bits ?w @ held_bits ?a ?n @ groups_bits gs = bytes_bits ws @ replicate k False"
        unfolding bits by blast
      from arg_cong [OF w(3), of length] w(2) obtain c cs where ws: "ws = c # cs" by (cases ws) simp_all
      have "byte_bits ?w @ (held_bits ?a ?n @ groups_bits gs) = byte_bits c @ (bytes_bits cs @ replicate k False)"
        using w(3) by (simp only: ws bytes_bits_simps append_assoc)
      then have "byte_bits ?w = byte_bits c \<and> held_bits ?a ?n @ groups_bits gs = bytes_bits cs @ replicate k False"
        by (rule append_eq_append_conv [THEN iffD1, rotated]) simp
      moreover from this bytes_bits_inj [of "[?w]" "[c]"] have "c = ?w" by simp
      ultimately show "\<exists>ws k. res = (out @ [?w]) @ ws \<and> k < 5 \<and> held_bits ?a ?n @ groups_bits gs = bytes_bits ws @ replicate k False"
        using w(1,2) by (intro exI [of _ cs] exI [of _ k]) (simp add: ws)
    qed
    finally show ?thesis .
  qed
qed

lemma invoiceGroupsToBytes_Inr_iff:
  assumes "\<forall>g\<in>set gs. g < 32"
  shows "invoiceGroupsToBytes gs path = Inr bs \<longleftrightarrow> gs = bytesToInvoiceGroups bs"
proof -
  from groupsLoop_bits [of 0 0 bs] obtain k where k: "k < 5" "groups_bits (bytesToInvoiceGroups bs) = bytes_bits bs @ replicate k False"
    and small: "\<forall>g\<in>set (bytesToInvoiceGroups bs). g < 32" by (auto simp: bytesToInvoiceGroups_def)
  have "invoiceGroupsToBytes gs path = Inr bs \<longleftrightarrow> (\<exists>j < 5. groups_bits gs = bytes_bits bs @ replicate j False)"
    using bytesLoop_bits [OF _ assms, of 0 0 "[]" path bs] by (auto simp: invoiceGroupsToBytes_def)
  also have "\<dots> \<longleftrightarrow> gs = bytesToInvoiceGroups bs"
  proof
    assume "\<exists>j < 5. groups_bits gs = bytes_bits bs @ replicate j False"
    then obtain j where j: "j < 5" "groups_bits gs = bytes_bits bs @ replicate j False" by blast
    from arg_cong [OF j(2), of length] arg_cong [OF k(2), of length]
    have "5 * length gs = 8 * length bs + j" "5 * length (bytesToInvoiceGroups bs) = 8 * length bs + k" by simp_all
    with j(1) k(1) have "j = k" by presburger
    with j(2) k(2) show "gs = bytesToInvoiceGroups bs" by (intro groups_bits_inj [OF assms small]) simp
  next
    assume "gs = bytesToInvoiceGroups bs"
    with k show "\<exists>j < 5. groups_bits gs = bytes_bits bs @ replicate j False" by blast
  qed
  finally show ?thesis .
qed

text \<open>Regrouping is exact. Five-bit groups read as bytes exactly when they are the groups those bytes are
  written as: the padding is checked, and nothing else reads.\<close>

theorem invoice_groups_exact:
  assumes "\<forall>g\<in>set gs. g < 32"
  shows "invoiceGroupsToBytes gs path = Inr bs \<longleftrightarrow> gs = bytesToInvoiceGroups bs"
  using assms by (rule invoiceGroupsToBytes_Inr_iff)

lemma invoice_groups_exact_witness: "invoiceGroupsToBytes [31, 28] ''signature'' = Inr [255] \<longleftrightarrow> [31, 28] = bytesToInvoiceGroups [255]"
  by (rule invoice_groups_exact) simp

end
