(* ===== verification/InvoiceFacts.thy ===== *)
theory InvoiceFacts
  imports Invoice Bech32mFacts
begin

text \<open>
  An invoice has one string: the text codec, the molecule data and the string itself are read back
  exactly where they were written, and written exactly as they were read.
\<close>

section \<open>Masks as arithmetic\<close>

lemma or_low_bits: "y < 2 ^ n \<Longrightarrow> push_bit n x OR y = 2 ^ n * x + (y :: nat)"
proof -
  assume "y < 2 ^ n"
  then have "\<not> bit y k" if "n \<le> k" for k
    using that by (metis bit_take_bit_iff not_less take_bit_nat_eq_self)
  then have "push_bit n x + y = push_bit n x OR y"
    by (intro disjunctive_add) (auto simp: bit_push_bit_iff)
  then show ?thesis by (simp add: push_bit_eq_mult mult.commute)
qed

lemma and_63: "x AND 63 = x mod (64 :: nat)"
  using take_bit_eq_mask [of 6 x] take_bit_eq_mod [of 6 x] by (simp add: mask_eq_exp_minus_1)

lemma lead_masks:
  "x < 32 \<Longrightarrow> 192 OR x = 192 + (x :: nat)" "y < 16 \<Longrightarrow> 224 OR y = 224 + (y :: nat)"
  "z < 8 \<Longrightarrow> 240 OR z = 240 + (z :: nat)" "u < 64 \<Longrightarrow> 128 OR u = 128 + (u :: nat)"
  using or_low_bits [of x 5 6] or_low_bits [of y 4 14] or_low_bits [of z 3 30] or_low_bits [of u 6 2]
  by (simp_all add: push_bit_eq_mult)

definition lead_ranges :: "nat \<Rightarrow> (nat \<times> nat \<times> nat) option" where
  "lead_ranges l =
     (if l < 128 then Some (1, l, 0) else if l < 192 then None else if l < 224 then Some (2, l - 192, 128)
      else if l < 240 then Some (3, l - 224, 2048) else if l < 248 then Some (4, l - 240, 65536) else None)"

lemma and_high: "x AND push_bit n (mask k) = push_bit n (take_bit k (drop_bit n (x :: nat)))"
  by (rule bit_eqI) (auto simp: bit_simps)

lemma and_high_masks:
  fixes l :: nat
  assumes "l < 256"
  shows "l AND 192 = 64 * (l div 64)" "l AND 224 = 32 * (l div 32)" "l AND 240 = 16 * (l div 16)" "l AND 248 = 8 * (l div 8)"
  using assms and_high [of l 6 2] and_high [of l 5 3] and_high [of l 4 4] and_high [of l 3 5]
  by (simp_all add: mask_eq_exp_minus_1 push_bit_eq_mult take_bit_eq_mod drop_bit_eq_div less_mult_imp_div_less)

lemma and_low_masks: "l AND 31 = l mod 32" "l AND 15 = l mod 16" "l AND 7 = l mod (8 :: nat)"
  using take_bit_eq_mask [of 5 l] take_bit_eq_mask [of 4 l] take_bit_eq_mask [of 3 l]
  by (simp_all add: mask_eq_exp_minus_1 take_bit_eq_mod)

lemma div_is: "0 < k \<Longrightarrow> l div k = q \<longleftrightarrow> k * q \<le> l \<and> l < k * q + (k :: nat)"
  using div_nat_eqI [of k q l] by (auto simp: algebra_simps dividend_less_times_div)

lemma mod_is: "k * q \<le> l \<Longrightarrow> l < k * q + k \<Longrightarrow> l mod k = l - k * (q :: nat)"
  by (metis add.commute add_less_cancel_left le_add_diff_inverse mod_less mod_mult_self4)

lemma leadOf_ranges:
  assumes "l < 256"
  shows "leadOf l = lead_ranges l"
proof -
  have "l AND 224 = 192 \<longleftrightarrow> 192 \<le> l \<and> l < 224" "l AND 240 = 224 \<longleftrightarrow> 224 \<le> l \<and> l < 240" "l AND 248 = 240 \<longleftrightarrow> 240 \<le> l \<and> l < 248"
    using div_is [of 32 l 6] div_is [of 16 l 14] div_is [of 8 l 30] by (auto simp: and_high_masks assms)
  moreover have "192 \<le> l \<Longrightarrow> l < 224 \<Longrightarrow> l mod 32 = l - 192" "224 \<le> l \<Longrightarrow> l < 240 \<Longrightarrow> l mod 16 = l - 224"
    "240 \<le> l \<Longrightarrow> l < 248 \<Longrightarrow> l mod 8 = l - 240"
    using mod_is [of 32 6 l] mod_is [of 16 14 l] mod_is [of 8 30 l] by simp_all
  ultimately show ?thesis
    by (simp add: leadOf_def lead_ranges_def and_low_masks)
qed

lemma byte_masks:
  fixes b :: byte
  shows "leadOf (unat b) = lead_ranges (unat b)" "unat b AND 192 = 128 \<longleftrightarrow> 128 \<le> unat b \<and> unat b < 192"
    "unat b AND 63 = unat b mod 64"
  using div_is [of 64 "unat b" 2] by (auto simp: leadOf_ranges byte_less_256 and_high_masks and_63)

section \<open>UTF-8\<close>

abbreviation is_scalar :: "nat \<Rightarrow> bool" where
  "is_scalar p \<equiv> p \<le> 0x10ffff \<and> \<not> (0xd800 \<le> p \<and> p \<le> 0xdfff)"

lemma encodeCodePoint_sums:
  assumes "p \<le> 0x10ffff"
  shows "encodeCodePoint p =
     map of_nat
       (if p < 128 then [p]
        else if p < 2048 then [192 + p div 64, 128 + p mod 64]
        else if p < 65536 then [224 + p div 4096, 128 + p div 64 mod 64, 128 + p mod 64]
        else [240 + p div 262144, 128 + p div 4096 mod 64, 128 + p div 64 mod 64, 128 + p mod 64])"
proof -
  have tail: "128 OR (x AND 63) = 128 + x mod 64" for x :: nat
    unfolding and_63 by (rule lead_masks(4)) simp
  have two: "192 OR p div 64 = 192 + p div 64" if "p < 2048" using that by (intro lead_masks) linarith
  have three: "224 OR p div 4096 = 224 + p div 4096" if "p < 65536" using that by (intro lead_masks) linarith
  have four: "240 OR p div 262144 = 240 + p div 262144" using assms by (intro lead_masks) linarith
  have lists: "drop_bit 6 p = p div 64" "drop_bit 12 p = p div 4096" "drop_bit 18 p = p div 262144"
    by (simp_all add: drop_bit_eq_div)
  show ?thesis
    unfolding encodeCodePoint_def lists tail four
    by (intro arg_cong [where f = "map of_nat"] if_cong refl) (simp_all only: two three)
qed

lemma continuationBits_Inr_iff:
  "continuationBits n p bs path = Inr q \<longleftrightarrow>
     n \<le> length bs \<and> (\<forall>b\<in>set (take n bs). 128 \<le> unat b \<and> unat b < 192)
     \<and> q = foldl (\<lambda>p b. 64 * p + unat b mod 64) p (take n bs)"
proof (induction n arbitrary: p bs)
  case (Suc n)
  show ?case
    using or_low_bits [of _ 6 p] by (cases bs) (auto simp: Suc.IH byte_masks refuseInvoice_def)
qed auto

lemma sextets:
  "z < 64 \<Longrightarrow> (64 * q + z) div 64 = (q :: nat)" "z < 64 \<Longrightarrow> (64 * q + z) mod 64 = (z :: nat)"
  by simp_all

lemma continuation_byte:
  fixes c :: byte
  assumes "128 \<le> unat c \<and> unat c < 192"
  obtains y where "y < 64" "unat c mod 64 = y" "128 + word_of_nat y = c"
proof
  have m: "128 \<le> n \<Longrightarrow> n < 192 \<Longrightarrow> n mod 64 = n - 128" for n :: nat
    using sextets(2) [of "n - 128" 2] by simp
  show "unat c mod 64 < 64" by simp
  show "128 + word_of_nat (unat c mod 64) = c"
    using assms of_nat_add [of 128 "unat c - 128", where 'a = "8 word"] by (simp add: m)
qed simp

lemma unat_byte: "n < 256 \<Longrightarrow> unat (of_nat n :: byte) = n"
  by (simp add: unat_of_nat take_bit_nat_eq_self)

lemma tail_mod: "(128 + x mod 64) mod 64 = x mod (64 :: nat)"
  using sextets(2) [of "x mod 64" 2] by simp

lemma unat_tail: "unat (128 + word_of_nat (x mod 64) :: byte) = 128 + x mod 64"
  using unat_byte [of "128 + x mod 64"] mod_less_divisor [of 64 x] by simp

lemma lead_byte:
  fixes b :: byte
  shows "k \<le> unat b \<Longrightarrow> of_nat k + word_of_nat (unat b - k) = b"
  using of_nat_add [of k "unat b - k", where 'a = "8 word"] by simp

lemma decoded_point_encodes:
  assumes "lead_ranges (unat b) = Some (len, start, minimum)" "continuationBits (len - 1) start bs path = Inr p"
    "minimum \<le> p" "is_scalar p"
  shows "b # take (len - 1) bs = encodeCodePoint p"
proof -
  from assms(2) have le: "len - 1 \<le> length bs" and cs: "\<forall>c\<in>set (take (len - 1) bs). 128 \<le> unat c \<and> unat c < 192"
    and p: "p = foldl (\<lambda>p b. 64 * p + unat b mod 64) start (take (len - 1) bs)"
    by (auto simp: continuationBits_Inr_iff)
  from assms(1) have "len = 1 \<and> unat b < 128 \<and> start = unat b \<and> minimum = 0
      \<or> len = 2 \<and> 192 \<le> unat b \<and> unat b < 224 \<and> start = unat b - 192 \<and> minimum = 128
      \<or> len = 3 \<and> 224 \<le> unat b \<and> unat b < 240 \<and> start = unat b - 224 \<and> minimum = 2048
      \<or> len = 4 \<and> 240 \<le> unat b \<and> unat b < 248 \<and> start = unat b - 240 \<and> minimum = 65536"
    by (auto simp: lead_ranges_def split: if_splits)
  then consider (one) "len = 1" "unat b < 128" "start = unat b" "minimum = 0"
    | (two) "len = 2" "192 \<le> unat b" "unat b < 224" "start = unat b - 192" "minimum = 128"
    | (three) "len = 3" "224 \<le> unat b" "unat b < 240" "start = unat b - 224" "minimum = 2048"
    | (four) "len = 4" "240 \<le> unat b" "unat b < 248" "start = unat b - 240" "minimum = 65536"
    by blast
  then show ?thesis
  proof cases
    case one
    then show ?thesis using p assms(4) by (simp add: encodeCodePoint_sums)
  next
    case two
    define x where "x = unat b - 192"
    with two have b: "x < 32" "192 + word_of_nat x = b" "start = x" using lead_byte [of 192 b] by simp_all
    obtain c rest where bs: "bs = c # rest" using le two by (cases bs) auto
    with cs two obtain y where y: "y < 64" "unat c mod 64 = y" "128 + word_of_nat y = c" by (auto intro: continuation_byte)
    then have "p = 64 * x + y" using p two b bs by (simp add: unat_byte)
    then show ?thesis using assms(3,4) two b bs y by (simp add: encodeCodePoint_sums)
  next
    case three
    define x where "x = unat b - 224"
    with three have b: "x < 16" "224 + word_of_nat x = b" "start = x" using lead_byte [of 224 b] by simp_all
    obtain c1 c2 rest where bs: "bs = c1 # c2 # rest" using le three by (cases bs; cases "tl bs") auto
    with cs three obtain y z where y: "y < 64" "unat c1 mod 64 = y" "128 + word_of_nat y = c1" and z: "z < 64" "unat c2 mod 64 = z" "128 + word_of_nat z = c2"
      by (auto simp: numeral_2_eq_2 intro: continuation_byte)
    then have p3: "p = 64 * (64 * x + y) + z" using p three b bs by (simp add: unat_byte numeral_2_eq_2)
    have "p < 65536" using p3 b(1) y(1) z(1) by simp
    moreover have "p div 64 = 64 * x + y" "p mod 64 = z" unfolding p3 using z by (simp_all only: sextets)
    moreover from this y have "p div 4096 = x" using div_mult2_eq [of p 64 64] by simp
    ultimately show ?thesis using assms(3,4) three b bs y z by (simp add: encodeCodePoint_sums numeral_2_eq_2)
  next
    case four
    define x where "x = unat b - 240"
    with four have b: "x < 8" "240 + word_of_nat x = b" "start = x" using lead_byte [of 240 b] by simp_all
    obtain c1 c2 c3 rest where bs: "bs = c1 # c2 # c3 # rest"
      using le four by (cases bs; cases "tl bs"; cases "tl (tl bs)") auto
    with cs four have c: "128 \<le> unat c1 \<and> unat c1 < 192" "128 \<le> unat c2 \<and> unat c2 < 192" "128 \<le> unat c3 \<and> unat c3 < 192"
      by (simp_all add: numeral_3_eq_3)
    obtain y where y: "y < 64" "unat c1 mod 64 = y" "128 + word_of_nat y = c1" using c(1) by (rule continuation_byte)
    obtain z where z: "z < 64" "unat c2 mod 64 = z" "128 + word_of_nat z = c2" using c(2) by (rule continuation_byte)
    obtain w where w: "w < 64" "unat c3 mod 64 = w" "128 + word_of_nat w = c3" using c(3) by (rule continuation_byte)
    from y z w have p4: "p = 64 * (64 * (64 * x + y) + z) + w" using p four b bs by (simp add: unat_byte numeral_3_eq_3)
    have d1: "p div 64 = 64 * (64 * x + y) + z" and "p mod 64 = w" unfolding p4 using w by (simp_all only: sextets)
    moreover from d1 z have d2: "p div 4096 = 64 * x + y" using div_mult2_eq [of p 64 64] by simp
    moreover from d2 y have "p div 262144 = x" using div_mult2_eq [of p 4096 64] by simp
    ultimately have parts: "p mod 64 = w" "p div 64 mod 64 = z" "p div 4096 mod 64 = y" "p div 262144 = x"
      unfolding d1 d2 using y z by (simp_all only: sextets)
    show ?thesis
      using assms(3,4) four bs by (simp add: encodeCodePoint_sums parts b y z w numeral_3_eq_3)
  qed
qed

lemma encoded_point_decodes:
  assumes "is_scalar p"
  obtains b cs len start minimum where "encodeCodePoint p = b # cs" "leadOf (unat b) = Some (len, start, minimum)"
    "length cs = len - 1" "minimum \<le> p" "\<And>rest path. continuationBits (len - 1) start (cs @ rest) path = Inr p"
proof -
  note simps = encodeCodePoint_sums leadOf_ranges lead_ranges_def continuationBits_Inr_iff unat_tail tail_mod
  note [simp del] = continuationBits.simps
  consider (one) "p < 128" | (two) "128 \<le> p" "p < 2048" | (three) "2048 \<le> p" "p < 65536" | (four) "65536 \<le> p" by linarith
  then show thesis
  proof cases
    case one
    then show thesis
      using assms by (intro that [of "of_nat p" "[]" 1 p 0]) (simp_all add: encodeCodePoint_sums leadOf_ranges unat_byte lead_ranges_def continuationBits.simps(1))
  next
    case two
    then have small: "192 + p div 64 < 224" by linarith
    with two show thesis
      using assms unat_byte [of "192 + p div 64"]
      by (intro that [of "of_nat (192 + p div 64)" "[of_nat (128 + p mod 64)]" 2 "p div 64" 128])
        (simp_all add: simps)
  next
    case three
    have "64 * (64 * (p div 4096) + p div 64 mod 64) + p mod 64 = p"
      using div_mult2_eq [of p 64 64] by simp
    moreover have "224 + p div 4096 < 240" using three by linarith
    ultimately show thesis
      using three assms unat_byte [of "224 + p div 4096"]
      by (intro that [of "of_nat (224 + p div 4096)" "[of_nat (128 + p div 64 mod 64), of_nat (128 + p mod 64)]" 3 "p div 4096" 2048])
        (simp_all add: simps)
  next
    case four
    have "64 * (64 * (64 * (p div 262144) + p div 4096 mod 64) + p div 64 mod 64) + p mod 64 = p"
      using div_mult2_eq [of p 64 64] div_mult2_eq [of p 4096 64] by simp
    moreover have "240 + p div 262144 < 248" using assms by linarith
    ultimately show thesis
      using four assms unat_byte [of "240 + p div 262144"]
      by (intro that [of "of_nat (240 + p div 262144)"
            "[of_nat (128 + p div 4096 mod 64), of_nat (128 + p div 64 mod 64), of_nat (128 + p mod 64)]" 4 "p div 262144" 65536])
        (simp_all add: simps)
  qed
qed

text \<open>One step of the reader: the bytes start with the form of the text's first point.\<close>

lemma decodeInvoiceUtf8_Cons_iff:
  "decodeInvoiceUtf8 (b # bs) path = Inr ts \<longleftrightarrow>
     (\<exists>p ps rest. ts = p # ps \<and> is_scalar p \<and> b # bs = encodeCodePoint p @ rest \<and> decodeInvoiceUtf8 rest path = Inr ps)"
proof
  assume "decodeInvoiceUtf8 (b # bs) path = Inr ts"
  then obtain len start minimum p ps where *: "leadOf (unat b) = Some (len, start, minimum)"
    "continuationBits (len - 1) start bs path = Inr p" "minimum \<le> p" "is_scalar p"
    "decodeInvoiceUtf8 (drop (len - 1) bs) path = Inr ps" "ts = p # ps"
    by (auto simp: refuseInvoice_def bindR_Inr_iff split: option.splits if_splits)
  then have "b # bs = encodeCodePoint p @ drop (len - 1) bs"
    using decoded_point_encodes [of b len start minimum bs path p] by (metis append_Cons append_take_drop_id byte_masks(1))
  with * show "\<exists>p ps rest. ts = p # ps \<and> is_scalar p \<and> b # bs = encodeCodePoint p @ rest \<and> decodeInvoiceUtf8 rest path = Inr ps"
    by blast
next
  assume "\<exists>p ps rest. ts = p # ps \<and> is_scalar p \<and> b # bs = encodeCodePoint p @ rest \<and> decodeInvoiceUtf8 rest path = Inr ps"
  then obtain p ps rest where *: "ts = p # ps" "is_scalar p" "b # bs = encodeCodePoint p @ rest" "decodeInvoiceUtf8 rest path = Inr ps"
    by blast
  from * obtain c cs len start minimum where "encodeCodePoint p = c # cs" "leadOf (unat c) = Some (len, start, minimum)"
    "length cs = len - 1" "minimum \<le> p" "\<And>rest path. continuationBits (len - 1) start (cs @ rest) path = Inr p"
    by (metis encoded_point_decodes)
  with * show "decodeInvoiceUtf8 (b # bs) path = Inr ts"
    by (auto simp: linorder_not_less)
qed

lemma decodeInvoiceUtf8_Inr_iff:
  "decodeInvoiceUtf8 bs path = Inr ts \<longleftrightarrow> encodeWellFormedUtf8 name ts = Inr bs \<and> (\<forall>p\<in>set ts. p \<le> 0x10ffff)"
proof (induction ts arbitrary: bs)
  case Nil
  show ?case
    by (cases bs) (auto simp: encodeWellFormedUtf8_def decodeInvoiceUtf8_Cons_iff simp del: decodeInvoiceUtf8.simps(2))
next
  case (Cons p ps)
  have enc: "encodeWellFormedUtf8 name (p # ps) = Inr bs \<longleftrightarrow>
      \<not> (0xd800 \<le> p \<and> p \<le> 0xdfff) \<and> (\<exists>rest. bs = encodeCodePoint p @ rest \<and> encodeWellFormedUtf8 name ps = Inr rest)"
    by (force simp: encodeWellFormedUtf8_def res_simps)
  have ne: "is_scalar p \<Longrightarrow> encodeCodePoint p \<noteq> []" by (erule encoded_point_decodes) simp
  show ?case
  proof (cases bs)
    case Nil
    show ?thesis unfolding Nil enc [unfolded Nil] using ne by auto
  next
    case (Cons b bs')
    show ?thesis
      unfolding Cons decodeInvoiceUtf8_Cons_iff enc [unfolded Cons] using Cons.IH by auto
  qed
qed

section \<open>Attributes\<close>

lemma readMoleculeUint_Inr_iff:
  "readMoleculeUint b n path refuse = Inr v \<longleftrightarrow> 0 \<le> v \<and> v < 256 ^ n \<and> b = le_bytes n (nat v)"
proof
  assume "readMoleculeUint b n path refuse = Inr v"
  then have "length b = n" "v = int (le_val b)"
    by (auto simp: readMoleculeUint_def readMoleculeFixed_def readUintLe_le_val split: if_splits)
  then show "0 \<le> v \<and> v < 256 ^ n \<and> b = le_bytes n (nat v)"
    using le_val_bound [of b] le_bytes_le_val [of b] by (simp add: nat_less_iff [symmetric])
next
  assume "0 \<le> v \<and> v < 256 ^ n \<and> b = le_bytes n (nat v)"
  then show "readMoleculeUint b n path refuse = Inr v"
    by (simp add: readMoleculeUint_def readMoleculeFixed_def)
qed

lemma readMoleculeUint_uint64Le: "readMoleculeUint b 8 path refuse = Inr v \<longleftrightarrow> uint64Le v = Inr b"
  by (auto simp: readMoleculeUint_Inr_iff uint64Le_Inr_iff)

lemma readMoleculeUint_uint128Le: "readMoleculeUint b 16 path refuse = Inr v \<longleftrightarrow> uint128Le v = Inr b"
  by (auto simp: readMoleculeUint_Inr_iff uint128Le_Inr_iff)

definition bytesTable :: "bytes \<Rightarrow> bytes res" where
  "bytesTable d = bindR (moleculeBytes d) (\<lambda>b. moleculeTable [b])"

lemma readMoleculeTable_one: "readMoleculeTable item (Suc 0) path refuse = Inr fs \<longleftrightarrow> (\<exists>b. fs = [b] \<and> moleculeTable [b] = Inr item)"
  by (auto simp: readMoleculeTable_Inr_iff length_Suc_conv)

lemma readBytesTable_Inr_iff: "readBytesTable item path field = Inr d \<longleftrightarrow> bytesTable d = Inr item"
  by (auto simp: readBytesTable_def readInvoiceMoleculeTable_def readInvoiceMoleculeBytes_def bytesTable_def
      bindR_Inr_iff readMoleculeTable_one molbytes.dec_iff)

lemma readPublicKeyTable_Inr_iff: "readPublicKeyTable L item path field = Inr k \<longleftrightarrow> publicKeyTable L k name = Inr item"
  by (auto simp: readPublicKeyTable_def publicKeyTable_def bindR_Inr_iff readBytesTable_Inr_iff bytesTable_def refuseInvoice_def
      split: if_splits)

text \<open>A text of JavaScript has no code point past the last one of Unicode.\<close>

fun pointsOf :: "invoice_attribute \<Rightarrow> code_points" where
  "pointsOf (Description t) = t"
| "pointsOf (FallbackAddr t) = t"
| "pointsOf _ = []"

definition unicode_texts :: "invoice_data \<Rightarrow> bool" where
  "unicode_texts d \<longleftrightarrow> (\<forall>a\<in>set (iv_attributes d). list_all (\<lambda>p. p \<le> 0x10ffff) (pointsOf a))"

lemma find_tlcHashAlgorithm:
  "find (\<lambda>c. tlcHashAlgorithmByte c = x) TLC_HASH_ALGORITHMS = Some a \<longleftrightarrow> tlcHashAlgorithmByte a = x"
  by (cases a) (auto simp: TLC_HASH_ALGORITHMS_def)

lemma read_typed:
  "bindR (readBytesTable item path field) (\<lambda>b. Inr (f b)) = Inr a \<longleftrightarrow> (\<exists>d. a = f d \<and> bytesTable d = Inr item)"
  by (auto simp: bindR_Inr_iff readBytesTable_Inr_iff)

lemma read_text:
  "bindR (readBytesTable item path field) (\<lambda>b. bindR (decodeInvoiceUtf8 b path') (\<lambda>t. Inr (f t))) = Inr a \<longleftrightarrow>
     (\<exists>t. a = f t \<and> list_all (\<lambda>p. p \<le> 0x10ffff) t \<and> bindR (encodeWellFormedUtf8 name t) (\<lambda>u. bindR (moleculeBytes u) (\<lambda>b. moleculeTable [b])) = Inr item)"
  unfolding bindR_Inr_iff readBytesTable_Inr_iff decodeInvoiceUtf8_Inr_iff [where name = name]
  by (auto simp: list_all_iff bytesTable_def bindR_Inr_iff)

lemma read_uint64:
  "bindR (readMoleculeUint item 8 path refuse) (\<lambda>v. Inr (f v)) = Inr a \<longleftrightarrow>
     (\<exists>v. a = f v \<and> bindR (assertUnsignedBigInt name v UINT64_MAX) (\<lambda>_. uint64Le v) = Inr item)"
  by (auto simp: bindR_Inr_iff readMoleculeUint_uint64Le uint64Le_Inr_iff assert_defs res_simps)

lemma read_key:
  "bindR (readPublicKeyTable L item path field) (\<lambda>k. Inr (f k)) = Inr a \<longleftrightarrow> (\<exists>k. a = f k \<and> publicKeyTable L k name = Inr item)"
  by (auto simp: bindR_Inr_iff readPublicKeyTable_Inr_iff [where name = name])

lemma read_script_table:
  "bindR (readInvoiceMoleculeTable item (Suc 0) path) (\<lambda>fs. bindR (readInvoiceMoleculeScript (fs ! 0) path') (\<lambda>s. Inr (f s))) = Inr a \<longleftrightarrow>
     (\<exists>s. a = f s \<and> bindR (moleculeScript name s) (\<lambda>b. moleculeTable [b]) = Inr item)"
  unfolding readInvoiceMoleculeTable_def readInvoiceMoleculeScript_def bindR_Inr_iff readMoleculeTable_one
    readMoleculeScript_Inr_iff [where name = name]
  by force

lemma read_algorithm:
  "decodeAttributeItem L T_hashAlgorithm item path = Inr a \<longleftrightarrow> (\<exists>h. a = HashAlgorithm h \<and> item = [tlcHashAlgorithmByte h])"
proof
  assume "\<exists>h. a = HashAlgorithm h \<and> item = [tlcHashAlgorithmByte h]"
  then show "decodeAttributeItem L T_hashAlgorithm item path = Inr a"
    using find_tlcHashAlgorithm
    by (auto simp: readInvoiceMoleculeFixed_def readMoleculeFixed_def find_tlcHashAlgorithm [THEN iffD2] simp del: tlcHashAlgorithmByte_inj)
qed (auto simp: readInvoiceMoleculeFixed_def readMoleculeFixed_def bindR_Inr_iff find_tlcHashAlgorithm refuseInvoice_def
      length_Suc_conv split: option.splits if_splits)

lemma read_secret:
  "bindR (readInvoiceMoleculeFixed item 32 path) (\<lambda>b. Inr (f b)) = Inr a \<longleftrightarrow>
     (\<exists>s. a = f s \<and> bindR (assertBytes name s 32) (\<lambda>_. Inr s) = Inr item)"
  by (auto simp: readInvoiceMoleculeFixed_def readMoleculeFixed_def bindR_Inr_iff assert_defs res_simps split: if_splits)

lemma decodeAttributeItem_Inr_iff:
  "decodeAttributeItem L t item path = Inr a \<longleftrightarrow>
     typeOf a = t \<and> encodeAttributeItem L a name = Inr item \<and> list_all (\<lambda>p. p \<le> 0x10ffff) (pointsOf a)"
proof (cases t)
  case T_expiryTime
  show ?thesis unfolding T_expiryTime decodeAttributeItem.simps readInvoiceMoleculeUint_def read_uint64 [where name = "name @ ''.seconds''"] by (cases a) auto
next
  case T_description
  show ?thesis unfolding T_description decodeAttributeItem.simps read_text [where name = "name @ ''.text''"] by (cases a) auto
next
  case T_finalHtlcTimeout
  show ?thesis unfolding T_finalHtlcTimeout decodeAttributeItem.simps readInvoiceMoleculeUint_def read_uint64 [where name = "name @ ''.milliseconds''"]
    by (cases a) auto
next
  case T_finalHtlcMinimumExpiryDelta
  show ?thesis
    unfolding T_finalHtlcMinimumExpiryDelta decodeAttributeItem.simps readInvoiceMoleculeUint_def read_uint64 [where name = "name @ ''.milliseconds''"]
    by (cases a) auto
next
  case T_fallbackAddr
  show ?thesis unfolding T_fallbackAddr decodeAttributeItem.simps read_text [where name = "name @ ''.address''"] by (cases a) auto
next
  case T_feature
  show ?thesis unfolding T_feature decodeAttributeItem.simps read_typed bytesTable_def by (cases a) auto
next
  case T_udtScript
  show ?thesis unfolding T_udtScript decodeAttributeItem.simps One_nat_def read_script_table [where name = "name @ ''.script''"] by (cases a) auto
next
  case T_payeePublicKey
  show ?thesis unfolding T_payeePublicKey decodeAttributeItem.simps read_key [where name = "name @ ''.publicKey''"] by (cases a) auto
next
  case T_hashAlgorithm
  show ?thesis unfolding T_hashAlgorithm read_algorithm by (cases a) auto
next
  case T_paymentSecret
  show ?thesis unfolding T_paymentSecret decodeAttributeItem.simps read_secret [where name = "name @ ''.secret''"] by (cases a) auto
next
  case T_trampolineRouteHint
  show ?thesis unfolding T_trampolineRouteHint decodeAttributeItem.simps read_key [where name = "name @ ''.nodeId''"] by (cases a) auto
qed

section \<open>The data\<close>

lemma indexInList_type:
  "indexInList t INVOICE_ATTRIBUTE_TYPES = int i \<longleftrightarrow> i < length INVOICE_ATTRIBUTE_TYPES \<and> INVOICE_ATTRIBUTE_TYPES ! i = t"
proof -
  have "i < 11 \<Longrightarrow> i = 0 \<or> i = 1 \<or> i = 2 \<or> i = 3 \<or> i = 4 \<or> i = 5 \<or> i = 6 \<or> i = 7 \<or> i = 8 \<or> i = 9 \<or> i = 10" by presburger
  then show ?thesis
    by (cases t) (auto simp: indexInList_def INVOICE_ATTRIBUTE_TYPES_def entries_def upt_rec)
qed

lemma readMoleculeUnion_Inr_iff:
  "readMoleculeUnion u INVOICE_ATTRIBUTE_TYPES path refuse = Inr (t, item) \<longleftrightarrow>
     (\<exists>itemId. uint32Le (indexInList t INVOICE_ATTRIBUTE_TYPES) = Inr itemId \<and> u = itemId @ item)" (is "?l \<longleftrightarrow> ?r")
proof
  assume ?l
  then have len: "4 \<le> length u" and i: "indexInList t INVOICE_ATTRIBUTE_TYPES = int (readUint32Le u 0)" and item: "item = drop 4 u"
    by (auto simp: readMoleculeUnion_def indexInList_type Let_def split: if_splits)
  from len i have "uint32Le (indexInList t INVOICE_ATTRIBUTE_TYPES) = Inr (take 4 u)"
    using le_bytes_readUint32Le [of 0 u] le_val_bound [of "take 4 u"] by (simp add: uint32Le_int readUint32Le_def)
  with item show ?r by auto
next
  assume ?r
  then obtain itemId where id: "uint32Le (indexInList t INVOICE_ATTRIBUTE_TYPES) = Inr itemId" "u = itemId @ item" by blast
  from id(1) obtain i where i: "indexInList t INVOICE_ATTRIBUTE_TYPES = int i" "i \<le> 4294967295" "itemId = le_bytes 4 i"
    using that [of "nat (indexInList t INVOICE_ATTRIBUTE_TYPES)"] by (auto simp: uint32Le_Inr_iff)
  then show ?l
    using id(2) indexInList_type [of t i] by (simp add: readMoleculeUnion_def readUint32Le_def le_val_le_bytes_id)
qed

lemma decodeAttributes_Inr_iff:
  "decodeAttributes L seen i us = Inr as \<longleftrightarrow>
     encodeAttributes L seen i as = Inr us \<and> (\<forall>a\<in>set as. list_all (\<lambda>p. p \<le> 0x10ffff) (pointsOf a))"
proof (induction us arbitrary: seen i as)
  case Nil
  show ?case by (cases as) (auto simp: Let_def res_simps split: if_splits)
next
  case (Cons u us)
  show ?case
  proof (cases as)
    case (Cons a as')
    have item: "decodeAttributeItem L t item path = Inr b \<longleftrightarrow>
        typeOf b = t \<and> encodeAttributeItem L b (''attributes['' @ toString i @ '']'') = Inr item \<and> list_all (\<lambda>p. p \<le> 0x10ffff) (pointsOf b)" for t item path b
      by (rule decodeAttributeItem_Inr_iff)
    show ?thesis
      unfolding Cons
      by (auto simp: Let_def bindR_Inr_iff refuseInvoice_def readInvoiceMoleculeUnion_def readMoleculeUnion_Inr_iff item
          Cons.IH split: if_splits)
  qed (auto simp: Let_def bindR_Inr_iff refuseInvoice_def split: if_splits)
qed

lemma decodeInvoiceData_Inr_iff:
  assumes "length bs \<le> MAX_INVOICE_DATA_LENGTH"
  shows "decodeInvoiceData L bs = Inr d \<longleftrightarrow> encodeInvoiceData L d = Inr bs \<and> unicode_texts d" (is "?l \<longleftrightarrow> ?r")
proof -
  obtain ts h as where d: "d = \<lparr> iv_timestampMs = ts, iv_paymentHash = h, iv_attributes = as \<rparr>" by (cases d)
  have table: "readMoleculeTable bs 3 path refuse = Inr fs \<longleftrightarrow> (\<exists>x y z. fs = [x, y, z] \<and> moleculeTable [x, y, z] = Inr bs)" for fs path refuse
    by (auto simp: readMoleculeTable_Inr_iff length_Suc_conv numeral_3_eq_3)
  have within: "(if MAX_INVOICE_DATA_LENGTH < length b then Inl e else Inr b) = Inr bs \<longleftrightarrow> b = bs" for b and e :: error
    using assms by auto
  have "?l \<longleftrightarrow> (\<exists>x z us. moleculeTable [x, h, z] = Inr bs \<and> uint128Le ts = Inr x \<and> length h = 32
      \<and> moleculeDynvec us = Inr z \<and> decodeAttributes L [] 0 us = Inr as)"
    unfolding d decodeInvoiceData_def readInvoiceMoleculeTable_def readInvoiceMoleculeUint_def readInvoiceMoleculeFixed_def
      readInvoiceMoleculeDynvec_def bindR_Inr_iff table readMoleculeUint_uint128Le dynvec.dec_iff
    by (force simp: readMoleculeFixed_def)
  also have "\<dots> \<longleftrightarrow> ?r"
    by (auto simp: d decodeAttributes_Inr_iff unicode_texts_def encodeInvoiceData_def bindR_Inr_iff assert_defs check_Inr_iff
        uint128Le_Inr_iff within)
  finally show ?thesis .
qed

section \<open>The string\<close>

lemma bytesToInvoiceGroups_facts:
  "length (bytesToInvoiceGroups bs) = (8 * length bs + 4) div 5" "\<forall>g\<in>set (bytesToInvoiceGroups bs). g < 32"
proof -
  from groupsLoop_bits [of 0 0 bs] obtain k where k: "k < 5" "groups_bits (bytesToInvoiceGroups bs) = bytes_bits bs @ replicate k False"
    and small: "\<forall>g\<in>set (bytesToInvoiceGroups bs). g < 32" by (auto simp: bytesToInvoiceGroups_def)
  from arg_cong [OF k(2), of length] have "5 * length (bytesToInvoiceGroups bs) = 8 * length bs + k" by simp
  with k(1) show "length (bytesToInvoiceGroups bs) = (8 * length bs + 4) div 5" by linarith
  from small show "\<forall>g\<in>set (bytesToInvoiceGroups bs). g < 32" .
qed

lemma find_currency:
  "find (\<lambda>candidate. hasPrefix hrp (currencyPrefix candidate)) INVOICE_CURRENCIES = Some c \<longleftrightarrow> take 4 hrp = currencyPrefix c"
  by (cases c) (auto simp: INVOICE_CURRENCIES_def hasPrefix_def numeral_eq_Suc)

lemma length_currencyPrefix: "length (currencyPrefix c) = 4"
  by (cases c) simp_all

lemma parseHrp_Inr_iff: "parseHrp hrp = Inr (c, a) \<longleftrightarrow> hrpOf c a = Inr hrp"
proof
  assume "parseHrp hrp = Inr (c, a)"
  then have "take 4 hrp = currencyPrefix c" "drop 4 hrp = [] \<and> a = None \<or> drop 4 hrp \<noteq> [] \<and> isDecimalShannons (drop 4 hrp) \<and> a = Some (drop 4 hrp)"
    by (auto simp: parseHrp_def refuseInvoice_def find_currency Let_def length_currencyPrefix split: option.splits if_splits)
  then show "hrpOf c a = Inr hrp"
    using append_take_drop_id [of 4 hrp] by (auto simp: hrpOf_def assert_defs)
next
  assume "hrpOf c a = Inr hrp"
  then have "hrp = currencyPrefix c @ (case a of None \<Rightarrow> [] | Some x \<Rightarrow> x)" "\<And>x. a = Some x \<Longrightarrow> isDecimalShannons x"
    by (auto simp: hrpOf_def assert_defs res_simps split: option.splits)
  moreover have "isDecimalShannons x \<Longrightarrow> x \<noteq> []" for x by (auto simp: isDecimalShannons_def isCanonicalDecimal_def)
  ultimately show "parseHrp hrp = Inr (c, a)"
    using find_currency [of hrp c] by (auto simp: parseHrp_def length_currencyPrefix split: option.splits)
qed

lemma hrpOf_lowercase:
  assumes "hrpOf c a = Inr hrp"
  shows "hrp \<noteq> [] \<and> set hrp \<inter> set UPPERCASE = {}"
proof -
  from assms have "hrp = currencyPrefix c @ (case a of None \<Rightarrow> [] | Some x \<Rightarrow> x)" "\<And>x. a = Some x \<Longrightarrow> isDecimalShannons x"
    by (auto simp: hrpOf_def assert_defs res_simps split: option.splits)
  moreover have "isDecimalShannons x \<Longrightarrow> set x \<inter> set UPPERCASE = {}" for x
  proof -
    have "set ''0123456789'' \<inter> set UPPERCASE = {}" by (simp add: UPPERCASE_def)
    then show "isDecimalShannons x \<Longrightarrow> set x \<inter> set UPPERCASE = {}"
      unfolding isDecimalShannons_def isCanonicalDecimal_def list_all_iff by blast
  qed
  moreover have "set (currencyPrefix c) \<inter> set UPPERCASE = {}" by (cases c) (simp_all add: UPPERCASE_def)
  ultimately show ?thesis
    using length_currencyPrefix [of c] by (cases a) auto
qed

lemma splitInvoice_Inr_iff:
  "splitInvoice s = Inr (hrp, c, a, compressed, signature) \<longleftrightarrow>
     hrpOf c a = Inr hrp \<and> compressed \<noteq> [] \<and> length signature = 65
     \<and> s = encodeInvoiceBech32m hrp (1 # bytesToInvoiceGroups compressed @ bytesToInvoiceGroups signature)" (is "?l \<longleftrightarrow> ?r")
proof
  assume ?l
  then obtain p where p: "decodeInvoiceBech32m s = Inr p" "hrp = bp_hrp p" "parseHrp hrp = Inr (c, a)" "bp_groups p \<noteq> []" "bp_groups p ! 0 = 1"
    "105 < length (bp_groups p)"
    "invoiceGroupsToBytes (drop 1 (take (length (bp_groups p) - 104) (bp_groups p))) ''compressed'' = Inr compressed"
    "invoiceGroupsToBytes (drop (length (bp_groups p) - 104) (bp_groups p)) ''signature'' = Inr signature"
    by (auto simp: splitInvoice_def bindR_Inr_iff Let_def refuseInvoice_def split: if_splits)
  from encode_decode_bech32m [OF p(1)] have small: "\<forall>g\<in>set (bp_groups p). g < 32" and s: "s = encodeInvoiceBech32m hrp (bp_groups p)"
    using p(2) by auto
  let ?k = "length (bp_groups p) - 104"
  have mid: "drop 1 (take ?k (bp_groups p)) = bytesToInvoiceGroups compressed"
    using p(7) small by (subst (asm) invoiceGroupsToBytes_Inr_iff) (auto dest!: in_set_dropD in_set_takeD)
  have sig: "drop ?k (bp_groups p) = bytesToInvoiceGroups signature"
    using p(8) small by (subst (asm) invoiceGroupsToBytes_Inr_iff) (auto dest!: in_set_dropD)
  have "take ?k (bp_groups p) = 1 # bytesToInvoiceGroups compressed"
    using mid p(4,5,6) by (cases "bp_groups p") (auto simp: take_Cons' split: if_splits)
  then have "bp_groups p = 1 # bytesToInvoiceGroups compressed @ bytesToInvoiceGroups signature"
    using sig append_take_drop_id [of ?k "bp_groups p"] by simp
  moreover have "compressed \<noteq> []"
    using arg_cong [OF mid, of length] p(6) bytesToInvoiceGroups_facts(1) [of compressed] by auto
  moreover have "length signature = 65"
    using arg_cong [OF sig, of length] p(6) bytesToInvoiceGroups_facts(1) [of signature] by simp
  ultimately show ?r
    using p(3) s by (simp add: parseHrp_Inr_iff)
next
  assume r: ?r
  let ?g = "1 # bytesToInvoiceGroups compressed @ bytesToInvoiceGroups signature"
  from r have len: "length (bytesToInvoiceGroups signature) = 104" "0 < length (bytesToInvoiceGroups compressed)"
    by (simp_all add: bytesToInvoiceGroups_facts(1) div_greater_zero_iff Suc_le_eq)
  from r hrpOf_lowercase have "decodeInvoiceBech32m s = Inr \<lparr> bp_hrp = hrp, bp_groups = ?g \<rparr>"
    using bytesToInvoiceGroups_facts(2) by (auto intro!: decode_encode_bech32m)
  moreover have "invoiceGroupsToBytes (bytesToInvoiceGroups bs) path = Inr bs" for bs path
    using invoiceGroupsToBytes_Inr_iff [OF bytesToInvoiceGroups_facts(2)] by blast
  moreover from r have "parseHrp hrp = Inr (c, a)" by (simp add: parseHrp_Inr_iff)
  ultimately show ?l
    using len by (simp add: splitInvoice_def)
qed

section \<open>One invoice, one string\<close>

lemma emit_nonempty: "0 < co_pending out \<Longrightarrow> co_bits (emit b out) \<noteq> []"
  by (simp add: emit_def)

lemma arEncompress_nonempty: "arEncompress bs = Some compressed \<Longrightarrow> compressed \<noteq> []"
proof -
  have "packBits es \<noteq> []" if "es \<noteq> []" for es
  proof -
    have "length (foldl (\<lambda>out (i, b). out[i div 8 := or (out ! (i div 8)) (push_bit (7 - i mod 8) (of_bool b))]) out ps) = length out"
      for ps :: "(nat \<times> bool) list" and out :: bytes
      by (induction ps arbitrary: out) auto
    then have "length (packBits es) = (length es + 7) div 8" by (simp add: packBits_def)
    with that show ?thesis by (cases es) auto
  qed
  then show "arEncompress bs = Some compressed \<Longrightarrow> compressed \<noteq> []"
    by (auto simp: arEncompress_def emit_nonempty split: option.splits)
qed

text \<open>The signature check of the reader, on the digest the payee signs.\<close>

definition signedByPayee :: "lib \<Rightarrow> invoice_curve \<Rightarrow> invoice \<Rightarrow> bool" where
  "signedByPayee L C v =
     (case computeInvoiceDigest L (in_currency v) (in_amountShannons v) (in_data v) of
        Some (Inr digest) \<Rightarrow>
          verifySignature C (in_signature v) digest (payeeKey (findInvoiceAttribute (in_data v) T_payeePublicKey)) = Inr ()
      | _ \<Rightarrow> False)"

lemma encodeInvoiceData_limit: "encodeInvoiceData L d = Inr bs \<Longrightarrow> length bs \<le> MAX_INVOICE_DATA_LENGTH"
  by (auto simp: encodeInvoiceData_def bindR_Inr_iff split: if_splits)

lemma encodeInvoice_Inr_iff:
  "encodeInvoice L v = Some (Inr s) \<longleftrightarrow>
     (\<exists>hrp bs compressed. hrpOf (in_currency v) (in_amountShannons v) = Inr hrp \<and> encodeInvoiceData L (in_data v) = Inr bs
        \<and> arEncompress bs = Some compressed
        \<and> splitInvoice s = Inr (hrp, in_currency v, in_amountShannons v, compressed, in_signature v))"
  by (auto simp: encodeInvoice_def splitInvoice_Inr_iff assert_defs res_simps dest: arEncompress_nonempty split: sum.splits)

lemma computeInvoiceDigest_eq:
  "hrpOf c a = Inr hrp \<Longrightarrow> encodeInvoiceData L d = Inr bs \<Longrightarrow> arEncompress bs = Some compressed \<Longrightarrow>
   computeInvoiceDigest L c a d = Some (signedDigest L hrp compressed)"
  by (simp add: computeInvoiceDigest_def)

lemma readInvoiceData_Inr_iff:
  assumes "length bs \<le> MAX_INVOICE_DATA_LENGTH" "hrpOf c a = Inr hrp" "arEncompress bs = Some compressed"
  shows "readInvoiceData L C hrp c a compressed signature bs = Inr v \<longleftrightarrow>
     in_currency v = c \<and> in_amountShannons v = a \<and> in_signature v = signature
     \<and> encodeInvoiceData L (in_data v) = Inr bs \<and> unicode_texts (in_data v) \<and> signedByPayee L C v"
  using assms
  by (cases v; cases "signedDigest L hrp compressed")
    (auto simp: readInvoiceData_def bindR_Inr_iff decodeInvoiceData_Inr_iff signedByPayee_def computeInvoiceDigest_eq)

text \<open>C6 One invoice, one string. A string decodes to an invoice exactly when the encoder writes this very
  string for the invoice, its texts are Unicode, and its signature passes the check (low-S, recoverable, by the payee key the
  data names if it names one) on the digest \<open>computeInvoiceDigest\<close> gives for it: no second string carries the same invoice,
  and what the user is shown is what the payee signed.\<close>

theorem invoice_exact:
  "decodeInvoice L C s = Some (Inr v) \<longleftrightarrow>
     encodeInvoice L v = Some (Inr s) \<and> unicode_texts (in_data v) \<and> signedByPayee L C v" (is "?l \<longleftrightarrow> ?r")
proof
  assume ?l
  then obtain hrp c a compressed sig bs again where split: "splitInvoice s = Inr (hrp, c, a, compressed, sig)"
    and d: "arDecompress compressed = Some (Inr bs)" "arEncompress bs = Some again"
    and read: "again = compressed" "readInvoiceData L C hrp c a compressed sig bs = Inr v"
    by (auto simp: decodeInvoice_def refuseInvoice_def compareBytes_eq_0 split: sum.splits option.splits if_splits)
  have "length bs \<le> MAX_INVOICE_DATA_LENGTH"
    using arDecompress_within_limit [of compressed] d(1) by (simp add: within_limit_def)
  moreover have "hrpOf c a = Inr hrp" using split by (simp add: splitInvoice_Inr_iff)
  ultimately show ?r
    using d(2) read split unfolding encodeInvoice_Inr_iff by (auto simp: readInvoiceData_Inr_iff)
next
  assume r: ?r
  then obtain hrp bs compressed where h: "hrpOf (in_currency v) (in_amountShannons v) = Inr hrp"
    and bs: "encodeInvoiceData L (in_data v) = Inr bs" and c: "arEncompress bs = Some compressed"
    and split: "splitInvoice s = Inr (hrp, in_currency v, in_amountShannons v, compressed, in_signature v)"
    unfolding encodeInvoice_Inr_iff by blast
  from encodeInvoiceData_limit [OF bs] have len: "length bs \<le> MAX_INVOICE_DATA_LENGTH" .
  from arDecompress_arEncompress [OF len] c have "arDecompress compressed = Some (Inr bs)" by simp
  moreover have "readInvoiceData L C hrp (in_currency v) (in_amountShannons v) compressed (in_signature v) bs = Inr v"
    using r bs by (simp add: readInvoiceData_Inr_iff [OF len h c])
  ultimately show ?l
    using split c by (simp add: decodeInvoice_def compareBytes_eq_0)
qed

text \<open>C37 An invoice string is read to an end: the reader returns, with an invoice or a refusal, on every text, whatever
  stream it carries.\<close>

theorem invoice_reader_returns: "decodeInvoice L C s \<noteq> None"
proof (cases "splitInvoice s")
  case (Inr x)
  obtain hrp c a compressed sig where x: "x = (hrp, c, a, compressed, sig)" by (cases x)
  show ?thesis
  proof (cases "arDecompress compressed")
    case None
    then show ?thesis using arDecompress_within_limit [of compressed] by (simp add: within_limit_def)
  next
    case (Some y)
    then show ?thesis
      using Inr x arDecompress_within_limit [of compressed] arDecompress_arEncompress [of "projr y"]
      by (cases y) (auto simp: decodeInvoice_def within_limit_def)
  qed
qed (simp add: decodeInvoice_def)

text \<open>C20 The molecule data has one form: within fiber's size limit the reader returns data for some bytes exactly when the
  writer writes them for it, attributes in their order and none twice.\<close>

theorem invoice_data_exact:
  assumes "length bs \<le> MAX_INVOICE_DATA_LENGTH"
  shows "decodeInvoiceData L bs = Inr d \<longleftrightarrow> encodeInvoiceData L d = Inr bs \<and> unicode_texts d"
  using assms by (rule decodeInvoiceData_Inr_iff)

definition sample_invoice_data :: invoice_data where
  "sample_invoice_data =
     \<lparr> iv_timestampMs = 1700000000000, iv_paymentHash = zero_bytes 32,
       iv_attributes = [ExpiryTime 3600, HashAlgorithm Sha256] \<rparr>"

definition sample_invoice_items :: "bytes list" where
  "sample_invoice_items = projr (encodeAttributes demo_lib [] 0 (iv_attributes sample_invoice_data))"

lemma sample_invoice_items:
  "encodeAttributes demo_lib [] 0 (iv_attributes sample_invoice_data) = Inr sample_invoice_items"
  "map length sample_invoice_items = [12, 5]"
  by code_simp+

lemma sample_invoice_encodes: "\<exists>bs. encodeInvoiceData demo_lib sample_invoice_data = Inr bs \<and> length bs = 93"
proof -
  obtain x y where items: "sample_invoice_items = [x, y]" "length x = 12" "length y = 5"
    using sample_invoice_items(2) by (auto simp: map_eq_Cons_conv)
  have "iv_timestampMs sample_invoice_data = 1700000000000" "iv_paymentHash sample_invoice_data = zero_bytes 32"
    by (simp_all add: sample_invoice_data_def)
  then show ?thesis
    by (simp add: encodeInvoiceData_def sample_invoice_items(1) items moleculeDynvec_table moleculeTable_eq length_table_bytes
        assert_defs uint128Le_def)
qed

lemma invoice_data_exact_witness:
  "decodeInvoiceData demo_lib (projr (encodeInvoiceData demo_lib sample_invoice_data)) = Inr sample_invoice_data"
proof -
  have "unicode_texts sample_invoice_data" by (simp add: unicode_texts_def sample_invoice_data_def)
  with sample_invoice_encodes show ?thesis by (auto intro: invoice_data_exact [THEN iffD2])
qed

end
