(* ===== verification/Protocol.thy ===== *)
theory Protocol
  imports Wire Watchtower
begin

text \<open>
  The module \<^verbatim>\<open>protocol\<close>: the two signing statuses the node answers, read field by field and each
  transition held to what it must carry. A \<^verbatim>\<open>ProtocolError\<close> is a wire error with the code \<open>malformed\<close>, so it
  keeps the constructor \<open>WireErr\<close> of the error it is made from.
\<close>

section \<open>Transitions and their rules\<close>

datatype channel_signing_transition =
    SendCommitmentSigned | CompleteReceivedCommitment | SendRevokeAndAck | CompleteReceivedRevokeAndAck
  | SendClosingSigned | SignChannelAnnouncement

datatype channel_signing_content_kind = KindCommitmentTx | KindClosingTx | KindRevocation | KindAnnouncement

definition SIGNING_STATUS_TYPES :: "string list" where
  "SIGNING_STATUS_TYPES = [''NoSignatureRequired'', ''SignatureRequired'']"

definition CHANNEL_SIGNING_TRANSITIONS :: "(string, channel_signing_transition) object" where
  "CHANNEL_SIGNING_TRANSITIONS =
     [(''SendCommitmentSigned'', SendCommitmentSigned), (''CompleteReceivedCommitment'', CompleteReceivedCommitment),
      (''SendRevokeAndAck'', SendRevokeAndAck), (''CompleteReceivedRevokeAndAck'', CompleteReceivedRevokeAndAck),
      (''SendClosingSigned'', SendClosingSigned), (''SignChannelAnnouncement'', SignChannelAnnouncement)]"

definition SIGNABLE_CONTENT_KINDS :: "(string, channel_signing_content_kind) object" where
  "SIGNABLE_CONTENT_KINDS =
     [(''CommitmentTransaction'', KindCommitmentTx), (''CooperativeCloseTransaction'', KindClosingTx),
      (''Revocation'', KindRevocation), (''ChannelAnnouncement'', KindAnnouncement)]"

definition NONCE_PURPOSE_CONTEXTS :: "(string, nonce_context) object" where
  "NONCE_PURPOSE_CONTEXTS = [(''Commitment'', COMMITMENT), (''Revocation'', REVOKE), (''ChannelAnnouncement'', ANNOUNCEMENT)]"

definition COMMITMENT_COUNTERS :: "(string, nonce_counter) object" where
  "COMMITMENT_COUNTERS = [(''Local'', counter_local), (''Remote'', counter_remote)]"

definition WIRE_TLC_HASH_ALGORITHMS :: "(string, tlc_hash_algorithm) object" where
  "WIRE_TLC_HASH_ALGORITHMS = [(''ckb_hash'', CkbHash), (''sha256'', Sha256)]"

record channel_signing_rule =
  sr_context :: nonce_context
  sr_counter :: "nonce_counter option"
  sr_contentKind :: channel_signing_content_kind
  sr_settlementForRemote :: "bool option"
  sr_peerPartialSignature :: bool
  sr_nextMaterial :: bool

definition signing_rule ::
    "nonce_context \<Rightarrow> nonce_counter option \<Rightarrow> channel_signing_content_kind \<Rightarrow> bool option \<Rightarrow> bool \<Rightarrow> bool \<Rightarrow> channel_signing_rule" where
  "signing_rule ctx counter kind forRemote peer nextMaterial =
     \<lparr> sr_context = ctx, sr_counter = counter, sr_contentKind = kind, sr_settlementForRemote = forRemote,
       sr_peerPartialSignature = peer, sr_nextMaterial = nextMaterial \<rparr>"

fun CHANNEL_SIGNING_RULES :: "channel_signing_transition \<Rightarrow> channel_signing_rule" where
  "CHANNEL_SIGNING_RULES SendCommitmentSigned = signing_rule COMMITMENT (Some counter_local) KindCommitmentTx (Some True) False True"
| "CHANNEL_SIGNING_RULES CompleteReceivedCommitment = signing_rule COMMITMENT (Some counter_local) KindCommitmentTx (Some False) True True"
| "CHANNEL_SIGNING_RULES SendRevokeAndAck = signing_rule REVOKE (Some counter_remote) KindRevocation None False True"
| "CHANNEL_SIGNING_RULES CompleteReceivedRevokeAndAck = signing_rule REVOKE (Some counter_local) KindRevocation None True True"
| "CHANNEL_SIGNING_RULES SendClosingSigned = signing_rule COMMITMENT (Some counter_local) KindClosingTx None False False"
| "CHANNEL_SIGNING_RULES SignChannelAnnouncement = signing_rule ANNOUNCEMENT None KindAnnouncement None False False"

definition MAX_SIGNING_SLOT_NUMBER :: int where
  "MAX_SIGNING_SLOT_NUMBER = MAX_COMMITMENT_NUMBER - 1"

definition ONCHAIN_KEY_PURPOSE_TYPES :: "string list" where
  "ONCHAIN_KEY_PURPOSE_TYPES = [''Settlement'', ''Tlc'']"

section \<open>Requests\<close>

datatype channel_signing_content =
    ContentCommitmentTx transaction
  | ContentClosingTx transaction
  | ContentRevocation cell_output bytes bytes  \<comment> \<open>output, output data, commitment lock args\<close>
  | ContentAnnouncement bytes

record signing_session_evidence =
  ev_peerPublicNonce :: bytes
  ev_peerPartialSignature :: "bytes option"

record channel_signing_request =
  cr_requestId :: bytes
  cr_transition :: channel_signing_transition
  cr_context :: nonce_context
  cr_commitmentNumber :: int
  cr_counter :: "nonce_counter option"
  cr_keyAggregation :: "bytes \<times> bytes"
  cr_aggNonce :: bytes
  cr_content :: channel_signing_content
  cr_evidence :: signing_session_evidence
  cr_settlement :: "signing_settlement option"

section \<open>The channel status\<close>

definition decodePubkey :: "lib \<Rightarrow> wire_field \<Rightarrow> bytes res" where
  "decodePubkey L f =
     bindR (decodeBareHexBytes L f 33) (\<lambda>key.
     if \<not> isCompressedPoint L key then malformedWireField f ''must be a compressed point on the curve'' else Inr key)"

text \<open>\<^verbatim>\<open>key-agg-context.ts\<close>: a header byte, a big-endian count and two keys, 71 bytes in all.\<close>

definition decodeKeyAggContext :: "lib \<Rightarrow> wire_field \<Rightarrow> (bytes \<times> bytes) res" where
  "decodeKeyAggContext L f =
     bindR (decodeAnyHexBytes L f) (\<lambda>b.
     if length b \<noteq> 71 then malformedWireField f ''must be 71 bytes''
     else if b ! 0 \<noteq> 0 then malformedWireField f ''must have the header byte 0x00: no parity flag, no tweak''
     else if be_val (take 4 (drop 1 b)) \<noteq> 2 then malformedWireField f ''must count exactly 2 keys''
     else
       let first = take 33 (drop 5 b); second = drop 38 b in
       if \<not> isCompressedPoint L first then malformedWireField f ''must have a first key on the curve''
       else if \<not> isCompressedPoint L second then malformedWireField f ''must have a second key on the curve''
       else if first = second then malformedWireField f ''must aggregate two distinct keys''
       else Inr (first, second))"

definition decodeNonceSlot :: "wire_field \<Rightarrow> channel_signing_rule \<Rightarrow> (nonce_context \<times> int) res" where
  "decodeNonceSlot f rule =
     bindR (readObject f) (\<lambda>at.
     bindR (decodeMapped (at ''purpose'') NONCE_PURPOSE_CONTEXTS) (\<lambda>ctx.
     if ctx \<noteq> sr_context rule then malformedWireField (at ''purpose'') ''must be the purpose of the transition''
     else
       bindR (decodeUintHexNumber (at ''commitment_number'') MAX_SIGNING_SLOT_NUMBER) (\<lambda>n.
       if ctx = ANNOUNCEMENT \<and> n \<noteq> 0 then malformedWireField (at ''commitment_number'') ''must be 0 for a channel announcement''
       else Inr (ctx, n))))"

definition decodeCounter :: "wire_field \<Rightarrow> channel_signing_rule \<Rightarrow> nonce_counter option res" where
  "decodeCounter f rule =
     bindR (decodeOrNull f (\<lambda>v. decodeMapped v COMMITMENT_COUNTERS)) (\<lambda>counter.
     if counter \<noteq> sr_counter rule then malformedWireField f ''must be the counter of the transition'' else Inr counter)"

definition decodeAggNonce :: "lib \<Rightarrow> wire_field \<Rightarrow> bytes res" where
  "decodeAggNonce L f =
     bindR (decodeHexBytes L f 66) (\<lambda>b.
     let (first, second) = nonceHalves b in
     if \<not> isAggregatedNonceHalf L first then malformedWireField f ''must have its first half on the curve or at infinity''
     else if \<not> isAggregatedNonceHalf L second then malformedWireField f ''must have its second half on the curve or at infinity''
     else Inr b)"

definition decodeSignableContent :: "lib \<Rightarrow> wire_field \<Rightarrow> channel_signing_rule \<Rightarrow> channel_signing_content res" where
  "decodeSignableContent L f rule =
     bindR (readTagged f (map fst SIGNABLE_CONTENT_KINDS)) (\<lambda>(tag, at).
     if get SIGNABLE_CONTENT_KINDS tag \<noteq> Some (sr_contentKind rule)
     then Inl (WireErr (fd_path f @ ''.type'') ''must be the content of the transition'')
     else
       (case sr_contentKind rule of
          KindCommitmentTx \<Rightarrow> bindR (decodeTransaction L (at ''transaction'')) (\<lambda>t. Inr (ContentCommitmentTx t))
        | KindClosingTx \<Rightarrow> bindR (decodeTransaction L (at ''transaction'')) (\<lambda>t. Inr (ContentClosingTx t))
        | KindRevocation \<Rightarrow>
            bindR (decodeMoleculeCellOutput L (at ''output'')) (\<lambda>out.
            bindR (decodeAnyHexBytes L (at ''output_data'')) (\<lambda>outputData.
            bindR (decodeHexBytes L (at ''commitment_lock_script_args'') REVOCATION_LOCK_ARGS_LENGTH) (\<lambda>lockArgs.
            Inr (ContentRevocation out outputData lockArgs))))
        | KindAnnouncement \<Rightarrow> bindR (decodeAnyHexBytes L (at ''unsigned_announcement'')) (\<lambda>b. Inr (ContentAnnouncement b))))"

definition decodeEvidence :: "lib \<Rightarrow> wire_field \<Rightarrow> channel_signing_rule \<Rightarrow> signing_session_evidence res" where
  "decodeEvidence L f rule =
     bindR (readObject f) (\<lambda>at.
     let nonce = at ''peer_public_nonce'' in
     bindR (decodeHexBytes L nonce 66) (\<lambda>peerPublicNonce.
     let (first, second) = nonceHalves peerPublicNonce in
     if \<not> isCompressedPoint L first then malformedWireField nonce ''must have its first half on the curve''
     else if \<not> isCompressedPoint L second then malformedWireField nonce ''must have its second half on the curve''
     else
       let signature = at ''peer_partial_signature'' in
       if \<not> sr_peerPartialSignature rule
       then if fd_value signature \<noteq> JNull then malformedWireField signature ''must be null for the transition''
            else Inr \<lparr> ev_peerPublicNonce = peerPublicNonce, ev_peerPartialSignature = None \<rparr>
       else if fd_value signature = JNull then malformedWireField signature ''must be present for the transition''
       else
         bindR (decodeHexBytes L signature 32) (\<lambda>s.
         if be_val s \<ge> curveOrder L then malformedWireField signature ''must be a scalar below the curve order''
         else Inr \<lparr> ev_peerPublicNonce = peerPublicNonce, ev_peerPartialSignature = Some s \<rparr>)))"

definition decodeSettlementTlc :: "lib \<Rightarrow> wire_field \<Rightarrow> signing_settlement_tlc res" where
  "decodeSettlementTlc L f =
     bindR (readObject f) (\<lambda>at.
     bindR (decodeUintHexNumber (at ''tlc_id'') MAX_SAFE_INTEGER) (\<lambda>tlcId.
     bindR (decodeUintHexNumber (at ''local_key_commitment_number'') MAX_COMMITMENT_NUMBER) (\<lambda>localNumber.
     bindR (decodeBoolean (at ''inbound'')) (\<lambda>inbound.
     bindR (decodeHexBytes L (at ''payment_hash'') 32) (\<lambda>paymentHash.
     bindR (decodeUintHex (at ''payment_amount'') UINT128_MAX) (\<lambda>amount.
     bindR (decodeMapped (at ''hash_algorithm'') WIRE_TLC_HASH_ALGORITHMS) (\<lambda>hashAlgorithm.
     bindR (decodeUintHex (at ''expiry'') UINT64_MAX) (\<lambda>expiryMs.
     bindR (decodePubkey L (at ''local_key_pubkey'')) (\<lambda>localKeyPubkey.
     bindR (decodePubkey L (at ''remote_key'')) (\<lambda>remoteTlcPubkey.
     Inr \<lparr> ss_tlcId = tlcId, ss_direction = (if inbound then received else offered), ss_hashAlgorithm = hashAlgorithm,
           ss_amountShannons = amount, ss_paymentHash = paymentHash, ss_expiryMs = expiryMs,
           ss_localKeyCommitmentNumber = localNumber, ss_localKeyPubkey = localKeyPubkey,
           ss_remoteTlcPubkey = remoteTlcPubkey \<rparr>))))))))))"

definition decodeSettlement :: "lib \<Rightarrow> wire_field \<Rightarrow> bool \<Rightarrow> signing_settlement res" where
  "decodeSettlement L f forRemote =
     bindR (readObject f) (\<lambda>at.
     bindR (decodeUintHex (at ''local_amount'') UINT128_MAX) (\<lambda>localAmount.
     bindR (decodeUintHex (at ''remote_amount'') UINT128_MAX) (\<lambda>remoteAmount.
     bindR (decodePubkey L (at ''local_settlement_pubkey'')) (\<lambda>localPubkey.
     bindR (decodePubkey L (at ''remote_settlement_pubkey'')) (\<lambda>remotePubkey.
     bindR (decodeBoolean (at ''for_remote'')) (\<lambda>view.
     if view \<noteq> forRemote then malformedWireField (at ''for_remote'') ''must be the view of the transition''
     else
       bindR (readArray (at ''tlcs'') None) (\<lambda>items.
       if length items > MAX_SETTLEMENT_TLCS then malformedWireField (at ''tlcs'') ''must have at most 255 items''
       else
         bindR (mapR (decodeSettlementTlc L) items) (\<lambda>ts.
         Inr \<lparr> se_localAmountShannons = localAmount, se_remoteAmountShannons = remoteAmount,
               se_localSettlementPubkey = localPubkey, se_remoteSettlementPubkey = remotePubkey,
               se_forRemote = forRemote, se_tlcs = ts \<rparr>))))))))"

definition decodeSettlementOf :: "lib \<Rightarrow> wire_field \<Rightarrow> channel_signing_rule \<Rightarrow> signing_settlement option res" where
  "decodeSettlementOf L f rule =
     (let absent = fd_value f = JUndefined \<or> fd_value f = JNull in
      case sr_settlementForRemote rule of
        None \<Rightarrow> if \<not> absent then malformedWireField f ''must be null for the transition'' else Inr None
      | Some forRemote \<Rightarrow>
          if absent then malformedWireField f ''must be present for the transition''
          else bindR (decodeSettlement L f forRemote) (\<lambda>s. Inr (Some s)))"

text \<open>\<open>None\<close> is the status of no request.\<close>

definition readChannelSigningStatus :: "lib \<Rightarrow> wire_field \<Rightarrow> channel_signing_request option res" where
  "readChannelSigningStatus L f =
     bindR (readTagged f SIGNING_STATUS_TYPES) (\<lambda>(tag, at).
     if tag = ''NoSignatureRequired'' then Inr None
     else
       bindR (decodeHexBytes L (at ''request_id'') 32) (\<lambda>requestId.
       bindR (decodeMapped (at ''transition'') CHANNEL_SIGNING_TRANSITIONS) (\<lambda>transition.
       let rule = CHANNEL_SIGNING_RULES transition in
       bindR (readObject (at ''content'')) (\<lambda>signing.
       bindR (decodeNonceSlot (signing ''slot'') rule) (\<lambda>(ctx, n).
       bindR (decodeCounter (signing ''commitment_counter'') rule) (\<lambda>counter.
       bindR (decodeKeyAggContext L (signing ''key_agg_ctx'')) (\<lambda>keyAggregation.
       bindR (decodeAggNonce L (signing ''agg_nonce'')) (\<lambda>aggNonce.
       bindR (decodeSignableContent L (signing ''content'') rule) (\<lambda>content.
       bindR (decodeEvidence L (at ''session_evidence'') rule) (\<lambda>evidence.
       bindR (decodeSettlementOf L (at ''settlement'') rule) (\<lambda>settlement.
       Inr (Some
         \<lparr> cr_requestId = requestId, cr_transition = transition, cr_context = ctx, cr_commitmentNumber = n,
           cr_counter = counter, cr_keyAggregation = keyAggregation, cr_aggNonce = aggNonce, cr_content = content,
           cr_evidence = evidence, cr_settlement = settlement \<rparr>))))))))))))"

text \<open>\<^verbatim>\<open>asWireError\<close>: a wire error becomes the protocol's, with its path and reason; any other is thrown on.\<close>

definition asProtocolError :: "error \<Rightarrow> error" where
  "asProtocolError e = (case e of WireErr path reason \<Rightarrow> WireErr path reason | _ \<Rightarrow> e)"

definition withProtocolError :: "'a res \<Rightarrow> 'a res" where
  "withProtocolError step = (case step of Inr x \<Rightarrow> Inr x | Inl e \<Rightarrow> Inl (asProtocolError e))"

definition decodeChannelSigningStatus :: "lib \<Rightarrow> wire_field \<Rightarrow> channel_signing_request option res" where
  "decodeChannelSigningStatus L f = withProtocolError (readChannelSigningStatus L f)"

section \<open>The watchtower status\<close>

definition decodeKeyPurpose :: "wire_field \<Rightarrow> watchtower_key_purpose res" where
  "decodeKeyPurpose f =
     bindR (readTagged f ONCHAIN_KEY_PURPOSE_TYPES) (\<lambda>(tag, at).
     if tag = ''Settlement'' then Inr PurposeSettlement
     else bindR (decodeUintHexNumber (at ''commitment_number'') MAX_COMMITMENT_NUMBER) (\<lambda>n. Inr (PurposeTlc n)))"

definition readWatchtowerSigningStatus :: "lib \<Rightarrow> wire_field \<Rightarrow> watchtower_spend_request option res" where
  "readWatchtowerSigningStatus L f =
     bindR (readTagged f SIGNING_STATUS_TYPES) (\<lambda>(tag, at).
     if tag = ''NoSignatureRequired'' then Inr None
     else
       bindR (decodeHexBytes L (at ''request_id'') 32) (\<lambda>requestId.
       bindR (readObject (at ''content'')) (\<lambda>content.
       bindR (decodeKeyPurpose (content ''key_purpose'')) (\<lambda>purpose.
       bindR (decodeTransaction L (content ''transaction'')) (\<lambda>t.
       Inr (Some \<lparr> wr_requestId = requestId, wr_purpose = purpose, wr_transaction = t \<rparr>))))))"

definition decodeWatchtowerSigningStatus :: "lib \<Rightarrow> wire_field \<Rightarrow> watchtower_spend_request option res" where
  "decodeWatchtowerSigningStatus L f = withProtocolError (readWatchtowerSigningStatus L f)"

end
