(* ===== verification/Signer.thy ===== *)
theory Signer
  imports Protocol Engine Coder
begin

text \<open>
  The module \<^verbatim>\<open>signer\<close> below the dispatch: key orders, the musig2 steps over the library's sessions, the
  on-chain signature, the public material, the signing deadline in double arithmetic, the operation a
  request asks the gate for, and the tenant identity.
\<close>

section \<open>The musig2 library\<close>

text \<open>
  What \<^verbatim>\<open>@scure/btc-signer/musig2\<close> and \<^verbatim>\<open>@noble/curves\<close> are asked for: a parameter. A session is given by the
  aggregated nonce, the keys and the message; building one may throw, as the method run on it may.
\<close>

record musig =
  nonceGen :: "bytes \<Rightarrow> bytes \<Rightarrow> bytes \<Rightarrow> (bytes \<times> bytes) res"  \<comment> \<open>public key, secret key, randomness; secret and public nonce\<close>
  nonceAggregate :: "bytes list \<Rightarrow> bytes res"
  sessionSign :: "bytes \<Rightarrow> bytes list \<Rightarrow> bytes \<Rightarrow> bytes \<Rightarrow> bytes \<Rightarrow> bytes res"  \<comment> \<open>session, secret nonce, secret key\<close>
  partialSigVerify :: "bytes \<Rightarrow> bytes list \<Rightarrow> bytes \<Rightarrow> bytes \<Rightarrow> bytes list \<Rightarrow> nat \<Rightarrow> bool res"
  partialSigAgg :: "bytes \<Rightarrow> bytes list \<Rightarrow> bytes \<Rightarrow> bytes list \<Rightarrow> bytes res"
  schnorrVerify :: "bytes \<Rightarrow> bytes \<Rightarrow> bytes \<Rightarrow> bool"
  signRecovered :: "bytes \<Rightarrow> bytes \<Rightarrow> bytes res"  \<comment> \<open>recoverable ECDSA, recovery id first\<close>
  signCompact :: "bytes \<Rightarrow> bytes \<Rightarrow> bytes res"

section \<open>Key orders\<close>

datatype signing_key_order = Ascending | PeerFirst | DeviceFirst

fun SIGNING_KEY_ORDERS :: "channel_signing_transition \<Rightarrow> signing_key_order" where
  "SIGNING_KEY_ORDERS SendCommitmentSigned = Ascending"
| "SIGNING_KEY_ORDERS CompleteReceivedCommitment = Ascending"
| "SIGNING_KEY_ORDERS SendRevokeAndAck = PeerFirst"
| "SIGNING_KEY_ORDERS CompleteReceivedRevokeAndAck = DeviceFirst"
| "SIGNING_KEY_ORDERS SendClosingSigned = Ascending"
| "SIGNING_KEY_ORDERS SignChannelAnnouncement = Ascending"

definition orderFundingPubkeys :: "channel_signing_transition \<Rightarrow> bytes \<Rightarrow> bytes \<Rightarrow> bytes \<times> bytes" where
  "orderFundingPubkeys transition devicePubkey peerPubkey =
     (case SIGNING_KEY_ORDERS transition of
        Ascending \<Rightarrow> if compareBytes devicePubkey peerPubkey \<le> 0 then (devicePubkey, peerPubkey) else (peerPubkey, devicePubkey)
      | PeerFirst \<Rightarrow> (peerPubkey, devicePubkey)
      | DeviceFirst \<Rightarrow> (devicePubkey, peerPubkey))"

definition readPeerFundingPubkey :: "channel_signing_transition \<Rightarrow> bytes \<times> bytes \<Rightarrow> bytes \<Rightarrow> bytes res" where
  "readPeerFundingPubkey transition keyAggregation devicePubkey =
     (let (first, second) = keyAggregation in
      case (if first = devicePubkey then Some second else if second = devicePubkey then Some first else None) of
        None \<Rightarrow> Inl (TypeErr ''the key aggregation does not include the channel's funding key'')
      | Some peerPubkey \<Rightarrow>
          if first \<noteq> fst (orderFundingPubkeys transition devicePubkey peerPubkey)
          then Inl (TypeErr ''the key aggregation is not in the order the transition aggregates under'') else Inr peerPubkey)"

section \<open>musig2 steps\<close>

definition getBasePublicKeys :: "lib \<Rightarrow> fiber_channel_keys \<Rightarrow> (bytes \<times> bytes) res" where
  "getBasePublicKeys L keys =
     bindR (pubkeyOf L (fundingKey keys)) (\<lambda>fundingPubkey.
     bindR (pubkeyOf L (tlcBaseKey keys)) (\<lambda>tlcBasePubkey. Inr (fundingPubkey, tlcBasePubkey)))"

definition getChannelCommitmentPoint :: "lib \<Rightarrow> fiber_channel_keys \<Rightarrow> int \<Rightarrow> bytes res" where
  "getChannelCommitmentPoint L keys commitmentNumber = getCommitmentPoint L (commitmentSeed keys) commitmentNumber"

definition generateNonces :: "lib \<Rightarrow> musig \<Rightarrow> fiber_channel_keys \<Rightarrow> int \<Rightarrow> nonce_context \<Rightarrow> (bytes \<times> bytes) res" where
  "generateNonces L M keys commitmentNumber ctx =
     bindR (deriveNonceSeed L keys commitmentNumber ctx) (\<lambda>nonceSeed.
     bindR (pubkeyOf L (fundingKey keys)) (\<lambda>pub. nonceGen M pub (fundingKey keys) nonceSeed))"

definition getPublicNonce :: "lib \<Rightarrow> musig \<Rightarrow> fiber_channel_keys \<Rightarrow> int \<Rightarrow> nonce_context \<Rightarrow> bytes res" where
  "getPublicNonce L M keys commitmentNumber ctx = bindR (generateNonces L M keys commitmentNumber ctx) (\<lambda>(secret, public). Inr public)"

definition aggregatePublicNonces :: "musig \<Rightarrow> bytes \<Rightarrow> bytes \<Rightarrow> bytes res" where
  "aggregatePublicNonces M devicePublicNonce peerPublicNonce =
     bindR (assertBytes ''devicePublicNonce'' devicePublicNonce 66) (\<lambda>_.
     bindR (assertBytes ''peerPublicNonce'' peerPublicNonce 66) (\<lambda>_. nonceAggregate M [devicePublicNonce, peerPublicNonce]))"

definition assertCosignerKeys :: "lib \<Rightarrow> fiber_channel_keys \<Rightarrow> sign_session \<Rightarrow> nat res" where
  "assertCosignerKeys L keys s =
     bindR (assertTwoDistinctKeys ''orderedPublicKeys'' (orderedPublicKeys s)) (\<lambda>(firstKey, secondKey).
     bindR (pubkeyOf L (fundingKey keys)) (\<lambda>fundingPubkey.
     if firstKey = fundingPubkey then Inr 0
     else if secondKey = fundingPubkey then Inr 1
     else Inl (TypeErr ''orderedPublicKeys'')))"

definition partialSign :: "lib \<Rightarrow> musig \<Rightarrow> fiber_channel_keys \<Rightarrow> sign_session \<Rightarrow> int \<Rightarrow> nonce_context \<Rightarrow> bytes res" where
  "partialSign L M keys s commitmentNumber ctx =
     bindR (assertCosignerKeys L keys s) (\<lambda>_.
     bindR (assertBytes ''aggregatedNonce'' (aggregatedNonce s) 66) (\<lambda>_.
     bindR (assertBytes ''message'' (sn_message s) 32) (\<lambda>_.
     bindR (generateNonces L M keys commitmentNumber ctx) (\<lambda>(secret, public).
     bindR (sessionSign M (aggregatedNonce s) (orderedPublicKeys s) (sn_message s) secret (fundingKey keys)) (\<lambda>partialSignature.
     bindR (assertBytes ''partialSignature'' partialSignature 32) (\<lambda>_. Inr partialSignature))))))"

definition verifyPeerPartialSignature ::
    "lib \<Rightarrow> musig \<Rightarrow> fiber_channel_keys \<Rightarrow> sign_session \<Rightarrow> bytes \<Rightarrow> bytes \<Rightarrow> bytes \<Rightarrow> bool res" where
  "verifyPeerPartialSignature L M keys s devicePublicNonce peerPublicNonce peerPartialSignature =
     bindR (assertCosignerKeys L keys s) (\<lambda>deviceIndex.
     bindR (assertBytes ''aggregatedNonce'' (aggregatedNonce s) 66) (\<lambda>_.
     bindR (assertBytes ''message'' (sn_message s) 32) (\<lambda>_.
     bindR (assertBytes ''devicePublicNonce'' devicePublicNonce 66) (\<lambda>_.
     bindR (assertBytes ''peerPublicNonce'' peerPublicNonce 66) (\<lambda>_.
     bindR (assertBytes ''peerPartialSignature'' peerPartialSignature 32) (\<lambda>_.
     partialSigVerify M (aggregatedNonce s) (orderedPublicKeys s) (sn_message s) peerPartialSignature
       (if deviceIndex = 0 then [devicePublicNonce, peerPublicNonce] else [peerPublicNonce, devicePublicNonce])
       (1 - deviceIndex)))))))"

definition aggregatePartialSignatures :: "lib \<Rightarrow> musig \<Rightarrow> sign_session \<Rightarrow> bytes list \<Rightarrow> bytes res" where
  "aggregatePartialSignatures L M s partialSignatures =
     bindR (assertTwoDistinctKeys ''orderedPublicKeys'' (orderedPublicKeys s)) (\<lambda>_.
     bindR (assertBytes ''aggregatedNonce'' (aggregatedNonce s) 66) (\<lambda>_.
     bindR (assertBytes ''message'' (sn_message s) 32) (\<lambda>_.
     if length partialSignatures \<noteq> 2 then Inl (TypeErr ''partialSignatures'')
     else
       bindR (forR (\<lambda>(i, p). assertBytes (item_name ''partialSignatures'' i) p 32) (entries partialSignatures)) (\<lambda>_.
       bindR (partialSigAgg M (aggregatedNonce s) (orderedPublicKeys s) (sn_message s) partialSignatures) (\<lambda>signature.
       bindR (assertBytes ''signature'' signature 64) (\<lambda>_.
       bindR (keyAggExport L (orderedPublicKeys s)) (\<lambda>key.
       if \<not> schnorrVerify M signature (sn_message s) key then Inl (TypeErr ''the partial signatures'') else Inr signature)))))))"

text \<open>The library writes the recovery id first, fiber last.\<close>

definition signOnchain :: "lib \<Rightarrow> musig \<Rightarrow> fiber_channel_keys \<Rightarrow> watchtower_key_purpose \<Rightarrow> transaction \<Rightarrow> bytes res" where
  "signOnchain L M keys purpose t =
     bindR (assertWatchtowerKeyPurpose ''purpose'' purpose) (\<lambda>_.
     bindR (case purpose of PurposeSettlement \<Rightarrow> Inr (tlcBaseKey keys) | PurposeTlc n \<Rightarrow> deriveTlcKey L keys n) (\<lambda>secretKey.
     bindR (computeTxMessage L t) (\<lambda>msg.
     bindR (signRecovered M msg secretKey) (\<lambda>recovered.
     bindR (assertBytes ''signature'' recovered 65) (\<lambda>_. Inr (drop 1 recovered @ take 1 recovered))))))"

section \<open>Public material\<close>

record channel_open_material =
  om_fundingPubkey :: bytes
  om_tlcBaseKey :: bytes
  om_firstCommitmentPoint :: bytes
  om_secondCommitmentPoint :: bytes
  om_commitmentNonce :: bytes
  om_nextCommitmentNonce :: bytes
  om_revocationNonce :: bytes
  om_channelAnnouncementNonce :: "bytes option"

record next_material =
  nm_nextCommitmentPoint :: bytes
  nm_nextCommitmentNonce :: bytes
  nm_nextRevocationNonce :: bytes

definition buildChannelOpenMaterial :: "lib \<Rightarrow> musig \<Rightarrow> fiber_channel_keys \<Rightarrow> channel_open_material res" where
  "buildChannelOpenMaterial L M keys =
     bindR (getBasePublicKeys L keys) (\<lambda>(fundingPubkey, tlcBasePubkey).
     bindR (getChannelCommitmentPoint L keys 1) (\<lambda>first.
     bindR (getChannelCommitmentPoint L keys 2) (\<lambda>second.
     bindR (getPublicNonce L M keys 0 COMMITMENT) (\<lambda>commitmentNonce.
     bindR (getPublicNonce L M keys 1 COMMITMENT) (\<lambda>nextCommitmentNonce.
     bindR (getPublicNonce L M keys 2 REVOKE) (\<lambda>revocationNonce.
     Inr \<lparr> om_fundingPubkey = fundingPubkey, om_tlcBaseKey = tlcBasePubkey, om_firstCommitmentPoint = first,
           om_secondCommitmentPoint = second, om_commitmentNonce = commitmentNonce, om_nextCommitmentNonce = nextCommitmentNonce,
           om_revocationNonce = revocationNonce, om_channelAnnouncementNonce = None \<rparr>))))))"

definition buildNextMaterial :: "lib \<Rightarrow> musig \<Rightarrow> fiber_channel_keys \<Rightarrow> int \<Rightarrow> next_material res" where
  "buildNextMaterial L M keys commitmentNumber =
     bindR (getChannelCommitmentPoint L keys commitmentNumber) (\<lambda>point.
     bindR (getPublicNonce L M keys commitmentNumber COMMITMENT) (\<lambda>commitmentNonce.
     bindR (getPublicNonce L M keys commitmentNumber REVOKE) (\<lambda>revocationNonce.
     Inr \<lparr> nm_nextCommitmentPoint = point, nm_nextCommitmentNonce = commitmentNonce, nm_nextRevocationNonce = revocationNonce \<rparr>)))"

section \<open>The signing deadline\<close>

unbundle bit_operations_syntax

text \<open>
  A positive double is a fraction of integers whose denominator is a power of two; zero is \<open>(0, 1)\<close>. Every
  operation is exact on fractions and then rounded to a mantissa of 53 bits, ties to even.
\<close>

type_synonym double = "int \<times> int"

text \<open>How often \<open>b\<close>, positive, is doubled until \<open>a < b * 2 ^ 53\<close>.\<close>

function halvings :: "int \<Rightarrow> int \<Rightarrow> nat" where
  "halvings a b = (if a < b * 2 ^ 53 \<or> b \<le> 0 then 0 else Suc (halvings a (2 * b)))"
  by pat_completeness auto
termination by (relation "measure (\<lambda>(a, b). nat (a - b))") auto

declare halvings.simps [simp del]

definition roundDouble :: "int \<Rightarrow> int \<Rightarrow> double" where
  "roundDouble a b =
     (let up = doublings a (b * 2 ^ 52);
          down = halvings a b
      in (roundHalfEven (a * 2 ^ up) (b * 2 ^ down) * 2 ^ down, 2 ^ up))"

record epoch_fraction =
  ef_number :: int
  ef_index :: int
  ef_length :: int

definition readEpochFraction :: "int \<Rightarrow> epoch_fraction" where
  "readEpochFraction v =
     (let number = v AND 0xffffff; len = drop_bit 40 v AND 0xffff in
      if len = 0 then \<lparr> ef_number = number, ef_index = 0, ef_length = 1 \<rparr>
      else \<lparr> ef_number = number, ef_index = drop_bit 24 v AND 0xffff, ef_length = len \<rparr>)"

text \<open>No operand here is negative or no number, so of the cast's cases truncation and saturation are left.\<close>

definition castF64ToU64 :: "double \<Rightarrow> int" where
  "castF64ToU64 d = (if fst d \<le> 0 then 0 else if fst d \<ge> 2 ^ 64 * snd d then UINT64_MAX else fst d div snd d)"

definition tlcExpiryDelay :: "int \<Rightarrow> int \<Rightarrow> int" where
  "tlcExpiryDelay commitmentDelayEpoch millisecondsPerEpoch =
     (let f = readEpochFraction commitmentDelayEpoch;
          q = roundDouble (ef_index f) (ef_length f);
          s = roundDouble (ef_number f * snd q + fst q) (snd q);
          p = roundDouble (fst s * millisecondsPerEpoch) (snd s);
          d = roundDouble (fst p * 2) (snd p)
      in castF64ToU64 (roundDouble (fst d) (snd d * 3)))"

fun deadlineLoop :: "int \<Rightarrow> int option \<Rightarrow> int list \<Rightarrow> int option" where
  "deadlineLoop reserve deadline [] = deadline"
| "deadlineLoop reserve deadline (expiryMs # rest) =
     (let candidate = (if expiryMs > reserve then expiryMs - reserve else 0)
      in deadlineLoop reserve
           (case deadline of None \<Rightarrow> Some candidate | Some d \<Rightarrow> if candidate < d then Some candidate else deadline) rest)"

definition pendingTlcSignatureDeadline :: "signing_settlement_tlc list \<Rightarrow> int \<Rightarrow> int \<Rightarrow> int option" where
  "pendingTlcSignatureDeadline ts commitmentDelayEpoch millisecondsPerEpoch =
     deadlineLoop (tlcExpiryDelay commitmentDelayEpoch millisecondsPerEpoch) None (map ss_expiryMs ts)"

section \<open>The operation of a request\<close>

record signing_network =
  nw_commitmentLock :: script_template
  nw_fundingLockCellDepsCount :: int
  nw_millisecondsPerEpoch :: int

record prepared_sign_operation =
  po_operation :: sign_operation
  po_commitmentNumber :: "int option"
  po_view :: "policy_view option"

fun computeSigningMessage :: "lib \<Rightarrow> channel_signing_content \<Rightarrow> bytes res" where
  "computeSigningMessage L (ContentCommitmentTx t) = computeTxMessage L t"
| "computeSigningMessage L (ContentClosingTx t) = computeTxMessage L t"
| "computeSigningMessage L (ContentRevocation out outputData lockArgs) = computeRevocationContentMessage L out outputData lockArgs"
| "computeSigningMessage L (ContentAnnouncement b) = Inl (TypeErr ''a channel announcement is refused before its content is read'')"

definition readPinnedTerm :: "channel_pins \<Rightarrow> pin_field \<Rightarrow> int res" where
  "readPinnedTerm ps fld =
     (case get (pinned ps) fld of
        None \<Rightarrow> refusePolicyRequest policy_refusal ''the host has not pinned the term for the channel yet''
      | Some v \<Rightarrow> Inr (bigInt v))"

definition readPinnedLockLayout :: "channel_pins \<Rightarrow> commitment_lock_layout res" where
  "readPinnedLockLayout ps =
     (case find (\<lambda>candidate. Some (layout_name candidate) = get (pinned ps) P_lockLayout) COMMITMENT_LOCK_LAYOUTS of
        None \<Rightarrow> refusePolicyRequest policy_refusal ''no commitment of the channel has pinned the lock layout yet''
      | Some layout \<Rightarrow> Inr layout)"

record channel_terms =
  ct_commitmentFeeRate :: int
  ct_cellDepsCount :: int
  ct_liquidCapacityShannons :: int
  ct_localReservedCkbShannons :: int
  ct_remoteReservedCkbShannons :: int
  ct_commitmentLock :: script_template
  ct_lockLayout :: commitment_lock_layout

text \<open>The reserve of a layout is pinned for every layout when the channel is registered.\<close>

definition readChannelTerms :: "channel_pins \<Rightarrow> commitment_lock_layout \<Rightarrow> signing_network \<Rightarrow> channel_terms res" where
  "readChannelTerms ps layout network =
     bindR (readPinnedTerm ps P_liquidCapacityShannons) (\<lambda>liquid.
     bindR (readPinnedTerm ps P_commitmentFeeRate) (\<lambda>feeRate.
     bindR (readPinnedTerm ps P_remoteReservedCkbShannons) (\<lambda>remoteReserved.
     case get (localReservedCkbShannons ps) layout of
       None \<Rightarrow> Inl (TypeErr ''localReservedCkbShannons'')
     | Some localReserved \<Rightarrow> Inr
         \<lparr> ct_commitmentFeeRate = feeRate, ct_cellDepsCount = nw_fundingLockCellDepsCount network,
           ct_liquidCapacityShannons = liquid, ct_localReservedCkbShannons = bigInt localReserved,
           ct_remoteReservedCkbShannons = remoteReserved, ct_commitmentLock = nw_commitmentLock network,
           ct_lockLayout = layout \<rparr>)))"

definition assertCkbOutput :: "string \<Rightarrow> cell_output \<Rightarrow> unit res" where
  "assertCkbOutput name out = check (type_script out = None) (TypeErr name)"

definition buildCommitmentOperation ::
    "lib \<Rightarrow> fiber_channel_keys \<Rightarrow> channel_signing_request \<Rightarrow> transaction \<Rightarrow> bytes \<Rightarrow> channel_pins \<Rightarrow> signing_network
     \<Rightarrow> prepared_sign_operation res" where
  "buildCommitmentOperation L keys request t peerFundingPubkey ps network =
     (case cr_settlement request of
        None \<Rightarrow> Inl (TypeErr ''the transition must carry the settlement'')
      | Some settlement \<Rightarrow>
          if inputs t = [] then Inl (TypeErr ''the commitment tx must spend the funding cell'')
          else if outputs t = [] then Inl (TypeErr ''the commitment tx must create the commitment cell'')
          else
            let out = outputs t ! 0; lockArgs = args (lock out) in
            bindR (assertCkbOutput ''the commitment cell'' out) (\<lambda>_.
            bindR (readCommitmentLockLayout lockArgs) (\<lambda>layout.
            bindR (readCommitmentLockVersion lockArgs) (\<lambda>commitmentNumber.
            if cr_transition request = SendCommitmentSigned \<and> commitmentNumber \<noteq> cr_commitmentNumber request
            then Inl (TypeErr ''the commitment sent at the slot must carry that version'')
            else
              bindR (readCommitmentLockDelay lockArgs) (\<lambda>delay.
              bindR (readChannelTerms ps layout network) (\<lambda>terms.
              bindR (settlementToCommitmentInput L keys settlement
                  \<lparr> te_fundingOutPoint = previousOutput (inputs t ! 0), te_remoteFundingPubkey = peerFundingPubkey,
                    te_commitmentDelayEpoch = delay, te_commitmentFeeRate = ct_commitmentFeeRate terms,
                    te_cellDepsCount = ct_cellDepsCount terms, te_udtTypeScript = None,
                    te_liquidCapacityShannons = ct_liquidCapacityShannons terms,
                    te_localReservedCkbShannons = ct_localReservedCkbShannons terms,
                    te_remoteReservedCkbShannons = ct_remoteReservedCkbShannons terms,
                    te_commitmentLock = ct_commitmentLock terms, te_lockLayout = ct_lockLayout terms \<rparr> commitmentNumber) (\<lambda>input.
              Inr \<lparr> po_operation = OpCommitmentTx input, po_commitmentNumber = Some commitmentNumber,
                    po_view = Some (if se_forRemote settlement then remote_view else local_view) \<rparr>)))))))"

definition buildRevocationOperation ::
    "lib \<Rightarrow> channel_signing_request \<Rightarrow> cell_output \<Rightarrow> bytes \<Rightarrow> bytes \<Rightarrow> channel_pins \<Rightarrow> signing_network
     \<Rightarrow> prepared_sign_operation res" where
  "buildRevocationOperation L request out lockArgs peerFundingPubkey ps network =
     bindR (assertCkbOutput ''the revocation output'' out) (\<lambda>_.
     bindR (readCommitmentLockVersion lockArgs) (\<lambda>revoked.
     if revoked + 1 \<noteq> cr_commitmentNumber request then Inl (TypeErr ''the revocation at the slot must revoke the version below'')
     else
       let forRemote = (cr_transition request = CompleteReceivedRevokeAndAck) in
       bindR (if forRemote then bindR (moleculeScript ''script'' (lock out)) (\<lambda>b.
                check (bytesToHex L b = localCloseScript ps) (TypeErr ''a revocation the device receives'')) else Inr ()) (\<lambda>_.
       bindR (readCommitmentLockDelay lockArgs) (\<lambda>delay.
       bindR (readPinnedLockLayout ps) (\<lambda>layout.
       bindR (readChannelTerms ps layout network) (\<lambda>terms.
       Inr \<lparr> po_operation = OpRevocation
               \<lparr> ri_forRemote = forRemote, ri_revokedCommitmentNumber = revoked, ri_payoutScript = lock out,
                 ri_remoteFundingPubkey = peerFundingPubkey, ri_commitmentDelayEpoch = delay,
                 ri_commitmentFeeRate = ct_commitmentFeeRate terms, ri_cellDepsCount = ct_cellDepsCount terms,
                 ri_udtTypeScript = None, ri_liquidCapacityShannons = ct_liquidCapacityShannons terms,
                 ri_localReservedCkbShannons = ct_localReservedCkbShannons terms,
                 ri_remoteReservedCkbShannons = ct_remoteReservedCkbShannons terms,
                 ri_commitmentLock = ct_commitmentLock terms, ri_lockLayout = ct_lockLayout terms \<rparr>,
             po_commitmentNumber = Some revoked, po_view = Some (if forRemote then remote_view else local_view) \<rparr>))))))"

fun buildSignOperation ::
    "lib \<Rightarrow> fiber_channel_keys \<Rightarrow> channel_signing_request \<Rightarrow> channel_signing_content \<Rightarrow> bytes \<Rightarrow> channel_pins \<Rightarrow> signing_network
     \<Rightarrow> prepared_sign_operation res" where
  "buildSignOperation L keys request (ContentCommitmentTx t) peer ps network = buildCommitmentOperation L keys request t peer ps network"
| "buildSignOperation L keys request (ContentRevocation out outputData lockArgs) peer ps network =
     buildRevocationOperation L request out lockArgs peer ps network"
| "buildSignOperation L keys request (ContentClosingTx t) peer ps network =
     bindR (readClosingTx L keys peer t) (\<lambda>input.
     Inr \<lparr> po_operation = OpClosingTx input, po_commitmentNumber = None, po_view = None \<rparr>)"
| "buildSignOperation L keys request (ContentAnnouncement b) peer ps network =
     Inl (TypeErr ''a channel announcement is refused before its content is read'')"

section \<open>The tenant identity\<close>

record tenant_registry_payload =
  tr_lspNodeId :: bytes
  tr_rootSignerPubkey :: bytes
  tr_requestId :: bytes
  tr_signedAtMs :: int

definition TENANT_REGISTRY_PROTOCOL :: string where
  "TENANT_REGISTRY_PROTOCOL = ''fiber-hosted-lsp-tenant-registry/v2''"

definition TENANT_ID_DOMAIN :: string where
  "TENANT_ID_DOMAIN = ''fiber-hosted-lsp-tenant-id/v1''"

definition buildTenantRegistryPayload :: "lib \<Rightarrow> tenant_registry_payload \<Rightarrow> bytes res" where
  "buildTenantRegistryPayload L p =
     bindR (assertCompressedPoint L ''lspNodeId'' (tr_lspNodeId p)) (\<lambda>_.
     bindR (assertCompressedPoint L ''rootSignerPubkey'' (tr_rootSignerPubkey p)) (\<lambda>_.
     bindR (assertBytes ''requestId'' (tr_requestId p) 32) (\<lambda>_.
     bindR (assertUnsignedBigInt ''signedAtMs'' (tr_signedAtMs p) UINT64_MAX) (\<lambda>_.
     Inr (utf8ToBytes TENANT_REGISTRY_PROTOCOL @ tr_lspNodeId p @ tr_rootSignerPubkey p @ tr_requestId p
          @ be_bytes 8 (nat (tr_signedAtMs p)))))))"

definition computeTenantRegistryDigest :: "lib \<Rightarrow> tenant_registry_payload \<Rightarrow> bytes res" where
  "computeTenantRegistryDigest L p = bindR (buildTenantRegistryPayload L p) (\<lambda>b. Inr (ckbBlake2b L [b]))"

record tenant_identity =
  ti_secretKey :: bytes
  ti_publicKey :: bytes
  ti_tenantId :: string

definition newTenantIdentity :: "lib \<Rightarrow> bytes \<Rightarrow> tenant_identity res" where
  "newTenantIdentity L masterSeed =
     bindR (deriveWalletIdentityKey L masterSeed) (\<lambda>secretKey.
     bindR (pubkeyOf L secretKey) (\<lambda>publicKey. Inr
       \<lparr> ti_secretKey = secretKey, ti_publicKey = publicKey,
         ti_tenantId = bytesToHex L (blake2bHashWithSalt L publicKey (utf8ToBytes TENANT_ID_DOMAIN)) \<rparr>))"

definition signRegistration :: "lib \<Rightarrow> musig \<Rightarrow> tenant_identity \<Rightarrow> bytes \<Rightarrow> bytes \<Rightarrow> int \<Rightarrow> (tenant_registry_payload \<times> bytes) res" where
  "signRegistration L M ti lspNodeId requestId signedAtMs =
     bindR (assertBytes ''requestId'' requestId 32) (\<lambda>_.
     let payload = \<lparr> tr_lspNodeId = lspNodeId, tr_rootSignerPubkey = ti_publicKey ti, tr_requestId = requestId,
                     tr_signedAtMs = signedAtMs \<rparr>
     in bindR (computeTenantRegistryDigest L payload) (\<lambda>digest.
        bindR (signCompact M digest (ti_secretKey ti)) (\<lambda>signature.
        bindR (assertBytes ''signature'' signature 64) (\<lambda>_. Inr (payload, signature)))))"

section \<open>Hold-invoice preimages\<close>

definition holdInvoicePaymentHash :: "lib \<Rightarrow> bytes \<Rightarrow> int \<Rightarrow> bytes res" where
  "holdInvoicePaymentHash L masterSeed invoiceIndex =
     bindR (deriveHoldInvoicePreimage L masterSeed invoiceIndex) (\<lambda>preimage. Inr (ckbBlake2b L [preimage]))"

end
