(* ===== verification/Dispatch.thy ===== *)
theory Dispatch
  imports Signer
begin

text \<open>
  The dispatch of \<^verbatim>\<open>signer/signer-dispatch.ts\<close>: a delivery of a signing status, decoded, checked, claimed at
  the policy engine, signed and answered. A delivery runs here without another method of the engine between
  its awaits; what it reads before the claim is read again by the engine inside it.
\<close>

record signer_dispatch =
  ds_masterSeed :: bytes
  ds_network :: signing_network
  ds_policy :: policy_engine

definition newSignerDispatch :: "bytes \<Rightarrow> signing_network \<Rightarrow> policy_engine \<Rightarrow> signer_dispatch res" where
  "newSignerDispatch masterSeed network policy =
     bindR (assertBytes ''masterSeed'' masterSeed 32) (\<lambda>_.
     bindR (assertScriptTemplate ''commitmentLock'' (nw_commitmentLock network)) (\<lambda>_.
     bindR (assertPositiveInteger ''fundingLockCellDepsCount'' (nw_fundingLockCellDepsCount network) MAX_CELL_DEPS_COUNT) (\<lambda>_.
     bindR (assertPositiveInteger ''millisecondsPerEpoch'' (nw_millisecondsPerEpoch network) MAX_SAFE_INTEGER) (\<lambda>_.
     Inr \<lparr> ds_masterSeed = masterSeed, ds_network = network, ds_policy = policy \<rparr>))))"

section \<open>Outcomes\<close>

record signed_outcome =
  so_requestId :: bytes
  so_transition :: channel_signing_transition
  so_context :: nonce_context
  so_slotNumber :: int
  so_commitmentNumber :: "int option"
  so_view :: "policy_view option"
  so_partialSignature :: bytes
  so_nextMaterial :: "next_material option"
  so_status :: verdict_status
  so_warnings :: "string list"
  so_deadlineMs :: "int option"

datatype dispatch_outcome =
    Idle
  | Signed signed_outcome
  | Refused "bytes option" "channel_signing_transition option" signer_error_code string "int option"
  | Fault error

datatype watchtower_dispatch_outcome =
    WatchtowerIdle
  | WatchtowerSigned bytes watchtower_key_purpose bytes bool
  | WatchtowerRefused "bytes option" "watchtower_key_purpose option" signer_error_code string
  | WatchtowerFault error

definition malformedUnless :: "'a res \<Rightarrow> 'a res" where
  "malformedUnless step =
     (case step of
        Inl (TypeErr s) \<Rightarrow> refusePolicyRequest malformed s
      | Inl (RangeErr s) \<Rightarrow> refusePolicyRequest malformed s
      | _ \<Rightarrow> step)"

definition slotKeyOf :: "channel_signing_request \<Rightarrow> string" where
  "slotKeyOf request = signSlotKey (cr_context request) (cr_commitmentNumber request)"

section \<open>Signing\<close>

definition channelKeys :: "lib \<Rightarrow> signer_dispatch \<Rightarrow> int \<Rightarrow> fiber_channel_keys res" where
  "channelKeys L D channelIndex = bindR (deriveChannelSeed L (ds_masterSeed D) channelIndex) (deriveChannelKeys L)"

definition prepareChannelOpen ::
    "lib \<Rightarrow> musig \<Rightarrow> signer_dispatch \<Rightarrow> int \<Rightarrow> string \<Rightarrow> script \<Rightarrow> (int \<times> string \<times> script \<times> channel_open_material) res" where
  "prepareChannelOpen L M D channelIndex funded closeScript =
     bindR (assertChannelOpening funded closeScript) (\<lambda>_.
     bindR (channelKeys L D channelIndex) (\<lambda>keys.
     bindR (buildChannelOpenMaterial L M keys) (\<lambda>material. Inr (channelIndex, funded, closeScript, material))))"

text \<open>The session of a request, once its keys, nonces, message and peer signature are checked.\<close>

definition checkPeerSignature ::
    "lib \<Rightarrow> musig \<Rightarrow> fiber_channel_keys \<Rightarrow> channel_signing_request \<Rightarrow> sign_session \<Rightarrow> bytes \<Rightarrow> unit res" where
  "checkPeerSignature L M keys request session devicePublicNonce =
     (if sr_peerPartialSignature (CHANNEL_SIGNING_RULES (cr_transition request))
      then (case ev_peerPartialSignature (cr_evidence request) of
              None \<Rightarrow> refusePolicyRequest malformed ''the peer's partial signature does not verify''
            | Some peerPartialSignature \<Rightarrow>
                bindR (malformedUnless (verifyPeerPartialSignature L M keys session devicePublicNonce
                        (ev_peerPublicNonce (cr_evidence request)) peerPartialSignature)) (\<lambda>ok.
                if \<not> ok then refusePolicyRequest malformed ''the peer's partial signature does not verify'' else Inr ()))
      else Inr ())"

definition checkSession ::
    "lib \<Rightarrow> musig \<Rightarrow> fiber_channel_keys \<Rightarrow> channel_signing_request \<Rightarrow> (bytes \<times> sign_session) res" where
  "checkSession L M keys request =
     (if cr_transition request = SignChannelAnnouncement
      then refusePolicyRequest policy_refusal ''a channel announcement is never signed''
      else
        bindR (malformedUnless (bindR (pubkeyOf L (fundingKey keys)) (\<lambda>pub.
          readPeerFundingPubkey (cr_transition request) (cr_keyAggregation request) pub))) (\<lambda>peerFundingPubkey.
        bindR (getPublicNonce L M keys (cr_commitmentNumber request) (cr_context request)) (\<lambda>devicePublicNonce.
        bindR (aggregatePublicNonces M devicePublicNonce (ev_peerPublicNonce (cr_evidence request))) (\<lambda>sumNonce.
        if sumNonce \<noteq> cr_aggNonce request
        then refusePolicyRequest malformed ''the aggregated nonce is not the sum of this device's nonce and the peer's''
        else
          bindR (malformedUnless (computeSigningMessage L (cr_content request))) (\<lambda>msg.
          let session = \<lparr> orderedPublicKeys = [fst (cr_keyAggregation request), snd (cr_keyAggregation request)],
                          aggregatedNonce = cr_aggNonce request, sn_message = msg \<rparr> in
          bindR (checkPeerSignature L M keys request session devicePublicNonce) (\<lambda>_. Inr (peerFundingPubkey, session)))))))"

text \<open>A diagnostic: pins that fail to read give no deadline.\<close>

definition readDeadline ::
    "lib \<Rightarrow> signer_dispatch \<Rightarrow> string \<Rightarrow> channel_signing_request \<Rightarrow> (storage, int option) act" where
  "readDeadline L D name request st =
     (let ts = (case cr_settlement request of None \<Rightarrow> [] | Some s \<Rightarrow> se_tlcs s) in
      if ts = [] then (Inr None, st)
      else
        (case readChannelPins L name st of
           (Inl e, st') \<Rightarrow> (Inr None, st')
         | (Inr ps, st') \<Rightarrow>
             (case get (pinned ps) P_commitmentDelayEpoch of
                None \<Rightarrow> (Inr None, st')
              | Some delay \<Rightarrow>
                  (Inr (pendingTlcSignatureDeadline ts (bigInt delay) (nw_millisecondsPerEpoch (ds_network D))), st'))))"

text \<open>What follows a granted claim: the signature, the revocation's evidence, the answer.\<close>

definition recordReceivedRevocation ::
    "lib \<Rightarrow> musig \<Rightarrow> string \<Rightarrow> channel_signing_request \<Rightarrow> sign_session \<Rightarrow> bytes \<Rightarrow> (storage, unit) act" where
  "recordReceivedRevocation L M name request session partialSignature =
     (case ev_peerPartialSignature (cr_evidence request) of
        Some peerPartialSignature \<Rightarrow>
          if cr_transition request = CompleteReceivedRevokeAndAck
          then bindS (liftS (aggregatePartialSignatures L M session [peerPartialSignature, partialSignature])) (\<lambda>signature.
               recordRevocation L name (cr_commitmentNumber request - 1) signature)
          else doneS ()
      | None \<Rightarrow> doneS ())"

definition answer ::
    "lib \<Rightarrow> musig \<Rightarrow> signer_dispatch \<Rightarrow> string \<Rightarrow> fiber_channel_keys \<Rightarrow> channel_signing_request \<Rightarrow> sign_session
     \<Rightarrow> prepared_sign_operation \<Rightarrow> policy_verdict \<Rightarrow> (storage, dispatch_outcome) act" where
  "answer L M D name keys request session prepared verdict =
     (if vd_context verdict \<noteq> cr_context request \<or> vd_commitmentNumber verdict \<noteq> cr_commitmentNumber request
      then liftS (Inl (OtherErr ''the gate claimed another slot than the nonce was checked at''))
      else
        bindS (liftS (partialSign L M keys session (vd_commitmentNumber verdict) (vd_context verdict))) (\<lambda>partialSignature.
        bindS (recordReceivedRevocation L M name request session partialSignature) (\<lambda>_.
        bindS (liftS (if sr_nextMaterial (CHANNEL_SIGNING_RULES (cr_transition request))
                      then bindR (buildNextMaterial L M keys (cr_commitmentNumber request + 1)) (\<lambda>m. Inr (Some m))
                      else Inr None)) (\<lambda>material.
        bindS (readDeadline L D name request) (\<lambda>deadline.
        doneS (Signed
          \<lparr> so_requestId = cr_requestId request, so_transition = cr_transition request, so_context = cr_context request,
            so_slotNumber = cr_commitmentNumber request, so_commitmentNumber = po_commitmentNumber prepared,
            so_view = po_view prepared, so_partialSignature = partialSignature, so_nextMaterial = material,
            so_status = vd_status verdict,
            so_warnings = (if vd_status verdict = reused then [slotKeyOf request] else []),
            so_deadlineMs = deadline \<rparr>))))))"

definition signRequestOf ::
    "string \<Rightarrow> channel_signing_request \<Rightarrow> sign_session \<Rightarrow> prepared_sign_operation \<Rightarrow> policy_sign_request" where
  "signRequestOf name request session prepared =
     \<lparr> rq_channelId = name, rq_commitmentNumber = cr_commitmentNumber request, rq_counter = cr_counter request,
       rq_session = session, rq_operation = po_operation prepared \<rparr>"

definition signDelivery ::
    "lib \<Rightarrow> musig \<Rightarrow> signer_dispatch \<Rightarrow> string \<Rightarrow> channel_signing_request \<Rightarrow> (storage, dispatch_outcome) act" where
  "signDelivery L M D name request =
     bindS (requireChannelIndex name) (\<lambda>channelIndex.
     bindS (liftS (channelKeys L D channelIndex)) (\<lambda>keys.
     bindS (liftS (checkSession L M keys request)) (\<lambda>(peerFundingPubkey, session).
     bindS (readChannelPins L name) (\<lambda>ps.
     bindS (liftS (malformedUnless
       (buildSignOperation L keys request (cr_content request) peerFundingPubkey ps (ds_network D)))) (\<lambda>prepared.
     bindS (checkAndClaim L (ds_policy D) keys (signRequestOf name request session prepared)) (\<lambda>verdict.
     answer L M D name keys request session prepared verdict))))))"

text \<open>\<open>None\<close> is a status that could not be decoded.\<close>

definition refusedOutcome :: "channel_signing_request option \<Rightarrow> signer_error_code \<Rightarrow> string \<Rightarrow> int option \<Rightarrow> dispatch_outcome" where
  [simp]: "refusedOutcome request code message deadline =
     Refused (map_option cr_requestId request) (map_option cr_transition request) code message deadline"

definition watchtowerRefusedOutcome :: "watchtower_spend_request option \<Rightarrow> signer_error_code \<Rightarrow> string \<Rightarrow> watchtower_dispatch_outcome" where
  [simp]: "watchtowerRefusedOutcome request code message =
     WatchtowerRefused (map_option wr_requestId request) (map_option wr_purpose request) code message"

text \<open>Nothing on this path throws: an error is the outcome.\<close>

definition handle ::
    "lib \<Rightarrow> musig \<Rightarrow> signer_dispatch \<Rightarrow> string \<Rightarrow> wire_field \<Rightarrow> storage \<Rightarrow> dispatch_outcome \<times> storage" where
  "handle L M D name status st =
     (case decodeChannelSigningStatus L status of
        Inl (WireErr path reason) \<Rightarrow> (refusedOutcome None malformed (path @ '' '' @ reason) None, st)
      | Inl e \<Rightarrow> (Fault e, st)
      | Inr None \<Rightarrow> (Idle, st)
      | Inr (Some request) \<Rightarrow>
          (case signDelivery L M D name request st of
             (Inr outcome, st') \<Rightarrow> (outcome, st')
           | (Inl (PolicyRefusalErr code rule), st') \<Rightarrow>
               (case readDeadline L D name request st' of
                  (Inr deadline, st'') \<Rightarrow> (refusedOutcome (Some request) code rule deadline, st'')
                | (Inl e, st'') \<Rightarrow> (Fault e, st''))
           | (Inl e, st') \<Rightarrow> (Fault e, st')))"

section \<open>Watchtower spends\<close>

definition signWatchtower ::
    "lib \<Rightarrow> musig \<Rightarrow> signer_dispatch \<Rightarrow> string \<Rightarrow> watchtower_spend_request \<Rightarrow> (storage, watchtower_dispatch_outcome) act" where
  "signWatchtower L M D name request =
     bindS (liftS (malformedUnless (assertNonEmptyString ''channelId'' name))) (\<lambda>_.
     bindS (requireChannelIndex name) (\<lambda>channelIndex.
     bindS (liftS (channelKeys L D channelIndex)) (\<lambda>keys.
     bindS (checkWatchtowerSpend L (ds_policy D) keys name request) (\<lambda>verdict.
     case verdict of
       SpendAlreadySigned (Some signature) \<Rightarrow> doneS (WatchtowerSigned (wr_requestId request) (wr_purpose request) signature True)
     | _ \<Rightarrow>
         bindS (liftS (signOnchain L M keys (wr_purpose request) (wr_transaction request))) (\<lambda>signature.
         if verdict = SpendUnclaimed
         then doneS (WatchtowerSigned (wr_requestId request) (wr_purpose request) signature False)
         else
           bindS (recordSpendSignature L name (wr_requestId request) signature) (\<lambda>_.
           doneS (WatchtowerSigned (wr_requestId request) (wr_purpose request) signature True)))))))"

definition handleWatchtower ::
    "lib \<Rightarrow> musig \<Rightarrow> signer_dispatch \<Rightarrow> string \<Rightarrow> wire_field \<Rightarrow> storage \<Rightarrow> watchtower_dispatch_outcome \<times> storage" where
  "handleWatchtower L M D name status st =
     (case decodeWatchtowerSigningStatus L status of
        Inl (WireErr path reason) \<Rightarrow> (watchtowerRefusedOutcome None malformed (path @ '' '' @ reason), st)
      | Inl e \<Rightarrow> (WatchtowerFault e, st)
      | Inr None \<Rightarrow> (WatchtowerIdle, st)
      | Inr (Some request) \<Rightarrow>
          (case signWatchtower L M D name request st of
             (Inr outcome, st') \<Rightarrow> (outcome, st')
           | (Inl (PolicyRefusalErr code rule), st') \<Rightarrow>
               (watchtowerRefusedOutcome (Some request) code rule, st')
           | (Inl e, st') \<Rightarrow> (WatchtowerFault e, st')))"

end
