(* ===== verification/DispatchSample.thy ===== *)
theory DispatchSample
  imports Dispatch EngineSample
begin

text \<open>
  A delivery the device signs: on library functions whose hash is constant, a channel is registered, its terms
  are pinned, and the node asks for the signature of the first commitment transaction it sends.
\<close>

definition flat_lib :: lib where
  "flat_lib = demo_lib\<lparr> blake2b := \<lambda>b. zero_bytes 31 @ [1], hdPrivateKey := \<lambda>s p. Inr (zero_bytes 31 @ [1]) \<rparr>"

definition flat_key :: bytes where
  "flat_key = zero_bytes 31 @ [1]"

definition flat_nonce :: bytes where
  "flat_nonce = (2 # zero_bytes 32) @ (2 # zero_bytes 32)"

definition flat_musig :: musig where
  "flat_musig = \<lparr> nonceGen = \<lambda>pub key rand. Inr (zero_bytes 97, flat_nonce), nonceAggregate = \<lambda>ns. Inr (hd ns),
     sessionSign = \<lambda>agg ks msg secret key. Inr msg, partialSigVerify = \<lambda>agg ks msg sig ns i. Inr True,
     partialSigAgg = \<lambda>agg ks msg sigs. Inr (zero_bytes 64), schnorrVerify = \<lambda>sig msg key. True,
     signRecovered = \<lambda>msg key. Inr (zero_bytes 65), signCompact = \<lambda>msg key. Inr (zero_bytes 64) \<rparr>"

definition flat_network :: signing_network where
  "flat_network = \<lparr> nw_commitmentLock = sample_template, nw_fundingLockCellDepsCount = 1, nw_millisecondsPerEpoch = 14400000 \<rparr>"

definition flat_dispatch :: signer_dispatch where
  "flat_dispatch = \<lparr> ds_masterSeed = flat_key, ds_network = flat_network, ds_policy = sample_engine \<rparr>"

definition flat_keys :: fiber_channel_keys where
  "flat_keys = \<lparr> fundingKey = flat_key, tlcBaseKey = flat_key, musig2BaseNonce = flat_key, commitmentSeed = flat_key \<rparr>"

definition flat_commitment :: policy_sign_request where
  "flat_commitment = sample_request\<lparr> rq_session := (sample_session\<lparr> orderedPublicKeys := [sample_point, 2 # flat_key], sn_message := flat_key \<rparr>) \<rparr>"

definition flat_transaction :: transaction where
  "flat_transaction = projr (buildClosingTx flat_lib flat_keys sample_closing_input None)"

definition hex_text :: "bytes \<Rightarrow> json" where
  "hex_text b = JString (''0x'' @ hex_of_bytes b)"

definition flat_status :: json where
  "flat_status = JObject
     [(''type'', JString ''SignatureRequired''), (''request_id'', hex_text (zero_bytes 32)),
      (''transition'', JString ''SendClosingSigned''),
      (''content'', JObject
        [(''slot'', JObject [(''purpose'', JString ''Commitment''), (''commitment_number'', JString ''0x2'')]),
         (''commitment_counter'', JString ''Local''),
         (''key_agg_ctx'', hex_text ([0, 0, 0, 0, 2] @ (2 # zero_bytes 32) @ (2 # flat_key))),
         (''agg_nonce'', hex_text flat_nonce),
         (''content'', JObject [(''type'', JString ''CooperativeCloseTransaction''),
            (''transaction'', projr (encodeTransaction flat_lib ''t'' flat_transaction))])]),
      (''session_evidence'', JObject [(''peer_public_nonce'', hex_text flat_nonce), (''peer_partial_signature'', JNull)]),
      (''settlement'', JNull)]"

definition flat_field :: wire_field where
  "flat_field = \<lparr> fd_value = flat_status, fd_path = ''s'' \<rparr>"

definition flat_content :: channel_signing_content where
  "flat_content = ContentClosingTx flat_transaction"

definition flat_request :: channel_signing_request where
  "flat_request = \<lparr> cr_requestId = zero_bytes 32, cr_transition = SendClosingSigned, cr_context = COMMITMENT,
     cr_commitmentNumber = 2, cr_counter = Some counter_local, cr_keyAggregation = (sample_point, 2 # flat_key),
     cr_aggNonce = flat_nonce, cr_content = flat_content,
     cr_evidence = \<lparr> ev_peerPublicNonce = flat_nonce, ev_peerPartialSignature = None \<rparr>, cr_settlement = None \<rparr>"

definition flat_session :: sign_session where
  "flat_session = \<lparr> orderedPublicKeys = [sample_point, 2 # flat_key], aggregatedNonce = flat_nonce, sn_message = flat_key \<rparr>"

definition flat_prepared :: prepared_sign_operation where
  "flat_prepared = \<lparr> po_operation = OpClosingTx sample_closing_input, po_commitmentNumber = None, po_view = None \<rparr>"

lemma flat_decoded: "decodeChannelSigningStatus flat_lib flat_field = Inr (Some flat_request)"
  by code_simp

lemma flat_keys_derived: "channelKeys flat_lib flat_dispatch 0 = Inr flat_keys"
  by code_simp

lemma flat_prepares: "buildSignOperation flat_lib flat_keys flat_request flat_content sample_point ps flat_network = Inr flat_prepared"
proof -
  have "readClosingTx flat_lib flat_keys sample_point flat_transaction = Inr sample_closing_input"
    by code_simp
  then show ?thesis
    by (simp add: flat_content_def flat_prepared_def)
qed

lemma flat_message: "computeSigningMessage flat_lib flat_content = Inr flat_key"
  by code_simp

end
