(* ===== verification/DispatchFacts.thy ===== *)
theory DispatchFacts
  imports DispatchSample EngineFacts
begin

text \<open>
  What the device does over any run of deliveries and host calls: every delivery moves the storage as
  methods of the engine do, so the engine's invariants are the device's, and what it signs in a slot is one
  signature.
\<close>

section \<open>Runs of the device\<close>

datatype device_op =
    Deliver string wire_field
  | DeliverWatchtower string wire_field
  | Method engine_op

fun device_step :: "lib \<Rightarrow> musig \<Rightarrow> signer_dispatch \<Rightarrow> device_op \<Rightarrow> storage \<Rightarrow> storage" where
  "device_step L M D (Deliver name status) st = snd (handle L M D name status st)"
| "device_step L M D (DeliverWatchtower name status) st = snd (handleWatchtower L M D name status st)"
| "device_step L M D (Method op) st = perform L (ds_policy D) op st"

text \<open>What a delivery signs: the channel index, the slot, the session and the partial signature it answers.\<close>

record device_signature =
  dg_index :: int
  dg_context :: nonce_context
  dg_number :: int
  dg_session :: sign_session
  dg_signature :: bytes

definition signature_of :: "lib \<Rightarrow> musig \<Rightarrow> signer_dispatch \<Rightarrow> string \<Rightarrow> wire_field \<Rightarrow> storage \<Rightarrow> device_signature option" where
  "signature_of L M D name status st =
     (case (fst (handle L M D name status st), decodeChannelSigningStatus L status, fst (resolveChannelIndex name st)) of
        (Signed so, Inr (Some request), Inr (Some i)) \<Rightarrow>
          (case bindR (channelKeys L D i) (\<lambda>keys. checkSession L M keys request) of
             Inr (peer, session) \<Rightarrow> Some \<lparr> dg_index = i, dg_context = so_context so, dg_number = so_slotNumber so,
                                        dg_session = session, dg_signature = so_partialSignature so \<rparr>
           | Inl e \<Rightarrow> None)
      | _ \<Rightarrow> None)"

fun signatures_of :: "lib \<Rightarrow> musig \<Rightarrow> signer_dispatch \<Rightarrow> storage \<Rightarrow> device_op \<Rightarrow> device_signature list" where
  "signatures_of L M D st (Deliver name status) = (case signature_of L M D name status st of None \<Rightarrow> [] | Some g \<Rightarrow> [g])"
| "signatures_of L M D st op = []"

fun device_run :: "lib \<Rightarrow> musig \<Rightarrow> signer_dispatch \<Rightarrow> storage \<Rightarrow> device_op list \<Rightarrow> storage \<times> device_signature list" where
  "device_run L M D st [] = (st, [])"
| "device_run L M D st (op # ops) =
     (case device_run L M D (device_step L M D op st) ops of (st', gs) \<Rightarrow> (st', signatures_of L M D st op @ gs))"

section \<open>A delivery as methods of the engine\<close>

lemma reads_readChannelPins [reads]: "reads_only (readChannelPins L name)"
  unfolding readChannelPins_def by (intro reads)

lemma readDeadline_Inr: "\<exists>d. readDeadline L D name request st = (Inr d, st)"
proof -
  have "snd (readChannelPins L name st) = st" using reads_readChannelPins [of L name] by (simp add: keeps_def)
  then show ?thesis
    by (cases "readChannelPins L name st") (auto simp: readDeadline_def Let_def split: sum.splits option.splits)
qed

lemma malformedUnless_Inr_iff [res_simps]: "malformedUnless step = Inr x \<longleftrightarrow> step = Inr x"
  by (auto simp: malformedUnless_def split: sum.splits error.splits)

text \<open>Some methods of the engine of a kind, run in order, that lead from one storage to another.\<close>

definition engine_moves :: "(engine_op \<Rightarrow> bool) \<Rightarrow> lib \<Rightarrow> policy_engine \<Rightarrow> storage \<Rightarrow> storage \<Rightarrow> bool" where
  "engine_moves P L en st st' \<longleftrightarrow> (\<exists>ops. list_all P ops \<and> st' = fold (perform L en) ops st)"

interpretation moving: storage_preorder "engine_moves P L en" for P L en
proof
  show "engine_moves P L en st st" for st
    unfolding engine_moves_def by (rule exI [of _ "[]"]) simp
  fix a b c
  assume "engine_moves P L en a b" "engine_moves P L en b c"
  then obtain xs ys where "list_all P xs" "b = fold (perform L en) xs a" "list_all P ys" "c = fold (perform L en) ys b"
    unfolding engine_moves_def by blast
  then show "engine_moves P L en a c"
    unfolding engine_moves_def by (intro exI [of _ "xs @ ys"]) simp
qed

lemma engine_moves_perform: "P op \<Longrightarrow> engine_moves P L en st (perform L en op st)"
  unfolding engine_moves_def by (rule exI [of _ "[op]"]) simp

lemma engine_moves_mono: "engine_moves P L en st st' \<Longrightarrow> (\<And>op. P op \<Longrightarrow> Q op) \<Longrightarrow> engine_moves Q L en st st'"
  unfolding engine_moves_def by (metis list.pred_mono_strong)

text \<open>The methods a delivery calls.\<close>

fun delivers :: "engine_op \<Rightarrow> bool" where
  "delivers (CheckAndClaim keys request) = True"
| "delivers (RecordRevocation name version signature) = True"
| "delivers (CheckWatchtowerSpend keys name spend) = True"
| "delivers (RecordSpendSignature name requestId signature) = True"
| "delivers op = False"

named_theorems device_moves

lemmas [device_moves] = moving.rules moving.reading [OF reads_readChannelPins]
  moving.reading [OF reads_engine(2)]

lemma moves_methods [device_moves]:
  "keeps (engine_moves delivers L en) (checkAndClaim L en keys request)"
  "keeps (engine_moves delivers L en) (recordRevocation L name version signature)"
  "keeps (engine_moves delivers L en) (checkWatchtowerSpend L en keys name spend)"
  "keeps (engine_moves delivers L en) (recordSpendSignature L name requestId signature)"
  using engine_moves_perform [of delivers "CheckAndClaim keys request" L en]
    engine_moves_perform [of delivers "RecordRevocation name version signature" L en]
    engine_moves_perform [of delivers "CheckWatchtowerSpend keys name spend" L en]
    engine_moves_perform [of delivers "RecordSpendSignature name requestId signature" L en]
  by (simp_all add: keeps_def)

lemma moves_readDeadline [device_moves]: "keeps (engine_moves delivers L en) (readDeadline L D name request)"
  unfolding keeps_def using readDeadline_Inr moving.same by (metis snd_conv)

lemma moves_answer [device_moves]: "keeps (engine_moves delivers L en) (answer L M D name keys request session prepared verdict)"
  unfolding answer_def recordReceivedRevocation_def by (intro device_moves)

lemma moves_signDelivery: "keeps (engine_moves delivers L (ds_policy D)) (signDelivery L M D name request)"
  unfolding signDelivery_def by (intro device_moves)

lemma moves_signWatchtower: "keeps (engine_moves delivers L (ds_policy D)) (signWatchtower L M D name request)"
  unfolding signWatchtower_def
  by (intro device_moves) (auto split: watchtower_spend_verdict.split option.split intro!: device_moves)

lemma handle_moves: "engine_moves delivers L (ds_policy D) st (snd (handle L M D name status st))"
proof -
  have sign: "engine_moves delivers L (ds_policy D) st (snd (signDelivery L M D name request st))" for request
    using moves_signDelivery by (simp add: keeps_def)
  show ?thesis
  proof (cases "decodeChannelSigningStatus L status")
    case (Inl e)
    then show ?thesis by (cases e) (simp_all add: handle_def moving.same)
  next
    case (Inr o')
    show ?thesis
    proof (cases o')
      case None
      with Inr show ?thesis by (simp add: handle_def moving.same)
    next
      case (Some request)
      obtain r st' where r: "signDelivery L M D name request st = (r, st')" by fastforce
      obtain d where "readDeadline L D name request st' = (Inr d, st')" using readDeadline_Inr by blast
      with sign [of request] r Inr Some show ?thesis
        by (auto simp: handle_def split: sum.splits error.splits)
    qed
  qed
qed

lemma handleWatchtower_moves: "engine_moves delivers L (ds_policy D) st (snd (handleWatchtower L M D name status st))"
proof -
  have sign: "engine_moves delivers L (ds_policy D) st (snd (signWatchtower L M D name request st))" for request
    using moves_signWatchtower by (simp add: keeps_def)
  show ?thesis
  proof (cases "decodeWatchtowerSigningStatus L status")
    case (Inl e)
    then show ?thesis by (cases e) (simp_all add: handleWatchtower_def moving.same)
  next
    case (Inr o')
    show ?thesis
    proof (cases o')
      case None
      with Inr show ?thesis by (simp add: handleWatchtower_def moving.same)
    next
      case (Some request)
      obtain r st' where r: "signWatchtower L M D name request st = (r, st')" by fastforce
      with sign [of request] Inr Some show ?thesis
        by (auto simp: handleWatchtower_def split: sum.splits error.splits)
    qed
  qed
qed

lemma device_step_moves: "engine_moves (\<lambda>_. True) L (ds_policy D) st (device_step L M D op st)"
  using handle_moves [THEN engine_moves_mono] handleWatchtower_moves [THEN engine_moves_mono]
  by (cases op) (simp_all add: engine_moves_perform)

lemma device_run_moves: "engine_moves (\<lambda>_. True) L (ds_policy D) st (fst (device_run L M D st ops))"
proof (induction ops arbitrary: st)
  case (Cons op ops)
  from device_step_moves Cons.IH have "engine_moves (\<lambda>_. True) L (ds_policy D) st (fst (device_run L M D (device_step L M D op st) ops))"
    by (rule moving.compose)
  then show ?case by (simp add: case_prod_beta)
qed (simp add: moving.same)

section \<open>What a delivery signs\<close>

lemma decideClaim_verdict:
  "decideClaim L c r ctx = Inr (v, r') \<Longrightarrow> vd_context v = sl_context (cl_slot c) \<and> vd_commitmentNumber v = sl_commitmentNumber (cl_slot c)"
  by (auto simp: decideClaim_def Let_def verdict_of_def bindR_Inr_iff split: if_splits)

lemma checkAndClaim_signed_by:
  assumes "checkAndClaim L en keys request st = (Inr v, st')"
  obtains i s where "fst (resolveChannelIndex (rq_channelId request) st) = Inr (Some i)"
    "buildSessionCommitment L (rq_session request) = Inr s"
    "signed_by L en st (CheckAndClaim keys request) = Some (i, signSlotKey (vd_context v) (vd_commitmentNumber v), s)"
  using assms
proof (rule checkAndClaim_Inr)
  fix slot i c
  assume *: "resolveSignSlot (rq_operation request) (rq_commitmentNumber request) (rq_counter request) = Inr slot"
    "fst (resolveChannelIndex (rq_channelId request) st) = Inr (Some i)" "cl_slot c = slot"
    "buildSessionCommitment L (rq_session request) = Inr (cl_sessionCommitment c)" "decideAndClaim L i c st = (Inr v, st')"
  from *(5) have "vd_context v = sl_context slot \<and> vd_commitmentNumber v = sl_commitmentNumber slot"
    by (rule decideAndClaim_Inr) (use decideClaim_verdict *(3) in fastforce)
  with * assms that show thesis by simp
qed

lemma checkSession_Inr:
  assumes "checkSession L M keys request = Inr (peer, session)"
  shows "cr_transition request \<noteq> SignChannelAnnouncement" "computeSigningMessage L (cr_content request) = Inr (sn_message session)"
proof -
  from assms have "cr_transition request \<noteq> SignChannelAnnouncement
      \<and> (\<exists>msg. computeSigningMessage L (cr_content request) = Inr msg \<and> sn_message session = msg)"
    by (auto simp: checkSession_def bindR_Inr_iff malformedUnless_Inr_iff Let_def split: if_splits)
  then show "cr_transition request \<noteq> SignChannelAnnouncement" "computeSigningMessage L (cr_content request) = Inr (sn_message session)"
    by auto
qed

lemma checkAndClaim_rebuilds:
  assumes "checkAndClaim L en keys request st = (Inr v, st')"
  shows "\<exists>c. rebuildOperation L keys (rq_operation request) = Inr (sn_message (rq_session request), c)"
  using assms by (auto simp: checkAndClaim_def bindS_Inr_iff res_simps split: if_splits prod.splits)

lemma answer_Inr:
  assumes "answer L M D name keys request session prepared verdict st = (Inr out, st')"
  obtains so where "out = Signed so" "so_context so = cr_context request" "so_slotNumber so = cr_commitmentNumber request"
    "vd_context verdict = cr_context request" "vd_commitmentNumber verdict = cr_commitmentNumber request"
    "partialSign L M keys session (cr_commitmentNumber request) (cr_context request) = Inr (so_partialSignature so)"
proof (cases out)
  case (Signed so)
  show thesis
    by (rule that [OF Signed]) (use assms in \<open>auto simp: Signed answer_def bindS_Inr_iff split: if_splits\<close>)
qed (use assms in \<open>auto simp: answer_def bindS_Inr_iff split: if_splits\<close>)

lemma signDelivery_Inr:
  assumes "signDelivery L M D name request st = (Inr out, st')"
  obtains so i keys peer session ps prepared verdict st1 where
    "out = Signed so" "so_context so = cr_context request" "so_slotNumber so = cr_commitmentNumber request"
    "fst (resolveChannelIndex name st) = Inr (Some i)" "channelKeys L D i = Inr keys"
    "checkSession L M keys request = Inr (peer, session)" "readChannelPins L name st = (Inr ps, st)"
    "buildSignOperation L keys request (cr_content request) peer ps (ds_network D) = Inr prepared"
    "checkAndClaim L (ds_policy D) keys (signRequestOf name request session prepared) st = (Inr verdict, st1)"
    "vd_context verdict = cr_context request" "vd_commitmentNumber verdict = cr_commitmentNumber request"
    "partialSign L M keys session (cr_commitmentNumber request) (cr_context request) = Inr (so_partialSignature so)"
    "answer L M D name keys request session prepared verdict st1 = (Inr out, st')"
proof -
  from assms obtain i st0 keys ps0 where i: "requireChannelIndex name st = (Inr i, st0)" and k: "channelKeys L D i = Inr keys"
    and s: "checkSession L M keys request = Inr ps0"
    and rest: "(case ps0 of (peer, session) \<Rightarrow>
        bindS (readChannelPins L name) (\<lambda>ps.
        bindS (liftS (malformedUnless (buildSignOperation L keys request (cr_content request) peer ps (ds_network D)))) (\<lambda>prepared.
        bindS (checkAndClaim L (ds_policy D) keys (signRequestOf name request session prepared)) (\<lambda>verdict.
        answer L M D name keys request session prepared verdict)))) st0 = (Inr out, st')"
    unfolding signDelivery_def bindS_Inr_iff liftS_simps by blast
  obtain peer session where ps0: "ps0 = (peer, session)" by (cases ps0)
  note idx = requireChannelIndex_Inr [OF i]
  from rest [unfolded ps0 prod.case idx(1) bindS_Inr_iff liftS_simps] obtain ps st1 prepared verdict st2 where
    p: "readChannelPins L name st = (Inr ps, st1)"
    "malformedUnless (buildSignOperation L keys request (cr_content request) peer ps (ds_network D)) = Inr prepared"
    "checkAndClaim L (ds_policy D) keys (signRequestOf name request session prepared) st1 = (Inr verdict, st2)"
    "answer L M D name keys request session prepared verdict st2 = (Inr out, st')"
    by blast
  from reads_onlyD [OF reads_readChannelPins p(1)] have st1: "st1 = st" .
  from p(2) have prep: "buildSignOperation L keys request (cr_content request) peer ps (ds_network D) = Inr prepared"
    by (simp add: malformedUnless_Inr_iff)
  from p(4) obtain so where so: "out = Signed so" "so_context so = cr_context request" "so_slotNumber so = cr_commitmentNumber request"
    "vd_context verdict = cr_context request" "vd_commitmentNumber verdict = cr_commitmentNumber request"
    "partialSign L M keys session (cr_commitmentNumber request) (cr_context request) = Inr (so_partialSignature so)"
    by (rule answer_Inr)
  show thesis
    by (rule that [OF so(1,2,3) idx(2) k s [unfolded ps0] p(1) [unfolded st1] prep p(3) [unfolded st1] so(4,5,6) p(4)])
qed

lemma handle_Signed:
  assumes "handle L M D name status st = (Signed so, st')"
  obtains request where "decodeChannelSigningStatus L status = Inr (Some request)" "signDelivery L M D name request st = (Inr (Signed so), st')"
proof -
  from assms obtain request where r: "decodeChannelSigningStatus L status = Inr (Some request)"
    by (auto simp: handle_def split: sum.splits error.splits option.splits)
  moreover obtain x st1 where x: "signDelivery L M D name request st = (x, st1)" by fastforce
  moreover obtain d where "readDeadline L D name request st1 = (Inr d, st1)" using readDeadline_Inr by blast
  ultimately have "x = Inr (Signed so) \<and> st1 = st'"
    using assms by (auto simp: handle_def split: sum.splits error.splits)
  with r x that show thesis by blast
qed

lemma signature_of_Some:
  assumes "signature_of L M D name status st = Some g"
  obtains request keys peer ps prepared verdict st1 st' where
    "decodeChannelSigningStatus L status = Inr (Some request)" "fst (resolveChannelIndex name st) = Inr (Some (dg_index g))"
    "channelKeys L D (dg_index g) = Inr keys" "checkSession L M keys request = Inr (peer, dg_session g)"
    "fst (readChannelPins L name st) = Inr ps"
    "buildSignOperation L keys request (cr_content request) peer ps (ds_network D) = Inr prepared"
    "checkAndClaim L (ds_policy D) keys (signRequestOf name request (dg_session g) prepared) st = (Inr verdict, st1)"
    "vd_context verdict = dg_context g" "vd_commitmentNumber verdict = dg_number g"
    "cr_context request = dg_context g" "cr_commitmentNumber request = dg_number g"
    "partialSign L M keys (dg_session g) (dg_number g) (dg_context g) = Inr (dg_signature g)"
    "engine_moves delivers L (ds_policy D) st1 (snd (handle L M D name status st))"
proof -
  obtain out st' where h: "handle L M D name status st = (out, st')" by fastforce
  from assms h obtain so where out: "out = Signed so"
    by (auto simp: signature_of_def split: dispatch_outcome.splits)
  from h [unfolded out] show thesis
  proof (rule handle_Signed)
    fix request assume r: "decodeChannelSigningStatus L status = Inr (Some request)"
      and s: "signDelivery L M D name request st = (Inr (Signed so), st')"
    from s show thesis
    proof (rule signDelivery_Inr)
      fix so' i keys peer session ps prepared verdict st1
      assume *: "Signed so = Signed so'" "so_context so' = cr_context request" "so_slotNumber so' = cr_commitmentNumber request"
        "fst (resolveChannelIndex name st) = Inr (Some i)" "channelKeys L D i = Inr keys"
        "checkSession L M keys request = Inr (peer, session)" "readChannelPins L name st = (Inr ps, st)"
        "buildSignOperation L keys request (cr_content request) peer ps (ds_network D) = Inr prepared"
        "checkAndClaim L (ds_policy D) keys (signRequestOf name request session prepared) st = (Inr verdict, st1)"
        "vd_context verdict = cr_context request" "vd_commitmentNumber verdict = cr_commitmentNumber request"
        "partialSign L M keys session (cr_commitmentNumber request) (cr_context request) = Inr (so_partialSignature so')"
        "answer L M D name keys request session prepared verdict st1 = (Inr (Signed so), st')"
      from assms have g: "g = \<lparr> dg_index = i, dg_context = so_context so, dg_number = so_slotNumber so, dg_session = session,
          dg_signature = so_partialSignature so \<rparr>"
        using * r h out by (simp add: signature_of_def)
      have "engine_moves delivers L (ds_policy D) st1 st'"
        using moves_answer *(13) by (rule keepsD)
      with * r g h show thesis by (intro that [of request keys peer ps prepared verdict st1]) simp_all
    qed
  qed
qed

section \<open>The theorems\<close>

text \<open>C3 What the device signs is what it rebuilt. Every signature a delivery answers is its partial signature,
  under the nonce of the request's slot, over a message that is at once the one of the plaintext the node sent and the one of
  the operation the device rebuilt from its own keys, the channel's pinned terms and the settlement; and it is never over a
  channel announcement.\<close>

theorem signs_what_it_rebuilt:
  "set_option (signature_of L M D name status st) \<subseteq>
     {g. \<exists>request keys peer ps prepared c.
        decodeChannelSigningStatus L status = Inr (Some request) \<and> cr_transition request \<noteq> SignChannelAnnouncement
        \<and> cr_context request = dg_context g \<and> cr_commitmentNumber request = dg_number g
        \<and> fst (resolveChannelIndex name st) = Inr (Some (dg_index g)) \<and> channelKeys L D (dg_index g) = Inr keys
        \<and> computeSigningMessage L (cr_content request) = Inr (sn_message (dg_session g))
        \<and> fst (readChannelPins L name st) = Inr ps
        \<and> buildSignOperation L keys request (cr_content request) peer ps (ds_network D) = Inr prepared
        \<and> rebuildOperation L keys (po_operation prepared) = Inr (sn_message (dg_session g), c)
        \<and> partialSign L M keys (dg_session g) (dg_number g) (dg_context g) = Inr (dg_signature g)}"
proof
  fix g assume "g \<in> set_option (signature_of L M D name status st)"
  then have "signature_of L M D name status st = Some g" by simp
  then show "g \<in> {g. \<exists>request keys peer ps prepared c.
        decodeChannelSigningStatus L status = Inr (Some request) \<and> cr_transition request \<noteq> SignChannelAnnouncement
        \<and> cr_context request = dg_context g \<and> cr_commitmentNumber request = dg_number g
        \<and> fst (resolveChannelIndex name st) = Inr (Some (dg_index g)) \<and> channelKeys L D (dg_index g) = Inr keys
        \<and> computeSigningMessage L (cr_content request) = Inr (sn_message (dg_session g))
        \<and> fst (readChannelPins L name st) = Inr ps
        \<and> buildSignOperation L keys request (cr_content request) peer ps (ds_network D) = Inr prepared
        \<and> rebuildOperation L keys (po_operation prepared) = Inr (sn_message (dg_session g), c)
        \<and> partialSign L M keys (dg_session g) (dg_number g) (dg_context g) = Inr (dg_signature g)}"
  proof (rule signature_of_Some)
    fix request keys peer ps prepared verdict st1
    assume *: "decodeChannelSigningStatus L status = Inr (Some request)" "fst (resolveChannelIndex name st) = Inr (Some (dg_index g))"
      "channelKeys L D (dg_index g) = Inr keys" "checkSession L M keys request = Inr (peer, dg_session g)"
      "fst (readChannelPins L name st) = Inr ps"
      "buildSignOperation L keys request (cr_content request) peer ps (ds_network D) = Inr prepared"
      "checkAndClaim L (ds_policy D) keys (signRequestOf name request (dg_session g) prepared) st = (Inr verdict, st1)"
      "cr_context request = dg_context g" "cr_commitmentNumber request = dg_number g"
      "partialSign L M keys (dg_session g) (dg_number g) (dg_context g) = Inr (dg_signature g)"
    from checkAndClaim_rebuilds [OF *(7)] obtain c where
      "rebuildOperation L keys (po_operation prepared) = Inr (sn_message (dg_session g), c)"
      by (auto simp: signRequestOf_def)
    moreover note checkSession_Inr [OF *(4)]
    ultimately show ?thesis using * by blast
  qed
qed

section \<open>What a watchtower delivery signs\<close>

text \<open>A spend the record keeps under a request and a transaction, with the signature answered.\<close>

definition keeps_signature :: "lib \<Rightarrow> channel_policy_record \<Rightarrow> bytes \<Rightarrow> bytes \<Rightarrow> bool" where
  "keeps_signature L r requestId signature \<longleftrightarrow> (\<exists>s \<in> set (spends_of r). ws_requestId s = bytesToHex L requestId
     \<and> (\<exists>h. ws_signature s = Some h \<and> (signature = hexToBytes L h \<or> h = bytesToHex L signature)))"

lemma decideWatchtowerSpend_repeat:
  assumes "decideWatchtowerSpend L keys r approval request = Inr (SpendAlreadySigned sg, r')"
  shows "r' = r" "\<exists>h s. computeTxHash L (wr_transaction request) = Inr h \<and> s \<in> set (spends_of r)
    \<and> ws_requestId s = bytesToHex L (wr_requestId request) \<and> ws_txHash s = bytesToHex L h
    \<and> sg = map_option (hexToBytes L) (ws_signature s)"
proof -
  obtain h registered source rel remainder where h: "readSpendStructure L request = Inr h"
    and c: "case find (\<lambda>s. ws_requestId s = bytesToHex L (wr_requestId request)) (spends_of r) of
       Some spend \<Rightarrow> repeatVerdict L spend (bytesToHex L h) = Inr (SpendAlreadySigned sg) \<and> r' = r
     | None \<Rightarrow> \<exists>spend. claimedSpend L request source (bytesToHex L h) remainder = Inr spend
          \<and> (SpendAlreadySigned sg, r') = claimSpend registered spend r"
    by (rule decideWatchtowerSpend_Inr [OF assms])
  from h have hash: "computeTxHash L (wr_transaction request) = Inr h"
    by (auto simp: readSpendStructure_def bindR_Inr_iff split: if_splits)
  from c obtain s where s: "find (\<lambda>s. ws_requestId s = bytesToHex L (wr_requestId request)) (spends_of r) = Some s"
    by (cases "find (\<lambda>s. ws_requestId s = bytesToHex L (wr_requestId request)) (spends_of r)")
       (auto simp: claimSpend_def Let_def split: if_splits)
  with c have v: "ws_txHash s = bytesToHex L h" "sg = map_option (hexToBytes L) (ws_signature s)" "r' = r"
    by (auto simp: repeatVerdict_def split: if_splits)
  from s have "s \<in> set (spends_of r)" "ws_requestId s = bytesToHex L (wr_requestId request)"
    by (auto simp: find_Some_iff)
  with hash v show "r' = r" "\<exists>h s. computeTxHash L (wr_transaction request) = Inr h \<and> s \<in> set (spends_of r)
    \<and> ws_requestId s = bytesToHex L (wr_requestId request) \<and> ws_txHash s = bytesToHex L h
    \<and> sg = map_option (hexToBytes L) (ws_signature s)" by blast+
qed

lemma checkWatchtowerSpend_Inr:
  assumes "checkWatchtowerSpend L en keys name request st = (Inr v, st')"
  obtains approval i r r' where "en_watchtower en = Some approval" "fst (resolveChannelIndex name st) = Inr (Some i)"
    "channel_at L st i = Inr (Some r)" "decideWatchtowerSpend L keys r approval request = Inr (v, r')"
    "channel_at L st' i = Inr (Some r')" "fst (resolveChannelIndex name st') = Inr (Some i)"
proof -
  from assms obtain approval where en: "en_watchtower en = Some approval"
    by (auto simp: checkWatchtowerSpend_def split: option.splits)
  let ?u = "\<lambda>r. bindR (decideWatchtowerSpend L keys r approval request) (\<lambda>(v, r'). Inr r')"
  from assms en obtain i st1 r st2 r' where i: "requireChannelIndex name st = (Inr i, st1)"
    and read: "readRegisteredRecord L i st1 = (Inr r, st2)" and upd: "updateRegisteredRecord L i ?u st2 = (Inr r', st')"
    and v: "bindR (decideWatchtowerSpend L keys r approval request) (\<lambda>(v, r'). Inr v) = Inr v"
    unfolding checkWatchtowerSpend_def by (auto simp: bindS_Inr_iff)
  note i = requireChannelIndex_Inr [OF i]
  from readRegisteredRecord_Inr [OF read] i(1) have st: "st2 = st" "channel_at L st i = Inr (Some r)" by auto
  have "writes_only {channelKey i} (updateRegisteredRecord L i ?u)" by (rule frames) simp
  from writes_onlyD [OF this upd, of "aliasKey name"] have "st' (aliasKey name) = st (aliasKey name)"
    using key_ranges by (auto simp: st(1))
  with i(2) have same: "fst (resolveChannelIndex name st') = Inr (Some i)"
    by (simp add: resolveChannelIndex_def readChannelIndex_def readRecord_def)
  from upd show thesis
  proof (rule updateRegisteredRecord_Inr)
    fix q assume q: "channel_at L st2 i = Inr (Some q)" "?u q = Inr r'" "channel_at L st' i = Inr (Some r')"
    with st have "q = r" by simp
    with q(2) v have "decideWatchtowerSpend L keys r approval request = Inr (v, r')" by (auto simp: bindR_Inr_iff)
    with en i(2) st(2) q(3) same show thesis by (intro that)
  qed
qed

lemma recordSpendSignature_Inr:
  assumes "recordSpendSignature L name requestId signature st = (Inr (), st')" "fst (resolveChannelIndex name st) = Inr (Some i)"
  obtains r where "channel_at L st' i = Inr (Some r)" "keeps_signature L r requestId signature"
proof -
  let ?u = "updateWatchtowerSpend (bytesToHex L requestId) (recordWatchtowerSignature (bytesToHex L signature))"
  from assms(1) obtain j st1 r' where j: "requireRegisteredIndex name st = (Inr j, st1)"
    and upd: "updateRegisteredRecord L j ?u st1 = (Inr r', st')"
    unfolding recordSpendSignature_def updateSpend_def by (auto simp: bindS_Inr_iff)
  from j assms(2) have ij: "j = i"
    by (auto simp: requireRegisteredIndex_def bindS_Inr_iff split: option.splits)
  from upd show thesis
  proof (rule updateRegisteredRecord_Inr)
    fix r assume r: "?u r = Inr r'" "channel_at L st' j = Inr (Some r')"
    from r(1) obtain s u where s: "find (\<lambda>s. ws_requestId s = bytesToHex L requestId) (spends_of r) = Some s"
      and u: "recordWatchtowerSignature (bytesToHex L signature) s = Inr u"
      and r': "r' = (if u = s then r else r\<lparr> watchtowerSpends := Some (map (\<lambda>t. if t = s then u else t) (spends_of r)) \<rparr>)"
      unfolding updateWatchtowerSpend_def Let_def spends_of_def [symmetric]
      by (auto simp: bindR_Inr_iff split: option.splits if_splits)
    from s have "s \<in> set (spends_of r)" "ws_requestId s = bytesToHex L requestId" by (auto simp: find_Some_iff)
    moreover from u have "ws_requestId u = ws_requestId s" "ws_signature u = Some (bytesToHex L signature)"
      by (auto simp: recordWatchtowerSignature_def split: if_splits)
    ultimately have "keeps_signature L r' requestId signature"
      unfolding keeps_signature_def r' by (intro bexI [of _ u]) (auto simp: spends_of_def)
    with r(2) ij show thesis by (intro that) simp_all
  qed
qed

text \<open>The answer once the spend is judged.\<close>

definition answerSpend ::
    "lib \<Rightarrow> musig \<Rightarrow> fiber_channel_keys \<Rightarrow> string \<Rightarrow> watchtower_spend_request \<Rightarrow> watchtower_spend_verdict
     \<Rightarrow> (storage, watchtower_dispatch_outcome) act" where
  "answerSpend L M keys name request v =
     (case v of
        SpendAlreadySigned (Some sg) \<Rightarrow> doneS (WatchtowerSigned (wr_requestId request) (wr_purpose request) sg True)
      | _ \<Rightarrow>
          bindS (liftS (signOnchain L M keys (wr_purpose request) (wr_transaction request))) (\<lambda>sg.
          if v = SpendUnclaimed
          then doneS (WatchtowerSigned (wr_requestId request) (wr_purpose request) sg False)
          else
            bindS (recordSpendSignature L name (wr_requestId request) sg) (\<lambda>_.
            doneS (WatchtowerSigned (wr_requestId request) (wr_purpose request) sg True))))"

lemma signWatchtower_Inr:
  assumes "signWatchtower L M D name request st = (Inr out, st')"
  obtains i keys v st1 where "requireChannelIndex name st = (Inr i, st)" "channelKeys L D i = Inr keys"
    "checkWatchtowerSpend L (ds_policy D) keys name request st = (Inr v, st1)"
    "answerSpend L M keys name request v st1 = (Inr out, st')"
proof -
  from assms obtain i st0 keys v st1 where i: "requireChannelIndex name st = (Inr i, st0)" and rest: "channelKeys L D i = Inr keys"
    "checkWatchtowerSpend L (ds_policy D) keys name request st0 = (Inr v, st1)" "answerSpend L M keys name request v st1 = (Inr out, st')"
    unfolding signWatchtower_def answerSpend_def [symmetric] bindS_Inr_iff liftS_simps by blast
  from requireChannelIndex_Inr(1) [OF i] i rest show thesis by (intro that) simp_all
qed

lemma answerSpend_fresh:
  assumes "answerSpend L M keys name request v st = (Inr out, st')" "\<nexists>sg. v = SpendAlreadySigned (Some sg)"
  obtains sg where "signOnchain L M keys (wr_purpose request) (wr_transaction request) = Inr sg"
    "v = SpendUnclaimed \<and> out = WatchtowerSigned (wr_requestId request) (wr_purpose request) sg False
     \<or> v \<noteq> SpendUnclaimed \<and> out = WatchtowerSigned (wr_requestId request) (wr_purpose request) sg True
         \<and> recordSpendSignature L name (wr_requestId request) sg st = (Inr (), st')"
proof -
  from assms have "bindS (liftS (signOnchain L M keys (wr_purpose request) (wr_transaction request))) (\<lambda>sg.
      if v = SpendUnclaimed then doneS (WatchtowerSigned (wr_requestId request) (wr_purpose request) sg False)
      else bindS (recordSpendSignature L name (wr_requestId request) sg) (\<lambda>_.
        doneS (WatchtowerSigned (wr_requestId request) (wr_purpose request) sg True))) st = (Inr out, st')"
    unfolding answerSpend_def by (auto split: watchtower_spend_verdict.splits option.splits)
  then show thesis unfolding bindS_Inr_iff liftS_simps by (auto simp: bindS_Inr_iff intro: that split: if_splits)
qed

text \<open>C14 A watchtower signature is for a spend the rules passed, and is on record before it leaves. Whatever
  the node delivers, the signature answered is for the request and the key the status names, and the channel's record as stored
  then, the approval of the host and the device's keys pass the spend. A repeated request is answered with the
  signature recorded for this request and this transaction; any other signature is the device's own of the transaction
  under the key of the purpose. One answered as claimed is kept in the stored record under its request; any other was judged
  unclaimed by the engine.\<close>

theorem watchtower_signs_judged_spend:
  "{(requestId, purpose, signature, claimed). fst (handleWatchtower L M D name status st) = WatchtowerSigned requestId purpose signature claimed}
   \<subseteq> {(requestId, purpose, signature, claimed). \<exists>request i keys approval r v r'.
        decodeWatchtowerSigningStatus L status = Inr (Some request) \<and> requestId = wr_requestId request \<and> purpose = wr_purpose request
        \<and> fst (resolveChannelIndex name st) = Inr (Some i) \<and> channelKeys L D i = Inr keys
        \<and> en_watchtower (ds_policy D) = Some approval \<and> channel_at L st i = Inr (Some r)
        \<and> decideWatchtowerSpend L keys r approval request = Inr (v, r')
        \<and> (v = SpendAlreadySigned (Some signature) \<and> (\<exists>h s. computeTxHash L (wr_transaction request) = Inr h
              \<and> s \<in> set (spends_of r) \<and> ws_requestId s = bytesToHex L requestId \<and> ws_txHash s = bytesToHex L h
              \<and> map_option (hexToBytes L) (ws_signature s) = Some signature)
           \<or> signOnchain L M keys purpose (wr_transaction request) = Inr signature)
        \<and> (claimed \<and> (\<exists>q. channel_at L (snd (handleWatchtower L M D name status st)) i = Inr (Some q) \<and> keeps_signature L q requestId signature)
           \<or> v = SpendUnclaimed \<and> claimed = False)}"
proof (intro subsetI, clarify)
  fix requestId purpose signature claimed
  assume out: "fst (handleWatchtower L M D name status st) = WatchtowerSigned requestId purpose signature claimed"
  obtain request where request: "decodeWatchtowerSigningStatus L status = Inr (Some request)"
    using out by (auto simp: handleWatchtower_def split: sum.splits error.splits option.splits)
  obtain x st' where x: "signWatchtower L M D name request st = (x, st')" by fastforce
  with out request have "x = Inr (WatchtowerSigned requestId purpose signature claimed)" and after: "snd (handleWatchtower L M D name status st) = st'"
    by (auto simp: handleWatchtower_def split: sum.splits error.splits)
  with x have run: "signWatchtower L M D name request st = (Inr (WatchtowerSigned requestId purpose signature claimed), st')" by simp
  obtain i keys v st1 where i: "requireChannelIndex name st = (Inr i, st)" and keys: "channelKeys L D i = Inr keys"
    and check: "checkWatchtowerSpend L (ds_policy D) keys name request st = (Inr v, st1)"
    and rest: "answerSpend L M keys name request v st1 = (Inr (WatchtowerSigned requestId purpose signature claimed), st')"
    by (rule signWatchtower_Inr [OF run])
  from check obtain approval j r r' where en: "en_watchtower (ds_policy D) = Some approval"
      and j: "fst (resolveChannelIndex name st) = Inr (Some j)" and at: "channel_at L st j = Inr (Some r)"
      and decided: "decideWatchtowerSpend L keys r approval request = Inr (v, r')"
      and at': "channel_at L st1 j = Inr (Some r')" and j': "fst (resolveChannelIndex name st1) = Inr (Some j)"
    by (rule checkWatchtowerSpend_Inr)
  from j requireChannelIndex_Inr(2) [OF i] have "j = i" by simp
  note c = en at [unfolded this] decided at' [unfolded this] j' [unfolded this]
  let ?answer = "(v = SpendAlreadySigned (Some signature) \<and> (\<exists>h s. computeTxHash L (wr_transaction request) = Inr h
        \<and> s \<in> set (spends_of r) \<and> ws_requestId s = bytesToHex L requestId \<and> ws_txHash s = bytesToHex L h
        \<and> map_option (hexToBytes L) (ws_signature s) = Some signature)
      \<or> signOnchain L M keys purpose (wr_transaction request) = Inr signature)
    \<and> (claimed \<and> (\<exists>q. channel_at L st' i = Inr (Some q) \<and> keeps_signature L q requestId signature) \<or> v = SpendUnclaimed \<and> claimed = False)"
  have "requestId = wr_requestId request \<and> purpose = wr_purpose request \<and> ?answer"
  proof (cases "\<exists>sg. v = SpendAlreadySigned (Some sg)")
    case True
    with rest have v: "v = SpendAlreadySigned (Some signature)" and eq: "requestId = wr_requestId request" "purpose = wr_purpose request" "claimed"
      and st': "st' = st1" by (auto simp: answerSpend_def doneS_def)
    note again = decideWatchtowerSpend_repeat [OF c(3) [unfolded v]]
    from again(2) obtain h s where s: "computeTxHash L (wr_transaction request) = Inr h" "s \<in> set (spends_of r)"
      "ws_requestId s = bytesToHex L requestId" "ws_txHash s = bytesToHex L h" "map_option (hexToBytes L) (ws_signature s) = Some signature"
      by (elim exE conjE) (rule that, simp_all add: eq(1))
    then have "keeps_signature L r requestId signature" by (auto simp: keeps_signature_def)
    with v eq s c(4) again(1) st' show ?thesis by blast
  next
    case False
    from rest False obtain sg where sg: "signOnchain L M keys (wr_purpose request) (wr_transaction request) = Inr sg"
      and fin: "v = SpendUnclaimed \<and> WatchtowerSigned requestId purpose signature claimed
          = WatchtowerSigned (wr_requestId request) (wr_purpose request) sg False
        \<or> v \<noteq> SpendUnclaimed \<and> WatchtowerSigned requestId purpose signature claimed
          = WatchtowerSigned (wr_requestId request) (wr_purpose request) sg True
          \<and> recordSpendSignature L name (wr_requestId request) sg st1 = (Inr (), st')"
      by (rule answerSpend_fresh)
    show ?thesis
    proof (cases "v = SpendUnclaimed")
      case True
      with fin sg show ?thesis by simp
    next
      case False
      with fin have eq: "requestId = wr_requestId request" "purpose = wr_purpose request" "signature = sg" "claimed"
        and rec: "recordSpendSignature L name (wr_requestId request) sg st1 = (Inr (), st')" by simp_all
      from rec c(5) obtain q where "channel_at L st' i = Inr (Some q)" "keeps_signature L q (wr_requestId request) sg"
        by (rule recordSpendSignature_Inr)
      with eq sg show ?thesis by blast
    qed
  qed
  with request requireChannelIndex_Inr(2) [OF i] keys c(1,2,3) after
  show "\<exists>request i keys approval r v r'.
        decodeWatchtowerSigningStatus L status = Inr (Some request) \<and> requestId = wr_requestId request \<and> purpose = wr_purpose request
        \<and> fst (resolveChannelIndex name st) = Inr (Some i) \<and> channelKeys L D i = Inr keys
        \<and> en_watchtower (ds_policy D) = Some approval \<and> channel_at L st i = Inr (Some r)
        \<and> decideWatchtowerSpend L keys r approval request = Inr (v, r')
        \<and> (v = SpendAlreadySigned (Some signature) \<and> (\<exists>h s. computeTxHash L (wr_transaction request) = Inr h
              \<and> s \<in> set (spends_of r) \<and> ws_requestId s = bytesToHex L requestId \<and> ws_txHash s = bytesToHex L h
              \<and> map_option (hexToBytes L) (ws_signature s) = Some signature)
           \<or> signOnchain L M keys purpose (wr_transaction request) = Inr signature)
        \<and> (claimed \<and> (\<exists>q. channel_at L (snd (handleWatchtower L M D name status st)) i = Inr (Some q) \<and> keeps_signature L q requestId signature)
           \<or> v = SpendUnclaimed \<and> claimed = False)"
    unfolding after by blast
qed

section \<open>The signatures of a run\<close>

text \<open>The engine's run of a device run, with every session it signs.\<close>

lemma device_step_signs:
  "\<exists>eops. device_step L M D op st = fold (perform L (ds_policy D)) eops st \<and>
     (\<forall>g\<in>set (signatures_of L M D st op). \<exists>s. buildSessionCommitment L (dg_session g) = Inr s
        \<and> (dg_index g, signSlotKey (dg_context g) (dg_number g), s) \<in> set (signed_over L (ds_policy D) st eops)
        \<and> (\<exists>keys. channelKeys L D (dg_index g) = Inr keys
             \<and> partialSign L M keys (dg_session g) (dg_number g) (dg_context g) = Inr (dg_signature g)))"
proof (cases "signatures_of L M D st op")
  case Nil
  then show ?thesis using device_step_moves [of L D st M op] by (auto simp: engine_moves_def)
next
  case (Cons g gs)
  then obtain name status where op: "op = Deliver name status" and g: "signature_of L M D name status st = Some g" "gs = []"
    by (cases op) (auto split: option.splits)
  from g(1) show ?thesis
  proof (rule signature_of_Some)
    fix request keys peer ps prepared verdict st1
    assume *: "fst (resolveChannelIndex name st) = Inr (Some (dg_index g))" "channelKeys L D (dg_index g) = Inr keys"
      "checkAndClaim L (ds_policy D) keys (signRequestOf name request (dg_session g) prepared) st = (Inr verdict, st1)"
      "vd_context verdict = dg_context g" "vd_commitmentNumber verdict = dg_number g"
      "partialSign L M keys (dg_session g) (dg_number g) (dg_context g) = Inr (dg_signature g)"
      "engine_moves delivers L (ds_policy D) st1 (snd (handle L M D name status st))"
    let ?c = "CheckAndClaim keys (signRequestOf name request (dg_session g) prepared)"
    from *(7) obtain eops where e: "snd (handle L M D name status st) = fold (perform L (ds_policy D)) eops st1"
      by (auto simp: engine_moves_def)
    from *(3) obtain s where s: "buildSessionCommitment L (dg_session g) = Inr s"
      "signed_by L (ds_policy D) st ?c = Some (dg_index g, signSlotKey (dg_context g) (dg_number g), s)"
      by (rule checkAndClaim_signed_by) (use *(1,4,5) in \<open>auto simp: signRequestOf_def\<close>)
    show ?thesis
      by (rule exI [of _ "?c # eops"])
        (use Cons op g e s * in \<open>auto simp: perform.simps(12) simp del: signed_by.simps split: option.split\<close>)
  qed
qed

lemma device_run_signs:
  "\<exists>eops. fst (device_run L M D st ops) = fold (perform L (ds_policy D)) eops st \<and>
     (\<forall>g\<in>set (snd (device_run L M D st ops)). \<exists>s. buildSessionCommitment L (dg_session g) = Inr s
        \<and> (dg_index g, signSlotKey (dg_context g) (dg_number g), s) \<in> set (signed_over L (ds_policy D) st eops)
        \<and> (\<exists>keys. channelKeys L D (dg_index g) = Inr keys
             \<and> partialSign L M keys (dg_session g) (dg_number g) (dg_context g) = Inr (dg_signature g)))"
proof (induction ops arbitrary: st)
  case Nil
  show ?case by (rule exI [of _ "[]"]) simp
next
  case (Cons op ops)
  obtain es where es: "device_step L M D op st = fold (perform L (ds_policy D)) es st"
    "\<forall>g\<in>set (signatures_of L M D st op). \<exists>s. buildSessionCommitment L (dg_session g) = Inr s
        \<and> (dg_index g, signSlotKey (dg_context g) (dg_number g), s) \<in> set (signed_over L (ds_policy D) st es)
        \<and> (\<exists>keys. channelKeys L D (dg_index g) = Inr keys
             \<and> partialSign L M keys (dg_session g) (dg_number g) (dg_context g) = Inr (dg_signature g))"
    using device_step_signs [of L M D op st] by blast
  let ?st = "device_step L M D op st"
  obtain fs where fs: "fst (device_run L M D ?st ops) = fold (perform L (ds_policy D)) fs ?st"
    "\<forall>g\<in>set (snd (device_run L M D ?st ops)). \<exists>s. buildSessionCommitment L (dg_session g) = Inr s
        \<and> (dg_index g, signSlotKey (dg_context g) (dg_number g), s) \<in> set (signed_over L (ds_policy D) ?st fs)
        \<and> (\<exists>keys. channelKeys L D (dg_index g) = Inr keys
             \<and> partialSign L M keys (dg_session g) (dg_number g) (dg_context g) = Inr (dg_signature g))"
    using Cons.IH [of ?st] by blast
  show ?case
  proof (rule exI [of _ "es @ fs"], intro conjI ballI)
    show "fst (device_run L M D st (op # ops)) = fold (perform L (ds_policy D)) (es @ fs) st"
      using es(1) fs(1) by (simp add: case_prod_beta)
    fix g assume "g \<in> set (snd (device_run L M D st (op # ops)))"
    then have "g \<in> set (signatures_of L M D st op) \<or> g \<in> set (snd (device_run L M D ?st ops))"
      by (simp add: case_prod_beta)
    then show "\<exists>s. buildSessionCommitment L (dg_session g) = Inr s
        \<and> (dg_index g, signSlotKey (dg_context g) (dg_number g), s) \<in> set (signed_over L (ds_policy D) st (es @ fs))
        \<and> (\<exists>keys. channelKeys L D (dg_index g) = Inr keys
             \<and> partialSign L M keys (dg_session g) (dg_number g) (dg_context g) = Inr (dg_signature g))"
      using es fs(2) by (force simp: signed_over_append)
  qed
qed

lemma card_le_1_same: "card A \<le> 1 \<Longrightarrow> finite A \<Longrightarrow> x \<in> A \<Longrightarrow> y \<in> A \<Longrightarrow> x = y"
  by (simp add: card_le_Suc0_iff_eq)

text \<open>C1 One nonce, one signature. In the default mode, over any run of deliveries and host calls from an empty storage, two
  answers of one channel index in one slot, so under one secret nonce, carry one session commitment; and they carry the
  same partial signature, unless two different sessions have the same blake2b commitment. The funding key a nonce signed twice
  would give away stays on the device, whatever the node sends.\<close>

theorem one_signature_per_nonce:
  assumes "en_nonceReuse (ds_policy D) = reuse_refuse"
  shows "{(g, g'). {g, g'} \<subseteq> set (snd (device_run L M D (\<lambda>_. None) ops)) \<and> dg_index g = dg_index g'
            \<and> dg_context g = dg_context g' \<and> dg_number g = dg_number g'}
     \<subseteq> {(g, g'). buildSessionCommitment L (dg_session g) = buildSessionCommitment L (dg_session g')
            \<and> (dg_signature g = dg_signature g' \<or> dg_session g \<noteq> dg_session g')}"
proof (intro subsetI CollectI case_prodI2)
  fix gs g g'
  assume "gs \<in> {(g, g'). {g, g'} \<subseteq> set (snd (device_run L M D (\<lambda>_. None) ops)) \<and> dg_index g = dg_index g'
            \<and> dg_context g = dg_context g' \<and> dg_number g = dg_number g'}" "gs = (g, g')"
  then have in_run: "g \<in> set (snd (device_run L M D (\<lambda>_. None) ops))" "g' \<in> set (snd (device_run L M D (\<lambda>_. None) ops))"
    and same: "dg_index g' = dg_index g" "dg_context g' = dg_context g" "dg_number g' = dg_number g" by simp_all
  obtain eops where e: "\<forall>g\<in>set (snd (device_run L M D (\<lambda>_. None) ops)). \<exists>s. buildSessionCommitment L (dg_session g) = Inr s
        \<and> (dg_index g, signSlotKey (dg_context g) (dg_number g), s) \<in> set (signed_over L (ds_policy D) (\<lambda>_. None) eops)
        \<and> (\<exists>keys. channelKeys L D (dg_index g) = Inr keys
             \<and> partialSign L M keys (dg_session g) (dg_number g) (dg_context g) = Inr (dg_signature g))"
    using device_run_signs [of L M D "\<lambda>_. None" ops] by blast
  let ?S = "{s. (dg_index g, signSlotKey (dg_context g) (dg_number g), s) \<in> set (signed_over L (ds_policy D) (\<lambda>_. None) eops)}"
  from bspec [OF e in_run(1)] obtain s keys where s: "buildSessionCommitment L (dg_session g) = Inr s" "s \<in> ?S"
      "channelKeys L D (dg_index g) = Inr keys"
      "partialSign L M keys (dg_session g) (dg_number g) (dg_context g) = Inr (dg_signature g)" by blast
  from bspec [OF e in_run(2), unfolded same] obtain s' keys' where s': "buildSessionCommitment L (dg_session g') = Inr s'" "s' \<in> ?S"
      "channelKeys L D (dg_index g) = Inr keys'"
      "partialSign L M keys' (dg_session g') (dg_number g) (dg_context g) = Inr (dg_signature g')" by blast
  have "?S \<subseteq> (snd \<circ> snd) ` set (signed_over L (ds_policy D) (\<lambda>_. None) eops)" by force
  then have "finite ?S" by (rule finite_subset) simp
  from card_le_1_same [OF signed_over_once [OF assms] this s(2) s'(2)] have "s = s'" .
  moreover from s(3) s'(3) have "keys = keys'" by simp
  ultimately show "buildSessionCommitment L (dg_session g) = buildSessionCommitment L (dg_session g')
      \<and> (dg_signature g = dg_signature g' \<or> dg_session g \<noteq> dg_session g')"
    using s s' by (cases "dg_session g = dg_session g'") simp_all
qed

text \<open>A run with a signature in it: the channel's opening and first commitment by the host, then the delivery of a close.\<close>

definition flat_ops :: "device_op list" where
  "flat_ops = [Method sample_registration, Method (PinChannelTerms ''c'' sample_terms),
     Method (CheckAndClaim flat_keys flat_commitment), Deliver ''c'' flat_field, Deliver ''c'' flat_field]"

theorem one_signature_per_nonce_witness:
  "{(g, g'). {g, g'} \<subseteq> set (snd (device_run flat_lib flat_musig flat_dispatch (\<lambda>_. None) flat_ops))
        \<and> dg_index g = dg_index g' \<and> dg_context g = dg_context g' \<and> dg_number g = dg_number g'}
     \<subseteq> {(g, g'). buildSessionCommitment flat_lib (dg_session g) = buildSessionCommitment flat_lib (dg_session g')
            \<and> (dg_signature g = dg_signature g' \<or> dg_session g \<noteq> dg_session g')}"
  by (rule one_signature_per_nonce) (simp add: flat_dispatch_def sample_engine_def)

end
