(* ===== verification/Rpc.thy ===== *)
theory Rpc
  imports Signer Invoice
begin

text \<open>
  The module \<^verbatim>\<open>rpc\<close>: the params each method of the node is called with, the results it answers, the
  JSON-RPC envelope around them, and the client that posts one call. A wire object is a list of members in
  the order they are written; \<^verbatim>\<open>JSON.stringify\<close>, \<^verbatim>\<open>JSON.parse\<close> and the host's \<^verbatim>\<open>fetch\<close> are parameters. A
  string of the host's, the description of an invoice included, is a string of Latin-1 characters.
\<close>

text \<open>A member left out of the object when its value is \<^verbatim>\<open>undefined\<close>.\<close>

definition optionalMember :: "string \<Rightarrow> 'a option \<Rightarrow> ('a \<Rightarrow> json res) \<Rightarrow> (string, json) object res" where
  "optionalMember name v encode =
     (case v of None \<Rightarrow> Inr [] | Some x \<Rightarrow> bindR (encode x) (\<lambda>j. Inr [(name, j)]))"

section \<open>Constants\<close>

definition RPC_METHODS :: "string list" where
  "RPC_METHODS =
     [''open_channel_with_external_funding'', ''submit_signed_funding_tx'', ''abandon_channel'', ''list_channels'',
      ''new_invoice'', ''get_invoice'', ''settle_invoice'', ''cancel_invoice'', ''send_payment'', ''get_payment'',
      ''shutdown_channel'', ''get_channel_signing_status'', ''submit_channel_signature'',
      ''get_watchtower_signing_status'', ''submit_watchtower_signature'', ''lsp_register_tenant'']"

definition RPC_MAX_FINAL_EXPIRY_DELTA_MS :: int where
  "RPC_MAX_FINAL_EXPIRY_DELTA_MS = 14 * 24 * 60 * 60 * 1000"

definition RPC_MAX_INVOICE_DESCRIPTION_BYTES :: nat where
  "RPC_MAX_INVOICE_DESCRIPTION_BYTES = 639"

definition JSON_RPC_VERSION :: string where
  "JSON_RPC_VERSION = ''2.0''"

definition RPC_CONTENT_TYPE :: string where
  "RPC_CONTENT_TYPE = ''application/json''"

definition RPC_BEARER_PREFIX :: string where
  "RPC_BEARER_PREFIX = ''Bearer ''"

definition RPC_CALL_FAILED_CODE :: int where
  "RPC_CALL_FAILED_CODE = -32000"

definition RPC_CHANNEL_STATE_NAMES :: "string list" where
  "RPC_CHANNEL_STATE_NAMES =
     [''NegotiatingFunding'', ''CollaboratingFundingTx'', ''SigningCommitment'', ''AwaitingTxSignatures'',
      ''AwaitingChannelReady'', ''ChannelReady'', ''ShuttingDown'', ''Closed'', ''Stale'']"

definition RPC_CHANNEL_STATE_FLAGS :: "(string, string list) object" where
  "RPC_CHANNEL_STATE_FLAGS =
     [(''NegotiatingFunding'', [''OUR_INIT_SENT'', ''THEIR_INIT_SENT'', ''INIT_SENT'', ''AWAITING_EXTERNAL_FUNDING'']),
      (''CollaboratingFundingTx'', [''AWAITING_REMOTE_TX_COLLABORATION_MSG'', ''PREPARING_LOCAL_TX_COLLABORATION_MSG'',
         ''OUR_TX_COMPLETE_SENT'', ''THEIR_TX_COMPLETE_SENT'', ''COLLABORATION_COMPLETED'']),
      (''SigningCommitment'', [''OUR_COMMITMENT_SIGNED_SENT'', ''THEIR_COMMITMENT_SIGNED_SENT'', ''COMMITMENT_SIGNED_SENT'']),
      (''AwaitingTxSignatures'', [''OUR_TX_SIGNATURES_SENT'', ''THEIR_TX_SIGNATURES_SENT'', ''TX_SIGNATURES_SENT'']),
      (''AwaitingChannelReady'', [''OUR_CHANNEL_READY'', ''THEIR_CHANNEL_READY'', ''CHANNEL_READY'']),
      (''ChannelReady'', []),
      (''ShuttingDown'', [''OUR_SHUTDOWN_SENT'', ''THEIR_SHUTDOWN_SENT'', ''AWAITING_PENDING_TLCS'', ''DROPPING_PENDING'',
         ''WAITING_COMMITMENT_CONFIRMATION'']),
      (''Closed'', [''COOPERATIVE'', ''UNCOOPERATIVE_LOCAL'', ''ABANDONED'', ''FUNDING_ABORTED'', ''UNCOOPERATIVE_REMOTE'',
         ''WAITING_ONCHAIN_SETTLEMENT'']),
      (''Stale'', [])]"

datatype list_channels_filter = IncludeClosed | OnlyPending

definition RPC_INVOICE_STATUSES :: "string list" where
  "RPC_INVOICE_STATUSES = [''Open'', ''Cancelled'', ''Expired'', ''Received'', ''Paid'']"

definition RPC_PAYMENT_STATUSES :: "string list" where
  "RPC_PAYMENT_STATUSES = [''Created'', ''Inflight'', ''Success'', ''Failed'']"

definition RPC_SUBMISSION_RESULTS :: "string list" where
  "RPC_SUBMISSION_RESULTS = [''Applied'', ''AlreadyApplied'']"

definition RPC_TENANT_RUNTIME_STATUSES :: "string list" where
  "RPC_TENANT_RUNTIME_STATUSES = [''cold'', ''active'']"

definition RPC_MAX_TRAMPOLINE_HOPS :: nat where
  "RPC_MAX_TRAMPOLINE_HOPS = 5"

section \<open>Amounts and names\<close>

definition encodeRpcShannons :: "string \<Rightarrow> string \<Rightarrow> json res" where
  "encodeRpcShannons name shannons =
     bindR (assertDecimalShannons name shannons) (\<lambda>_. encodeUintHex name (bigInt shannons) MAX_AMOUNT_SHANNONS)"

definition decodeRpcShannons :: "wire_field \<Rightarrow> string res" where
  "decodeRpcShannons f = bindR (decodeUintHex f MAX_AMOUNT_SHANNONS) (\<lambda>n. Inr (toString n))"

definition encodeRpcChannelIdParams :: "string \<Rightarrow> (string, json) object res" where
  "encodeRpcChannelIdParams cid =
     bindR (assertWireHexBytes ''channelId'' (JString cid) 32) (\<lambda>_. Inr [(''channel_id'', JString cid)])"

definition encodeRpcPaymentHashParams :: "lib \<Rightarrow> bytes \<Rightarrow> (string, json) object res" where
  "encodeRpcPaymentHashParams L paymentHash =
     bindR (encodeHexBytes L ''paymentHash'' paymentHash 32) (\<lambda>h. Inr [(''payment_hash'', h)])"

section \<open>Opening a channel\<close>

record open_channel_params =
  oc_peerPubkey :: bytes
  oc_fundingAmountShannons :: string
  oc_public :: bool
  oc_shutdownScript :: script
  oc_fundingLockScript :: script
  oc_fundingLockScriptCellDeps :: "cell_dep list option"

record open_tenant_channel_params =
  ot_peerPubkey :: bytes
  ot_fundingAmountShannons :: string
  ot_shutdownScript :: script
  ot_fundingLockScript :: script
  ot_fundingLockScriptCellDeps :: "cell_dep list option"
  ot_commitmentDelayEpoch :: "int option"
  ot_commitmentFeeRate :: "int option"
  ot_signerMaterial :: channel_open_material

record tenant_opening_context =
  tc_remoteFundingKey :: bytes
  tc_remoteSettlementKey :: bytes
  tc_remoteShutdownScript :: script
  tc_commitmentDelayEpoch :: int
  tc_commitmentFeeRate :: int
  tc_localAmountShannons :: string
  tc_remoteAmountShannons :: string
  tc_localReservedCkbShannons :: string
  tc_remoteReservedCkbShannons :: string

record open_channel_result =
  or_channelId :: string
  or_unsignedFundingTx :: transaction

record open_tenant_channel_result = open_channel_result +
  or_openingContext :: tenant_opening_context

definition encodeFundingLockScriptCellDeps :: "lib \<Rightarrow> cell_dep list \<Rightarrow> json res" where
  "encodeFundingLockScriptCellDeps L deps =
     (let name = ''fundingLockScriptCellDeps'' in
      bindR (assertCellDeps name deps) (\<lambda>_.
      bindR (mapEach (encodeCellDep L) name deps) (\<lambda>js. Inr (JArray js))))"

definition encodeOpenChannelWithExternalFundingParams :: "lib \<Rightarrow> open_channel_params \<Rightarrow> (string, json) object res" where
  "encodeOpenChannelWithExternalFundingParams L p =
     bindR (encodeBareHexBytes L ''peerPubkey'' (oc_peerPubkey p) 33) (\<lambda>pubkey.
     bindR (encodeRpcShannons ''fundingAmountShannons'' (oc_fundingAmountShannons p)) (\<lambda>amount.
     bindR (encodeScript L ''shutdownScript'' (oc_shutdownScript p)) (\<lambda>shutdown.
     bindR (encodeScript L ''fundingLockScript'' (oc_fundingLockScript p)) (\<lambda>fundingLock.
     bindR (optionalMember ''funding_lock_script_cell_deps'' (oc_fundingLockScriptCellDeps p)
             (encodeFundingLockScriptCellDeps L)) (\<lambda>deps.
     Inr ([(''pubkey'', pubkey), (''funding_amount'', amount), (''public'', JBool (oc_public p)),
           (''shutdown_script'', shutdown), (''funding_lock_script'', fundingLock)] @ deps))))))"

definition decodeOpenChannelWithExternalFundingResult :: "lib \<Rightarrow> wire_field \<Rightarrow> open_channel_result res" where
  "decodeOpenChannelWithExternalFundingResult L f =
     bindR (readObject f) (\<lambda>at.
     bindR (requireHexBytes (at ''channel_id'') 32) (\<lambda>cid.
     bindR (decodeTransaction L (at ''unsigned_funding_tx'')) (\<lambda>t.
     Inr \<lparr> or_channelId = cid, or_unsignedFundingTx = t \<rparr>)))"

definition encodeChannelOpenSignerMaterial :: "lib \<Rightarrow> channel_open_material \<Rightarrow> json res" where
  "encodeChannelOpenSignerMaterial L m =
     bindR (encodeBareHexBytes L ''signerMaterial.fundingPubkey'' (om_fundingPubkey m) 33) (\<lambda>funding.
     bindR (encodeBareHexBytes L ''signerMaterial.tlcBaseKey'' (om_tlcBaseKey m) 33) (\<lambda>tlcBase.
     bindR (encodeBareHexBytes L ''signerMaterial.firstCommitmentPoint'' (om_firstCommitmentPoint m) 33) (\<lambda>first.
     bindR (encodeBareHexBytes L ''signerMaterial.secondCommitmentPoint'' (om_secondCommitmentPoint m) 33) (\<lambda>second.
     bindR (encodeHexBytes L ''signerMaterial.commitmentNonce'' (om_commitmentNonce m) 66) (\<lambda>commitmentNonce.
     bindR (encodeHexBytes L ''signerMaterial.nextCommitmentNonce'' (om_nextCommitmentNonce m) 66) (\<lambda>nextNonce.
     bindR (encodeHexBytes L ''signerMaterial.revocationNonce'' (om_revocationNonce m) 66) (\<lambda>revocationNonce.
     bindR (optionalMember ''channel_announcement_nonce'' (om_channelAnnouncementNonce m)
             (\<lambda>n. encodeHexBytes L ''signerMaterial.channelAnnouncementNonce'' n 66)) (\<lambda>announcement.
     Inr (JObject
       ([(''base_public_keys'', JObject [(''funding_pubkey'', funding), (''tlc_base_key'', tlcBase)]),
         (''first_commitment_point'', first), (''second_commitment_point'', second), (''commitment_nonce'', commitmentNonce),
         (''next_commitment_nonce'', nextNonce), (''revocation_nonce'', revocationNonce)] @ announcement))))))))))"

text \<open>The tenant's form is always private.\<close>

definition encodeOpenTenantChannelParams :: "lib \<Rightarrow> open_tenant_channel_params \<Rightarrow> (string, json) object res" where
  "encodeOpenTenantChannelParams L p =
     bindR (encodeOpenChannelWithExternalFundingParams L
       \<lparr> oc_peerPubkey = ot_peerPubkey p, oc_fundingAmountShannons = ot_fundingAmountShannons p, oc_public = False,
         oc_shutdownScript = ot_shutdownScript p, oc_fundingLockScript = ot_fundingLockScript p,
         oc_fundingLockScriptCellDeps = ot_fundingLockScriptCellDeps p \<rparr>) (\<lambda>opening.
     bindR (optionalMember ''commitment_delay_epoch'' (ot_commitmentDelayEpoch p)
             (\<lambda>n. encodeUintHex ''commitmentDelayEpoch'' n UINT64_MAX)) (\<lambda>delay.
     bindR (optionalMember ''commitment_fee_rate'' (ot_commitmentFeeRate p)
             (\<lambda>n. encodeUintHex ''commitmentFeeRate'' n UINT64_MAX)) (\<lambda>feeRate.
     bindR (encodeChannelOpenSignerMaterial L (ot_signerMaterial p)) (\<lambda>material.
     Inr (opening @ delay @ feeRate @ [(''external_channel_signer'', material)])))))"

definition decodeTenantChannelOpeningContext :: "lib \<Rightarrow> wire_field \<Rightarrow> tenant_opening_context res" where
  "decodeTenantChannelOpeningContext L f =
     bindR (readObject f) (\<lambda>at.
     bindR (decodeBareHexBytes L (at ''remote_funding_key'') 33) (\<lambda>fundingKey.
     bindR (decodeBareHexBytes L (at ''remote_settlement_key'') 33) (\<lambda>settlementKey.
     bindR (decodeScript L (at ''remote_shutdown_script'')) (\<lambda>shutdown.
     bindR (decodeUintHex (at ''commitment_delay_epoch'') UINT64_MAX) (\<lambda>delay.
     bindR (decodeUintHex (at ''commitment_fee_rate'') UINT64_MAX) (\<lambda>feeRate.
     bindR (decodeRpcShannons (at ''local_amount'')) (\<lambda>localAmount.
     bindR (decodeRpcShannons (at ''remote_amount'')) (\<lambda>remoteAmount.
     bindR (decodeUintHex (at ''local_reserved_ckb_amount'') UINT64_MAX) (\<lambda>localReserved.
     bindR (decodeUintHex (at ''remote_reserved_ckb_amount'') UINT64_MAX) (\<lambda>remoteReserved.
     Inr \<lparr> tc_remoteFundingKey = fundingKey, tc_remoteSettlementKey = settlementKey, tc_remoteShutdownScript = shutdown,
           tc_commitmentDelayEpoch = delay, tc_commitmentFeeRate = feeRate, tc_localAmountShannons = localAmount,
           tc_remoteAmountShannons = remoteAmount, tc_localReservedCkbShannons = toString localReserved,
           tc_remoteReservedCkbShannons = toString remoteReserved \<rparr>))))))))))"

definition decodeOpenTenantChannelResult :: "lib \<Rightarrow> wire_field \<Rightarrow> open_tenant_channel_result res" where
  "decodeOpenTenantChannelResult L f =
     bindR (readObject f) (\<lambda>at.
     bindR (decodeOpenChannelWithExternalFundingResult L f) (\<lambda>r.
     bindR (decodeTenantChannelOpeningContext L (at ''opening_context'')) (\<lambda>context.
     Inr \<lparr> or_channelId = or_channelId r, or_unsignedFundingTx = or_unsignedFundingTx r, or_openingContext = context \<rparr>)))"

section \<open>Channels\<close>

record shutdown_channel_params =
  sd_channelId :: string
  sd_closeScript :: "script option"
  sd_feeRate :: "int option"
  sd_force :: "bool option"

definition encodeShutdownChannelParams :: "lib \<Rightarrow> shutdown_channel_params \<Rightarrow> (string, json) object res" where
  "encodeShutdownChannelParams L p =
     bindR (assertWireHexBytes ''channelId'' (JString (sd_channelId p)) 32) (\<lambda>_.
     bindR (optionalMember ''close_script'' (sd_closeScript p) (encodeScript L ''closeScript'')) (\<lambda>closeScript.
     bindR (optionalMember ''fee_rate'' (sd_feeRate p) (\<lambda>n. encodeUintHex ''feeRate'' n UINT64_MAX)) (\<lambda>feeRate.
     bindR (optionalMember ''force'' (sd_force p) (\<lambda>b. Inr (JBool b))) (\<lambda>force.
     Inr ((''channel_id'', JString (sd_channelId p)) # closeScript @ feeRate @ force)))))"

definition decodeShutdownChannelResult :: "wire_field \<Rightarrow> unit res" where
  "decodeShutdownChannelResult f = decodeNull f"

definition encodeSubmitSignedFundingTxParams :: "lib \<Rightarrow> string \<Rightarrow> transaction \<Rightarrow> (string, json) object res" where
  "encodeSubmitSignedFundingTxParams L cid signedFundingTx =
     bindR (assertWireHexBytes ''channelId'' (JString cid) 32) (\<lambda>_.
     bindR (encodeTransaction L ''signedFundingTx'' signedFundingTx) (\<lambda>t.
     Inr [(''channel_id'', JString cid), (''signed_funding_tx'', t)]))"

definition decodeSubmitSignedFundingTxResult :: "lib \<Rightarrow> wire_field \<Rightarrow> (string \<times> bytes) res" where
  "decodeSubmitSignedFundingTxResult L f =
     bindR (readObject f) (\<lambda>at.
     bindR (requireHexBytes (at ''channel_id'') 32) (\<lambda>cid.
     bindR (decodeHexBytes L (at ''funding_tx_hash'') 32) (\<lambda>h. Inr (cid, h))))"

definition decodeAbandonChannelResult :: "wire_field \<Rightarrow> unit res" where
  "decodeAbandonChannelResult f = decodeNull f"

definition encodeListChannelsParams :: "list_channels_filter option \<Rightarrow> (string, json) object" where
  "encodeListChannelsParams listed =
     (case listed of
        None \<Rightarrow> []
      | Some IncludeClosed \<Rightarrow> [(''include_closed'', JBool True)]
      | Some OnlyPending \<Rightarrow> [(''only_pending'', JBool True)])"

record rpc_channel_state =
  cs_name :: string
  cs_flags :: "string list"

record rpc_listed_channel_state =
  lc_channelId :: string
  lc_stateName :: string
  lc_stateFlags :: "string list"

record rpc_channel =
  rc_channelId :: string
  rc_peerPubkey :: bytes
  rc_fundingUdtTypeScript :: "script option"
  rc_state :: rpc_channel_state
  rc_localBalanceShannons :: string
  rc_remoteBalanceShannons :: string
  rc_offeredTlcBalanceShannons :: string
  rc_receivedTlcBalanceShannons :: string
  rc_createdAtMs :: int
  rc_shutdownTransactionHash :: "bytes option"
  rc_failureDetail :: "string option"

text \<open>A name of \<open>RPC_CHANNEL_STATE_NAMES\<close> has its entry in the table of flags.\<close>

definition stateOf :: "string \<Rightarrow> wire_field \<Rightarrow> rpc_channel_state res" where
  "stateOf name flagsField =
     (case get RPC_CHANNEL_STATE_FLAGS name of
        Some (n # ns) \<Rightarrow> bindR (decodeFlags flagsField (n # ns)) (\<lambda>flags. Inr \<lparr> cs_name = name, cs_flags = flags \<rparr>)
      | _ \<Rightarrow>
          if fd_value flagsField \<noteq> JUndefined then malformedWireField flagsField ''must be absent''
          else Inr \<lparr> cs_name = name, cs_flags = [] \<rparr>)"

definition decodeRpcChannelState :: "wire_field \<Rightarrow> rpc_channel_state res" where
  "decodeRpcChannelState f =
     bindR (readObject f) (\<lambda>at.
     bindR (decodeEnum (at ''state_name'') RPC_CHANNEL_STATE_NAMES) (\<lambda>name. stateOf name (at ''state_flags'')))"

definition readRpcListedChannels :: "wire_field \<Rightarrow> wire_field list res" where
  "readRpcListedChannels f = bindR (readObject f) (\<lambda>at. readArray (at ''channels'') None)"

definition readListedChannelId :: "(string \<Rightarrow> wire_field) \<Rightarrow> string res" where
  "readListedChannelId at = requireHexBytes (at ''channel_id'') 32"

definition decodeRpcChannel :: "lib \<Rightarrow> wire_field \<Rightarrow> rpc_channel res" where
  "decodeRpcChannel L f =
     bindR (readObject f) (\<lambda>at.
     bindR (requireHexBytes (at ''channel_id'') 32) (\<lambda>cid.
     bindR (decodeBareHexBytes L (at ''pubkey'') 33) (\<lambda>pubkey.
     bindR (decodeScriptOrNull L (at ''funding_udt_type_script'')) (\<lambda>udt.
     bindR (decodeRpcChannelState (at ''state'')) (\<lambda>state.
     bindR (decodeRpcShannons (at ''local_balance'')) (\<lambda>localBalance.
     bindR (decodeRpcShannons (at ''remote_balance'')) (\<lambda>remoteBalance.
     bindR (decodeRpcShannons (at ''offered_tlc_balance'')) (\<lambda>offeredBalance.
     bindR (decodeRpcShannons (at ''received_tlc_balance'')) (\<lambda>receivedBalance.
     bindR (decodeUintHex (at ''created_at'') UINT64_MAX) (\<lambda>createdAt.
     bindR (decodeOrNull (at ''shutdown_transaction_hash'') (\<lambda>h. decodeHexBytes L h 32)) (\<lambda>shutdown.
     bindR (decodeOrNull (at ''failure_detail'') decodeString) (\<lambda>failure.
     Inr \<lparr> rc_channelId = cid, rc_peerPubkey = pubkey, rc_fundingUdtTypeScript = udt, rc_state = state,
           rc_localBalanceShannons = localBalance, rc_remoteBalanceShannons = remoteBalance,
           rc_offeredTlcBalanceShannons = offeredBalance, rc_receivedTlcBalanceShannons = receivedBalance,
           rc_createdAtMs = createdAt, rc_shutdownTransactionHash = shutdown, rc_failureDetail = failure \<rparr>))))))))))))"

definition decodeListChannelsResult :: "lib \<Rightarrow> wire_field \<Rightarrow> rpc_channel list res" where
  "decodeListChannelsResult L f =
     bindR (readObject f) (\<lambda>at. bindR (readArray (at ''channels'') None) (\<lambda>items. mapR (decodeRpcChannel L) items))"

text \<open>The states are strings fiber may add to: an unknown name or flag is kept.\<close>

definition decodeListedState :: "wire_field \<Rightarrow> rpc_listed_channel_state res" where
  "decodeListedState channel =
     bindR (readObject channel) (\<lambda>at.
     bindR (readListedChannelId at) (\<lambda>cid.
     bindR (readObject (at ''state'')) (\<lambda>state.
     bindR (if fd_value (state ''state_flags'') = JUndefined then Inr '''' else decodeString (state ''state_flags'')) (\<lambda>flags.
     bindR (decodeString (state ''state_name'')) (\<lambda>name.
     Inr \<lparr> lc_channelId = cid, lc_stateName = name,
           lc_stateFlags = (if flags = '''' then [] else splitOn WIRE_FLAG_SEPARATOR flags) \<rparr>)))))"

definition decodeListChannelStatesResult :: "wire_field \<Rightarrow> rpc_listed_channel_state list res" where
  "decodeListChannelStatesResult f = bindR (readRpcListedChannels f) (mapR decodeListedState)"

section \<open>Invoices\<close>

record new_invoice_params =
  ni_amountShannons :: string
  ni_currency :: invoice_currency
  ni_paymentHash :: bytes
  ni_hashAlgorithm :: tlc_hash_algorithm
  ni_expirySeconds :: int
  ni_finalExpiryDeltaMs :: int
  ni_description :: "string option"

record rpc_invoice =
  iv_invoiceAddress :: string
  iv_status :: string

definition assertRpcInvoiceDescription :: "string \<Rightarrow> string \<Rightarrow> unit res" where
  "assertRpcInvoiceDescription name v =
     bindR (encodeWellFormedUtf8 name (map of_char v)) (\<lambda>b.
     check (\<not> length b > RPC_MAX_INVOICE_DESCRIPTION_BYTES) (RangeErr name))"

fun currency_name :: "invoice_currency \<Rightarrow> string" where
  "currency_name Fibb = ''Fibb''"
| "currency_name Fibt = ''Fibt''"
| "currency_name Fibd = ''Fibd''"

definition encodeNewInvoiceParams :: "lib \<Rightarrow> new_invoice_params \<Rightarrow> (string, json) object res" where
  "encodeNewInvoiceParams L p =
     bindR (case ni_description p of None \<Rightarrow> Inr () | Some d \<Rightarrow> assertRpcInvoiceDescription ''description'' d) (\<lambda>_.
     bindR (assertPositiveBigInt ''finalExpiryDeltaMs'' (ni_finalExpiryDeltaMs p) RPC_MAX_FINAL_EXPIRY_DELTA_MS) (\<lambda>_.
     bindR (encodeRpcShannons ''amountShannons'' (ni_amountShannons p)) (\<lambda>amount.
     bindR (optionalMember ''description'' (ni_description p) (\<lambda>d. Inr (JString d))) (\<lambda>description.
     bindR (encodeHexBytes L ''paymentHash'' (ni_paymentHash p) 32) (\<lambda>paymentHash.
     bindR (encodeUintHex ''expirySeconds'' (ni_expirySeconds p) UINT64_MAX) (\<lambda>expiry.
     bindR (encodeUintHex ''finalExpiryDeltaMs'' (ni_finalExpiryDeltaMs p) UINT64_MAX) (\<lambda>delta.
     bindR (encodeMapped ''hashAlgorithm'' (ni_hashAlgorithm p) WIRE_TLC_HASH_ALGORITHMS) (\<lambda>algorithm.
     Inr ((''amount'', amount) # description @
       [(''currency'', JString (currency_name (ni_currency p))), (''payment_hash'', paymentHash), (''expiry'', expiry),
        (''final_expiry_delta'', delta), (''hash_algorithm'', JString algorithm)])))))))))"

definition decodeNewInvoiceResult :: "wire_field \<Rightarrow> string res" where
  "decodeNewInvoiceResult f = bindR (readObject f) (\<lambda>at. decodeNonEmptyString (at ''invoice_address''))"

definition decodeRpcInvoice :: "wire_field \<Rightarrow> rpc_invoice res" where
  "decodeRpcInvoice f =
     bindR (decodeNewInvoiceResult f) (\<lambda>address.
     bindR (readObject f) (\<lambda>at.
     bindR (decodeEnum (at ''status'') RPC_INVOICE_STATUSES) (\<lambda>status.
     Inr \<lparr> iv_invoiceAddress = address, iv_status = status \<rparr>)))"

definition encodeSettleInvoiceParams :: "lib \<Rightarrow> bytes \<Rightarrow> bytes \<Rightarrow> (string, json) object res" where
  "encodeSettleInvoiceParams L paymentHash paymentPreimage =
     bindR (encodeRpcPaymentHashParams L paymentHash) (\<lambda>named.
     bindR (encodeHexBytes L ''paymentPreimage'' paymentPreimage 32) (\<lambda>preimage.
     Inr (named @ [(''payment_preimage'', preimage)])))"

definition decodeSettleInvoiceResult :: "wire_field \<Rightarrow> unit res" where
  "decodeSettleInvoiceResult f = bindR (requireObject f) (\<lambda>_. Inr ())"

section \<open>Payments\<close>

record send_payment_params =
  sp_invoice :: string
  sp_maxFeeAmountShannons :: string
  sp_dryRun :: bool
  sp_trampolineHops :: "bytes list"

record rpc_payment =
  pm_paymentHash :: bytes
  pm_status :: string
  pm_createdAtMs :: int
  pm_lastUpdatedAtMs :: int
  pm_failedError :: "string option"
  pm_feeShannons :: string

definition encodeSendPaymentParams :: "lib \<Rightarrow> send_payment_params \<Rightarrow> (string, json) object res" where
  "encodeSendPaymentParams L p =
     bindR (assertNonEmptyString ''invoice'' (sp_invoice p)) (\<lambda>_.
     if length (sp_trampolineHops p) > RPC_MAX_TRAMPOLINE_HOPS then Inl (TypeErr ''trampolineHops'')
     else
       bindR (mapEach (\<lambda>name hop. bindR (assertCompressedPoint L name hop) (\<lambda>_. encodeBareHexBytes L name hop 33))
               ''trampolineHops'' (sp_trampolineHops p)) (\<lambda>hops.
       bindR (encodeRpcShannons ''maxFeeAmountShannons'' (sp_maxFeeAmountShannons p)) (\<lambda>maxFee.
       Inr ([(''invoice'', JString (sp_invoice p)), (''max_fee_amount'', maxFee), (''dry_run'', JBool (sp_dryRun p))]
         @ (if hops = [] then [] else [(''trampoline_hops'', JArray hops)])))))"

definition decodeRpcPayment :: "lib \<Rightarrow> wire_field \<Rightarrow> rpc_payment res" where
  "decodeRpcPayment L f =
     bindR (readObject f) (\<lambda>at.
     bindR (decodeHexBytes L (at ''payment_hash'') 32) (\<lambda>paymentHash.
     bindR (decodeEnum (at ''status'') RPC_PAYMENT_STATUSES) (\<lambda>status.
     bindR (decodeUintHex (at ''created_at'') UINT64_MAX) (\<lambda>createdAt.
     bindR (decodeUintHex (at ''last_updated_at'') UINT64_MAX) (\<lambda>updatedAt.
     bindR (decodeOrNull (at ''failed_error'') decodeString) (\<lambda>failedError.
     bindR (decodeRpcShannons (at ''fee'')) (\<lambda>fee.
     Inr \<lparr> pm_paymentHash = paymentHash, pm_status = status, pm_createdAtMs = createdAt, pm_lastUpdatedAtMs = updatedAt,
           pm_failedError = failedError, pm_feeShannons = fee \<rparr>)))))))"

section \<open>Signing\<close>

record submit_channel_signature_params =
  ch_channelId :: string
  ch_requestId :: bytes
  ch_partialSignature :: bytes
  ch_nextMaterial :: "next_material option"

record submit_watchtower_signature_params =
  wg_channelId :: string
  wg_requestId :: bytes
  wg_signature :: bytes

text \<open>The status is left as the field it arrived in, for the protocol's decoder.\<close>

definition decodeRpcSigningStatusResult :: "wire_field \<Rightarrow> (string \<times> wire_field) res" where
  "decodeRpcSigningStatusResult f =
     bindR (readObject f) (\<lambda>at.
     bindR (requireHexBytes (at ''channel_id'') 32) (\<lambda>cid. Inr (cid, at ''status'')))"

definition encodeNextChannelSignerMaterial :: "lib \<Rightarrow> next_material \<Rightarrow> json res" where
  "encodeNextChannelSignerMaterial L m =
     bindR (encodeBareHexBytes L ''nextMaterial.nextCommitmentPoint'' (nm_nextCommitmentPoint m) 33) (\<lambda>point.
     bindR (encodeHexBytes L ''nextMaterial.nextCommitmentNonce'' (nm_nextCommitmentNonce m) 66) (\<lambda>commitmentNonce.
     bindR (encodeHexBytes L ''nextMaterial.nextRevocationNonce'' (nm_nextRevocationNonce m) 66) (\<lambda>revocationNonce.
     Inr (JObject [(''next_commitment_point'', point), (''next_commitment_nonce'', commitmentNonce),
       (''next_revocation_nonce'', revocationNonce)]))))"

definition encodeSubmitChannelSignatureParams :: "lib \<Rightarrow> submit_channel_signature_params \<Rightarrow> (string, json) object res" where
  "encodeSubmitChannelSignatureParams L p =
     bindR (assertWireHexBytes ''channelId'' (JString (ch_channelId p)) 32) (\<lambda>_.
     bindR (encodeHexBytes L ''requestId'' (ch_requestId p) 32) (\<lambda>requestId.
     bindR (encodeHexBytes L ''partialSignature'' (ch_partialSignature p) 32) (\<lambda>signature.
     bindR (optionalMember ''next_material'' (ch_nextMaterial p) (encodeNextChannelSignerMaterial L)) (\<lambda>material.
     Inr ([(''channel_id'', JString (ch_channelId p)), (''request_id'', requestId), (''partial_signature'', signature)]
       @ material)))))"

definition encodeSubmitWatchtowerSignatureParams :: "lib \<Rightarrow> submit_watchtower_signature_params \<Rightarrow> (string, json) object res" where
  "encodeSubmitWatchtowerSignatureParams L p =
     bindR (assertWireHexBytes ''channelId'' (JString (wg_channelId p)) 32) (\<lambda>_.
     bindR (encodeHexBytes L ''requestId'' (wg_requestId p) 32) (\<lambda>requestId.
     bindR (encodeHexBytes L ''signature'' (wg_signature p) 65) (\<lambda>signature.
     Inr [(''channel_id'', JString (wg_channelId p)), (''request_id'', requestId), (''signature'', signature)])))"

definition decodeRpcSubmissionResult :: "wire_field \<Rightarrow> string res" where
  "decodeRpcSubmissionResult f = bindR (readObject f) (\<lambda>at. decodeEnum (at ''type'') RPC_SUBMISSION_RESULTS)"

section \<open>Tenants\<close>

record register_tenant_params =
  rt_rootSignerPubkey :: bytes
  rt_requestId :: bytes
  rt_signedAtMs :: int
  rt_signature :: bytes

record lsp_tenant_channel =
  lt_channelId :: string
  lt_fundingUdtTypeScript :: "script option"
  lt_online :: bool

record lsp_tenant_status =
  ls_tenantId :: string
  ls_rootSignerPubkey :: "bytes option"
  ls_invoicePubkey :: bytes
  ls_channels :: "lsp_tenant_channel list"
  ls_createdAtMs :: int
  ls_runtimeStatus :: string

definition encodeRegisterTenantParams :: "lib \<Rightarrow> register_tenant_params \<Rightarrow> (string, json) object res" where
  "encodeRegisterTenantParams L p =
     bindR (encodeBareHexBytes L ''rootSignerPubkey'' (rt_rootSignerPubkey p) 33) (\<lambda>root.
     bindR (encodeHexBytes L ''requestId'' (rt_requestId p) 32) (\<lambda>requestId.
     bindR (encodeUintHex ''signedAtMs'' (rt_signedAtMs p) UINT64_MAX) (\<lambda>signedAt.
     bindR (encodeBareHexBytes L ''signature'' (rt_signature p) 64) (\<lambda>signature.
     Inr [(''root_signer_pubkey'', root), (''request_id'', requestId), (''signed_at'', signedAt), (''signature'', signature)]))))"

definition decodeLspTenantChannel :: "lib \<Rightarrow> wire_field \<Rightarrow> lsp_tenant_channel res" where
  "decodeLspTenantChannel L f =
     bindR (readObject f) (\<lambda>at.
     bindR (requireHexBytes (at ''channel_id'') 32) (\<lambda>cid.
     bindR (decodeScriptOrNull L (at ''funding_udt_type_script'')) (\<lambda>udt.
     bindR (decodeBoolean (at ''online'')) (\<lambda>online.
     Inr \<lparr> lt_channelId = cid, lt_fundingUdtTypeScript = udt, lt_online = online \<rparr>))))"

definition decodeTenantId :: "wire_field \<Rightarrow> string res" where
  "decodeTenantId f =
     (case fd_value f of
        JString s \<Rightarrow> if isHexBytes s 32 then Inr s else malformedWireField f ''must be 32 bytes of lowercase hex without a 0x prefix''
      | _ \<Rightarrow> malformedWireField f ''must be 32 bytes of lowercase hex without a 0x prefix'')"

definition decodeLspTenantStatus :: "lib \<Rightarrow> wire_field \<Rightarrow> lsp_tenant_status res" where
  "decodeLspTenantStatus L f =
     bindR (readObject f) (\<lambda>at.
     bindR (decodeTenantId (at ''tenant_id'')) (\<lambda>tenantId.
     bindR (decodeOrNull (at ''root_signer_pubkey'') (\<lambda>key. decodeBareHexBytes L key 33)) (\<lambda>root.
     bindR (decodeBareHexBytes L (at ''invoice_pubkey'') 33) (\<lambda>invoicePubkey.
     bindR (readArray (at ''channels'') None) (\<lambda>items.
     bindR (mapR (decodeLspTenantChannel L) items) (\<lambda>channels.
     bindR (decodeUintHex (at ''created_at'') UINT64_MAX) (\<lambda>createdAt.
     bindR (decodeEnum (at ''runtime_status'') RPC_TENANT_RUNTIME_STATUSES) (\<lambda>status.
     Inr \<lparr> ls_tenantId = tenantId, ls_rootSignerPubkey = root, ls_invoicePubkey = invoicePubkey, ls_channels = channels,
           ls_createdAtMs = createdAt, ls_runtimeStatus = status \<rparr>))))))))"

definition decodeRegisterTenantResult :: "lib \<Rightarrow> wire_field \<Rightarrow> (lsp_tenant_status \<times> string) res" where
  "decodeRegisterTenantResult L f =
     bindR (readObject f) (\<lambda>at.
     bindR (decodeLspTenantStatus L (at ''tenant'')) (\<lambda>tenant.
     bindR (decodeNonEmptyString (at ''access_token'')) (\<lambda>token. Inr (tenant, token))))"

section \<open>The envelope and the client\<close>

datatype rpc_response = RpcResult wire_field | RpcErrorObject int string

definition encodeRpcRequest :: "int \<Rightarrow> string \<Rightarrow> (string, json) object \<Rightarrow> json" where
  "encodeRpcRequest i method params =
     JObject [(''jsonrpc'', JString JSON_RPC_VERSION), (''id'', JNumber i), (''method'', JString method),
       (''params'', JArray [JObject params])]"

definition parseRpcResponse :: "(string \<Rightarrow> json option) \<Rightarrow> string \<Rightarrow> json res" where
  "parseRpcResponse parse body =
     (case parse body of None \<Rightarrow> Inl (WireErr ''response'' ''must be valid JSON'') | Some v \<Rightarrow> Inr v)"

definition decodeRpcErrorObject :: "wire_field \<Rightarrow> rpc_response res" where
  "decodeRpcErrorObject f =
     bindR (readObject f) (\<lambda>at.
     case fd_value (at ''code'') of
       JNumber code \<Rightarrow> bindR (decodeString (at ''message'')) (\<lambda>message. Inr (RpcErrorObject code message))
     | _ \<Rightarrow> malformedWireField (at ''code'') ''must be an integer'')"

definition decodeRpcResponse :: "(string \<Rightarrow> json option) \<Rightarrow> string \<Rightarrow> int \<Rightarrow> rpc_response res" where
  "decodeRpcResponse parse body i =
     bindR (parseRpcResponse parse body) (\<lambda>v.
     let response = \<lparr> fd_value = v, fd_path = ''response'' \<rparr> in
     bindR (readObject response) (\<lambda>at.
     if fd_value (at ''jsonrpc'') \<noteq> JString JSON_RPC_VERSION then malformedWireField (at ''jsonrpc'') ''must be the version''
     else
       let hasResult = fd_value (at ''result'') \<noteq> JUndefined; hasError = fd_value (at ''error'') \<noteq> JUndefined in
       if hasResult = hasError then malformedWireField response ''must carry exactly one of result and error''
       else
         let unread = \<not> hasResult \<and> fd_value (at ''id'') = JNull in
         if fd_value (at ''id'') \<noteq> JNumber i \<and> \<not> unread then malformedWireField (at ''id'') ''must be the id of the request''
         else if hasResult then Inr (RpcResult (at ''result'')) else decodeRpcErrorObject (at ''error'')))"

text \<open>What a call fails with: the transport, the node's refusal, an answer that does not read, or the device's own error.\<close>

datatype rpc_failure =
    RpcTransportError string string
  | RpcError string int string
  | RpcResponseError string string string
  | RpcOtherError error

datatype fetch_answer =
    FetchFailed
  | FetchResponse "int option" "string option" \<comment> \<open>an integer status; the body, unless it could not be read\<close>

record fiber_rpc_client =
  fc_url :: string
  fc_headers :: "(string, string) object"
  fc_nextId :: int

record host =
  ho_fetch :: "string \<Rightarrow> (string, string) object \<Rightarrow> string \<Rightarrow> fetch_answer"
  ho_stringify :: "json \<Rightarrow> string"
  ho_parse :: "string \<Rightarrow> json option"

definition is_token_char :: "char \<Rightarrow> bool" where
  "is_token_char c \<longleftrightarrow> 0x21 \<le> (of_char c :: nat) \<and> (of_char c :: nat) \<le> 0x7e"

definition bearerOf :: "string \<Rightarrow> string res" where
  "bearerOf token =
     (if token = [] \<or> \<not> list_all is_token_char token then Inl (TypeErr ''token'') else Inr (RPC_BEARER_PREFIX @ token))"

definition newFiberRpcClient :: "string \<Rightarrow> string option \<Rightarrow> fiber_rpc_client res" where
  "newFiberRpcClient url token =
     bindR (assertNonEmptyString ''url'' url) (\<lambda>_.
     bindR (case token of None \<Rightarrow> Inr [] | Some t \<Rightarrow> bindR (bearerOf t) (\<lambda>b. Inr [(''authorization'', b)])) (\<lambda>authorization.
     Inr \<lparr> fc_url = url, fc_headers = (''content-type'', RPC_CONTENT_TYPE) # authorization, fc_nextId = 1 \<rparr>))"

definition setToken :: "fiber_rpc_client \<Rightarrow> string \<Rightarrow> fiber_rpc_client res" where
  "setToken c token = bindR (bearerOf token) (\<lambda>b. Inr (c\<lparr> fc_headers := put ''authorization'' b (fc_headers c) \<rparr>))"

definition post :: "host \<Rightarrow> fiber_rpc_client \<Rightarrow> string \<Rightarrow> string \<Rightarrow> rpc_failure + string" where
  "post H c method body =
     (case ho_fetch H (fc_url c) (fc_headers c) body of
        FetchFailed \<Rightarrow> Inl (RpcTransportError method ''the request failed'')
      | FetchResponse None _ \<Rightarrow> Inl (RpcTransportError method ''HTTP status'')
      | FetchResponse (Some status) answered \<Rightarrow>
          if status < 200 \<or> status > 299 then Inl (RpcTransportError method ''HTTP status'')
          else (case answered of
                  None \<Rightarrow> Inl (RpcTransportError method ''the response body could not be read'')
                | Some body' \<Rightarrow> Inr body'))"

definition readAnswer :: "string \<Rightarrow> 'a res \<Rightarrow> rpc_failure + 'a" where
  "readAnswer method step =
     (case step of
        Inr x \<Rightarrow> Inr x
      | Inl (WireErr path reason) \<Rightarrow> Inl (RpcResponseError method path reason)
      | Inl e \<Rightarrow> Inl (RpcOtherError e))"

text \<open>One call takes an id and posts once. The client is returned with the next id, whatever the call answers.\<close>

definition call ::
    "host \<Rightarrow> string \<Rightarrow> (string, json) object \<Rightarrow> (wire_field \<Rightarrow> 'a res) \<Rightarrow> fiber_rpc_client
     \<Rightarrow> (rpc_failure + 'a) \<times> fiber_rpc_client" where
  "call H method params decode c =
     (let i = fc_nextId c; c' = c\<lparr> fc_nextId := i + 1 \<rparr> in
      (case post H c method (ho_stringify H (encodeRpcRequest i method params)) of
         Inl e \<Rightarrow> Inl e
       | Inr body \<Rightarrow>
           (case readAnswer method (decodeRpcResponse (ho_parse H) body i) of
              Inl e \<Rightarrow> Inl e
            | Inr (RpcErrorObject code message) \<Rightarrow> Inl (RpcError method code message)
            | Inr (RpcResult result) \<Rightarrow> readAnswer method (decode result)),
       c'))"

text \<open>Params that do not encode throw before the call, which then takes no id.\<close>

definition callWith ::
    "host \<Rightarrow> string \<Rightarrow> (string, json) object res \<Rightarrow> (wire_field \<Rightarrow> 'a res) \<Rightarrow> fiber_rpc_client
     \<Rightarrow> (rpc_failure + 'a) \<times> fiber_rpc_client" where
  "callWith H method params decode c =
     (case params of Inl e \<Rightarrow> (Inl (RpcOtherError e), c) | Inr ps \<Rightarrow> call H method ps decode c)"

definition openChannelWithExternalFunding where
  "openChannelWithExternalFunding L H p =
     callWith H ''open_channel_with_external_funding'' (encodeOpenChannelWithExternalFundingParams L p)
       (decodeOpenChannelWithExternalFundingResult L)"

definition openTenantChannel where
  "openTenantChannel L H p =
     callWith H ''open_channel_with_external_funding'' (encodeOpenTenantChannelParams L p) (decodeOpenTenantChannelResult L)"

definition submitSignedFundingTx where
  "submitSignedFundingTx L H cid t =
     callWith H ''submit_signed_funding_tx'' (encodeSubmitSignedFundingTxParams L cid t) (decodeSubmitSignedFundingTxResult L)"

definition abandonChannel where
  "abandonChannel H cid = callWith H ''abandon_channel'' (encodeRpcChannelIdParams cid) decodeAbandonChannelResult"

definition shutdownChannel where
  "shutdownChannel L H p = callWith H ''shutdown_channel'' (encodeShutdownChannelParams L p) decodeShutdownChannelResult"

definition listChannels where
  "listChannels L H listed = call H ''list_channels'' (encodeListChannelsParams listed) (decodeListChannelsResult L)"

definition listChannelStates where
  "listChannelStates H listed = call H ''list_channels'' (encodeListChannelsParams listed) decodeListChannelStatesResult"

definition newInvoice where
  "newInvoice L H p = callWith H ''new_invoice'' (encodeNewInvoiceParams L p) decodeNewInvoiceResult"

definition getInvoice where
  "getInvoice L H h = callWith H ''get_invoice'' (encodeRpcPaymentHashParams L h) decodeRpcInvoice"

definition settleInvoice where
  "settleInvoice L H h preimage = callWith H ''settle_invoice'' (encodeSettleInvoiceParams L h preimage) decodeSettleInvoiceResult"

definition cancelInvoice where
  "cancelInvoice L H h = callWith H ''cancel_invoice'' (encodeRpcPaymentHashParams L h) decodeRpcInvoice"

definition sendPayment where
  "sendPayment L H p = callWith H ''send_payment'' (encodeSendPaymentParams L p) (decodeRpcPayment L)"

definition getPayment where
  "getPayment L H h = callWith H ''get_payment'' (encodeRpcPaymentHashParams L h) (decodeRpcPayment L)"

definition getChannelSigningStatus where
  "getChannelSigningStatus H cid =
     callWith H ''get_channel_signing_status'' (encodeRpcChannelIdParams cid) decodeRpcSigningStatusResult"

definition submitChannelSignature where
  "submitChannelSignature L H p =
     callWith H ''submit_channel_signature'' (encodeSubmitChannelSignatureParams L p) decodeRpcSubmissionResult"

definition getWatchtowerSigningStatus where
  "getWatchtowerSigningStatus H cid =
     callWith H ''get_watchtower_signing_status'' (encodeRpcChannelIdParams cid) decodeRpcSigningStatusResult"

definition submitWatchtowerSignature where
  "submitWatchtowerSignature L H p =
     callWith H ''submit_watchtower_signature'' (encodeSubmitWatchtowerSignatureParams L p) decodeRpcSubmissionResult"

definition registerTenant where
  "registerTenant L H p = callWith H ''lsp_register_tenant'' (encodeRegisterTenantParams L p) (decodeRegisterTenantResult L)"

end
