(* ===== verification/SdkChecks.thy ===== *)
theory SdkChecks
  imports Rpc
begin

text \<open>
  The checks of the module \<^verbatim>\<open>sdk\<close> on what the node answers and the host asks, each a pure function: the
  opening of a channel, the invoice the node wrote, the invoice to pay, the fee of a close, the budget of a
  payment, the network. An \<^verbatim>\<open>SdkError\<close> is a \<open>HostErr\<close> whose text starts with its code.
\<close>

section \<open>Constants and networks\<close>

definition FUNDING_OUTPUT_INDEX :: nat where
  "FUNDING_OUTPUT_INDEX = 0"

definition DEFAULT_COMMITMENT_DELAY_EPOCH :: int where
  "DEFAULT_COMMITMENT_DELAY_EPOCH = 0x10000000001"

definition DEFAULT_COMMITMENT_FEE_RATE :: int where
  "DEFAULT_COMMITMENT_FEE_RATE = 1000"

definition DEFAULT_SDK_INVOICE_EXPIRY_SECONDS :: int where
  "DEFAULT_SDK_INVOICE_EXPIRY_SECONDS = 3600"

definition SDK_INVOICE_FINAL_EXPIRY_DELTA_MS :: int where
  "SDK_INVOICE_FINAL_EXPIRY_DELTA_MS = 86400000"

definition SDK_INVOICE_TIMESTAMP_SKEW_MS :: int where
  "SDK_INVOICE_TIMESTAMP_SKEW_MS = 600000"

definition SDK_RELEASE_EXPIRY_SLACK_MS :: int where
  "SDK_RELEASE_EXPIRY_SLACK_MS = 600000"

definition DEFAULT_SDK_MAX_FEE_PER_MILLE :: int where
  "DEFAULT_SDK_MAX_FEE_PER_MILLE = 5"

definition SDK_MAX_FEE_RATE_DENOMINATOR :: int where
  "SDK_MAX_FEE_RATE_DENOMINATOR = 1000"

definition MILLISECONDS_PER_SECOND :: int where
  "MILLISECONDS_PER_SECOND = 1000"

record sdk_network_config =
  nc_commitmentLock :: script_template
  nc_fundingLock :: script_template
  nc_invoiceCurrency :: invoice_currency
  nc_fundingLockCellDepsCount :: int
  nc_millisecondsPerEpoch :: int

definition typed_lock :: "lib \<Rightarrow> string \<Rightarrow> script_template" where
  "typed_lock L hex = \<lparr> codeHash = hexToBytes L hex, hashType = Type \<rparr>"

definition COMMITMENT_LOCK_MAINNET where
  "COMMITMENT_LOCK_MAINNET L = typed_lock L ''2d45c4d3ed3e942f1945386ee82a5d1b7e4bb16d7fe1ab015421174ab747406c''"

definition COMMITMENT_LOCK_TESTNET where
  "COMMITMENT_LOCK_TESTNET L = typed_lock L ''740dee83f87c6f309824d8fd3fbdd3c8380ee6fc9acc90b1a748438afcdf81d8''"

definition FUNDING_LOCK_MAINNET where
  "FUNDING_LOCK_MAINNET L = typed_lock L ''e45b1f8f21bff23137035a3ab751d75b36a981deec3e7820194b9c042967f4f1''"

definition FUNDING_LOCK_TESTNET where
  "FUNDING_LOCK_TESTNET L = typed_lock L ''6c67887fe201ee0c7853f1682c0b77c0e6214044c156c7558269390a8afa6d7c''"

datatype sdk_network = NamedNetwork string | CustomNetwork sdk_network_config

definition SDK_NETWORK_PRESETS :: "lib \<Rightarrow> (string, sdk_network_config) object" where
  "SDK_NETWORK_PRESETS L =
     [(''mainnet'', \<lparr> nc_commitmentLock = COMMITMENT_LOCK_MAINNET L, nc_fundingLock = FUNDING_LOCK_MAINNET L,
         nc_invoiceCurrency = Fibb, nc_fundingLockCellDepsCount = 2, nc_millisecondsPerEpoch = 14400000 \<rparr>),
      (''testnet'', \<lparr> nc_commitmentLock = COMMITMENT_LOCK_TESTNET L, nc_fundingLock = FUNDING_LOCK_TESTNET L,
         nc_invoiceCurrency = Fibt, nc_fundingLockCellDepsCount = 2, nc_millisecondsPerEpoch = 14400000 \<rparr>)]"

definition resolveSdkNetwork :: "lib \<Rightarrow> sdk_network \<Rightarrow> sdk_network_config res" where
  "resolveSdkNetwork L network =
     (case network of
        NamedNetwork name \<Rightarrow>
          (case get (SDK_NETWORK_PRESETS L) name of None \<Rightarrow> Inl (TypeErr ''network'') | Some preset \<Rightarrow> Inr preset)
      | CustomNetwork config \<Rightarrow>
          bindR (assertScriptTemplate ''network.commitmentLock'' (nc_commitmentLock config)) (\<lambda>_.
          bindR (assertScriptTemplate ''network.fundingLock'' (nc_fundingLock config)) (\<lambda>_.
          bindR (assertPositiveInteger ''network.fundingLockCellDepsCount'' (nc_fundingLockCellDepsCount config) MAX_CELL_DEPS_COUNT) (\<lambda>_.
          bindR (assertPositiveInteger ''network.millisecondsPerEpoch'' (nc_millisecondsPerEpoch config) MAX_SAFE_INTEGER) (\<lambda>_.
          Inr config)))))"

definition readSdkClock :: "int \<Rightarrow> int res" where
  "readSdkClock nowMs = bindR (assertUnsignedInteger ''now()'' nowMs MAX_SAFE_INTEGER) (\<lambda>_. Inr nowMs)"

section \<open>The opening of a channel\<close>

record sdk_opening_request =
  sq_fundedShannons :: string
  sq_userLock :: script
  sq_commitmentDelayEpoch :: int
  sq_commitmentFeeRate :: int
  sq_fundingPubkey :: bytes
  sq_tlcBasePubkey :: bytes
  sq_fundingLock :: script_template

record sdk_opening_pins =
  op_terms :: policy_channel_terms
  op_fundingCapacityShannons :: string

definition rejectOpening :: "string \<Rightarrow> 'a res" where
  "rejectOpening field = Inl (HostErr (''opening_rejected: '' @ field))"

definition checkRemoteKey :: "lib \<Rightarrow> string \<Rightarrow> bytes \<Rightarrow> bytes \<Rightarrow> unit res" where
  "checkRemoteKey L field key deviceKey =
     (if \<not> isCompressedPoint L key then rejectOpening field
      else if key = deviceKey then rejectOpening field else Inr ())"

definition checkTenantChannelId :: "lib \<Rightarrow> sdk_opening_request \<Rightarrow> open_tenant_channel_result \<Rightarrow> unit res" where
  "checkTenantChannelId L request result =
     (let settlementKey = tc_remoteSettlementKey (or_openingContext result) in
      bindR (checkRemoteKey L ''openingContext.remoteSettlementKey'' settlementKey (sq_tlcBasePubkey request)) (\<lambda>_.
      bindR (tenantChannelId L (sq_tlcBasePubkey request) settlementKey) (\<lambda>expected.
      if or_channelId result \<noteq> expected then rejectOpening ''channelId'' else Inr ())))"

definition layoutsReserving :: "script \<Rightarrow> int \<Rightarrow> commitment_lock_layout list \<Rightarrow> commitment_lock_layout list res" where
  "layoutsReserving closeScript reserve layouts =
     bindR (mapR (\<lambda>layout. bindR (reservedCkbShannons closeScript layout) (\<lambda>r. Inr (layout, r))) layouts) (\<lambda>rs.
     Inr (map fst (filter (\<lambda>(layout, r). r = reserve) rs)))"

definition checkOpeningReserves :: "script \<Rightarrow> tenant_opening_context \<Rightarrow> (int \<times> int) res" where
  "checkOpeningReserves userLock context =
     (let localReserve = bigInt (tc_localReservedCkbShannons context) in
      bindR (layoutsReserving userLock localReserve COMMITMENT_LOCK_LAYOUTS) (\<lambda>layouts.
      if layouts = [] then rejectOpening ''openingContext.localReservedCkbShannons''
      else
        let remoteReserve = bigInt (tc_remoteReservedCkbShannons context) in
        bindR (layoutsReserving (tc_remoteShutdownScript context) remoteReserve layouts) (\<lambda>both.
        if both = [] then rejectOpening ''openingContext.remoteReservedCkbShannons''
        else Inr (localReserve, remoteReserve))))"

definition checkFundingOutput :: "lib \<Rightarrow> sdk_opening_request \<Rightarrow> open_tenant_channel_result \<Rightarrow> int \<Rightarrow> unit res" where
  "checkFundingOutput L request result capacity =
     (let tx = or_unsignedFundingTx result; remoteFundingKey = tc_remoteFundingKey (or_openingContext result) in
      if length (outputs tx) \<le> FUNDING_OUTPUT_INDEX then rejectOpening ''unsignedFundingTx.outputs[0]''
      else
        let out = outputs tx ! FUNDING_OUTPUT_INDEX in
        if type_script out \<noteq> None then rejectOpening ''unsignedFundingTx.outputs[0].type''
        else if length (outputsData tx) \<le> FUNDING_OUTPUT_INDEX then rejectOpening ''unsignedFundingTx.outputsData[0]''
        else if outputsData tx ! FUNDING_OUTPUT_INDEX \<noteq> [] then rejectOpening ''unsignedFundingTx.outputsData[0]''
        else
          bindR (checkRemoteKey L ''openingContext.remoteFundingKey'' remoteFundingKey (sq_fundingPubkey request)) (\<lambda>_.
          bindR (fundingLockArgs L (sq_fundingPubkey request) remoteFundingKey) (\<lambda>lockArgs.
          bindR (moleculeScript ''unsignedFundingTx.outputs[0].lock'' (lock out)) (\<lambda>found.
          bindR (moleculeScript ''script'' (with_args (sq_fundingLock request) lockArgs)) (\<lambda>expected.
          if found \<noteq> expected then rejectOpening ''unsignedFundingTx.outputs[0].lock''
          else if capacity > UINT64_MAX then rejectOpening ''openingContext.remoteAmountShannons''
          else if capacityShannons out \<noteq> capacity then rejectOpening ''unsignedFundingTx.outputs[0].capacityShannons''
          else Inr ())))))"

definition checkTenantOpening :: "lib \<Rightarrow> sdk_opening_request \<Rightarrow> open_tenant_channel_result \<Rightarrow> sdk_opening_pins res" where
  "checkTenantOpening L request result =
     (let context = or_openingContext result in
      bindR (checkTenantChannelId L request result) (\<lambda>_.
      if tc_commitmentDelayEpoch context \<noteq> sq_commitmentDelayEpoch request
      then rejectOpening ''openingContext.commitmentDelayEpoch''
      else if tc_commitmentFeeRate context \<noteq> sq_commitmentFeeRate request
      then rejectOpening ''openingContext.commitmentFeeRate''
      else
        let loc = bigInt (tc_localAmountShannons context) in
        if loc \<noteq> bigInt (sq_fundedShannons request) then rejectOpening ''openingContext.localAmountShannons''
        else
          bindR (checkOpeningReserves (sq_userLock request) context) (\<lambda>(localReserve, remoteReserve).
          if loc < localReserve then rejectOpening ''openingContext.localAmountShannons''
          else
            let rem = bigInt (tc_remoteAmountShannons context) in
            if rem < remoteReserve then rejectOpening ''openingContext.remoteAmountShannons''
            else
              bindR (checkFundingOutput L request result (loc + rem)) (\<lambda>_.
              Inr \<lparr> op_terms =
                      \<lparr> pt_commitmentFeeRate = tc_commitmentFeeRate context, pt_remoteReservedCkbShannons = toString remoteReserve,
                        pt_liquidCapacityShannons = toString (loc + rem - localReserve - remoteReserve),
                        pt_remoteCloseScript = tc_remoteShutdownScript context,
                        pt_remoteFundingPubkey = tc_remoteFundingKey context,
                        pt_remoteTlcBasePubkey = tc_remoteSettlementKey context,
                        pt_commitmentDelayEpoch = tc_commitmentDelayEpoch context \<rparr>,
                    op_fundingCapacityShannons = toString (loc + rem) \<rparr>))))"

section \<open>Invoices\<close>

definition computeSdkInvoiceExpiryMs :: "invoice \<Rightarrow> int option" where
  "computeSdkInvoiceExpiryMs bill =
     (case findInvoiceAttribute (in_data bill) T_expiryTime of
        Some (ExpiryTime seconds) \<Rightarrow> Some (iv_timestampMs (in_data bill) + seconds * MILLISECONDS_PER_SECOND)
      | _ \<Rightarrow> None)"

definition TENANT_INVOICE_ATTRIBUTE_TYPES :: "invoice_attribute_type list" where
  "TENANT_INVOICE_ATTRIBUTE_TYPES =
     [T_description, T_expiryTime, T_feature, T_trampolineRouteHint, T_finalHtlcMinimumExpiryDelta, T_hashAlgorithm,
      T_payeePublicKey]"

definition TENANT_INVOICE_FEATURE_BITS :: bytes where
  "TENANT_INVOICE_FEATURE_BITS = [0x20]"

definition rejectInvoice :: "string \<Rightarrow> 'a res" where
  "rejectInvoice field = Inl (HostErr (''invoice_rejected: '' @ field))"

fun attributeTypeName :: "invoice_attribute_type \<Rightarrow> string" where
  "attributeTypeName T_expiryTime = ''expiryTime''"
| "attributeTypeName T_description = ''description''"
| "attributeTypeName T_finalHtlcTimeout = ''finalHtlcTimeout''"
| "attributeTypeName T_finalHtlcMinimumExpiryDelta = ''finalHtlcMinimumExpiryDelta''"
| "attributeTypeName T_fallbackAddr = ''fallbackAddr''"
| "attributeTypeName T_feature = ''feature''"
| "attributeTypeName T_udtScript = ''udtScript''"
| "attributeTypeName T_payeePublicKey = ''payeePublicKey''"
| "attributeTypeName T_hashAlgorithm = ''hashAlgorithm''"
| "attributeTypeName T_paymentSecret = ''paymentSecret''"
| "attributeTypeName T_trampolineRouteHint = ''trampolineRouteHint''"

definition requireAttribute :: "invoice \<Rightarrow> invoice_attribute_type \<Rightarrow> invoice_attribute res" where
  "requireAttribute bill type =
     (case findInvoiceAttribute (in_data bill) type of None \<Rightarrow> rejectInvoice (attributeTypeName type) | Some a \<Rightarrow> Inr a)"

definition checkTenantInvoiceDescription :: "invoice \<Rightarrow> string option \<Rightarrow> unit res" where
  "checkTenantInvoiceDescription bill asked =
     (case asked of
        None \<Rightarrow> check (findInvoiceAttribute (in_data bill) T_description = None) (HostErr ''invoice_rejected: description'')
      | Some d \<Rightarrow>
          bindR (requireAttribute bill T_description) (\<lambda>a.
          check (a = Description (map of_char d)) (HostErr ''invoice_rejected: description'')))"

text \<open>The checks on the decoded invoice, in the source's order; the last is that it carries nothing more.\<close>

definition checkDecodedTenantInvoice :: "invoice \<Rightarrow> new_invoice_params \<Rightarrow> bytes \<Rightarrow> int \<Rightarrow> unit res" where
  "checkDecodedTenantInvoice bill request lspPubkey nowMs =
     (if in_currency bill \<noteq> ni_currency request then rejectInvoice ''currency''
      else if in_amountShannons bill \<noteq> Some (ni_amountShannons request) then rejectInvoice ''amountShannons''
      else if iv_timestampMs (in_data bill) > nowMs + SDK_INVOICE_TIMESTAMP_SKEW_MS then rejectInvoice ''timestampMs''
      else if iv_paymentHash (in_data bill) \<noteq> ni_paymentHash request then rejectInvoice ''paymentHash''
      else
        bindR (requireAttribute bill T_hashAlgorithm) (\<lambda>a.
        if a \<noteq> HashAlgorithm (ni_hashAlgorithm request) then rejectInvoice ''hashAlgorithm''
        else
          bindR (requireAttribute bill T_expiryTime) (\<lambda>a.
          if a \<noteq> ExpiryTime (ni_expirySeconds request) then rejectInvoice ''expiryTime''
          else
            bindR (requireAttribute bill T_finalHtlcMinimumExpiryDelta) (\<lambda>a.
            if a \<noteq> FinalHtlcMinimumExpiryDelta (ni_finalExpiryDeltaMs request) then rejectInvoice ''finalHtlcMinimumExpiryDelta''
            else
              bindR (checkTenantInvoiceDescription bill (ni_description request)) (\<lambda>_.
              bindR (requireAttribute bill T_feature) (\<lambda>a.
              if a \<noteq> Feature TENANT_INVOICE_FEATURE_BITS then rejectInvoice ''feature''
              else
                bindR (requireAttribute bill T_trampolineRouteHint) (\<lambda>a.
                if a \<noteq> TrampolineRouteHint lspPubkey then rejectInvoice ''trampolineRouteHint''
                else
                  bindR (requireAttribute bill T_payeePublicKey) (\<lambda>_.
                  case find (\<lambda>a. typeOf a \<notin> set TENANT_INVOICE_ATTRIBUTE_TYPES) (iv_attributes (in_data bill)) of
                    None \<Rightarrow> Inr ()
                  | Some extra \<Rightarrow> rejectInvoice (attributeTypeName (typeOf extra))))))))))"

text \<open>\<open>None\<close> is a decoder that does not return, which never is the case.\<close>

definition checkTenantInvoice ::
    "lib \<Rightarrow> invoice_curve \<Rightarrow> string \<Rightarrow> new_invoice_params \<Rightarrow> bytes \<Rightarrow> int \<Rightarrow> unit res option" where
  "checkTenantInvoice L C invoiceAddress request lspPubkey nowMs =
     (case decodeInvoice L C invoiceAddress of
        None \<Rightarrow> None
      | Some (Inl e) \<Rightarrow> Some (rejectInvoice ''invoiceAddress'')
      | Some (Inr bill) \<Rightarrow> Some (checkDecodedTenantInvoice bill request lspPubkey nowMs))"

record sdk_payable_invoice =
  py_paymentHash :: bytes
  py_amountShannons :: string
  py_payeePublicKey :: bytes

definition refuseUnpayable :: "string \<Rightarrow> 'a res" where
  "refuseUnpayable field = Inl (HostErr (''invoice_unpayable: '' @ field))"

definition checkDecodedPayableInvoice :: "invoice \<Rightarrow> invoice_currency \<Rightarrow> int \<Rightarrow> sdk_payable_invoice res" where
  "checkDecodedPayableInvoice bill currency nowMs =
     (if in_currency bill \<noteq> currency then refuseUnpayable ''currency''
      else
        case in_amountShannons bill of
          None \<Rightarrow> refuseUnpayable ''amountShannons''
        | Some amount \<Rightarrow>
            if amount = ''0'' then refuseUnpayable ''amountShannons''
            else if findInvoiceAttribute (in_data bill) T_udtScript \<noteq> None then refuseUnpayable ''udtScript''
            else
              (case payeeKey (findInvoiceAttribute (in_data bill) T_payeePublicKey) of
                 None \<Rightarrow> refuseUnpayable ''payeePublicKey''
               | Some payee \<Rightarrow>
                   (let expiresAtMs = computeSdkInvoiceExpiryMs bill in
                    if expiresAtMs \<noteq> None \<and> the expiresAtMs \<le> nowMs then refuseUnpayable ''expiryTime''
                    else Inr \<lparr> py_paymentHash = iv_paymentHash (in_data bill), py_amountShannons = amount,
                               py_payeePublicKey = payee \<rparr>)))"

definition checkPayableInvoice ::
    "lib \<Rightarrow> invoice_curve \<Rightarrow> string \<Rightarrow> invoice_currency \<Rightarrow> int \<Rightarrow> sdk_payable_invoice res option" where
  "checkPayableInvoice L C encodedInvoice currency nowMs =
     (case decodeInvoice L C encodedInvoice of
        None \<Rightarrow> None
      | Some (Inl e) \<Rightarrow> Some (refuseUnpayable ''encodedInvoice'')
      | Some (Inr bill) \<Rightarrow> Some (checkDecodedPayableInvoice bill currency nowMs))"

section \<open>Budgets and fees\<close>

definition defaultMaxFeeShannons :: "string \<Rightarrow> string" where
  "defaultMaxFeeShannons amountShannons =
     (let scaled = bigInt amountShannons * DEFAULT_SDK_MAX_FEE_PER_MILLE
      in toString ((scaled + SDK_MAX_FEE_RATE_DENOMINATOR - 1) div SDK_MAX_FEE_RATE_DENOMINATOR))"

definition debitBudgetShannons :: "string \<Rightarrow> string \<Rightarrow> string res" where
  "debitBudgetShannons amountShannons maxFeeShannons =
     (let budget = bigInt amountShannons + bigInt maxFeeShannons in
      if budget > MAX_AMOUNT_SHANNONS then Inl (RangeErr ''the invoice's amount and the fee budget'') else Inr (toString budget))"

definition readTransferArguments :: "string option option \<Rightarrow> string option res" where
  "readTransferArguments options =
     (case options of
        Some (Some maxFeeShannons) \<Rightarrow>
          bindR (assertDecimalShannons ''options.maxFeeShannons'' maxFeeShannons) (\<lambda>_. Inr (Some maxFeeShannons))
      | _ \<Rightarrow> Inr None)"

record sdk_invoice_options =
  io_description :: "string option"
  io_expirySeconds :: "int option"

definition readInvoiceArguments :: "string \<Rightarrow> sdk_invoice_options option \<Rightarrow> (int \<times> string option) res" where
  "readInvoiceArguments amountShannons options =
     bindR (assertPositiveDecimalShannons ''amountShannons'' amountShannons) (\<lambda>_.
     case options of
       None \<Rightarrow> Inr (DEFAULT_SDK_INVOICE_EXPIRY_SECONDS, None)
     | Some opt \<Rightarrow>
         bindR (case io_description opt of
                  None \<Rightarrow> Inr ()
                | Some d \<Rightarrow> assertRpcInvoiceDescription ''options.description'' d) (\<lambda>_.
         case io_expirySeconds opt of
           None \<Rightarrow> Inr (DEFAULT_SDK_INVOICE_EXPIRY_SECONDS, io_description opt)
         | Some seconds \<Rightarrow>
             bindR (assertPositiveInteger ''options.expirySeconds'' seconds MAX_SAFE_INTEGER) (\<lambda>_.
             Inr (seconds, io_description opt))))"

definition readCloseArguments :: "string \<Rightarrow> int option option \<Rightarrow> int option res" where
  "readCloseArguments cid options =
     bindR (assertWireHexBytes ''channelId'' (JString cid) 32) (\<lambda>_.
     case options of
       Some (Some feeRate) \<Rightarrow> bindR (assertUnsignedBigInt ''options.feeRate'' feeRate UINT64_MAX) (\<lambda>_. Inr (Some feeRate))
     | _ \<Rightarrow> Inr None)"

definition readClosePin :: "channel_pins \<Rightarrow> pin_field \<Rightarrow> string res" where
  "readClosePin ps fld =
     (case get (pinned ps) fld of None \<Rightarrow> Inl (TypeErr ''the channel pins nothing to check its close against'') | Some v \<Rightarrow> Inr v)"

definition checkCloseFee :: "lib \<Rightarrow> sdk_network_config \<Rightarrow> channel_pins \<Rightarrow> int option \<Rightarrow> script res" where
  "checkCloseFee L network ps feeRate =
     bindR (decodeMoleculeScript (hexToBytes L (localCloseScript ps)) ''localCloseScript'') (\<lambda>localScript.
     bindR (readClosePin ps P_remoteCloseScript) (\<lambda>pin.
     bindR (decodeMoleculeScript (hexToBytes L pin) ''remoteCloseScript'') (\<lambda>remoteScript.
     bindR (case feeRate of Some r \<Rightarrow> Inr r | None \<Rightarrow> bindR (readClosePin ps P_commitmentFeeRate) (\<lambda>r. Inr (bigInt r))) (\<lambda>rate.
     bindR (calculateShutdownTxFee rate (nc_fundingLockCellDepsCount network) None localScript remoteScript) (\<lambda>fee.
     if fee > MAX_SHUTDOWN_FEE_SHANNONS then Inl (HostErr ''close_fee_too_high'') else Inr localScript)))))"

section \<open>Evidence and listing\<close>

record sdk_commitment_evidence =
  ce_commitmentNumber :: int
  ce_txHash :: string

record sdk_channel_evidence =
  ev_revocations :: "(int \<times> bool \<times> string) list"
  ev_localCommitment :: "sdk_commitment_evidence option"
  ev_remoteCommitment :: "sdk_commitment_evidence option"
  ev_watchtowerSignatures :: "(string \<times> watchtower_key_purpose \<times> string \<times> bool) list"

definition wireHexOf :: "string \<Rightarrow> string" where
  "wireHexOf hex = WIRE_HEX_PREFIX @ hex"

definition commitmentEvidenceOf :: "signed_commitment_record option \<Rightarrow> sdk_commitment_evidence option" where
  "commitmentEvidenceOf commitment =
     map_option (\<lambda>c. \<lparr> ce_commitmentNumber = sc_commitmentNumber c, ce_txHash = wireHexOf (sc_txHash c) \<rparr>) commitment"

fun SDK_CHANNEL_STATE_OF :: "string \<Rightarrow> string" where
  "SDK_CHANNEL_STATE_OF name =
     (if name = ''ChannelReady'' then ''ready'' else if name = ''ShuttingDown'' then ''closing''
      else if name = ''Closed'' then ''closed'' else if name = ''Stale'' then ''stale'' else ''opening'')"

section \<open>What the node's errors say\<close>

definition isFiberRefusal :: "rpc_failure \<Rightarrow> int \<Rightarrow> string \<Rightarrow> bool" where
  "isFiberRefusal e code message = (case e of RpcError method c text \<Rightarrow> c = code \<and> text = message | _ \<Rightarrow> False)"

definition formatFiberHash256 :: "string \<Rightarrow> string" where
  "formatFiberHash256 hashHex = ''Hash256(0x'' @ hashHex @ '')''"

definition isFiberRefusalUnderHash :: "rpc_failure \<Rightarrow> (int \<times> string \<times> string) list \<Rightarrow> string \<Rightarrow> bool" where
  "isFiberRefusalUnderHash e known hashHex =
     list_ex (\<lambda>(code, prefix, suffix). isFiberRefusal e code (prefix @ formatFiberHash256 hashHex @ suffix)) known"

definition assertSdkAnsweredHash :: "lib \<Rightarrow> string \<Rightarrow> bytes \<Rightarrow> unit res" where
  "assertSdkAnsweredHash L askedHash answered =
     check (bytesToHex L answered = askedHash) (OtherErr ''the node answered about another hash'')"

definition SDK_INVOICE_ALREADY_PAID_ERROR :: "int \<times> string" where
  "SDK_INVOICE_ALREADY_PAID_ERROR = (RPC_CALL_FAILED_CODE, ''Invoice is already paid'')"

definition WATCHTOWER_UNWATCHED_ERROR :: "int \<times> string" where
  "WATCHTOWER_UNWATCHED_ERROR = (RPC_CALL_FAILED_CODE, ''watched channel not found'')"

definition SDK_ACTOR_REPLY_LOST_ERROR :: "int \<times> string" where
  "SDK_ACTOR_REPLY_LOST_ERROR = (RPC_CALL_FAILED_CODE, ''Messaging failed because channel is closed'')"

definition SDK_PAYMENT_NOT_FOUND_ERROR :: "int \<times> string \<times> string" where
  "SDK_PAYMENT_NOT_FOUND_ERROR = (RPC_CALL_FAILED_CODE, ''InvalidParameter: Payment session not found: '', '''')"

definition SDK_PAYMENT_SESSION_EXISTS_ERRORS :: "(int \<times> string \<times> string) list" where
  "SDK_PAYMENT_SESSION_EXISTS_ERRORS =
     [(RPC_CALL_FAILED_CODE, ''Payment session already exists, stop start new payment actor for '', '''')]
     @ map (\<lambda>status. (RPC_CALL_FAILED_CODE, ''InvalidParameter: Payment session already exists: '',
                       '' with payment session status: '' @ status)) (filter (\<lambda>status. status \<noteq> ''Failed'') RPC_PAYMENT_STATUSES)
     @ [(RPC_CALL_FAILED_CODE, ''InvalidParameter: Payment session '', '' has attempts that are in flight state, can not retry'')]"

end
