(* ===== verification/SdkRecords.thy ===== *)
theory SdkRecords
  imports SdkChecks Engine
begin

text \<open>
  The records the module \<^verbatim>\<open>sdk\<close> keeps in the device's store beside the policy's: the last allocated indexes,
  what the device watches, the channels it opened, the opening it waits for. A stored record is the JSON value
  it parses to, its guard a predicate on JSON values, and an update rewrites members of that value, so members
  this version does not know are carried along.
\<close>

section \<open>JSON members\<close>

fun members :: "json \<Rightarrow> (string, json) object" where
  "members (JObject m) = m"
| "members _ = []"

fun isPlainObject :: "json \<Rightarrow> bool" where
  "isPlainObject (JObject m) = True"
| "isPlainObject _ = False"

abbreviation at_member :: "json \<Rightarrow> string \<Rightarrow> json" where
  "at_member v name \<equiv> member (members v) name"

definition with_member :: "string \<Rightarrow> json \<Rightarrow> json \<Rightarrow> json" where
  "with_member name x v = JObject (put name x (members v))"

definition json_format :: "(json \<Rightarrow> bool) \<Rightarrow> json signer_record_format" where
  "json_format guard =
     \<lparr> rf_parse = (\<lambda>t. case t of StoredRecord v \<Rightarrow> Some v | _ \<Rightarrow> None), rf_stringify = StoredRecord,
       rf_is = guard, rf_belongsAt = (\<lambda>key v. True) \<rparr>"

interpretation json_records: stored_format "json_format guard" for guard
  by unfold_locales (simp add: json_format_def)

section \<open>The index allocator\<close>

definition ALLOCATION_FLOOR_MS :: int where
  "ALLOCATION_FLOOR_MS = 1790812800000"

definition ALLOCATOR_KEY_PREFIX :: string where
  "ALLOCATOR_KEY_PREFIX = STORAGE_KEY_NAMESPACE @ '':allocator:''"

definition LAST_INDEX_FORMAT :: "int signer_record_format" where
  "LAST_INDEX_FORMAT =
     \<lparr> rf_parse = (\<lambda>t. case t of StoredRecord (JNumber n) \<Rightarrow> Some n | _ \<Rightarrow> None), rf_stringify = (\<lambda>n. StoredRecord (JNumber n)),
       rf_is = (\<lambda>n. isUnsignedInteger n MAX_CHANNEL_INDEX), rf_belongsAt = (\<lambda>key n. True) \<rparr>"

interpretation last_index: stored_format LAST_INDEX_FORMAT
  by unfold_locales (simp add: LAST_INDEX_FORMAT_def)

definition readClock :: "int \<Rightarrow> int res" where
  "readClock nowMs =
     (if \<not> isUnsignedInteger nowMs MAX_CHANNEL_INDEX then Inl (TypeErr ''now()'')
      else if nowMs < ALLOCATION_FLOOR_MS then Inl (HostErr ''clock_before_floor'')
      else Inr nowMs)"

definition nextIndex :: "int \<Rightarrow> int option \<Rightarrow> int" where
  "nextIndex candidate lastIndex = (case lastIndex of None \<Rightarrow> candidate | Some n \<Rightarrow> max candidate (n + 1))"

text \<open>The updater never answers \<open>None\<close>.\<close>

definition allocate :: "string \<Rightarrow> int \<Rightarrow> (storage, int) act" where
  "allocate kind candidate =
     bindS (updateRecord (ALLOCATOR_KEY_PREFIX @ kind) LAST_INDEX_FORMAT
              (\<lambda>lastIndex. Inr (Some (nextIndex candidate lastIndex)))) (\<lambda>r.
     doneS (the r))"

definition allocateChannelIndex :: "int \<Rightarrow> (storage, int) act" where
  "allocateChannelIndex nowMs = bindS (liftS (readClock nowMs)) (\<lambda>n. allocate ''channel'' (n div MILLISECONDS_PER_SECOND))"

definition allocateInvoiceIndex :: "int \<Rightarrow> (storage, int) act" where
  "allocateInvoiceIndex nowMs = bindS (liftS (readClock nowMs)) (\<lambda>n. allocate ''invoice'' n)"

section \<open>What the device watches\<close>

datatype activity_kind = ActivityChannel | ActivityPayment | ActivityInvoice

definition ACTIVITY_KINDS :: "activity_kind list" where
  "ACTIVITY_KINDS = [ActivityChannel, ActivityPayment, ActivityInvoice]"

definition ACTIVITY_RECORD_KEY :: string where
  "ACTIVITY_RECORD_KEY = STORAGE_KEY_NAMESPACE @ '':activity''"

fun activityField :: "activity_kind \<Rightarrow> string" where
  "activityField ActivityChannel = ''channels''"
| "activityField ActivityPayment = ''payments''"
| "activityField ActivityInvoice = ''invoices''"

fun activityStatuses :: "activity_kind \<Rightarrow> string list" where
  "activityStatuses ActivityChannel = RPC_CHANNEL_STATE_NAMES"
| "activityStatuses ActivityPayment = RPC_PAYMENT_STATUSES"
| "activityStatuses ActivityInvoice = RPC_INVOICE_STATUSES"

definition isActivityId :: "activity_kind \<Rightarrow> string \<Rightarrow> bool" where
  "isActivityId kind i = (if kind = ActivityChannel then isWireHex (JString i) (Some 32) else isHexBytes i 32)"

definition assertActivityId :: "activity_kind \<Rightarrow> string \<Rightarrow> unit res" where
  "assertActivityId kind i = check (isActivityId kind i) (TypeErr ''id'')"

definition isActivityStatus :: "activity_kind \<Rightarrow> json \<Rightarrow> bool" where
  "isActivityStatus kind v = (case v of JString s \<Rightarrow> s \<in> set (activityStatuses kind) | _ \<Rightarrow> False)"

definition assertActivityStatus :: "activity_kind \<Rightarrow> string \<Rightarrow> unit res" where
  "assertActivityStatus kind status = check (isActivityStatus kind (JString status)) (TypeErr ''status'')"

definition isActivityMap :: "activity_kind \<Rightarrow> json \<Rightarrow> bool" where
  "isActivityMap kind v \<longleftrightarrow> isPlainObject v \<and>
     list_all (\<lambda>(i, entry). isActivityId kind i \<and> isPlainObject entry
       \<and> (at_member entry ''status'' = JNull \<or> isActivityStatus kind (at_member entry ''status''))) (members v)"

definition isActivityRecord :: "json \<Rightarrow> bool" where
  "isActivityRecord v \<longleftrightarrow> isPlainObject v \<and> at_member v ''version'' = JNumber 1
     \<and> list_all (\<lambda>kind. isActivityMap kind (at_member v (activityField kind))) ACTIVITY_KINDS"

definition emptyActivityRecord :: json where
  "emptyActivityRecord =
     JObject [(''version'', JNumber 1), (''channels'', JObject []), (''payments'', JObject []), (''invoices'', JObject [])]"

definition ACTIVITY_RECORD_FORMAT :: "json signer_record_format" where
  "ACTIVITY_RECORD_FORMAT = json_format isActivityRecord"

definition readActivity :: "(storage, json) act" where
  "readActivity =
     bindS (getRecord ACTIVITY_RECORD_KEY ACTIVITY_RECORD_FORMAT) (\<lambda>r.
     doneS (case r of None \<Rightarrow> emptyActivityRecord | Some v \<Rightarrow> v))"

text \<open>Entries handed back unchanged write nothing, an absent record included.\<close>

definition activityUpdate ::
    "activity_kind \<Rightarrow> ((string, json) object \<Rightarrow> (string, json) object res) \<Rightarrow> json option \<Rightarrow> json option res" where
  "activityUpdate kind change current =
     (let v = (case current of None \<Rightarrow> emptyActivityRecord | Some v \<Rightarrow> v);
          listed = members (at_member v (activityField kind))
      in bindR (change listed) (\<lambda>changed.
         Inr (if changed = listed then current else Some (with_member (activityField kind) (JObject changed) v))))"

definition updateActivity ::
    "activity_kind \<Rightarrow> ((string, json) object \<Rightarrow> (string, json) object res) \<Rightarrow> (storage, unit) act" where
  "updateActivity kind change =
     bindS (updateRecord ACTIVITY_RECORD_KEY ACTIVITY_RECORD_FORMAT (activityUpdate kind change)) (\<lambda>_. doneS ())"

definition fresh_entry :: json where
  "fresh_entry = JObject [(''status'', JNull)]"

definition watchUpdate :: "string \<Rightarrow> (string, json) object \<Rightarrow> (string, json) object res" where
  "watchUpdate i listed = Inr (if get listed i = None then put i fresh_entry listed else listed)"

text \<open>Whether this call added the entry is what the updater saw in the record's lane.\<close>

definition watchIfAbsent :: "activity_kind \<Rightarrow> string \<Rightarrow> (storage, bool) act" where
  "watchIfAbsent kind i =
     bindS (liftS (assertActivityId kind i)) (\<lambda>_.
     bindS readActivity (\<lambda>before.
     bindS (updateActivity kind (watchUpdate i)) (\<lambda>_.
     doneS (get (members (at_member before (activityField kind))) i = None))))"

definition watch :: "activity_kind \<Rightarrow> string \<Rightarrow> (storage, unit) act" where
  "watch kind i = bindS (watchIfAbsent kind i) (\<lambda>_. doneS ())"

definition markUpdate :: "string \<Rightarrow> string \<Rightarrow> (string, json) object \<Rightarrow> (string, json) object res" where
  "markUpdate i status listed =
     (case get listed i of
        None \<Rightarrow> Inl (TypeErr ''not being watched'')
      | Some entry \<Rightarrow>
          Inr (if at_member entry ''status'' = JString status then listed
               else put i (with_member ''status'' (JString status) entry) listed))"

definition mark :: "activity_kind \<Rightarrow> string \<Rightarrow> string \<Rightarrow> (storage, unit) act" where
  "mark kind i status =
     bindS (liftS (bindR (assertActivityId kind i) (\<lambda>_. assertActivityStatus kind status))) (\<lambda>_.
     updateActivity kind (markUpdate i status))"

definition forget :: "activity_kind \<Rightarrow> string \<Rightarrow> (storage, unit) act" where
  "forget kind i =
     bindS (liftS (assertActivityId kind i)) (\<lambda>_.
     updateActivity kind (\<lambda>listed. Inr (filter (\<lambda>(j, entry). j \<noteq> i) listed)))"

section \<open>The channels the device opened\<close>

definition DEVICE_CHANNELS_RECORD_KEY :: string where
  "DEVICE_CHANNELS_RECORD_KEY = STORAGE_KEY_NAMESPACE @ '':device-channels''"

fun elements :: "json \<Rightarrow> json list" where
  "elements (JArray vs) = vs"
| "elements _ = []"

definition isDeviceChannelsRecord :: "json \<Rightarrow> bool" where
  "isDeviceChannelsRecord v \<longleftrightarrow> isPlainObject v \<and> at_member v ''version'' = JNumber 1
     \<and> (case at_member v ''channelIds'' of
          JArray ids \<Rightarrow> list_all (\<lambda>i. isWireHex i (Some 32)) ids \<and> distinct ids
        | _ \<Rightarrow> False)"

definition DEVICE_CHANNELS_RECORD_FORMAT :: "json signer_record_format" where
  "DEVICE_CHANNELS_RECORD_FORMAT = json_format isDeviceChannelsRecord"

definition readDeviceChannels :: "(storage, string list) act" where
  "readDeviceChannels =
     bindS (getRecord DEVICE_CHANNELS_RECORD_KEY DEVICE_CHANNELS_RECORD_FORMAT) (\<lambda>r.
     doneS (case r of None \<Rightarrow> [] | Some v \<Rightarrow> map string_of (elements (at_member v ''channelIds''))))"

definition addChannelUpdate :: "string \<Rightarrow> json option \<Rightarrow> json option res" where
  "addChannelUpdate cid current =
     (let ids = (case current of None \<Rightarrow> [] | Some v \<Rightarrow> elements (at_member v ''channelIds'')) in
      Inr (if JString cid \<in> set ids then current
           else Some (JObject [(''version'', JNumber 1), (''channelIds'', JArray (ids @ [JString cid]))])))"

definition addDeviceChannel :: "string \<Rightarrow> (storage, unit) act" where
  "addDeviceChannel cid =
     bindS (liftS (assertActivityId ActivityChannel cid)) (\<lambda>_.
     bindS (updateRecord DEVICE_CHANNELS_RECORD_KEY DEVICE_CHANNELS_RECORD_FORMAT (addChannelUpdate cid)) (\<lambda>_. doneS ()))"

definition removeChannelUpdate :: "string \<Rightarrow> json option \<Rightarrow> json option res" where
  "removeChannelUpdate cid current =
     (case current of
        None \<Rightarrow> Inr None
      | Some v \<Rightarrow>
          let ids = elements (at_member v ''channelIds'') in
          Inr (if JString cid \<notin> set ids then current
               else Some (with_member ''channelIds'' (JArray (filter (\<lambda>i. i \<noteq> JString cid) ids)) v)))"

definition removeDeviceChannel :: "string \<Rightarrow> (storage, unit) act" where
  "removeDeviceChannel cid =
     bindS (liftS (assertActivityId ActivityChannel cid)) (\<lambda>_.
     bindS (updateRecord DEVICE_CHANNELS_RECORD_KEY DEVICE_CHANNELS_RECORD_FORMAT (removeChannelUpdate cid)) (\<lambda>_. doneS ()))"

section \<open>The pending opening\<close>

definition PENDING_OPENING_RECORD_KEY :: string where
  "PENDING_OPENING_RECORD_KEY = STORAGE_KEY_NAMESPACE @ '':opening''"

definition assertUserLockCellDeps :: "cell_dep list option \<Rightarrow> unit res" where
  "assertUserLockCellDeps deps = (case deps of None \<Rightarrow> Inr () | Some ds \<Rightarrow> assertCellDeps ''userLockCellDeps'' ds)"

definition cellDepsRecordOf :: "lib \<Rightarrow> cell_dep list option \<Rightarrow> json" where
  "cellDepsRecordOf L deps =
     (case deps of
        None \<Rightarrow> JUndefined
      | Some ds \<Rightarrow> JArray (map (\<lambda>d. JObject
          [(''txHash'', JString (bytesToHex L (txHash (outPoint d)))), (''index'', JNumber (index (outPoint d))),
           (''depType'', JString (dep_type_name (depType d)))]) ds))"

definition is_hex_bytes_json :: "json \<Rightarrow> nat \<Rightarrow> bool" where
  "is_hex_bytes_json v n = (case v of JString s \<Rightarrow> isHexBytes s n | _ \<Rightarrow> False)"

definition is_unsigned_json :: "json \<Rightarrow> int \<Rightarrow> bool" where
  "is_unsigned_json v m = (case v of JNumber n \<Rightarrow> isUnsignedInteger n m | _ \<Rightarrow> False)"

definition isCellDepsRecord :: "json \<Rightarrow> bool" where
  "isCellDepsRecord v =
     (case v of
        JArray ds \<Rightarrow> list_all (\<lambda>d. isPlainObject d \<and> is_hex_bytes_json (at_member d ''txHash'') 32
          \<and> is_unsigned_json (at_member d ''index'') UINT32_MAX
          \<and> at_member d ''depType'' \<in> (JString \<circ> fst) ` set dep_type_named) ds
      | _ \<Rightarrow> False)"

definition sameCellDeps :: "json \<Rightarrow> json \<Rightarrow> bool" where
  "sameCellDeps a b =
     (if a = JUndefined \<or> b = JUndefined then a = b
      else length (elements a) = length (elements b)
        \<and> list_all2 (\<lambda>d other. \<forall>name \<in> {''txHash'', ''index'', ''depType''}. at_member d name = at_member other name)
            (elements a) (elements b))"

definition isLockHex :: "lib \<Rightarrow> json \<Rightarrow> bool" where
  "isLockHex L v =
     (case v of
        JString s \<Rightarrow> isNonEmptyHexBytes s
          \<and> (case decodeMoleculeScript (hexToBytes L s) ''userLock'' of Inr sc \<Rightarrow> True | Inl e \<Rightarrow> False)
      | _ \<Rightarrow> False)"

definition isPendingOpening :: "lib \<Rightarrow> json \<Rightarrow> bool" where
  "isPendingOpening L v \<longleftrightarrow> isPlainObject v
     \<and> is_unsigned_json (at_member v ''channelIndex'') MAX_CHANNEL_INDEX
     \<and> (case at_member v ''fundedShannons'' of JString s \<Rightarrow> isDecimalShannons s | _ \<Rightarrow> False)
     \<and> isLockHex L (at_member v ''userLock'')
     \<and> (at_member v ''userLockCellDeps'' = JUndefined \<or> isCellDepsRecord (at_member v ''userLockCellDeps''))
     \<and> (at_member v ''channelId'' = JNull \<or> isWireHex (at_member v ''channelId'') (Some 32))"

definition isPendingOpeningRecord :: "lib \<Rightarrow> json \<Rightarrow> bool" where
  "isPendingOpeningRecord L v \<longleftrightarrow> isPlainObject v \<and> at_member v ''version'' = JNumber 1
     \<and> (at_member v ''opening'' = JNull \<or> isPendingOpening L (at_member v ''opening''))"

definition PENDING_OPENING_FORMAT :: "lib \<Rightarrow> json signer_record_format" where
  "PENDING_OPENING_FORMAT L = json_format (isPendingOpeningRecord L)"

text \<open>\<open>None\<close> is no opening, a record whose opening is \<^verbatim>\<open>null\<close> included.\<close>

definition openingOf :: "json option \<Rightarrow> json option" where
  "openingOf current =
     (case current of None \<Rightarrow> None | Some v \<Rightarrow> if at_member v ''opening'' = JNull then None else Some (at_member v ''opening''))"

definition readOpening :: "lib \<Rightarrow> (storage, json option) act" where
  "readOpening L = bindS (getRecord PENDING_OPENING_RECORD_KEY (PENDING_OPENING_FORMAT L)) (\<lambda>r. doneS (openingOf r))"

definition readMatching :: "lib \<Rightarrow> string \<Rightarrow> script \<Rightarrow> cell_dep list option \<Rightarrow> (storage, json option) act" where
  "readMatching L funded userLock deps =
     bindS (liftS (bindR (moleculeScript ''userLock'' userLock) (\<lambda>b.
                   bindR (assertUserLockCellDeps deps) (\<lambda>_. Inr (bytesToHex L b))))) (\<lambda>lockHex.
     bindS (readOpening L) (\<lambda>opening.
     doneS (case opening of
        None \<Rightarrow> None
      | Some v \<Rightarrow>
          if at_member v ''fundedShannons'' \<noteq> JString funded \<or> at_member v ''userLock'' \<noteq> JString lockHex then None
          else if sameCellDeps (at_member v ''userLockCellDeps'') (cellDepsRecordOf L deps) then Some v else None)))"

definition openingRecord :: "json \<Rightarrow> json" where
  "openingRecord opening = JObject [(''version'', JNumber 1), (''opening'', opening)]"

definition writeOpening :: "lib \<Rightarrow> int \<Rightarrow> string \<Rightarrow> script \<Rightarrow> cell_dep list option \<Rightarrow> (storage, json) act" where
  "writeOpening L channelIndex funded userLock deps =
     bindS (liftS (bindR (assertUnsignedInteger ''channelIndex'' channelIndex MAX_CHANNEL_INDEX) (\<lambda>_.
                   bindR (assertDecimalShannons ''fundedShannons'' funded) (\<lambda>_.
                   bindR (moleculeScript ''userLock'' userLock) (\<lambda>b.
                   bindR (assertUserLockCellDeps deps) (\<lambda>_. Inr (bytesToHex L b))))))) (\<lambda>lockHex.
     let opening = JObject
           ([(''channelIndex'', JNumber channelIndex), (''fundedShannons'', JString funded), (''userLock'', JString lockHex)]
            @ (if deps = None then [] else [(''userLockCellDeps'', cellDepsRecordOf L deps)]) @ [(''channelId'', JNull)]) in
     bindS (updateRecord PENDING_OPENING_RECORD_KEY (PENDING_OPENING_FORMAT L) (\<lambda>current. Inr (Some (openingRecord opening)))) (\<lambda>_.
     doneS opening))"

definition setChannelIdUpdate :: "int \<Rightarrow> string \<Rightarrow> json option \<Rightarrow> json option res" where
  "setChannelIdUpdate channelIndex cid current =
     Inr (case openingOf current of
        None \<Rightarrow> current
      | Some opening \<Rightarrow>
          if at_member opening ''channelIndex'' \<noteq> JNumber channelIndex \<or> at_member opening ''channelId'' = JString cid then current
          else Some (with_member ''opening'' (with_member ''channelId'' (JString cid) opening) (the current)))"

definition setChannelId :: "lib \<Rightarrow> int \<Rightarrow> string \<Rightarrow> (storage, unit) act" where
  "setChannelId L channelIndex cid =
     bindS (liftS (bindR (assertUnsignedInteger ''channelIndex'' channelIndex MAX_CHANNEL_INDEX) (\<lambda>_.
                   assertActivityId ActivityChannel cid))) (\<lambda>_.
     bindS (updateRecord PENDING_OPENING_RECORD_KEY (PENDING_OPENING_FORMAT L) (setChannelIdUpdate channelIndex cid)) (\<lambda>_. doneS ()))"

definition clearUpdate :: "(json \<Rightarrow> bool) \<Rightarrow> json option \<Rightarrow> json option res" where
  "clearUpdate sought current =
     Inr (case openingOf current of
        None \<Rightarrow> current
      | Some opening \<Rightarrow> if \<not> sought opening then current else Some (with_member ''opening'' JNull (the current)))"

definition clearWhere :: "lib \<Rightarrow> (json \<Rightarrow> bool) \<Rightarrow> (storage, unit) act" where
  "clearWhere L sought =
     bindS (updateRecord PENDING_OPENING_RECORD_KEY (PENDING_OPENING_FORMAT L) (clearUpdate sought)) (\<lambda>_. doneS ())"

definition clearOpening :: "lib \<Rightarrow> string \<Rightarrow> (storage, unit) act" where
  "clearOpening L cid =
     bindS (liftS (assertActivityId ActivityChannel cid)) (\<lambda>_.
     clearWhere L (\<lambda>opening. at_member opening ''channelId'' = JString cid))"

definition clearIndex :: "lib \<Rightarrow> int \<Rightarrow> (storage, unit) act" where
  "clearIndex L channelIndex =
     bindS (liftS (assertUnsignedInteger ''channelIndex'' channelIndex MAX_CHANNEL_INDEX)) (\<lambda>_.
     clearWhere L (\<lambda>opening. at_member opening ''channelIndex'' = JNumber channelIndex))"

section \<open>The record of a channel, as the sdk shows it\<close>

definition projectChannelEvidence :: "channel_policy_record \<Rightarrow> sdk_channel_evidence" where
  "projectChannelEvidence r =
     \<lparr> ev_revocations = map (\<lambda>e. (re_version e, True, wireHexOf (re_signature e))) (revocations r),
       ev_localCommitment = commitmentEvidenceOf (get (commitmentHashes r) local_view),
       ev_remoteCommitment = commitmentEvidenceOf (get (commitmentHashes r) remote_view),
       ev_watchtowerSignatures = concat (map (\<lambda>s. case ws_signature s of
            None \<Rightarrow> []
          | Some signature \<Rightarrow> [(wireHexOf (ws_requestId s), ws_purpose s, wireHexOf signature, ws_applied s)])
          (case watchtowerSpends r of None \<Rightarrow> [] | Some ss \<Rightarrow> ss)) \<rparr>"

definition readSdkChannelRecord :: "lib \<Rightarrow> string \<Rightarrow> (storage, channel_policy_record) act" where
  "readSdkChannelRecord L cid =
     bindS (liftS (assertWireHexBytes ''channelId'' (JString cid) 32)) (\<lambda>_.
     bindS (resolveChannelIndex cid) (\<lambda>channelIndex.
     case channelIndex of
       None \<Rightarrow> liftS (Inl (HostErr ''unknown_channel''))
     | Some i \<Rightarrow>
         bindS (getChannelRecord L i) (\<lambda>r.
         case r of None \<Rightarrow> liftS (Inl missingPolicyRecord) | Some v \<Rightarrow> doneS v)))"

definition readSdkChannelEvidence :: "lib \<Rightarrow> string \<Rightarrow> (storage, sdk_channel_evidence) act" where
  "readSdkChannelEvidence L cid = bindS (readSdkChannelRecord L cid) (\<lambda>r. doneS (projectChannelEvidence r))"

end
