(* ===== verification/SdkFlows.thy ===== *)
theory SdkFlows
  imports SdkRecords Dispatch
begin

text \<open>
  The calls of the host of module \<^verbatim>\<open>sdk\<close>: opening a channel, closing it, listing, an invoice, a payment, a
  registration. A call moves a world: the device's storage, the client of the node, and what this instance
  keeps in memory. The clock and the node are parameters: the clock answers its \<open>k\<close>-th reading, the node a
  request by its text, which carries the number of the call. The calls of the node are traced in order.
\<close>

section \<open>The world of an instance\<close>

datatype sdk_event =
    EventChannelReady string
  | EventChannelClosed string
  | EventPaymentSent string
  | EventPaymentFailed string string
  | EventPaymentPending string
  | EventPaymentReceived string
  | EventPaymentExpired string
  | EventSigned string json channel_signing_transition "int option" bool  \<comment> \<open>the last: a warning\<close>
  | EventSigningRefused string "json option" "channel_signing_transition option" "int option" signer_error_code string
  | EventWatchtowerSigned string json watchtower_key_purpose
  | EventWatchtowerRefused string "json option" "watchtower_key_purpose option" signer_error_code string
  | EventPollFailed string string

datatype node_call =
    CallOpenTenantChannel open_tenant_channel_params
  | CallSubmitSignedFundingTx string transaction
  | CallShutdownChannel shutdown_channel_params
  | CallListChannels "list_channels_filter option"
  | CallListChannelStates "list_channels_filter option"
  | CallNewInvoice new_invoice_params
  | CallGetInvoice bytes
  | CallSettleInvoice bytes bytes
  | CallSendPayment send_payment_params
  | CallGetPayment bytes
  | CallGetChannelSigningStatus string
  | CallSubmitChannelSignature submit_channel_signature_params
  | CallGetWatchtowerSigningStatus string
  | CallSubmitWatchtowerSignature submit_watchtower_signature_params

record sdk_world =
  wd_storage :: storage
  wd_client :: fiber_rpc_client
  wd_sending :: "string list"
  wd_reading :: "string list"
  wd_calls :: "node_call list"
  wd_events :: "sdk_event list"
  wd_polls :: nat  \<comment> \<open>how often \<^verbatim>\<open>pollNow\<close> was called\<close>
  wd_clockReads :: nat
  wd_runReads :: nat  \<comment> \<open>how often a step has read whether its run is abandoned\<close>

record sdk_context =
  cx_lib :: lib
  cx_musig :: musig
  cx_curve :: invoice_curve
  cx_host :: host
  cx_network :: sdk_network_config
  cx_lspPubkey :: bytes
  cx_masterSeed :: bytes
  cx_identity :: tenant_identity
  cx_dispatch :: signer_dispatch
  cx_now :: "nat \<Rightarrow> int"
  cx_abandoned :: "nat \<Rightarrow> bool"  \<comment> \<open>what the \<open>k\<close>-th reading of \<^verbatim>\<open>run.abandoned\<close> answers\<close>

type_synonym 'a sdk = "sdk_world \<Rightarrow> (rpc_failure + 'a) \<times> sdk_world"

definition bindW :: "'a sdk \<Rightarrow> ('a \<Rightarrow> 'b sdk) \<Rightarrow> 'b sdk" where
  "bindW m f w = (case m w of (Inl e, w') \<Rightarrow> (Inl e, w') | (Inr x, w') \<Rightarrow> f x w')"

definition doneW :: "'a \<Rightarrow> 'a sdk" where
  "doneW x w = (Inr x, w)"

definition failW :: "rpc_failure \<Rightarrow> 'a sdk" where
  "failW e w = (Inl e, w)"

definition catchW :: "'a sdk \<Rightarrow> (rpc_failure \<Rightarrow> 'a sdk) \<Rightarrow> 'a sdk" where
  "catchW m f w = (case m w of (Inl e, w') \<Rightarrow> f e w' | (Inr x, w') \<Rightarrow> (Inr x, w'))"

definition finallyW :: "'a sdk \<Rightarrow> (sdk_world \<Rightarrow> sdk_world) \<Rightarrow> 'a sdk" where
  "finallyW m f w = (case m w of (r, w') \<Rightarrow> (r, f w'))"

definition changeW :: "(sdk_world \<Rightarrow> sdk_world) \<Rightarrow> unit sdk" where
  "changeW f w = (Inr (), f w)"

definition askW :: "(sdk_world \<Rightarrow> 'a) \<Rightarrow> 'a sdk" where
  "askW f w = (Inr (f w), w)"

definition failure :: "error \<Rightarrow> rpc_failure" where
  "failure e = RpcOtherError e"

definition liftW :: "'a res \<Rightarrow> 'a sdk" where
  "liftW r = (case r of Inl e \<Rightarrow> failW (failure e) | Inr x \<Rightarrow> doneW x)"

definition onStore :: "(storage, 'a) act \<Rightarrow> 'a sdk" where
  "onStore m w =
     (case m (wd_storage w) of
        (Inl e, st) \<Rightarrow> (Inl (failure e), w\<lparr> wd_storage := st \<rparr>)
      | (Inr x, st) \<Rightarrow> (Inr x, w\<lparr> wd_storage := st \<rparr>))"

definition onNode :: "node_call \<Rightarrow> (fiber_rpc_client \<Rightarrow> (rpc_failure + 'a) \<times> fiber_rpc_client) \<Rightarrow> 'a sdk" where
  "onNode c m w =
     (case m (wd_client w) of
        (r, client) \<Rightarrow> (r, w\<lparr> wd_client := client, wd_calls := wd_calls w @ [c] \<rparr>))"

text \<open>A reader of invoices always returns, so \<open>None\<close> is no case.\<close>

definition liftReader :: "'a res option \<Rightarrow> 'a sdk" where
  "liftReader r = (case r of None \<Rightarrow> failW (failure (OtherErr ''never'')) | Some x \<Rightarrow> liftW x)"

definition nowW :: "sdk_context \<Rightarrow> int sdk" where
  "nowW cx w = (Inr (cx_now cx (wd_clockReads w)), w\<lparr> wd_clockReads := wd_clockReads w + 1 \<rparr>)"

definition readSdkClockW :: "sdk_context \<Rightarrow> int sdk" where
  "readSdkClockW cx = bindW (nowW cx) (\<lambda>n. liftW (readSdkClock n))"

definition pollNow :: "unit sdk" where
  "pollNow = changeW (\<lambda>w. w\<lparr> wd_polls := wd_polls w + 1 \<rparr>)"

definition emitSdkEvent :: "sdk_event \<Rightarrow> unit sdk" where
  "emitSdkEvent e = changeW (\<lambda>w. w\<lparr> wd_events := wd_events w @ [e] \<rparr>)"

text \<open>An \<^verbatim>\<open>SdkError\<close> made of a caught failure keeps the code.\<close>

definition sdkError :: "string \<Rightarrow> rpc_failure" where
  "sdkError code = failure (HostErr code)"

section \<open>The tenant\<close>

definition signTenantRegistration :: "sdk_context \<Rightarrow> bytes \<Rightarrow> int \<Rightarrow> (tenant_registry_payload \<times> bytes \<times> string) res" where
  "signTenantRegistration cx requestId signedAtMs =
     bindR (assertBytes ''request.requestId'' requestId 32) (\<lambda>_.
     bindR (assertUnsignedBigInt ''request.signedAtMs'' signedAtMs UINT64_MAX) (\<lambda>_.
     bindR (signRegistration (cx_lib cx) (cx_musig cx) (cx_identity cx) (cx_lspPubkey cx) requestId signedAtMs) (\<lambda>(payload, signature).
     Inr (payload, signature, ti_tenantId (cx_identity cx)))))"

definition setBiscuitToken :: "string \<Rightarrow> unit sdk" where
  "setBiscuitToken token w =
     (case setToken (wd_client w) token of
        Inl e \<Rightarrow> (Inl (failure e), w) | Inr c \<Rightarrow> (Inr (), w\<lparr> wd_client := c \<rparr>))"

section \<open>Creating an invoice\<close>

definition createSdkInvoice :: "sdk_context \<Rightarrow> string \<Rightarrow> sdk_invoice_options option \<Rightarrow> (string \<times> string) sdk" where
  "createSdkInvoice cx amountShannons options =
     (let L = cx_lib cx in
      bindW (liftW (readInvoiceArguments amountShannons options)) (\<lambda>(expirySeconds, description).
      bindW (nowW cx) (\<lambda>nowMs.
      bindW (onStore (allocateInvoiceIndex nowMs)) (\<lambda>invoiceIndex.
      bindW (liftW (holdInvoicePaymentHash L (cx_masterSeed cx) invoiceIndex)) (\<lambda>paymentHash.
      let paymentHashHex = bytesToHex L paymentHash in
      bindW (onStore (recordHoldInvoice L paymentHashHex amountShannons CkbHash invoiceIndex)) (\<lambda>_.
      let params = \<lparr> ni_amountShannons = amountShannons, ni_currency = nc_invoiceCurrency (cx_network cx),
                     ni_paymentHash = paymentHash, ni_hashAlgorithm = CkbHash, ni_expirySeconds = expirySeconds,
                     ni_finalExpiryDeltaMs = SDK_INVOICE_FINAL_EXPIRY_DELTA_MS, ni_description = description \<rparr> in
      bindW (onNode (CallNewInvoice params) (newInvoice L (cx_host cx) params)) (\<lambda>invoiceAddress.
      bindW (readSdkClockW cx) (\<lambda>answeredMs.
      bindW (liftReader (checkTenantInvoice L (cx_curve cx) invoiceAddress params (cx_lspPubkey cx) answeredMs)) (\<lambda>_.
      bindW (onStore (watch ActivityInvoice paymentHashHex)) (\<lambda>_.
      doneW (invoiceAddress, ''0x'' @ paymentHashHex)))))))))))"

section \<open>Paying an invoice\<close>

record payment_to_send =
  ps_encodedInvoice :: string
  ps_paymentHashHex :: string
  ps_payeePublicKey :: bytes
  ps_maxFeeShannons :: string
  ps_budgetShannons :: string

record sdk_payment =
  sy_paymentHashHex :: string
  sy_amountShannons :: string
  sy_maxFeeShannons :: string

definition paymentInFlight :: rpc_failure where
  "paymentInFlight = sdkError ''payment_in_flight''"

text \<open>The codes of a \<^verbatim>\<open>DebitIntentError\<close>, and the code the host is answered.\<close>

definition DEBIT_INTENT_REFUSALS :: "(string, string) object" where
  "DEBIT_INTENT_REFUSALS =
     [(''intent_open'', ''payment_in_flight''), (''intent_charged'', ''payment_charged''), (''own_invoice'', ''own_invoice''),
      (''hash_twin'', ''invoice_unpayable'')]"

definition recordPaymentIntent :: "sdk_context \<Rightarrow> string \<Rightarrow> string \<Rightarrow> unit sdk" where
  "recordPaymentIntent cx paymentHashHex budgetShannons =
     catchW (onStore (recordDebitIntent (cx_lib cx) paymentHashHex budgetShannons)) (\<lambda>e.
       case e of
         RpcOtherError (HostErr code) \<Rightarrow>
           (case get DEBIT_INTENT_REFUSALS code of
              None \<Rightarrow> failW e
            | Some refused \<Rightarrow>
                bindW (if code \<noteq> ''intent_open'' then onStore (forget ActivityPayment paymentHashHex) else doneW ()) (\<lambda>_.
                failW (sdkError refused)))
       | _ \<Rightarrow> failW e)"

text \<open>What \<^verbatim>\<open>send_payment\<close> failed with decides whether the intent and the watch are kept.\<close>

definition answerSendFailure :: "sdk_context \<Rightarrow> string \<Rightarrow> rpc_failure \<Rightarrow> unit sdk" where
  "answerSendFailure cx paymentHashHex e =
     (if isFiberRefusalUnderHash e SDK_PAYMENT_SESSION_EXISTS_ERRORS paymentHashHex
      then failW (sdkError ''payment_in_flight'')
      else
        bindW (case e of
                 RpcError method code message \<Rightarrow>
                   if \<not> isFiberRefusal e (fst SDK_ACTOR_REPLY_LOST_ERROR) (snd SDK_ACTOR_REPLY_LOST_ERROR)
                   then bindW (onStore (closeDebitIntent (cx_lib cx) paymentHashHex)) (\<lambda>_.
                        onStore (forget ActivityPayment paymentHashHex))
                   else doneW ()
               | _ \<Rightarrow> doneW ()) (\<lambda>_. failW e))"

definition sendWatchedPayment :: "sdk_context \<Rightarrow> payment_to_send \<Rightarrow> unit sdk" where
  "sendWatchedPayment cx p =
     bindW (onStore (watchIfAbsent ActivityPayment (ps_paymentHashHex p))) (\<lambda>added.
     if \<not> added then failW paymentInFlight
     else
       bindW (recordPaymentIntent cx (ps_paymentHashHex p) (ps_budgetShannons p)) (\<lambda>_.
       let params = \<lparr> sp_invoice = ps_encodedInvoice p, sp_maxFeeAmountShannons = ps_maxFeeShannons p, sp_dryRun = False,
                      sp_trampolineHops = (if ps_payeePublicKey p = cx_lspPubkey cx then [] else [cx_lspPubkey cx]) \<rparr> in
       catchW
         (bindW (onNode (CallSendPayment params) (sendPayment (cx_lib cx) (cx_host cx) params)) (\<lambda>_. doneW ()))
         (answerSendFailure cx (ps_paymentHashHex p))))"

definition transferSdkPayment :: "sdk_context \<Rightarrow> string \<Rightarrow> string option option \<Rightarrow> sdk_payment sdk" where
  "transferSdkPayment cx encodedInvoice options =
     bindW (liftW (readTransferArguments options)) (\<lambda>askedMaxFeeShannons.
     bindW (readSdkClockW cx) (\<lambda>nowMs.
     bindW (liftReader (checkPayableInvoice (cx_lib cx) (cx_curve cx) encodedInvoice (nc_invoiceCurrency (cx_network cx)) nowMs)) (\<lambda>payable.
     let maxFeeShannons = (case askedMaxFeeShannons of None \<Rightarrow> defaultMaxFeeShannons (py_amountShannons payable) | Some m \<Rightarrow> m) in
     bindW (liftW (debitBudgetShannons (py_amountShannons payable) maxFeeShannons)) (\<lambda>budgetShannons.
     let paymentHashHex = bytesToHex (cx_lib cx) (py_paymentHash payable) in
     bindW (askW (\<lambda>w. paymentHashHex \<in> set (wd_sending w) \<or> paymentHashHex \<in> set (wd_reading w))) (\<lambda>busy.
     if busy then failW paymentInFlight
     else
       bindW (changeW (\<lambda>w. w\<lparr> wd_sending := wd_sending w @ [paymentHashHex] \<rparr>)) (\<lambda>_.
       bindW (finallyW
                (sendWatchedPayment cx
                  \<lparr> ps_encodedInvoice = encodedInvoice, ps_paymentHashHex = paymentHashHex, ps_payeePublicKey = py_payeePublicKey payable,
                    ps_maxFeeShannons = maxFeeShannons, ps_budgetShannons = budgetShannons \<rparr>)
                (\<lambda>w. w\<lparr> wd_sending := filter (\<lambda>h. h \<noteq> paymentHashHex) (wd_sending w) \<rparr>)) (\<lambda>_.
       bindW pollNow (\<lambda>_.
       doneW \<lparr> sy_paymentHashHex = ''0x'' @ paymentHashHex, sy_amountShannons = py_amountShannons payable,
               sy_maxFeeShannons = maxFeeShannons \<rparr>))))))))"

section \<open>Closing and listing channels\<close>

definition closeSdkChannel :: "sdk_context \<Rightarrow> string \<Rightarrow> int option option \<Rightarrow> unit sdk" where
  "closeSdkChannel cx cid options =
     bindW (liftW (readCloseArguments cid options)) (\<lambda>feeRate.
     bindW (onStore (readSdkChannelRecord (cx_lib cx) cid)) (\<lambda>r.
     bindW (liftW (checkCloseFee (cx_lib cx) (cx_network cx) (pins r) feeRate)) (\<lambda>closeScript.
     let params = \<lparr> sd_channelId = cid, sd_closeScript = Some closeScript, sd_feeRate = feeRate, sd_force = None \<rparr> in
     bindW (onNode (CallShutdownChannel params) (shutdownChannel (cx_lib cx) (cx_host cx) params)) (\<lambda>_.
     pollNow))))"

record sdk_channel_info =
  si_channelId :: string
  si_state :: string
  si_localBalanceShannons :: string
  si_remoteBalanceShannons :: string
  si_offeredTlcBalanceShannons :: string
  si_receivedTlcBalanceShannons :: string
  si_hasRecord :: bool

definition channelInfo :: "rpc_channel \<Rightarrow> (storage, sdk_channel_info) act" where
  "channelInfo c =
     bindS (resolveChannelIndex (rc_channelId c)) (\<lambda>i.
     doneS \<lparr> si_channelId = rc_channelId c, si_state = SDK_CHANNEL_STATE_OF (cs_name (rc_state c)),
             si_localBalanceShannons = rc_localBalanceShannons c, si_remoteBalanceShannons = rc_remoteBalanceShannons c,
             si_offeredTlcBalanceShannons = rc_offeredTlcBalanceShannons c,
             si_receivedTlcBalanceShannons = rc_receivedTlcBalanceShannons c, si_hasRecord = (i \<noteq> None) \<rparr>)"

definition listSdkChannels :: "sdk_context \<Rightarrow> sdk_channel_info list sdk" where
  "listSdkChannels cx =
     bindW (onNode (CallListChannels (Some IncludeClosed)) (listChannels (cx_lib cx) (cx_host cx) (Some IncludeClosed))) (\<lambda>cs.
     onStore (mapS channelInfo cs))"

section \<open>Opening a channel\<close>

record opening_arguments =
  oa_amountShannons :: string
  oa_userLock :: script
  oa_userLockCellDeps :: "cell_dep list option"

record sdk_channel_opening =
  co_channelId :: string
  co_unsignedFundingTx :: transaction
  co_openingContext :: tenant_opening_context

definition assertOpeningArguments :: "string \<Rightarrow> script \<Rightarrow> unit res" where
  "assertOpeningArguments amountShannons userLock =
     bindR (assertDecimalShannons ''amountShannons'' amountShannons) (\<lambda>_.
     bindR (assertScript ''userLock'' userLock) (\<lambda>_.
     bindR (assertChannelOpening amountShannons userLock) (\<lambda>_. Inr ())))"

definition copyOpeningArguments :: "string \<Rightarrow> script \<Rightarrow> cell_dep list option \<Rightarrow> opening_arguments" where
  "copyOpeningArguments amountShannons userLock deps =
     \<lparr> oa_amountShannons = amountShannons, oa_userLock = userLock,
       oa_userLockCellDeps = (if deps = None \<or> deps = Some [] then None else deps) \<rparr>"

text \<open>A pending opening as the record holds it; its channel index and funded amount are what the guard read.\<close>

definition opening_index :: "json \<Rightarrow> int" where
  "opening_index v = (case at_member v ''channelIndex'' of JNumber n \<Rightarrow> n | _ \<Rightarrow> 0)"

definition opening_funded :: "json \<Rightarrow> string" where
  "opening_funded v = string_of (at_member v ''fundedShannons'')"

definition dropOpening :: "sdk_context \<Rightarrow> json \<Rightarrow> unit sdk" where
  "dropOpening cx opening = onStore (clearIndex (cx_lib cx) (opening_index opening))"

text \<open>The refusal is thrown whether or not the opening could be dropped.\<close>

definition refuseOpening :: "sdk_context \<Rightarrow> json \<Rightarrow> rpc_failure \<Rightarrow> 'a sdk" where
  "refuseOpening cx opening refusal =
     bindW (catchW (dropOpening cx opening) (\<lambda>e. doneW ())) (\<lambda>_. failW refusal)"

definition resumableOpening :: "sdk_context \<Rightarrow> opening_arguments \<Rightarrow> json option sdk" where
  "resumableOpening cx a =
     bindW (onStore (readMatching (cx_lib cx) (oa_amountShannons a) (oa_userLock a) (oa_userLockCellDeps a))) (\<lambda>opening.
     case opening of
       None \<Rightarrow> doneW None
     | Some v \<Rightarrow>
         if at_member v ''channelId'' = JNull then doneW (Some v)
         else
           bindW (onNode (CallListChannelStates (Some OnlyPending)) (listChannelStates (cx_host cx) (Some OnlyPending))) (\<lambda>pending.
           if \<not> list_ex (\<lambda>c. JString (lc_channelId c) = at_member v ''channelId'' \<and> lc_stateName c = ''Closed'') pending
           then doneW (Some v)
           else bindW (dropOpening cx v) (\<lambda>_. doneW None)))"

definition startOpening :: "sdk_context \<Rightarrow> opening_arguments \<Rightarrow> json sdk" where
  "startOpening cx a =
     bindW (nowW cx) (\<lambda>nowMs.
     bindW (onStore (allocateChannelIndex nowMs)) (\<lambda>channelIndex.
     onStore (writeOpening (cx_lib cx) channelIndex (oa_amountShannons a) (oa_userLock a) (oa_userLockCellDeps a))))"

text \<open>The errors of the policy that are the node's answer, not the store's.\<close>

definition isOpeningConflict :: "rpc_failure \<Rightarrow> bool" where
  "isOpeningConflict e =
     (case e of
        RpcOtherError (HostErr s) \<Rightarrow> startsWith s ''ChannelRegistrationError'' \<or> startsWith s ''ChannelPinError''
      | _ \<Rightarrow> False)"

definition isPinConflict :: "rpc_failure \<Rightarrow> bool" where
  "isPinConflict e = (case e of RpcOtherError (HostErr s) \<Rightarrow> startsWith s ''ChannelPinError'' | _ \<Rightarrow> False)"

definition pinOpening :: "sdk_context \<Rightarrow> json \<Rightarrow> script \<Rightarrow> open_tenant_channel_result \<Rightarrow> sdk_opening_pins \<Rightarrow> unit sdk" where
  "pinOpening cx opening userLock result ps =
     (let L = cx_lib cx; cid = or_channelId result in
      bindW (catchW
        (bindW (onStore (registerChannel L cid (opening_index opening) (opening_funded opening) userLock)) (\<lambda>_.
         bindW (onStore (pinChannelTerms L cid (op_terms ps))) (\<lambda>_.
         bindW (liftW (computeTxHash L (or_unsignedFundingTx result))) (\<lambda>h.
         onStore (pinFundingCell L cid \<lparr> txHash = h, index = int FUNDING_OUTPUT_INDEX \<rparr> (op_fundingCapacityShannons ps))))))
        (\<lambda>e. if isOpeningConflict e then refuseOpening cx opening (sdkError ''opening_conflict'') else failW e)) (\<lambda>_.
      bindW (onStore (watch ActivityChannel cid)) (\<lambda>_. onStore (addDeviceChannel cid))))"

definition openWithNode :: "sdk_context \<Rightarrow> opening_arguments \<Rightarrow> sdk_channel_opening sdk" where
  "openWithNode cx a =
     (let L = cx_lib cx in
      bindW (bindW (resumableOpening cx a) (\<lambda>resumed. case resumed of Some v \<Rightarrow> doneW v | None \<Rightarrow> startOpening cx a)) (\<lambda>opening.
      bindW (liftW (prepareChannelOpen L (cx_musig cx) (cx_dispatch cx) (opening_index opening) (oa_amountShannons a)
                     (oa_userLock a))) (\<lambda>(i, funded, closeScript, material).
      let params = \<lparr> ot_peerPubkey = cx_lspPubkey cx, ot_fundingAmountShannons = oa_amountShannons a,
                     ot_shutdownScript = oa_userLock a, ot_fundingLockScript = oa_userLock a,
                     ot_fundingLockScriptCellDeps = oa_userLockCellDeps a,
                     ot_commitmentDelayEpoch = Some DEFAULT_COMMITMENT_DELAY_EPOCH,
                     ot_commitmentFeeRate = Some DEFAULT_COMMITMENT_FEE_RATE, ot_signerMaterial = material \<rparr> in
      bindW (onNode (CallOpenTenantChannel params) (openTenantChannel L (cx_host cx) params)) (\<lambda>result.
      bindW (case checkTenantOpening L
                 \<lparr> sq_fundedShannons = oa_amountShannons a, sq_userLock = oa_userLock a,
                   sq_commitmentDelayEpoch = DEFAULT_COMMITMENT_DELAY_EPOCH, sq_commitmentFeeRate = DEFAULT_COMMITMENT_FEE_RATE,
                   sq_fundingPubkey = om_fundingPubkey material, sq_tlcBasePubkey = om_tlcBaseKey material,
                   sq_fundingLock = nc_fundingLock (cx_network cx) \<rparr> result of
               Inl e \<Rightarrow> refuseOpening cx opening (failure e)
             | Inr ps \<Rightarrow> doneW ps) (\<lambda>ps.
      bindW (onStore (setChannelId L (opening_index opening) (or_channelId result))) (\<lambda>_.
      bindW (pinOpening cx opening (oa_userLock a) result ps) (\<lambda>_.
      doneW \<lparr> co_channelId = or_channelId result, co_unsignedFundingTx = or_unsignedFundingTx result,
              co_openingContext = or_openingContext result \<rparr>)))))))"

definition prepareSdkChannelOpen :: "sdk_context \<Rightarrow> string \<Rightarrow> script \<Rightarrow> cell_dep list option \<Rightarrow> sdk_channel_opening sdk" where
  "prepareSdkChannelOpen cx amountShannons userLock deps =
     bindW (liftW (assertOpeningArguments amountShannons userLock)) (\<lambda>_.
     bindW (liftW (assertUserLockCellDeps deps)) (\<lambda>_.
     openWithNode cx (copyOpeningArguments amountShannons userLock deps)))"

definition hashSignedFundingTx :: "lib \<Rightarrow> transaction \<Rightarrow> bytes res" where
  "hashSignedFundingTx L signedTx =
     (case computeTxHash L signedTx of Inl e \<Rightarrow> Inl (TypeErr ''signedTx is not a transaction'') | Inr h \<Rightarrow> Inr h)"

definition submitSdkFundingTx :: "sdk_context \<Rightarrow> string \<Rightarrow> transaction \<Rightarrow> unit sdk" where
  "submitSdkFundingTx cx cid signedTx =
     (let L = cx_lib cx in
      bindW (liftW (assertWireHexBytes ''channelId'' (JString cid) 32)) (\<lambda>_.
      bindW (liftW (hashSignedFundingTx L signedTx)) (\<lambda>h.
      bindW (onStore (readSdkChannelRecord L cid)) (\<lambda>r.
      case (get (pinned (pins r)) P_fundingOutPoint, get (pinned (pins r)) P_fundingCapacityShannons) of
        (Some _, Some capacity) \<Rightarrow>
          bindW (catchW (onStore (pinFundingCell L cid \<lparr> txHash = h, index = int FUNDING_OUTPUT_INDEX \<rparr> capacity)) (\<lambda>e.
            if isPinConflict e then failW (sdkError ''funding_tx_altered'') else failW e)) (\<lambda>_.
          bindW (onNode (CallSubmitSignedFundingTx cid signedTx) (submitSignedFundingTx L (cx_host cx) cid signedTx)) (\<lambda>_.
          doneW ()))
      | _ \<Rightarrow> failW (sdkError ''funding_tx_altered'')))))"

text \<open>The host's signer is a parameter.\<close>

definition openSdkChannel ::
    "sdk_context \<Rightarrow> string \<Rightarrow> script \<Rightarrow> (transaction \<Rightarrow> transaction res) \<Rightarrow> cell_dep list option \<Rightarrow> string sdk" where
  "openSdkChannel cx amountShannons userLock signFundingInputs deps =
     bindW (liftW (assertOpeningArguments amountShannons userLock)) (\<lambda>_.
     bindW (liftW (assertUserLockCellDeps deps)) (\<lambda>_.
     bindW (openWithNode cx (copyOpeningArguments amountShannons userLock deps)) (\<lambda>opening.
     bindW (liftW (signFundingInputs (co_unsignedFundingTx opening))) (\<lambda>signedTx.
     bindW (submitSdkFundingTx cx (co_channelId opening) signedTx) (\<lambda>_.
     doneW (co_channelId opening))))))"

end
