(* ===== verification/SdkSteps.thy ===== *)
theory SdkSteps
  imports SdkFlows
begin

text \<open>
  The five steps a tick of the poller of module \<^verbatim>\<open>sdk\<close> runs: channels, their signing statuses, the watchtower's,
  invoices, payments. A step reads at each await whether its run is abandoned; what the readings answer is a
  parameter. The poller's own loop is a machine over its events.
\<close>

section \<open>Running a step\<close>

definition abandoned :: "sdk_context \<Rightarrow> bool sdk" where
  "abandoned cx w = (Inr (cx_abandoned cx (wd_runReads w)), w\<lparr> wd_runReads := wd_runReads w + 1 \<rparr>)"

definition unlessAbandoned :: "sdk_context \<Rightarrow> unit sdk \<Rightarrow> unit sdk" where
  "unlessAbandoned cx m = bindW (abandoned cx) (\<lambda>b. if b then doneW () else m)"

definition deliverStepEvent :: "sdk_context \<Rightarrow> sdk_event \<Rightarrow> unit sdk" where
  "deliverStepEvent cx e = unlessAbandoned cx (emitSdkEvent e)"

definition reportStepFailure :: "sdk_context \<Rightarrow> string \<Rightarrow> string \<Rightarrow> unit sdk" where
  "reportStepFailure cx poll i = unlessAbandoned cx (emitSdkEvent (EventPollFailed poll i))"

text \<open>Each item in order, its failure reported, until the run is abandoned.\<close>

fun answerEachPolled :: "sdk_context \<Rightarrow> string \<Rightarrow> 'a list \<Rightarrow> ('a \<Rightarrow> string) \<Rightarrow> ('a \<Rightarrow> unit sdk) \<Rightarrow> unit sdk" where
  "answerEachPolled cx poll [] idOf answerItem = doneW ()"
| "answerEachPolled cx poll (x # xs) idOf answerItem =
     unlessAbandoned cx
       (bindW (catchW (answerItem x) (\<lambda>e. reportStepFailure cx poll (idOf x))) (\<lambda>_.
        answerEachPolled cx poll xs idOf answerItem))"

definition encodeSdkRequestId :: "lib \<Rightarrow> bytes \<Rightarrow> json res" where
  "encodeSdkRequestId L requestId = encodeHexBytes L ''requestId'' requestId 32"

definition encodeKnownRequestId :: "lib \<Rightarrow> bytes option \<Rightarrow> json option res" where
  "encodeKnownRequestId L requestId =
     (case requestId of None \<Rightarrow> Inr None | Some i \<Rightarrow> bindR (encodeSdkRequestId L i) (\<lambda>j. Inr (Some j)))"

section \<open>Channels\<close>

definition watched_in :: "activity_kind \<Rightarrow> json \<Rightarrow> (string, json) object" where
  "watched_in kind v = members (at_member v (activityField kind))"

definition settleChannel :: "sdk_context \<Rightarrow> rpc_listed_channel_state \<Rightarrow> json \<Rightarrow> unit sdk" where
  "settleChannel cx channel entry =
     (let cid = lc_channelId channel in
      if lc_stateName channel = ''ChannelReady'' \<and> at_member entry ''status'' \<noteq> JString ''ChannelReady'' then
        bindW (deliverStepEvent cx (EventChannelReady cid)) (\<lambda>_.
        unlessAbandoned cx
          (bindW (onStore (clearOpening (cx_lib cx) cid)) (\<lambda>_. onStore (mark ActivityChannel cid ''ChannelReady''))))
      else if lc_stateName channel = ''Closed'' then
        bindW (deliverStepEvent cx (EventChannelClosed cid)) (\<lambda>_.
        unlessAbandoned cx
          (bindW (onStore (clearOpening (cx_lib cx) cid)) (\<lambda>_. onStore (forget ActivityChannel cid))))
      else doneW ())"

definition settleListed :: "sdk_context \<Rightarrow> rpc_listed_channel_state list \<Rightarrow> (string, json) object \<Rightarrow> unit sdk" where
  "settleListed cx channels watched =
     answerEachPolled cx ''channel''
       (concat (map (\<lambda>c. case get watched (lc_channelId c) of None \<Rightarrow> [] | Some entry \<Rightarrow> [(c, entry)]) channels))
       (\<lambda>(c, entry). lc_channelId c) (\<lambda>(c, entry). settleChannel cx c entry)"

definition channelStep :: "sdk_context \<Rightarrow> unit sdk" where
  "channelStep cx =
     bindW (onStore readActivity) (\<lambda>v.
     let watched = watched_in ActivityChannel v in
     if watched = [] then doneW ()
     else
       bindW (onNode (CallListChannelStates (Some IncludeClosed)) (listChannelStates (cx_host cx) (Some IncludeClosed))) (\<lambda>channels.
       bindW (settleListed cx channels watched) (\<lambda>_.
       let absent = filter (\<lambda>(cid, entry). \<not> list_ex (\<lambda>c. lc_channelId c = cid) channels) watched in
       if absent = [] then doneW ()
       else
         unlessAbandoned cx
           (bindW (onNode (CallListChannelStates (Some OnlyPending)) (listChannelStates (cx_host cx) (Some OnlyPending))) (\<lambda>pending.
            settleListed cx pending absent)))))"

section \<open>Signing statuses\<close>

definition deliver :: "(storage \<Rightarrow> 'a \<times> storage) \<Rightarrow> 'a sdk" where
  "deliver m w = (case m (wd_storage w) of (x, st) \<Rightarrow> (Inr x, w\<lparr> wd_storage := st \<rparr>))"

text \<open>A deadline as a number of JavaScript: the double nearest to it.\<close>

definition deadlineFieldOf :: "int option \<Rightarrow> int option" where
  "deadlineFieldOf deadlineMs = map_option (\<lambda>ms. let d = roundDouble ms 1 in fst d div snd d) deadlineMs"

definition submitSigned :: "sdk_context \<Rightarrow> string \<Rightarrow> signed_outcome \<Rightarrow> unit sdk" where
  "submitSigned cx cid out =
     unlessAbandoned cx
       (let params = \<lparr> ch_channelId = cid, ch_requestId = so_requestId out, ch_partialSignature = so_partialSignature out,
                       ch_nextMaterial = so_nextMaterial out \<rparr> in
        bindW (onNode (CallSubmitChannelSignature params) (submitChannelSignature (cx_lib cx) (cx_host cx) params)) (\<lambda>_.
        bindW (liftW (encodeSdkRequestId (cx_lib cx) (so_requestId out))) (\<lambda>i.
        deliverStepEvent cx (EventSigned cid i (so_transition out) (deadlineFieldOf (so_deadlineMs out)) (so_warnings out \<noteq> [])))))"

definition answerSigning :: "sdk_context \<Rightarrow> string \<Rightarrow> unit sdk" where
  "answerSigning cx cid =
     bindW (onStore (resolveChannelIndex cid)) (\<lambda>i.
     if i = None then doneW ()
     else
       bindW (onNode (CallGetChannelSigningStatus cid) (getChannelSigningStatus (cx_host cx) cid)) (\<lambda>(answeredId, status).
       if answeredId \<noteq> cid then deliverStepEvent cx (EventSigningRefused cid None None None malformed ''another channel'')
       else
         unlessAbandoned cx
           (bindW (deliver (handle (cx_lib cx) (cx_musig cx) (cx_dispatch cx) cid status)) (\<lambda>out.
            case out of
              Signed s \<Rightarrow> submitSigned cx cid s
            | Refused requestId transition code message deadline \<Rightarrow>
                bindW (liftW (encodeKnownRequestId (cx_lib cx) requestId)) (\<lambda>j.
                deliverStepEvent cx (EventSigningRefused cid j transition (deadlineFieldOf deadline) code message))
            | Fault e \<Rightarrow> reportStepFailure cx ''signing'' cid
            | Idle \<Rightarrow> doneW ()))))"

definition channelSigningStep :: "sdk_context \<Rightarrow> unit sdk" where
  "channelSigningStep cx =
     bindW (onStore readActivity) (\<lambda>v.
     answerEachPolled cx ''signing'' (map fst (watched_in ActivityChannel v)) (\<lambda>cid. cid) (answerSigning cx))"

section \<open>The watchtower's statuses\<close>

definition readWatchtowerStatus :: "sdk_context \<Rightarrow> string \<Rightarrow> (string \<times> wire_field) option sdk" where
  "readWatchtowerStatus cx cid =
     catchW (bindW (onNode (CallGetWatchtowerSigningStatus cid) (getWatchtowerSigningStatus (cx_host cx) cid)) (\<lambda>r. doneW (Some r)))
       (\<lambda>e. if isFiberRefusal e (fst WATCHTOWER_UNWATCHED_ERROR) (snd WATCHTOWER_UNWATCHED_ERROR) then doneW None else failW e)"

text \<open>A claimed spend is marked applied even once the run is abandoned.\<close>

definition submitWatchtower :: "sdk_context \<Rightarrow> string \<Rightarrow> bytes \<Rightarrow> watchtower_key_purpose \<Rightarrow> bytes \<Rightarrow> bool \<Rightarrow> unit sdk" where
  "submitWatchtower cx cid requestId purpose signature claimed =
     unlessAbandoned cx
       (let params = \<lparr> wg_channelId = cid, wg_requestId = requestId, wg_signature = signature \<rparr> in
        bindW (onNode (CallSubmitWatchtowerSignature params) (submitWatchtowerSignature (cx_lib cx) (cx_host cx) params)) (\<lambda>_.
        bindW (if claimed then onStore (markSpendApplied (cx_lib cx) cid requestId) else doneW ()) (\<lambda>_.
        bindW (liftW (encodeSdkRequestId (cx_lib cx) requestId)) (\<lambda>i.
        deliverStepEvent cx (EventWatchtowerSigned cid i purpose)))))"

definition answerWatchtower :: "sdk_context \<Rightarrow> (string, json) object \<Rightarrow> string \<Rightarrow> unit sdk" where
  "answerWatchtower cx opened cid =
     bindW (onStore (resolveChannelIndex cid)) (\<lambda>i.
     if i = None then doneW ()
     else
       bindW (readWatchtowerStatus cx cid) (\<lambda>result.
       case result of
         None \<Rightarrow> if get opened cid \<noteq> None then doneW () else unlessAbandoned cx (onStore (removeDeviceChannel cid))
       | Some (answeredId, status) \<Rightarrow>
           if answeredId \<noteq> cid then deliverStepEvent cx (EventWatchtowerRefused cid None None malformed ''another channel'')
           else
             unlessAbandoned cx
               (bindW (deliver (handleWatchtower (cx_lib cx) (cx_musig cx) (cx_dispatch cx) cid status)) (\<lambda>out.
                case out of
                  WatchtowerSigned requestId purpose signature claimed \<Rightarrow> submitWatchtower cx cid requestId purpose signature claimed
                | WatchtowerRefused requestId purpose code message \<Rightarrow>
                    bindW (liftW (encodeKnownRequestId (cx_lib cx) requestId)) (\<lambda>j.
                    deliverStepEvent cx (EventWatchtowerRefused cid j purpose code message))
                | WatchtowerFault e \<Rightarrow> reportStepFailure cx ''watchtower signing'' cid
                | WatchtowerIdle \<Rightarrow> doneW ()))))"

definition watchtowerSigningStep :: "sdk_context \<Rightarrow> unit sdk" where
  "watchtowerSigningStep cx =
     bindW (onStore readDeviceChannels) (\<lambda>listed.
     bindW (onStore readActivity) (\<lambda>v.
     answerEachPolled cx ''watchtower signing'' listed (\<lambda>cid. cid) (answerWatchtower cx (watched_in ActivityChannel v))))"

section \<open>Invoices\<close>

definition RELEASE_WAITS :: "string list" where
  "RELEASE_WAITS = [''not_held'', ''expiry_too_close'', ''offered_in_flight'']"

definition isPastInvoiceExpiry :: "lib \<Rightarrow> invoice_curve \<Rightarrow> string \<Rightarrow> string \<Rightarrow> int \<Rightarrow> bool res option" where
  "isPastInvoiceExpiry L C invoiceAddress paymentHash nowMs =
     (case decodeInvoice L C invoiceAddress of
        None \<Rightarrow> None
      | Some (Inl e) \<Rightarrow> Some (Inl e)
      | Some (Inr bill) \<Rightarrow> Some
          (bindR (assertSdkAnsweredHash L paymentHash (iv_paymentHash (in_data bill))) (\<lambda>_.
           Inr (case computeSdkInvoiceExpiryMs bill of None \<Rightarrow> False | Some expiresAtMs \<Rightarrow> expiresAtMs < nowMs))))"

definition releaseMarginOf :: "sdk_context \<Rightarrow> int \<Rightarrow> int" where
  "releaseMarginOf cx commitmentDelayEpoch =
     tlcExpiryDelay commitmentDelayEpoch (nc_millisecondsPerEpoch (cx_network cx)) + SDK_RELEASE_EXPIRY_SLACK_MS"

definition preimageOf :: "sdk_context \<Rightarrow> string \<Rightarrow> int \<Rightarrow> bytes res" where
  "preimageOf cx paymentHash invoiceIndex =
     bindR (holdInvoicePaymentHash (cx_lib cx) (cx_masterSeed cx) invoiceIndex) (\<lambda>h.
     if bytesToHex (cx_lib cx) h \<noteq> paymentHash then Inl (TypeErr ''the invoice index recorded derives another preimage'')
     else deriveHoldInvoicePreimage (cx_lib cx) (cx_masterSeed cx) invoiceIndex)"

definition settleHoldInvoice :: "sdk_context \<Rightarrow> string \<Rightarrow> bytes \<Rightarrow> unit sdk" where
  "settleHoldInvoice cx paymentHash paymentPreimage =
     (let h = hexToBytes (cx_lib cx) paymentHash in
      catchW (onNode (CallSettleInvoice h paymentPreimage) (settleInvoice (cx_lib cx) (cx_host cx) h paymentPreimage))
        (\<lambda>e. if isFiberRefusal e (fst SDK_INVOICE_ALREADY_PAID_ERROR) (snd SDK_INVOICE_ALREADY_PAID_ERROR)
             then doneW () else failW e))"

definition finishInvoice :: "sdk_context \<Rightarrow> string \<Rightarrow> (string \<Rightarrow> sdk_event) \<Rightarrow> unit sdk" where
  "finishInvoice cx paymentHash event =
     bindW (deliverStepEvent cx (event (''0x'' @ paymentHash))) (\<lambda>_.
     unlessAbandoned cx (onStore (forget ActivityInvoice paymentHash)))"

text \<open>Fiber keeps an invoice whose TLC failed received for good: past its expiry with no TLC left, it is over.\<close>

definition expireUnreleased :: "sdk_context \<Rightarrow> string \<Rightarrow> rpc_invoice \<Rightarrow> int \<Rightarrow> unit sdk" where
  "expireUnreleased cx paymentHash bill nowMs =
     bindW (liftReader (isPastInvoiceExpiry (cx_lib cx) (cx_curve cx) (iv_invoiceAddress bill) paymentHash nowMs)) (\<lambda>past.
     if \<not> past then doneW ()
     else
       bindW (onStore (listsHoldInvoiceTlc (cx_lib cx) paymentHash)) (\<lambda>lists.
       if lists then doneW () else finishInvoice cx paymentHash EventPaymentExpired))"

text \<open>Whether the mark stands. A release that waits is tried again on the next tick; the clock is read once.\<close>

definition markReleased :: "sdk_context \<Rightarrow> string \<Rightarrow> rpc_invoice \<Rightarrow> bool sdk" where
  "markReleased cx paymentHash bill =
     bindW (nowW cx) (\<lambda>nowMs.
     catchW
       (bindW (onStore (markHoldInvoiceReleased (cx_lib cx) paymentHash nowMs (releaseMarginOf cx))) (\<lambda>_. doneW True))
       (\<lambda>e. case e of
          RpcOtherError (HostErr code) \<Rightarrow>
            if code \<in> set RELEASE_WAITS then bindW (expireUnreleased cx paymentHash bill nowMs) (\<lambda>_. doneW False)
            else failW e
        | _ \<Rightarrow> failW e))"

definition release :: "sdk_context \<Rightarrow> string \<Rightarrow> rpc_invoice \<Rightarrow> unit sdk" where
  "release cx paymentHash bill =
     bindW (onStore (readHoldInvoice (cx_lib cx) paymentHash)) (\<lambda>r.
     unlessAbandoned cx
       (bindW (liftW (preimageOf cx paymentHash (hi_invoiceIndex r))) (\<lambda>paymentPreimage.
        if hi_released r then settleHoldInvoice cx paymentHash paymentPreimage
        else
          bindW (markReleased cx paymentHash bill) (\<lambda>marked.
          if \<not> marked then doneW ()
          else
            unlessAbandoned cx
              (bindW (settleHoldInvoice cx paymentHash paymentPreimage) (\<lambda>_. unlessAbandoned cx pollNow))))))"

definition answerInvoice :: "sdk_context \<Rightarrow> string \<times> json \<Rightarrow> unit sdk" where
  "answerInvoice cx watched =
     (let (paymentHash, entry) = watched; L = cx_lib cx; h = hexToBytes L paymentHash in
      bindW (onNode (CallGetInvoice h) (getInvoice L (cx_host cx) h)) (\<lambda>bill.
      if iv_status bill = ''Received'' then
        (if at_member entry ''status'' \<noteq> JString ''Received'' then
           bindW (deliverStepEvent cx (EventPaymentPending (''0x'' @ paymentHash))) (\<lambda>_.
           unlessAbandoned cx
             (bindW (onStore (mark ActivityInvoice paymentHash ''Received'')) (\<lambda>_. release cx paymentHash bill)))
         else release cx paymentHash bill)
      else if iv_status bill = ''Paid'' then
        bindW (onStore (readHoldInvoice L paymentHash)) (\<lambda>r.
        if \<not> hi_released r then failW (failure (OtherErr ''reported paid, but the device never released its preimage''))
        else finishInvoice cx paymentHash EventPaymentReceived)
      else if iv_status bill = ''Expired'' \<or> iv_status bill = ''Cancelled'' then
        bindW (onStore (readHoldInvoice L paymentHash)) (\<lambda>r.
        if hi_released r then failW (failure (OtherErr ''reported unpaid, but the device released its preimage''))
        else finishInvoice cx paymentHash EventPaymentExpired)
      else doneW ()))"

definition invoiceStep :: "sdk_context \<Rightarrow> unit sdk" where
  "invoiceStep cx =
     bindW (onStore readActivity) (\<lambda>v.
     answerEachPolled cx ''invoice'' (watched_in ActivityInvoice v) (\<lambda>(h, entry). ''0x'' @ h) (answerInvoice cx))"

section \<open>Payments\<close>

definition SDK_PAYMENT_NEVER_SENT_REASON :: string where
  "SDK_PAYMENT_NEVER_SENT_REASON = ''the node holds no session of the payment: it was never sent''"

definition SDK_PAYMENT_UNEXPLAINED_FAILURE_REASON :: string where
  "SDK_PAYMENT_UNEXPLAINED_FAILURE_REASON = ''the node reports the payment failed without a reason''"

definition readPayment :: "sdk_context \<Rightarrow> string \<Rightarrow> rpc_payment option sdk" where
  "readPayment cx paymentHash =
     (let L = cx_lib cx; h = hexToBytes L paymentHash in
      bindW (catchW (bindW (onNode (CallGetPayment h) (getPayment L (cx_host cx) h)) (\<lambda>p. doneW (Some p))) (\<lambda>e.
        if isFiberRefusalUnderHash e [SDK_PAYMENT_NOT_FOUND_ERROR] paymentHash then doneW None else failW e)) (\<lambda>p.
      case p of
        None \<Rightarrow> doneW None
      | Some payment \<Rightarrow>
          bindW (liftW (assertSdkAnsweredHash L paymentHash (pm_paymentHash payment))) (\<lambda>_. doneW (Some payment))))"

definition finishPayment :: "sdk_context \<Rightarrow> string \<Rightarrow> sdk_event \<Rightarrow> unit sdk" where
  "finishPayment cx paymentHash event =
     bindW (onStore readActivity) (\<lambda>v.
     if get (watched_in ActivityPayment v) paymentHash = None then doneW ()
     else
       bindW (onStore (readDebitIntent (cx_lib cx) paymentHash)) (\<lambda>intent.
       let report = bindW (deliverStepEvent cx event) (\<lambda>_. unlessAbandoned cx (onStore (forget ActivityPayment paymentHash))) in
       if intent = None then report
       else unlessAbandoned cx (bindW (onStore (closeDebitIntent (cx_lib cx) paymentHash)) (\<lambda>_. report))))"

definition answerPayment :: "sdk_context \<Rightarrow> string \<Rightarrow> unit sdk" where
  "answerPayment cx paymentHash =
     bindW (askW (\<lambda>w. paymentHash \<in> set (wd_sending w))) (\<lambda>sending.
     if sending then doneW ()
     else
       bindW (changeW (\<lambda>w. w\<lparr> wd_reading := wd_reading w @ [paymentHash] \<rparr>)) (\<lambda>_.
       finallyW
         (bindW (readPayment cx paymentHash) (\<lambda>payment.
          unlessAbandoned cx
            (let hash = ''0x'' @ paymentHash in
             case payment of
               None \<Rightarrow> finishPayment cx paymentHash (EventPaymentFailed hash SDK_PAYMENT_NEVER_SENT_REASON)
             | Some p \<Rightarrow>
                 if pm_status p = ''Success'' then finishPayment cx paymentHash (EventPaymentSent hash)
                 else if pm_status p = ''Failed'' then
                   finishPayment cx paymentHash (EventPaymentFailed hash
                     (case pm_failedError p of None \<Rightarrow> SDK_PAYMENT_UNEXPLAINED_FAILURE_REASON | Some reason \<Rightarrow> reason))
                 else doneW ())))
         (\<lambda>w. w\<lparr> wd_reading := filter (\<lambda>h. h \<noteq> paymentHash) (wd_reading w) \<rparr>)))"

definition paymentStep :: "sdk_context \<Rightarrow> unit sdk" where
  "paymentStep cx =
     bindW (onStore readActivity) (\<lambda>v.
     answerEachPolled cx ''payment'' (map fst (watched_in ActivityPayment v)) (\<lambda>h. ''0x'' @ h) (answerPayment cx))"

text \<open>The steps in the order the constructor lists them.\<close>

definition sdk_steps :: "sdk_context \<Rightarrow> unit sdk list" where
  "sdk_steps cx = [channelStep cx, channelSigningStep cx, watchtowerSigningStep cx, invoiceStep cx, paymentStep cx]"

end
