(* ===== verification/SdkPoller.thy ===== *)
theory SdkPoller
  imports Common
begin

text \<open>
  The loop of the poller (\<^verbatim>\<open>sdk/poller.ts\<close>) over the timer slot of \<^verbatim>\<open>common/timer-slot.ts\<close>, as a machine whose
  events are the calls of the host and what the step in flight and the timers do. The five steps themselves are
  in \<open>SdkSteps\<close>; here a step is its number. A tick that outlives a stop ends at its next look at the generation
  and touches nothing, so the machine keeps the live tick only.
\<close>

section \<open>The machine\<close>

text \<open>A scheduled callback of the slot stays with the timer until it fires, a cancelled one too: a cancel may fail.\<close>

record poller =
  pl_running :: bool
  pl_generation :: nat
  pl_ticking :: bool
  pl_again :: bool
  pl_inFlight :: "nat option"
  pl_armed :: bool  \<comment> \<open>the slot's \<^verbatim>\<open>cancel\<close> is defined\<close>
  pl_arming :: nat
  pl_scheduled :: "nat list"
  pl_ticks :: nat  \<comment> \<open>how many ticks began\<close>
  pl_reports :: nat

datatype poller_event =
    HostStart
  | HostStop
  | HostPollNow
  | StepSettles bool bool  \<comment> \<open>whether the step failed; whether the timer takes the next arming\<close>
  | StepTimesOut bool
  | TimerFires nat

definition STEP_COUNT :: nat where
  "STEP_COUNT = 5"

definition new_poller :: poller where
  "new_poller =
     \<lparr> pl_running = False, pl_generation = 0, pl_ticking = False, pl_again = False, pl_inFlight = None, pl_armed = False,
       pl_arming = 0, pl_scheduled = [], pl_ticks = 0, pl_reports = 0 \<rparr>"

definition clearSlot :: "poller \<Rightarrow> poller" where
  "clearSlot p = p\<lparr> pl_arming := pl_arming p + 1, pl_armed := False \<rparr>"

text \<open>A timer that throws leaves the slot cleared.\<close>

definition armSlot :: "bool \<Rightarrow> poller \<Rightarrow> poller" where
  "armSlot taken p =
     (let q = clearSlot p in
      if taken then q\<lparr> pl_armed := True, pl_scheduled := pl_arming q # pl_scheduled q \<rparr> else q)"

definition report :: "poller \<Rightarrow> poller" where
  "report p = p\<lparr> pl_reports := pl_reports p + 1 \<rparr>"

definition tick :: "poller \<Rightarrow> poller" where
  "tick p = p\<lparr> pl_ticking := True, pl_inFlight := Some 0, pl_ticks := pl_ticks p + 1 \<rparr>"

text \<open>After the last step: another tick when one was asked for, else the timer.\<close>

definition endTick :: "bool \<Rightarrow> poller \<Rightarrow> poller" where
  "endTick taken p =
     (let q = p\<lparr> pl_ticking := False, pl_inFlight := None \<rparr> in
      if pl_again q then tick (q\<lparr> pl_again := False \<rparr>)
      else
        let armed = armSlot taken q in
        if taken then armed else report (armed\<lparr> pl_running := False \<rparr>))"

definition nextStep :: "bool \<Rightarrow> nat \<Rightarrow> poller \<Rightarrow> poller" where
  "nextStep taken i p = (if Suc i < STEP_COUNT then p\<lparr> pl_inFlight := Some (Suc i) \<rparr> else endTick taken p)"

definition start :: "poller \<Rightarrow> poller" where
  "start p = (if pl_running p then p else tick (p\<lparr> pl_running := True \<rparr>))"

definition stop :: "poller \<Rightarrow> poller" where
  "stop p =
     clearSlot (p\<lparr> pl_running := False, pl_again := False, pl_generation := pl_generation p + 1, pl_inFlight := None \<rparr>)"

definition pollerPollNow :: "poller \<Rightarrow> poller" where
  "pollerPollNow p =
     (if \<not> pl_running p then p
      else if pl_ticking p then p\<lparr> pl_again := True \<rparr>
      else tick (clearSlot p))"

definition timerFires :: "nat \<Rightarrow> poller \<Rightarrow> poller" where
  "timerFires a p =
     (if a \<notin> set (pl_scheduled p) then p
      else
        let q = p\<lparr> pl_scheduled := remove1 a (pl_scheduled p) \<rparr> in
        if pl_arming q \<noteq> a then q else tick (q\<lparr> pl_armed := False \<rparr>))"

fun poller_step :: "poller_event \<Rightarrow> poller \<Rightarrow> poller" where
  "poller_step HostStart p = start p"
| "poller_step HostStop p = stop p"
| "poller_step HostPollNow p = pollerPollNow p"
| "poller_step (StepSettles failed taken) p =
     (case pl_inFlight p of None \<Rightarrow> p | Some i \<Rightarrow> nextStep taken i (if failed then report p else p))"
| "poller_step (StepTimesOut taken) p = (case pl_inFlight p of None \<Rightarrow> p | Some i \<Rightarrow> nextStep taken i (report p))"
| "poller_step (TimerFires a) p = timerFires a p"

inductive poller_reach :: "poller \<Rightarrow> bool" where
  born: "poller_reach new_poller"
| moved: "poller_reach p \<Longrightarrow> poller_reach (poller_step e p)"

section \<open>What holds of every reachable state\<close>

definition poller_ok :: "poller \<Rightarrow> bool" where
  "poller_ok p \<longleftrightarrow>
     (if pl_running p
      then (pl_armed p \<and> \<not> pl_ticking p \<and> pl_inFlight p = None \<and> pl_arming p \<in> set (pl_scheduled p) \<and> \<not> pl_again p)
           \<or> (\<not> pl_armed p \<and> pl_ticking p \<and> (\<exists>i < STEP_COUNT. pl_inFlight p = Some i) \<and> pl_arming p \<notin> set (pl_scheduled p))
      else \<not> pl_armed p \<and> pl_inFlight p = None \<and> \<not> pl_again p \<and> pl_arming p \<notin> set (pl_scheduled p))
     \<and> (\<forall>a \<in> set (pl_scheduled p). a \<le> pl_arming p) \<and> distinct (pl_scheduled p)"

lemmas poller_defs = poller_ok_def start_def stop_def pollerPollNow_def timerFires_def tick_def endTick_def nextStep_def
  armSlot_def clearSlot_def report_def STEP_COUNT_def Let_def

lemma poller_ok_new: "poller_ok new_poller"
  by (simp add: poller_ok_def new_poller_def)

lemma poller_ok_calls: "poller_ok p \<Longrightarrow> poller_ok (start p)" "poller_ok p \<Longrightarrow> poller_ok (stop p)" "poller_ok p \<Longrightarrow> poller_ok (pollerPollNow p)"
  by (auto simp: poller_defs split: if_splits)

lemma poller_ok_timer: "poller_ok p \<Longrightarrow> poller_ok (timerFires a p)"
  by (auto simp: poller_defs split: if_splits)

lemma poller_ok_next:
  assumes "poller_ok p" "pl_inFlight p = Some i"
  shows "poller_ok (nextStep taken i p)" "poller_ok (nextStep taken i (report p))"
  using assms by (auto simp: poller_defs split: if_splits)

lemma poller_ok_step: "poller_ok p \<Longrightarrow> poller_ok (poller_step e p)"
  by (cases e) (auto simp: poller_ok_calls poller_ok_timer poller_ok_next split: option.split)

lemma poller_reach_ok: "poller_reach p \<Longrightarrow> poller_ok p"
  by (induction rule: poller_reach.induct) (auto intro: poller_ok_new poller_ok_step)

section \<open>Properties\<close>

text \<open>In every state the poller reaches, over any order of starts, stops, asked polls, settling,
  failing and timed-out steps and timers, cancelled ones included: while it runs, either exactly one of the steps
  is in flight or its timer is armed, with the live arming still scheduled, and never both; once stopped, nothing
  is in flight and no timer left behind can begin a tick.\<close>
lemma poller_never_stalls:
  assumes "poller_reach p"
  shows "pl_running p \<longrightarrow> (pl_inFlight p \<noteq> None) \<noteq> (pl_armed p \<and> pl_arming p \<in> set (pl_scheduled p))"
    and "\<not> pl_running p \<longrightarrow> pl_inFlight p = None \<and> pl_inFlight (poller_step (TimerFires a) p) = None"
  using poller_reach_ok [OF assms] by (auto simp: poller_defs split: if_splits)

definition step_ends :: "poller_event \<Rightarrow> bool" where
  "step_ends e = (case e of StepSettles failed taken \<Rightarrow> True | StepTimesOut taken \<Rightarrow> True | _ \<Rightarrow> False)"

lemma steps_run_out:
  assumes "pl_inFlight p = Some i" "i < STEP_COUNT" "pl_again p" "list_all step_ends es" "length es = STEP_COUNT - i"
  shows "pl_inFlight (fold poller_step es p) = Some 0 \<and> pl_ticks (fold poller_step es p) = Suc (pl_ticks p)"
  using assms
proof (induction es arbitrary: p i)
  case (Cons e es)
  obtain taken q where q: "poller_step e p = nextStep taken i q" "q = p \<or> q = report p"
    using Cons.prems(1,4) by (cases e) (auto simp: step_ends_def split: if_splits)
  have same: "pl_again q" "pl_ticks q = pl_ticks p"
    using q(2) Cons.prems(3) by (auto simp: report_def)
  show ?case
  proof (cases "Suc i < STEP_COUNT")
    case True
    let ?r = "q\<lparr> pl_inFlight := Some (Suc i) \<rparr>"
    have "pl_inFlight (fold poller_step es ?r) = Some 0 \<and> pl_ticks (fold poller_step es ?r) = Suc (pl_ticks ?r)"
      using True Cons.prems(4,5) same(1) by (intro Cons.IH [of _ "Suc i"]) auto
    with True q(1) same(2) show ?thesis by (simp add: nextStep_def)
  next
    case False
    with Cons.prems(2,5) have "length es = 0" unfolding list.size by linarith
    then have "es = []" by simp
    with False q(1) same show ?thesis by (simp add: nextStep_def endTick_def tick_def Let_def)
  qed
qed simp

text \<open>C40 (liveness). A poll asked for while the poller runs is served: a whole tick begins at once, or within as many
  settlings as there are steps, whatever fails or times out on the way and whether or not the timer works.\<close>
theorem asked_poll_is_served:
  assumes "poller_reach p" "pl_running p" "list_all step_ends es" "length es = STEP_COUNT"
  shows "\<exists>k \<le> STEP_COUNT. pl_inFlight (fold poller_step (take k es) (pollerPollNow p)) = Some 0
    \<and> pl_ticks (fold poller_step (take k es) (pollerPollNow p)) = Suc (pl_ticks p)"
proof (cases "pl_ticking p")
  case False
  with assms(2) show ?thesis by (intro exI [of _ 0]) (simp add: pollerPollNow_def tick_def clearSlot_def)
next
  case True
  then obtain i where i: "pl_inFlight p = Some i" "i < STEP_COUNT"
    using poller_reach_ok [OF assms(1)] assms(2) by (auto simp: poller_ok_def)
  have "list_all step_ends (take (STEP_COUNT - i) es)"
    using assms(3) by (auto simp: list_all_iff dest: in_set_takeD)
  with i True assms(2,4) steps_run_out [of "pollerPollNow p" i "take (STEP_COUNT - i) es"] show ?thesis
    by (intro exI [of _ "STEP_COUNT - i"]) (simp add: pollerPollNow_def)
qed

lemma started_reach: "poller_reach (poller_step HostStart new_poller)"
  by (intro moved born)

lemma asked_poll_is_served_witness:
  "\<exists>k \<le> STEP_COUNT. pl_inFlight (fold poller_step (take k (replicate STEP_COUNT (StepTimesOut False))) (pollerPollNow (poller_step HostStart new_poller))) = Some 0
    \<and> pl_ticks (fold poller_step (take k (replicate STEP_COUNT (StepTimesOut False))) (pollerPollNow (poller_step HostStart new_poller))) = 2"
  using asked_poll_is_served [OF started_reach, of "replicate STEP_COUNT (StepTimesOut False)"]
  by (simp add: start_def new_poller_def tick_def step_ends_def list_all_iff numeral_2_eq_2)

end
