(* ===== verification/SdkFacts.thy ===== *)
theory SdkFacts
  imports SdkSteps SdkPoller DispatchFacts HoldFacts
begin

text \<open>
  What the calls of the host and the steps of the poller do to the device's storage and post to the node, over
  any run of them: the storage moves as methods of the engine and records of the \<^verbatim>\<open>sdk\<close>'s own, and a preimage is
  posted only once its invoice is released.
\<close>

section \<open>Runs of an instance\<close>

datatype sdk_op =
    CreateInvoice string "sdk_invoice_options option"
  | Transfer string "string option option"
  | CloseChannel string "int option option"
  | ListChannels
  | PrepareChannelOpen string script "cell_dep list option"
  | SubmitFundingTx string transaction
  | OpenChannel string script "transaction \<Rightarrow> transaction res" "cell_dep list option"
  | SetBiscuitToken string
  | RunStep nat

definition answered :: "'a sdk \<Rightarrow> sdk_world \<Rightarrow> sdk_world" where
  "answered m w = snd (m w)"

fun sdk_perform :: "sdk_context \<Rightarrow> sdk_op \<Rightarrow> sdk_world \<Rightarrow> sdk_world" where
  "sdk_perform cx (CreateInvoice amount options) = answered (createSdkInvoice cx amount options)"
| "sdk_perform cx (Transfer encoded options) = answered (transferSdkPayment cx encoded options)"
| "sdk_perform cx (CloseChannel cid options) = answered (closeSdkChannel cx cid options)"
| "sdk_perform cx ListChannels = answered (listSdkChannels cx)"
| "sdk_perform cx (PrepareChannelOpen amount userLock deps) = answered (prepareSdkChannelOpen cx amount userLock deps)"
| "sdk_perform cx (SubmitFundingTx cid signedTx) = answered (submitSdkFundingTx cx cid signedTx)"
| "sdk_perform cx (OpenChannel amount userLock sign deps) = answered (openSdkChannel cx amount userLock sign deps)"
| "sdk_perform cx (SetBiscuitToken token) = answered (setBiscuitToken token)"
| "sdk_perform cx (RunStep i) = (if i < length (sdk_steps cx) then answered (sdk_steps cx ! i) else (\<lambda>w. w))"

definition sdk_run :: "sdk_context \<Rightarrow> sdk_op list \<Rightarrow> sdk_world \<Rightarrow> sdk_world" where
  "sdk_run cx ops w = fold (sdk_perform cx) ops w"

lemma sdk_steps_length: "length (sdk_steps cx) = STEP_COUNT"
  by (simp add: sdk_steps_def STEP_COUNT_def)

section \<open>How the storage moves\<close>

text \<open>A write of the \<^verbatim>\<open>sdk\<close>'s own goes to a key outside the policy's.\<close>

definition is_foreign :: "string \<Rightarrow> bool" where
  "is_foreign key \<longleftrightarrow> assertForeignKey key = Inr ()"

text \<open>
  The moves of the clock and the storage together: how often the clock was read, and the texts. A method of the engine
  other than a release leaves the clock alone; a release reads the clock once, marks the invoice at that reading, and asks
  for the margin of the network.
\<close>

datatype sdk_move =
    ByEngine engine_op
  | ByRecord string stored
  | ByClock
  | ByRelease string

fun move_step :: "sdk_context \<Rightarrow> sdk_move \<Rightarrow> nat \<times> storage \<Rightarrow> nat \<times> storage" where
  "move_step cx (ByEngine op) (n, st) = (n, perform (cx_lib cx) (ds_policy (cx_dispatch cx)) op st)"
| "move_step cx (ByRecord key t) (n, st) = (n, if is_foreign key then st(key := Some t) else st)"
| "move_step cx ByClock (n, st) = (Suc n, st)"
| "move_step cx (ByRelease ph) (n, st) =
     (Suc n, perform (cx_lib cx) (ds_policy (cx_dispatch cx)) (MarkHoldInvoiceReleased ph (cx_now cx n) (releaseMarginOf cx)) st)"

text \<open>The flag tells whether a release may be among the moves.\<close>

fun allowed :: "bool \<Rightarrow> sdk_move \<Rightarrow> bool" where
  "allowed b (ByEngine (MarkHoldInvoiceReleased ph nowMs margin)) = False"
| "allowed b (ByRelease ph) = b"
| "allowed b mv = True"

definition sdk_path :: "bool \<Rightarrow> sdk_context \<Rightarrow> nat \<times> storage \<Rightarrow> nat \<times> storage \<Rightarrow> bool" where
  "sdk_path b cx a a' \<longleftrightarrow> (\<exists>ms. list_all (allowed b) ms \<and> a' = fold (move_step cx) ms a)"

lemma path_refl: "sdk_path b cx a a"
  unfolding sdk_path_def by (rule exI [of _ "[]"]) simp

lemma path_trans: "sdk_path b cx a a' \<Longrightarrow> sdk_path b cx a' a'' \<Longrightarrow> sdk_path b cx a a''"
  unfolding sdk_path_def by (metis comp_apply fold_append list_all_append)

lemma path_step: "allowed b mv \<Longrightarrow> sdk_path b cx a (move_step cx mv a)"
  unfolding sdk_path_def by (rule exI [of _ "[mv]"]) simp

lemma allowed_mono: "allowed False mv \<Longrightarrow> allowed b mv"
  by (cases "(b, mv)" rule: allowed.cases) simp_all

lemma path_mono: "sdk_path False cx a a' \<Longrightarrow> sdk_path b cx a a'"
  unfolding sdk_path_def using allowed_mono by (metis list.pred_mono_strong)

lemma path_clock: "n \<le> n' \<Longrightarrow> sdk_path b cx (n, st) (n', st)"
proof (induction rule: dec_induct)
  case (step k)
  with path_trans [OF _ path_step [of b ByClock cx "(k, st)"]] show ?case by simp
qed (rule path_refl)

lemma move_step_clock: "fst a \<le> fst (move_step cx mv a)"
  by (cases "(cx, mv, a)" rule: move_step.cases) simp_all

lemma path_clock_mono: "sdk_path b cx a a' \<Longrightarrow> fst a \<le> fst a'"
proof -
  have "fst a \<le> fst (fold (move_step cx) ms a)" for ms
    by (induction ms rule: rev_induct) (auto intro: order.trans move_step_clock)
  then show "sdk_path b cx a a' \<Longrightarrow> fst a \<le> fst a'" by (auto simp: sdk_path_def)
qed

text \<open>The moves of an action that neither reads the clock nor releases.\<close>

definition sdk_moves :: "sdk_context \<Rightarrow> storage \<Rightarrow> storage \<Rightarrow> bool" where
  "sdk_moves cx st st' \<longleftrightarrow> (\<forall>n. sdk_path False cx (n, st) (n, st'))"

interpretation sdk_moving: storage_preorder "sdk_moves cx" for cx
proof
  show "sdk_moves cx st st" for st
    by (simp add: sdk_moves_def path_refl)
  show "sdk_moves cx a b \<Longrightarrow> sdk_moves cx b c \<Longrightarrow> sdk_moves cx a c" for a b c
    unfolding sdk_moves_def by (blast intro: path_trans)
qed

lemma moves_path: "sdk_moves cx st st' \<Longrightarrow> sdk_path b cx (n, st) (n, st')"
  unfolding sdk_moves_def by (blast intro: path_mono)

lemma engine_step_moves:
  "allowed False (ByEngine op) \<Longrightarrow> sdk_moves cx st (perform (cx_lib cx) (ds_policy (cx_dispatch cx)) op st)"
  unfolding sdk_moves_def by (metis move_step.simps(1) path_step)

lemma record_step_moves: "is_foreign key \<Longrightarrow> sdk_moves cx st (st(key := Some t))"
  unfolding sdk_moves_def using path_step [of False "ByRecord key t" cx "(n, st)" for n] by simp

named_theorems sdk_keeps

lemmas [sdk_keeps] = sdk_moving.rules

lemma engine_sdk_moves:
  assumes "engine_moves delivers (cx_lib cx) (ds_policy (cx_dispatch cx)) st st'"
  shows "sdk_moves cx st st'"
proof -
  let ?run = "fold (perform (cx_lib cx) (ds_policy (cx_dispatch cx)))"
  from assms obtain ops where ops: "list_all delivers ops" "st' = ?run ops st"
    unfolding engine_moves_def by blast
  have "list_all delivers ops \<Longrightarrow> sdk_moves cx st (?run ops st)" for ops
  proof (induction ops rule: rev_induct)
    case (snoc op ops)
    then have "delivers op" and IH: "sdk_moves cx st (?run ops st)" by simp_all
    then have "allowed False (ByEngine op)" by (cases op) simp_all
    from sdk_moving.compose [OF IH engine_step_moves [OF this]] show ?case by simp
  qed (simp add: sdk_moving.same)
  with ops show ?thesis by simp
qed

lemma keeps_engine:
  assumes "\<And>en st. snd (m st) = perform (cx_lib cx) en op st" "allowed False (ByEngine op)"
  shows "keeps (sdk_moves cx) m"
  unfolding keeps_def using assms engine_step_moves [of op cx] by metis

lemma keeps_methods [sdk_keeps]:
  "keeps (sdk_moves cx) (registerChannel (cx_lib cx) name i funded closeScript)"
  "keeps (sdk_moves cx) (pinFundingCell (cx_lib cx) name cell capacity)"
  "keeps (sdk_moves cx) (pinChannelTerms (cx_lib cx) name terms)"
  "keeps (sdk_moves cx) (markSpendApplied (cx_lib cx) name requestId)"
  "keeps (sdk_moves cx) (recordDebitIntent (cx_lib cx) ph mx)"
  "keeps (sdk_moves cx) (closeDebitIntent (cx_lib cx) ph)"
  "keeps (sdk_moves cx) (recordHoldInvoice (cx_lib cx) ph amount alg j)"
  by (rule keeps_engine [where op = "RegisterChannel name i funded closeScript"]
        keeps_engine [where op = "PinFundingCell name cell capacity"] keeps_engine [where op = "PinChannelTerms name terms"]
        keeps_engine [where op = "MarkSpendApplied name requestId"] keeps_engine [where op = "RecordDebitIntent ph mx"]
        keeps_engine [where op = "CloseDebitIntent ph"] keeps_engine [where op = "RecordHoldInvoice ph amount alg j"]; simp)+

lemma reads_getRecord [reads]: "reads_only (getRecord key fmt)"
  by (simp add: keeps_def getRecord_def)

lemma reads_payments [reads]: "reads_only (readHoldInvoice L ph)" "reads_only (readDebitIntent L ph)" "reads_only (listsHoldInvoiceTlc L ph)"
  unfolding readHoldInvoice_def readDebitIntent_def listsHoldInvoiceTlc_def by (intro reads)+

lemma reads_sdk [reads]:
  "reads_only readActivity" "reads_only readDeviceChannels" "reads_only (readOpening L)" "reads_only (readMatching L funded userLock deps)"
  "reads_only (readSdkChannelRecord L cid)" "reads_only (channelInfo c)"
  unfolding readActivity_def readDeviceChannels_def readOpening_def readMatching_def readSdkChannelRecord_def channelInfo_def
  by (intro reads)+

lemmas [sdk_keeps] = reads_payments [THEN sdk_moving.reading] reads_sdk [THEN sdk_moving.reading] reads_store [THEN sdk_moving.reading]

lemma keeps_updateRecord [sdk_keeps]: "keeps (sdk_moves cx) (updateRecord key fmt u)"
  unfolding keeps_def
proof
  fix st
  have "snd (updateRecord key fmt u st) = st \<or> (\<exists>t. is_foreign key \<and> snd (updateRecord key fmt u st) = st(key := Some t))"
    by (auto simp: updateRecord_def writeRecord_def is_foreign_def bindR_def split: sum.splits option.splits)
  with record_step_moves [of key cx st] show "sdk_moves cx st (snd (updateRecord key fmt u st))"
    by (auto simp: sdk_moving.same)
qed

lemma keeps_records [sdk_keeps]:
  "keeps (sdk_moves cx) (allocateChannelIndex n)" "keeps (sdk_moves cx) (allocateInvoiceIndex n)"
  "keeps (sdk_moves cx) (watchIfAbsent kind i)" "keeps (sdk_moves cx) (watch kind i)" "keeps (sdk_moves cx) (mark kind i status)"
  "keeps (sdk_moves cx) (forget kind i)" "keeps (sdk_moves cx) (addDeviceChannel cid)" "keeps (sdk_moves cx) (removeDeviceChannel cid)"
  "keeps (sdk_moves cx) (writeOpening L n funded userLock deps)" "keeps (sdk_moves cx) (setChannelId L n cid)"
  "keeps (sdk_moves cx) (clearOpening L cid)" "keeps (sdk_moves cx) (clearIndex L n)"
  unfolding allocateChannelIndex_def allocateInvoiceIndex_def allocate_def watch_def watchIfAbsent_def mark_def forget_def
    updateActivity_def addDeviceChannel_def removeDeviceChannel_def writeOpening_def setChannelId_def clearOpening_def clearIndex_def
    clearWhere_def
  by (intro sdk_keeps)+


section \<open>Relations a call keeps\<close>

text \<open>
  A relation between the world before and the world after that looks at the storage, the calls and the readings of the
  clock alone, that lets the clock be read, that composes, and that holds of a storage move of kind \<open>S\<close> and of a call of kind \<open>N\<close>, holds of every flow made of such.
\<close>

definition leads :: "(sdk_world \<Rightarrow> sdk_world \<Rightarrow> bool) \<Rightarrow> 'a sdk \<Rightarrow> bool" where
  "leads R m \<longleftrightarrow> (\<forall>w. R w (snd (m w)))"

lemma leadsD: "leads R m \<Longrightarrow> m w = (r, w') \<Longrightarrow> R w w'"
  unfolding leads_def by (metis snd_conv)

lemma leads_at: "leads R m \<Longrightarrow> R w (snd (m w))"
  by (simp add: leads_def)

lemma leads_if: "(b \<Longrightarrow> leads R m) \<Longrightarrow> (\<not> b \<Longrightarrow> leads R m') \<Longrightarrow> leads R (if b then m else m')"
  by simp

lemma leads_option:
  "(z = None \<Longrightarrow> leads R m) \<Longrightarrow> (\<And>x. z = Some x \<Longrightarrow> leads R (f x)) \<Longrightarrow>
   leads R (case z of None \<Rightarrow> m | Some x \<Rightarrow> f x)"
  by (cases z) simp_all

lemma leads_sum:
  "(\<And>e. z = Inl e \<Longrightarrow> leads R (f e)) \<Longrightarrow> (\<And>x. z = Inr x \<Longrightarrow> leads R (g x)) \<Longrightarrow>
   leads R (case z of Inl e \<Rightarrow> f e | Inr x \<Rightarrow> g x)"
  by (cases z) simp_all

lemma leads_Let: "(\<And>x. leads R (f x)) \<Longrightarrow> leads R (let x = z in f x)"
  by simp

lemma leads_prod: "(\<And>x y. leads R (f x y)) \<Longrightarrow> leads R (case p of (x, y) \<Rightarrow> f x y)"
  by (cases p) simp

lemma leads_failure:
  "(\<And>m s. leads R (f m s)) \<Longrightarrow> (\<And>m c s. leads R (g m c s)) \<Longrightarrow> (\<And>m p s. leads R (h m p s)) \<Longrightarrow> (\<And>e. leads R (k e)) \<Longrightarrow>
   leads R (case z of RpcTransportError m s \<Rightarrow> f m s | RpcError m c s \<Rightarrow> g m c s | RpcResponseError m p s \<Rightarrow> h m p s
     | RpcOtherError e \<Rightarrow> k e)"
  by (cases z) simp_all

lemma leads_error:
  "(\<And>s. leads R (f s)) \<Longrightarrow> leads R m \<Longrightarrow>
   leads R (case z of HostErr s \<Rightarrow> f s | _ \<Rightarrow> m)"
  by (cases z) simp_all

lemmas leads_branches = leads_if leads_option leads_sum leads_Let leads_prod leads_failure leads_error

locale world_relation =
  fixes R :: "sdk_world \<Rightarrow> sdk_world \<Rightarrow> bool" and S :: "storage \<Rightarrow> storage \<Rightarrow> bool" and N :: "node_call \<Rightarrow> bool"
  assumes frame: "wd_storage w' = wd_storage w \<Longrightarrow> wd_calls w' = wd_calls w \<Longrightarrow> wd_clockReads w \<le> wd_clockReads w' \<Longrightarrow> R w w'"
    and compose: "R w w' \<Longrightarrow> R w' w'' \<Longrightarrow> R w w''"
    and storing: "S (wd_storage w) st \<Longrightarrow> R w (w\<lparr> wd_storage := st \<rparr>)"
    and calling: "N c \<Longrightarrow> R w (w\<lparr> wd_client := cl, wd_calls := wd_calls w @ [c] \<rparr>)"
begin

lemma bind_at:
  assumes "R w (snd (m w))" "\<And>x w'. m w = (Inr x, w') \<Longrightarrow> R w' (snd (f x w'))"
  shows "R w (snd (bindW m f w))"
proof -
  obtain r w' where m: "m w = (r, w')" by fastforce
  show ?thesis
  proof (cases r)
    case (Inr x)
    with assms m compose [of w w'] show ?thesis by (simp add: bindW_def)
  qed (use assms(1) m in \<open>simp add: bindW_def\<close>)
qed

lemma bind: "leads R m \<Longrightarrow> (\<And>x. leads R (f x)) \<Longrightarrow> leads R (bindW m f)"
  unfolding leads_def by (blast intro: bind_at)

lemma catch:
  assumes "leads R m" "\<And>e. leads R (f e)"
  shows "leads R (catchW m f)"
  unfolding leads_def
proof
  fix w
  obtain r w' where m: "m w = (r, w')" by fastforce
  from leadsD [OF assms(1) m] have w: "R w w'" .
  moreover have "R w' (snd (f e w'))" for e using assms(2) by (simp add: leads_def)
  ultimately show "R w (snd (catchW m f w))" using m compose [of w w'] by (cases r) (simp_all add: catchW_def)
qed

lemma finish:
  assumes "leads R m" "\<And>w. wd_storage (f w) = wd_storage w \<and> wd_calls (f w) = wd_calls w \<and> wd_clockReads (f w) = wd_clockReads w"
  shows "leads R (finallyW m f)"
  unfolding leads_def
proof
  fix w
  obtain r w' where m: "m w = (r, w')" by fastforce
  from compose [OF leadsD [OF assms(1) m] frame [of "f w'"]] assms(2) show "R w (snd (finallyW m f w))"
    by (simp add: finallyW_def m)
qed

lemma change: "(\<And>w. wd_storage (f w) = wd_storage w \<and> wd_calls (f w) = wd_calls w \<and> wd_clockReads (f w) = wd_clockReads w) \<Longrightarrow> leads R (changeW f)"
  by (simp add: leads_def changeW_def frame)

lemma stay: "(\<And>w. wd_storage (snd (m w)) = wd_storage w \<and> wd_calls (snd (m w)) = wd_calls w
    \<and> wd_clockReads w \<le> wd_clockReads (snd (m w))) \<Longrightarrow> leads R m"
  by (simp add: leads_def frame)

lemma pure:
  "leads R (doneW x)" "leads R (failW e)" "leads R (liftW r)" "leads R (liftReader ro)" "leads R (askW g)"
  "leads R (nowW cx)" "leads R (abandoned cx)" "leads R (setBiscuitToken token)"
  by (rule stay, simp add: doneW_def failW_def liftW_def liftReader_def askW_def nowW_def abandoned_def setBiscuitToken_def
      split: sum.split option.split)+

lemma noted: "leads R pollNow" "leads R (emitSdkEvent event)" "leads R (readSdkClockW cx)"
  unfolding pollNow_def emitSdkEvent_def readSdkClockW_def by (intro change bind pure; simp)+

lemma store:
  assumes "keeps S m"
  shows "leads R (onStore m)"
  unfolding leads_def
proof
  fix w :: sdk_world
  obtain r st where m: "m (wd_storage w) = (r, st)" by fastforce
  have "S (wd_storage w) st" by (rule keepsD [OF assms m])
  then have "R w (w\<lparr> wd_storage := st \<rparr>)" by (rule storing)
  then show "R w (snd (onStore m w))" by (cases r) (simp_all add: onStore_def m)
qed

lemma delivery:
  assumes "\<And>st. S st (snd (m st))"
  shows "leads R (deliver m)"
  unfolding leads_def deliver_def using storing assms by (simp add: case_prod_beta)

lemma node: "N c \<Longrightarrow> leads R (onNode c m)"
  unfolding leads_def onNode_def using calling [of c] by (simp add: case_prod_beta)

lemma unless: "leads R m \<Longrightarrow> leads R (unlessAbandoned cx m)"
  unfolding unlessAbandoned_def by (intro bind leads_if pure)

lemma delivered: "leads R (deliverStepEvent cx event)" "leads R (reportStepFailure cx poll i)"
  unfolding deliverStepEvent_def reportStepFailure_def by (intro unless noted)+

lemma each: "(\<And>x. leads R (f x)) \<Longrightarrow> leads R (answerEachPolled cx poll xs idOf f)"
  by (induction xs) (auto intro!: unless bind catch pure delivered)

lemmas rules = bind catch finish change pure noted store delivery node unless delivered each leads_branches

end

section \<open>What the storage keeps of an invoice\<close>

lemma foreign_apart: "is_foreign key \<Longrightarrow> key \<noteq> invoiceKey h \<and> key \<noteq> intentKey h \<and> key \<noteq> channelKey i \<and> key \<noteq> aliasKey n"
  by (auto simp: is_foreign_def assertForeignKey_def POLICY_KEYS_def keyed_defs startsWith_def bindR_Inr_iff split: if_splits)

text \<open>What one move may do to the invoice of a hash.\<close>

lemma move_step_invoice:
  assumes "allowed b mv"
  shows "invoice_kept (invoice_at (cx_lib cx) (snd a) k) (invoice_at (cx_lib cx) (snd (move_step cx mv a)) k)
    \<or> invoice_at (cx_lib cx) (snd a) k = Inr None \<and> (\<exists>v. invoice_at (cx_lib cx) (snd (move_step cx mv a)) k = Inr (Some v) \<and> \<not> hi_released v)
    \<or> b \<and> fst (move_step cx mv a) = Suc (fst a) \<and> (\<exists>v. invoice_at (cx_lib cx) (snd a) k = Inr (Some v)
        \<and> invoice_at (cx_lib cx) (snd (move_step cx mv a)) k = Inr (Some (v\<lparr> hi_released := True \<rparr>))
        \<and> holds_invoice (cx_lib cx) (snd a) v (cx_now cx (fst a)) (releaseMarginOf cx))"
proof -
  obtain n and st :: storage where a: "a = (n, st)" by (cases a)
  show ?thesis
  proof (cases mv)
    case (ByEngine e)
    with perform_invoice [of "cx_lib cx" st k "ds_policy (cx_dispatch cx)" e] assms a show ?thesis by auto
  next
    case (ByRecord key t)
    have "snd (move_step cx mv a) (invoiceKey k) = st (invoiceKey k)" using foreign_apart [of key k] ByRecord a by auto
    from at_cong(3) [of "snd (move_step cx mv a)" k st, OF this] a show ?thesis by simp
  next
    case ByClock
    with a show ?thesis by (simp add: invoice_kept_def)
  next
    case (ByRelease ph)
    with perform_invoice [of "cx_lib cx" st k "ds_policy (cx_dispatch cx)" "MarkHoldInvoiceReleased ph (cx_now cx n) (releaseMarginOf cx)"]
      assms a show ?thesis by auto
  qed
qed

definition same_terms :: "hold_invoice_record \<Rightarrow> hold_invoice_record \<Rightarrow> bool" where
  "same_terms v v' \<longleftrightarrow> hi_paymentHash v' = hi_paymentHash v \<and> hi_amountShannons v' = hi_amountShannons v
     \<and> hi_hashAlgorithm v' = hi_hashAlgorithm v \<and> hi_invoiceIndex v' = hi_invoiceIndex v \<and> (hi_released v \<longrightarrow> hi_released v')"

lemma path_invoice:
  assumes "sdk_path b cx a a'" "invoice_at (cx_lib cx) (snd a) k = Inr (Some v)"
  shows "\<exists>v'. invoice_at (cx_lib cx) (snd a') k = Inr (Some v') \<and> same_terms v v'"
proof -
  have "list_all (allowed b) ms \<Longrightarrow> \<exists>v'. invoice_at (cx_lib cx) (snd (fold (move_step cx) ms a)) k = Inr (Some v') \<and> same_terms v v'" for ms
  proof (induction ms rule: rev_induct)
    case (snoc mv ms)
    then obtain u where u: "invoice_at (cx_lib cx) (snd (fold (move_step cx) ms a)) k = Inr (Some u)" "same_terms v u" by auto
    from snoc.prems have "allowed b mv" by simp
    from move_step_invoice [OF this, of cx "fold (move_step cx) ms a" k] u show ?case
      by (auto simp: invoice_kept_def same_terms_def)
  qed (simp add: assms(2) same_terms_def)
  with assms(1) show ?thesis by (auto simp: sdk_path_def)
qed

text \<open>
  An invoice that became released on the way was held when it was marked: in the storage passed at a reading of the
  clock made on the way, each of its TLCs expired later than this very reading and the margin of the network.
\<close>

definition held_on :: "sdk_context \<Rightarrow> nat \<times> storage \<Rightarrow> nat \<times> storage \<Rightarrow> string \<Rightarrow> bool" where
  "held_on cx a a' k \<longleftrightarrow> (\<exists>n mid v. fst a \<le> n \<and> n < fst a' \<and> sdk_path True cx a (n, mid) \<and> sdk_path True cx (n, mid) a'
     \<and> invoice_at (cx_lib cx) mid k = Inr (Some v) \<and> \<not> hi_released v
     \<and> holds_invoice (cx_lib cx) mid v (cx_now cx n) (releaseMarginOf cx))"

lemma held_on_step:
  assumes "held_on cx a a' k" "sdk_path True cx a' a''"
  shows "held_on cx a a'' k"
  using assms path_trans path_clock_mono [OF assms(2)] unfolding held_on_def by (meson order_less_le_trans)

lemma path_released:
  assumes "sdk_path b cx a a'" "released_at (cx_lib cx) (snd a') k"
  shows "released_at (cx_lib cx) (snd a) k \<or> b \<and> held_on cx a a' k"
proof -
  have "list_all (allowed b) ms \<Longrightarrow> released_at (cx_lib cx) (snd (fold (move_step cx) ms a)) k \<Longrightarrow>
      released_at (cx_lib cx) (snd a) k \<or> b \<and> held_on cx a (fold (move_step cx) ms a) k" for ms
  proof (induction ms rule: rev_induct)
    case (snoc mv ms)
    let ?mid = "fold (move_step cx) ms a"
    from snoc.prems have mv: "allowed b mv" "list_all (allowed b) ms"
      and rel: "released_at (cx_lib cx) (snd (move_step cx mv ?mid)) k" by simp_all
    then have mid: "sdk_path b cx a ?mid" unfolding sdk_path_def by blast
    note last = path_step [OF mv(1), of cx ?mid]
    show ?case
    proof (cases "released_at (cx_lib cx) (snd ?mid) k")
      case True
      with snoc.IH mv(2) show ?thesis using held_on_step [of cx a ?mid k "move_step cx mv ?mid"] last by auto
    next
      case False
      with move_step_invoice [OF mv(1), of cx ?mid k] rel obtain v where b
        and v: "fst (move_step cx mv ?mid) = Suc (fst ?mid)" "invoice_at (cx_lib cx) (snd ?mid) k = Inr (Some v)"
        "holds_invoice (cx_lib cx) (snd ?mid) v (cx_now cx (fst ?mid)) (releaseMarginOf cx)"
        by (auto simp: released_at_iff invoice_kept_def)
      moreover from False v(2) have "\<not> hi_released v" by (auto simp: released_at_iff)
      ultimately have "held_on cx a (move_step cx mv ?mid) k"
        unfolding held_on_def using mid last path_clock_mono [OF mid]
        by (intro exI [of _ "fst ?mid"] exI [of _ "snd ?mid"] exI [of _ v]) simp
      with \<open>b\<close> show ?thesis by simp
    qed
  qed simp
  with assms show ?thesis by (auto simp: sdk_path_def)
qed

section \<open>The preimages posted\<close>

text \<open>A preimage may be posted under \<open>h\<close>: the invoice of its own hash is recorded, and released.\<close>

definition preimage_due :: "sdk_context \<Rightarrow> storage \<Rightarrow> bytes \<Rightarrow> bytes \<Rightarrow> string \<Rightarrow> bool" where
  "preimage_due cx st h p ph \<longleftrightarrow> h = hexToBytes (cx_lib cx) ph \<and> bytesToHex (cx_lib cx) (ckbBlake2b (cx_lib cx) [p]) = ph
     \<and> (\<exists>v. invoice_at (cx_lib cx) st (boundPaymentHashOf (cx_lib cx) ph) = Inr (Some v) \<and> hi_paymentHash v = ph \<and> hi_released v)"

abbreviation at_world :: "sdk_world \<Rightarrow> nat \<times> storage" where
  "at_world w \<equiv> (wd_clockReads w, wd_storage w)"

definition paid :: "bool \<Rightarrow> sdk_context \<Rightarrow> sdk_world \<Rightarrow> sdk_world \<Rightarrow> bool" where
  "paid rel cx w w' \<longleftrightarrow> sdk_path rel cx (at_world w) (at_world w') \<and> (\<exists>new. wd_calls w' = wd_calls w @ new
     \<and> (\<forall>h p. CallSettleInvoice h p \<in> set new \<longrightarrow> (\<exists>ph. preimage_due cx (wd_storage w') h p ph)))"

lemma preimage_due_path:
  assumes "preimage_due cx (snd a) h p ph" "sdk_path b cx a a'"
  shows "preimage_due cx (snd a') h p ph"
proof -
  from assms(1) obtain v where "invoice_at (cx_lib cx) (snd a) (boundPaymentHashOf (cx_lib cx) ph) = Inr (Some v)"
    "hi_paymentHash v = ph" "hi_released v" by (auto simp: preimage_due_def)
  with path_invoice [OF assms(2) this(1)] assms(1) show ?thesis
    by (auto simp: preimage_due_def same_terms_def)
qed

fun settles_no_invoice :: "node_call \<Rightarrow> bool" where
  "settles_no_invoice (CallSettleInvoice h p) = False"
| "settles_no_invoice c = True"

interpretation paid: world_relation "paid rel cx" "sdk_moves cx" settles_no_invoice for rel cx
proof
  show "paid rel cx w w'" if "wd_storage w' = wd_storage w" "wd_calls w' = wd_calls w" "wd_clockReads w \<le> wd_clockReads w'" for w w'
    using that by (auto simp: paid_def path_clock)
  show "paid rel cx u w" if uv: "paid rel cx u v" and vw: "paid rel cx v w" for u v w
  proof -
    from uv obtain xs where xs: "wd_calls v = wd_calls u @ xs"
      "\<forall>h p. CallSettleInvoice h p \<in> set xs \<longrightarrow> (\<exists>ph. preimage_due cx (wd_storage v) h p ph)" by (auto simp: paid_def)
    from vw obtain ys where ys: "wd_calls w = wd_calls v @ ys"
      "\<forall>h p. CallSettleInvoice h p \<in> set ys \<longrightarrow> (\<exists>ph. preimage_due cx (wd_storage w) h p ph)" by (auto simp: paid_def)
    from uv vw have m: "sdk_path rel cx (at_world u) (at_world v)" "sdk_path rel cx (at_world v) (at_world w)"
      by (auto simp: paid_def)
    have keep: "preimage_due cx (wd_storage v) h p ph \<Longrightarrow> preimage_due cx (wd_storage w) h p ph" for h p ph
      using preimage_due_path [OF _ m(2)] by simp
    from xs ys keep path_trans [OF m] show ?thesis
      unfolding paid_def by (intro conjI exI [of _ "xs @ ys"]) (auto, blast+)
  qed
  show "paid rel cx w (w\<lparr> wd_storage := st \<rparr>)" if "sdk_moves cx (wd_storage w) st" for w st
    using that by (simp add: paid_def moves_path)
  show "paid rel cx w (w\<lparr> wd_client := cl, wd_calls := wd_calls w @ [c] \<rparr>)" if "settles_no_invoice c" for w c cl
    using that by (cases c) (simp_all add: paid_def path_refl)
qed

lemmas [sdk_keeps] = paid.rules

lemma keeps_mapS_info [sdk_keeps]: "keeps (sdk_moves cx) (mapS channelInfo cs)"
  by (intro sdk_keeps)

lemma paid_signing [sdk_keeps]:
  "leads (paid rel cx) (deliver (handle (cx_lib cx) M (cx_dispatch cx) cid status))"
  "leads (paid rel cx) (deliver (handleWatchtower (cx_lib cx) M (cx_dispatch cx) cid status))"
  by (intro paid.delivery engine_sdk_moves handle_moves handleWatchtower_moves)+

lemma paid_flows [sdk_keeps]:
  "leads (paid rel cx) (createSdkInvoice cx amount options)" "leads (paid rel cx) (transferSdkPayment cx encoded maxFee)"
  "leads (paid rel cx) (closeSdkChannel cx cid feeRate)" "leads (paid rel cx) (listSdkChannels cx)"
  unfolding createSdkInvoice_def transferSdkPayment_def sendWatchedPayment_def recordPaymentIntent_def answerSendFailure_def
    closeSdkChannel_def listSdkChannels_def Let_def
  by (intro sdk_keeps; simp)+

lemma paid_opening [sdk_keeps]:
  "leads (paid rel cx) (refuseOpening cx pend e)" "leads (paid rel cx) (openWithNode cx a)" "leads (paid rel cx) (submitSdkFundingTx cx cid signedTx)"
proof -
  have drop: "leads (paid rel cx) (dropOpening cx pend)" for pend
    unfolding dropOpening_def by (intro sdk_keeps)
  have refuse: "leads (paid rel cx) (refuseOpening cx pend e)" for pend e
    unfolding refuseOpening_def by (intro sdk_keeps drop)
  have resume: "leads (paid rel cx) (resumableOpening cx a)" "leads (paid rel cx) (startOpening cx a)" for a
    unfolding resumableOpening_def startOpening_def Let_def by (intro sdk_keeps drop; simp)+
  have pin: "leads (paid rel cx) (pinOpening cx pend userLock result ps)" for pend userLock result ps
    unfolding pinOpening_def Let_def by (intro sdk_keeps refuse)
  show "leads (paid rel cx) (refuseOpening cx pend e)" by (rule refuse)
  show "leads (paid rel cx) (openWithNode cx a)"
    unfolding openWithNode_def Let_def by (intro sdk_keeps resume pin refuse; simp)
  show "leads (paid rel cx) (submitSdkFundingTx cx cid signedTx)"
    unfolding submitSdkFundingTx_def Let_def by (intro sdk_keeps; simp)
qed

lemma paid_openings [sdk_keeps]:
  "leads (paid rel cx) (prepareSdkChannelOpen cx amount userLock deps)" "leads (paid rel cx) (openSdkChannel cx amount userLock sign deps)"
  unfolding prepareSdkChannelOpen_def openSdkChannel_def by (intro sdk_keeps)+

text \<open>The release: the mark stands, or the invoice was released before, when its preimage is posted.\<close>

lemma readHoldInvoice_Inr:
  "readHoldInvoice L ph st = (Inr r, st') \<Longrightarrow> st' = st \<and> invoice_at L st (boundPaymentHashOf L ph) = Inr (Some r) \<and> hi_paymentHash r = ph"
  by (auto simp: readHoldInvoice_def requireHoldInvoice_def bindS_Inr_iff bindR_Inr_iff assertSameHash_def check_def
      dest!: getHoldInvoiceRecord_Inr split: option.splits if_splits)

lemma markHoldInvoiceReleased_Inr:
  assumes "markHoldInvoiceReleased L ph nowMs margin st = (Inr (), st')"
  shows "released_at L st' (boundPaymentHashOf L ph)"
proof -
  from assms obtain r st1 where r: "requireHoldInvoice L ph st = (Inr r, st1)"
    and rest: "hi_released r \<and> st' = st1 \<or> (\<exists>cs st2 v. readListedChannels L (hi_channelIndexes r) st1 = (Inr cs, st2)
      \<and> updateHoldInvoiceRecord L (boundPaymentHashOf L ph) releasedUpdate st2 = (Inr v, st'))"
    unfolding markHoldInvoiceReleased_def by (auto simp: bindS_Inr_iff split: if_splits)
  have st1: "st1 = st" by (rule reads_onlyD [OF reads_engine(6) r])
  have rest: "hi_released r \<and> st' = st \<or> (\<exists>v. updateHoldInvoiceRecord L (boundPaymentHashOf L ph) releasedUpdate st = (Inr v, st'))"
    using rest reads_onlyD [OF reads_engine(5)] unfolding st1 by blast
  from r have at: "invoice_at L st (boundPaymentHashOf L ph) = Inr (Some r)"
    by (auto simp: requireHoldInvoice_def bindS_Inr_iff bindR_Inr_iff dest!: getHoldInvoiceRecord_Inr split: option.splits)
  from rest show ?thesis
  proof (elim disjE exE)
    fix v assume "updateHoldInvoiceRecord L (boundPaymentHashOf L ph) releasedUpdate st = (Inr v, st')"
    then have "updateAt (invoiceKey (boundPaymentHashOf L ph)) (HOLD_INVOICE_FORMAT L) releasedUpdate st = (Inr v, st')"
      by (auto simp: updateHoldInvoiceRecord_def bindS_Inr_iff)
    from invoice_format.update_result [OF this] show ?thesis
      by (auto simp: released_at_def invoice_at_def releasedUpdate_def split: option.splits)
  qed (simp add: released_at_def at)
qed

lemma onStore_Inr: "onStore m w = (Inr x, w') \<longleftrightarrow> (\<exists>st. m (wd_storage w) = (Inr x, st) \<and> w' = w\<lparr> wd_storage := st \<rparr>)"
  by (auto simp: onStore_def split: prod.splits sum.splits)

lemma paid_finish [sdk_keeps]: "leads (paid rel cx) (finishInvoice cx ph event)" "leads (paid rel cx) (expireUnreleased cx ph bill nowMs)"
proof -
  show finish: "leads (paid rel cx) (finishInvoice cx ph event)" for event
    unfolding finishInvoice_def by (intro sdk_keeps)
  show "leads (paid rel cx) (expireUnreleased cx ph bill nowMs)"
    unfolding expireUnreleased_def by (intro sdk_keeps finish)
qed

text \<open>The mark is made at the reading of the clock just taken.\<close>

lemma paid_mark [sdk_keeps]: "leads (paid True cx) (markReleased cx ph bill)"
  unfolding leads_def
proof
  fix w :: sdk_world
  let ?n = "wd_clockReads w"
  let ?H = "\<lambda>e. case e of
      RpcOtherError (HostErr code) \<Rightarrow>
        if code \<in> set RELEASE_WAITS then bindW (expireUnreleased cx ph bill (cx_now cx ?n)) (\<lambda>_. doneW False) else failW e
    | _ \<Rightarrow> failW e"
  obtain y st where y: "markHoldInvoiceReleased (cx_lib cx) ph (cx_now cx ?n) (releaseMarginOf cx) (wd_storage w) = (y, st)" by fastforce
  define w1 where "w1 = w\<lparr> wd_clockReads := ?n + 1, wd_storage := st \<rparr>"
  from y path_step [of True "ByRelease ph" cx "(?n, wd_storage w)"] have moved: "paid True cx w w1"
    by (simp add: paid_def w1_def)
  show "paid True cx w (snd (markReleased cx ph bill w))"
  proof (cases y)
    case (Inr u)
    with y moved show ?thesis
      by (simp add: markReleased_def bindW_def nowW_def catchW_def onStore_def doneW_def w1_def)
  next
    case (Inl e)
    have "leads (paid True cx) (?H (failure e))" by (intro sdk_keeps)
    then have "paid True cx w1 (snd (?H (failure e) w1))" by (rule leads_at)
    from paid.compose [OF moved this] y Inl show ?thesis
      by (simp add: markReleased_def bindW_def nowW_def catchW_def onStore_def w1_def)
  qed
qed

lemma markReleased_True:
  assumes "markReleased cx ph bill w = (Inr True, w')"
  shows "released_at (cx_lib cx) (wd_storage w') (boundPaymentHashOf (cx_lib cx) ph)"
proof -
  let ?n = "cx_now cx (wd_clockReads w)" and ?w = "w\<lparr> wd_clockReads := wd_clockReads w + 1 \<rparr>"
  obtain y st where y: "markHoldInvoiceReleased (cx_lib cx) ph ?n (releaseMarginOf cx) (wd_storage w) = (y, st)" by fastforce
  show ?thesis
  proof (cases y)
    case (Inr u)
    with y markHoldInvoiceReleased_Inr [of "cx_lib cx" ph ?n "releaseMarginOf cx" "wd_storage w" st] assms show ?thesis
      by (auto simp: markReleased_def bindW_def nowW_def catchW_def onStore_def doneW_def)
  next
    case (Inl e)
    with y assms show ?thesis
      by (cases e) (auto simp: markReleased_def bindW_def nowW_def catchW_def onStore_def doneW_def failW_def failure_def
          split: if_splits prod.splits sum.splits)
  qed
qed

lemma preimageOf_Inr: "preimageOf cx ph i = Inr p \<Longrightarrow> bytesToHex (cx_lib cx) (ckbBlake2b (cx_lib cx) [p]) = ph"
  by (auto simp: preimageOf_def holdInvoicePaymentHash_def bindR_Inr_iff split: if_splits)

lemma paid_settle:
  assumes "preimage_due cx (wd_storage w) (hexToBytes (cx_lib cx) ph) p ph"
  shows "paid rel cx w (snd (settleHoldInvoice cx ph p w))"
proof -
  have "paid rel cx w (w\<lparr> wd_client := cl, wd_calls := wd_calls w @ [CallSettleInvoice (hexToBytes (cx_lib cx) ph) p] \<rparr>)" for cl
    using assms by (auto simp: paid_def path_refl)
  then show ?thesis
    by (simp add: settleHoldInvoice_def catchW_def onNode_def doneW_def failW_def Let_def split: prod.split sum.split)
qed

lemma unlessAbandoned_at:
  assumes "\<And>w'. wd_storage w' = wd_storage w \<Longrightarrow> wd_calls w' = wd_calls w \<Longrightarrow> paid rel cx w' (snd (m w'))"
  shows "paid rel cx w (snd (unlessAbandoned cx m w))"
  unfolding unlessAbandoned_def
proof (rule paid.bind_at)
  show "paid rel cx w (snd (abandoned cx w))" by (simp add: abandoned_def paid.frame)
  fix b w' assume "abandoned cx w = (Inr b, w')"
  then have "wd_storage w' = wd_storage w" "wd_calls w' = wd_calls w" by (auto simp: abandoned_def)
  from assms [OF this] show "paid rel cx w' (snd ((if b then doneW () else m) w'))" by (simp add: doneW_def paid.frame)
qed

lemma due_here:
  "invoice_at (cx_lib cx) st (boundPaymentHashOf (cx_lib cx) ph) = Inr (Some v) \<Longrightarrow> hi_paymentHash v = ph \<Longrightarrow> hi_released v \<Longrightarrow>
   bytesToHex (cx_lib cx) (ckbBlake2b (cx_lib cx) [p]) = ph \<Longrightarrow> preimage_due cx st (hexToBytes (cx_lib cx) ph) p ph"
  by (auto simp: preimage_due_def)

lemma paid_release [sdk_keeps]: "leads (paid True cx) (release cx ph bill)"
  unfolding leads_def release_def
proof (intro allI paid.bind_at unlessAbandoned_at)
  fix w :: sdk_world
  show "paid True cx w (snd (onStore (readHoldInvoice (cx_lib cx) ph) w))"
    using paid.store [OF sdk_moving.reading [OF reads_payments(1)]] by (simp add: leads_def)
  fix r and w0 w1 :: sdk_world
  assume read: "onStore (readHoldInvoice (cx_lib cx) ph) w = (Inr r, w0)" and w1: "wd_storage w1 = wd_storage w0"
  then have at: "invoice_at (cx_lib cx) (wd_storage w1) (boundPaymentHashOf (cx_lib cx) ph) = Inr (Some r)" "hi_paymentHash r = ph"
    by (auto simp: onStore_Inr dest!: readHoldInvoice_Inr)
  show "paid True cx w1 (snd (liftW (preimageOf cx ph (hi_invoiceIndex r)) w1))"
    by (rule leads_at [OF paid.pure(3)])
  fix p and w2 :: sdk_world
  assume "liftW (preimageOf cx ph (hi_invoiceIndex r)) w1 = (Inr p, w2)"
  then have p: "bytesToHex (cx_lib cx) (ckbBlake2b (cx_lib cx) [p]) = ph" and w2: "w2 = w1"
    by (auto simp: liftW_def doneW_def failW_def dest!: preimageOf_Inr split: sum.splits)
  show "paid True cx w2 (snd ((if hi_released r then settleHoldInvoice cx ph p
          else bindW (markReleased cx ph bill) (\<lambda>marked. if \<not> marked then doneW () else
            unlessAbandoned cx (bindW (settleHoldInvoice cx ph p) (\<lambda>_. unlessAbandoned cx pollNow)))) w2))"
  proof (cases "hi_released r")
    case True
    with at p w2 show ?thesis by (auto intro: paid_settle due_here)
  next
    case False
    have "paid True cx w2 (snd (bindW (markReleased cx ph bill) (\<lambda>marked. if \<not> marked then doneW () else
            unlessAbandoned cx (bindW (settleHoldInvoice cx ph p) (\<lambda>_. unlessAbandoned cx pollNow))) w2))"
    proof (rule paid.bind_at)
      show moved: "paid True cx w2 (snd (markReleased cx ph bill w2))" using paid_mark by (simp add: leads_def)
      fix marked and w3 :: sdk_world assume m: "markReleased cx ph bill w2 = (Inr marked, w3)"
      show "paid True cx w3 (snd ((if \<not> marked then doneW () else
            unlessAbandoned cx (bindW (settleHoldInvoice cx ph p) (\<lambda>_. unlessAbandoned cx pollNow))) w3))"
      proof (cases marked)
        case True
        from moved m have "sdk_path True cx (at_world w1) (at_world w3)" by (simp add: paid_def w2)
        from path_invoice [OF this, unfolded snd_conv, OF at(1)] markReleased_True [of cx ph bill w2 w3] m True at(2) p have
          due: "preimage_due cx (wd_storage w3) (hexToBytes (cx_lib cx) ph) p ph"
          by (auto simp: released_at_iff same_terms_def intro!: due_here)
        have "paid True cx w3 (snd (unlessAbandoned cx (bindW (settleHoldInvoice cx ph p) (\<lambda>_. unlessAbandoned cx pollNow)) w3))"
        proof (intro unlessAbandoned_at paid.bind_at)
          fix w4 :: sdk_world assume "wd_storage w4 = wd_storage w3"
          with due show "paid True cx w4 (snd (settleHoldInvoice cx ph p w4))" by (intro paid_settle) simp
        qed (rule leads_at [OF paid.noted(1)])
        with True show ?thesis by simp
      qed (simp add: doneW_def paid.frame)
    qed
    with False show ?thesis by simp
  qed
qed

lemma paid_steps [sdk_keeps]:
  "leads (paid rel cx) (channelStep cx)" "leads (paid rel cx) (channelSigningStep cx)" "leads (paid rel cx) (watchtowerSigningStep cx)"
  "leads (paid True cx) (invoiceStep cx)" "leads (paid rel cx) (paymentStep cx)"
proof -
  have channel: "leads (paid rel cx) (settleChannel cx channel entry)" for channel entry
    unfolding settleChannel_def Let_def by (intro sdk_keeps)
  have listed: "leads (paid rel cx) (settleListed cx channels watched)" for channels watched
    unfolding settleListed_def by (intro sdk_keeps channel)
  show "leads (paid rel cx) (channelStep cx)"
    unfolding channelStep_def Let_def by (intro sdk_keeps listed; simp)
  have signed: "leads (paid rel cx) (submitSigned cx cid out)" "leads (paid rel cx) (submitWatchtower cx cid i purpose signature claimed)"
    for cid out i purpose signature claimed
    unfolding submitSigned_def submitWatchtower_def Let_def by (intro sdk_keeps; simp)+
  have signing: "leads (paid rel cx) (case out of Idle \<Rightarrow> m1 | Signed s \<Rightarrow> m2 s | Refused a b c d e \<Rightarrow> m3 a b c d e | Fault f \<Rightarrow> m4 f)"
    if "leads (paid rel cx) m1" "\<And>s. leads (paid rel cx) (m2 s)" "\<And>a b c d e. leads (paid rel cx) (m3 a b c d e)" "\<And>f. leads (paid rel cx) (m4 f)"
    for out m1 m2 m3 m4
    using that by (cases out) simp_all
  have watching: "leads (paid rel cx) (case out of WatchtowerIdle \<Rightarrow> m1 | WatchtowerSigned a b c d \<Rightarrow> m2 a b c d
      | WatchtowerRefused a b c d \<Rightarrow> m3 a b c d | WatchtowerFault f \<Rightarrow> m4 f)"
    if "leads (paid rel cx) m1" "\<And>a b c d. leads (paid rel cx) (m2 a b c d)" "\<And>a b c d. leads (paid rel cx) (m3 a b c d)" "\<And>f. leads (paid rel cx) (m4 f)"
    for out m1 m2 m3 m4
    using that by (cases out) simp_all
  show "leads (paid rel cx) (channelSigningStep cx)"
    unfolding channelSigningStep_def answerSigning_def by (intro sdk_keeps signed signing; simp)
  show "leads (paid rel cx) (watchtowerSigningStep cx)"
    unfolding watchtowerSigningStep_def answerWatchtower_def readWatchtowerStatus_def
    by (intro sdk_keeps signed watching; simp)
  show "leads (paid True cx) (invoiceStep cx)"
    unfolding invoiceStep_def answerInvoice_def Let_def by (intro sdk_keeps; simp)
  show "leads (paid rel cx) (paymentStep cx)"
    unfolding paymentStep_def answerPayment_def finishPayment_def readPayment_def Let_def by (intro sdk_keeps; simp)
qed

text \<open>Only the step over the invoices, the fourth of a tick, releases.\<close>

lemma paid_perform: "paid (op = RunStep 3) cx w (sdk_perform cx op w)"
proof (cases op)
  case (RunStep i)
  then consider "i = 3" | "i \<noteq> 3" "i < length (sdk_steps cx)" | "\<not> i < length (sdk_steps cx)" by (cases "i = 3") auto
  then show ?thesis
  proof cases
    case 1
    with RunStep leads_at [OF paid_steps(4)] show ?thesis by (simp add: answered_def sdk_steps_def)
  next
    case 2
    then have "i \<in> {0, 1, 2, 4}" by (auto simp: sdk_steps_def)
    then show ?thesis using RunStep paid_steps(1,2,3,5) by (auto simp: answered_def sdk_steps_def leads_def)
  next
    case 3
    with RunStep show ?thesis by (simp add: paid.frame)
  qed
qed (use paid_flows paid_openings paid.pure(8) in
     \<open>auto simp: answered_def leads_def paid.frame paid_opening(3) [unfolded leads_def]\<close>)

lemma paid_mono:
  assumes "paid rel cx w w'"
  shows "paid True cx w w'"
proof (cases rel)
  case False
  with assms show ?thesis using path_mono [of cx "at_world w" "at_world w'" True] by (auto simp: paid_def)
qed (use assms in simp)

lemma paid_run: "paid True cx w (sdk_run cx ops w)"
  unfolding sdk_run_def by (induction ops rule: rev_induct) (auto intro: paid.frame paid.compose paid_mono [OF paid_perform])

lemma sdk_run_snoc: "sdk_run cx (ops @ [op]) w = sdk_perform cx op (sdk_run cx ops w)"
  by (simp add: sdk_run_def)

text \<open>An invoice a run released was released in one of its invoice steps, which held it at a clock reading of its own.\<close>

definition held_in_step :: "sdk_context \<Rightarrow> sdk_world \<Rightarrow> sdk_op list \<Rightarrow> string \<Rightarrow> bool" where
  "held_in_step cx w ops k \<longleftrightarrow> (\<exists>i < length ops. ops ! i = RunStep 3
     \<and> held_on cx (at_world (sdk_run cx (take i ops) w)) (at_world (sdk_run cx (take (Suc i) ops) w)) k)"

lemma held_in_step_snoc: "held_in_step cx w ops k \<Longrightarrow> held_in_step cx w (ops @ [op]) k"
  unfolding held_in_step_def by (force simp: nth_append)

lemma run_released:
  assumes "released_at (cx_lib cx) (wd_storage (sdk_run cx ops w)) k"
  shows "released_at (cx_lib cx) (wd_storage w) k \<or> held_in_step cx w ops k"
  using assms
proof (induction ops rule: rev_induct)
  case (snoc op ops)
  let ?w = "sdk_run cx ops w" and ?w' = "sdk_run cx (ops @ [op]) w"
  have "sdk_path (op = RunStep 3) cx (at_world ?w) (at_world ?w')"
    using paid_perform [of op cx ?w] by (simp add: paid_def sdk_run_snoc)
  from path_released [OF this] snoc.prems have "released_at (cx_lib cx) (wd_storage ?w) k
      \<or> op = RunStep 3 \<and> held_on cx (at_world ?w) (at_world ?w') k" by simp
  then show ?case
  proof
    assume "released_at (cx_lib cx) (wd_storage ?w) k"
    with snoc.IH held_in_step_snoc show ?case by blast
  next
    assume "op = RunStep 3 \<and> held_on cx (at_world ?w) (at_world ?w') k"
    then have "held_in_step cx w (ops @ [op]) k"
      unfolding held_in_step_def by (intro exI [of _ "length ops"]) auto
    then show ?case ..
  qed
qed (simp add: sdk_run_def)

text \<open>And it is posted: an invoice recorded as released is settled whenever it is answered as received in a live run.\<close>

lemma released_invoice_is_settled:
  assumes "readHoldInvoice (cx_lib cx) ph (wd_storage w) = (Inr r, st)" "hi_released r" "\<not> cx_abandoned cx (wd_runReads w)"
    and "preimageOf cx ph (hi_invoiceIndex r) = Inr p"
  shows "wd_calls (snd (release cx ph bill w)) = wd_calls w @ [CallSettleInvoice (hexToBytes (cx_lib cx) ph) p]"
  using assms
  by (simp add: release_def bindW_def onStore_def unlessAbandoned_def abandoned_def liftW_def doneW_def failW_def settleHoldInvoice_def
      Let_def catchW_def onNode_def split: prod.splits sum.splits)

text \<open>C4 A preimage is posted only for an invoice held, in time. Over any calls of the host and steps of the poller, whatever
  the node answers, whatever the clock answers and whenever a run is abandoned: each preimage newly posted to the node is the one
  of its own payment hash, whose invoice the device recorded and has released. Unless it was released before the run, one of the
  run's invoice steps released it: at a storage this step passed, and at a reading of the host's clock made by this step, the
  channels held the invoice's amount, and each of its TLCs expired later than that reading and the margin of the network.\<close>

theorem preimage_posted_only_held:
  "{(h, p). CallSettleInvoice h p \<in> set (drop (length (wd_calls w)) (wd_calls (sdk_run cx ops w)))}
    \<subseteq> {(h, p). \<exists>ph. preimage_due cx (wd_storage (sdk_run cx ops w)) h p ph
         \<and> (released_at (cx_lib cx) (wd_storage w) (boundPaymentHashOf (cx_lib cx) ph)
            \<or> held_in_step cx w ops (boundPaymentHashOf (cx_lib cx) ph))}"
proof (intro subsetI, clarify)
  fix h p assume "CallSettleInvoice h p \<in> set (drop (length (wd_calls w)) (wd_calls (sdk_run cx ops w)))"
  with paid_run [of cx w ops] have "\<exists>ph. preimage_due cx (wd_storage (sdk_run cx ops w)) h p ph"
    unfolding paid_def by fastforce
  then obtain ph where due: "preimage_due cx (wd_storage (sdk_run cx ops w)) h p ph" ..
  then have "released_at (cx_lib cx) (wd_storage (sdk_run cx ops w)) (boundPaymentHashOf (cx_lib cx) ph)"
    by (auto simp: preimage_due_def released_at_iff)
  from run_released [OF this] due show "\<exists>ph. preimage_due cx (wd_storage (sdk_run cx ops w)) h p ph
         \<and> (released_at (cx_lib cx) (wd_storage w) (boundPaymentHashOf (cx_lib cx) ph)
            \<or> held_in_step cx w ops (boundPaymentHashOf (cx_lib cx) ph))" by blast
qed

end
