(* ===== verification/SdkDevice.thy ===== *)
theory SdkDevice
  imports SdkSteps SdkPoller
begin

text \<open>
  The instance of \<^verbatim>\<open>sdk/fiber-lsp-sdk.ts\<close>: how the constructor wires the device from its seed and the host's
  options, the subscription to the events, and the poller of \<open>SdkPoller\<close> running the steps of \<open>SdkSteps\<close> on the
  world of the instance.
\<close>

section \<open>Listeners\<close>

text \<open>The subscribed listeners in order of subscription, each under the host's own name; a set keeps one once.\<close>

definition addListener :: "nat \<Rightarrow> nat list \<Rightarrow> nat list" where
  "addListener listener listeners = (if listener \<in> set listeners then listeners else listeners @ [listener])"

definition removeListener :: "nat \<Rightarrow> nat list \<Rightarrow> nat list" where
  "removeListener listener listeners = filter (\<lambda>l. l \<noteq> listener) listeners"

definition emitTo :: "nat list \<Rightarrow> 'e \<Rightarrow> (nat \<times> 'e) list" where
  "emitTo listeners event = map (\<lambda>l. (l, event)) listeners"

section \<open>The instance\<close>

definition DEFAULT_POLL_INTERVAL_MS :: int where
  "DEFAULT_POLL_INTERVAL_MS = 5000"

text \<open>The effects of the host (its storage, its fetch, its timer, its clock) are parameters, callable by their types.\<close>

record fiber_lsp_sdk_options =
  fo_network :: sdk_network
  fo_rpcUrl :: string
  fo_biscuitToken :: "string option"
  fo_lspPubkey :: bytes
  fo_pollIntervalMs :: "int option"
  fo_nonceReuse :: "nonce_reuse_mode option"
  fo_watchtower :: "watchtower_approval option"

record fiber_lsp_sdk =
  fs_context :: sdk_context
  fs_world :: sdk_world
  fs_poller :: poller
  fs_intervalMs :: int
  fs_listeners :: "nat list"
  fs_delivered :: "(nat \<times> sdk_event) list"

definition newFiberLspSdk ::
    "lib \<Rightarrow> musig \<Rightarrow> invoice_curve \<Rightarrow> host \<Rightarrow> (nat \<Rightarrow> int) \<Rightarrow> (nat \<Rightarrow> bool) \<Rightarrow> storage \<Rightarrow> bytes \<Rightarrow> fiber_lsp_sdk_options \<Rightarrow> fiber_lsp_sdk res" where
  "newFiberLspSdk L M C H now abandonedAt storage masterSeed options =
     bindR (assertBytes ''masterSeed'' masterSeed 32) (\<lambda>_.
     bindR (assertNonEmptyString ''rpcUrl'' (fo_rpcUrl options)) (\<lambda>_.
     bindR (assertCompressedPoint L ''lspPubkey'' (fo_lspPubkey options)) (\<lambda>_.
     let pollIntervalMs = (case fo_pollIntervalMs options of None \<Rightarrow> DEFAULT_POLL_INTERVAL_MS | Some ms \<Rightarrow> ms) in
     bindR (assertTimerDelayMs ''pollIntervalMs'' pollIntervalMs 1) (\<lambda>_.
     bindR (resolveSdkNetwork L (fo_network options)) (\<lambda>network.
     bindR (newPolicyEngine (fo_nonceReuse options) (fo_watchtower options)) (\<lambda>policy.
     bindR (newSignerDispatch masterSeed
              \<lparr> nw_commitmentLock = nc_commitmentLock network, nw_fundingLockCellDepsCount = nc_fundingLockCellDepsCount network,
                nw_millisecondsPerEpoch = nc_millisecondsPerEpoch network \<rparr> policy) (\<lambda>dispatch.
     bindR (newFiberRpcClient (fo_rpcUrl options) (fo_biscuitToken options)) (\<lambda>rpc.
     bindR (newTenantIdentity L masterSeed) (\<lambda>identity. Inr
       \<lparr> fs_context =
           \<lparr> cx_lib = L, cx_musig = M, cx_curve = C, cx_host = H, cx_network = network, cx_lspPubkey = fo_lspPubkey options,
             cx_masterSeed = masterSeed, cx_identity = identity, cx_dispatch = dispatch, cx_now = now, cx_abandoned = abandonedAt \<rparr>,
         fs_world =
           \<lparr> wd_storage = storage, wd_client = rpc, wd_sending = [], wd_reading = [], wd_calls = [], wd_events = [], wd_polls = 0,
             wd_clockReads = 0, wd_runReads = 0 \<rparr>,
         fs_poller = new_poller, fs_intervalMs = pollIntervalMs, fs_listeners = [], fs_delivered = [] \<rparr>)))))))))"

definition tenantId :: "fiber_lsp_sdk \<Rightarrow> string" where
  "tenantId sdk = ti_tenantId (cx_identity (fs_context sdk))"

definition rootSignerPubkey :: "fiber_lsp_sdk \<Rightarrow> bytes" where
  "rootSignerPubkey sdk = ti_publicKey (cx_identity (fs_context sdk))"

definition onEvent :: "nat \<Rightarrow> fiber_lsp_sdk \<Rightarrow> fiber_lsp_sdk" where
  "onEvent listener sdk = sdk\<lparr> fs_listeners := addListener listener (fs_listeners sdk) \<rparr>"

definition connect :: "fiber_lsp_sdk \<Rightarrow> fiber_lsp_sdk" where
  "connect sdk = sdk\<lparr> fs_poller := start (fs_poller sdk) \<rparr>"

definition disconnect :: "fiber_lsp_sdk \<Rightarrow> fiber_lsp_sdk" where
  "disconnect sdk = sdk\<lparr> fs_poller := stop (fs_poller sdk) \<rparr>"

section \<open>Calls and steps on the instance\<close>

text \<open>
  A call or a step moves the world of the instance; what it emits goes to the listeners, and a poll it asks for goes
  to the poller.
\<close>

definition onWorld :: "(sdk_context \<Rightarrow> 'a sdk) \<Rightarrow> fiber_lsp_sdk \<Rightarrow> (rpc_failure + 'a) \<times> fiber_lsp_sdk" where
  "onWorld m sdk =
     (case m (fs_context sdk) (fs_world sdk) of
        (r, w) \<Rightarrow>
          (r, sdk\<lparr> fs_world := w,
                   fs_poller := (if wd_polls w = wd_polls (fs_world sdk) then fs_poller sdk else pollerPollNow (fs_poller sdk)),
                   fs_delivered := fs_delivered sdk @
                     concat (map (emitTo (fs_listeners sdk)) (drop (length (wd_events (fs_world sdk))) (wd_events w))) \<rparr>))"

text \<open>The step in flight runs to its end, which is its settling; its failure is reported by the poller.\<close>

definition runPolledStep :: "bool \<Rightarrow> fiber_lsp_sdk \<Rightarrow> fiber_lsp_sdk" where
  "runPolledStep taken sdk =
     (case pl_inFlight (fs_poller sdk) of
        None \<Rightarrow> sdk
      | Some i \<Rightarrow>
          (case onWorld (\<lambda>cx. sdk_steps cx ! i) sdk of
             (r, moved) \<Rightarrow> moved\<lparr> fs_poller := poller_step (StepSettles (case r of Inl _ \<Rightarrow> True | Inr _ \<Rightarrow> False) taken) (fs_poller moved) \<rparr>))"

end
