(* ===== verification/RequestFacts.thy ===== *)
theory RequestFacts
  imports DispatchSample
begin

text \<open>
  What a signing request read from the node is held to before anything is signed, and the deadline answered
  with a signature: the two boundaries of the dispatch with the outside.
\<close>

section \<open>A well-formed request\<close>

fun content_kind :: "channel_signing_content \<Rightarrow> channel_signing_content_kind" where
  "content_kind (ContentCommitmentTx t) = KindCommitmentTx"
| "content_kind (ContentClosingTx t) = KindClosingTx"
| "content_kind (ContentRevocation out outputData lockArgs) = KindRevocation"
| "content_kind (ContentAnnouncement b) = KindAnnouncement"

definition tlc_typed :: "lib \<Rightarrow> signing_settlement_tlc \<Rightarrow> bool" where
  "tlc_typed L t \<longleftrightarrow> 0 \<le> ss_tlcId t \<and> ss_tlcId t \<le> MAX_SAFE_INTEGER
     \<and> 0 \<le> ss_localKeyCommitmentNumber t \<and> ss_localKeyCommitmentNumber t \<le> MAX_COMMITMENT_NUMBER
     \<and> 0 \<le> ss_amountShannons t \<and> ss_amountShannons t \<le> UINT128_MAX \<and> 0 \<le> ss_expiryMs t \<and> ss_expiryMs t \<le> UINT64_MAX
     \<and> length (ss_paymentHash t) = 32 \<and> isCompressedPoint L (ss_localKeyPubkey t) \<and> isCompressedPoint L (ss_remoteTlcPubkey t)"

definition settlement_typed :: "lib \<Rightarrow> signing_settlement \<Rightarrow> bool" where
  "settlement_typed L s \<longleftrightarrow> 0 \<le> se_localAmountShannons s \<and> se_localAmountShannons s \<le> UINT128_MAX
     \<and> 0 \<le> se_remoteAmountShannons s \<and> se_remoteAmountShannons s \<le> UINT128_MAX
     \<and> isCompressedPoint L (se_localSettlementPubkey s) \<and> isCompressedPoint L (se_remoteSettlementPubkey s)
     \<and> length (se_tlcs s) \<le> MAX_SETTLEMENT_TLCS \<and> list_all (tlc_typed L) (se_tlcs s)"

definition evidence_typed :: "lib \<Rightarrow> signing_session_evidence \<Rightarrow> bool" where
  "evidence_typed L e \<longleftrightarrow> length (ev_peerPublicNonce e) = 66
     \<and> isCompressedPoint L (fst (nonceHalves (ev_peerPublicNonce e))) \<and> isCompressedPoint L (snd (nonceHalves (ev_peerPublicNonce e)))
     \<and> (\<forall>s \<in> set_option (ev_peerPartialSignature e). length s = 32 \<and> be_val s < curveOrder L)"

text \<open>Every member is of its type, and what the request carries is what its transition must carry.\<close>

definition request_typed :: "lib \<Rightarrow> channel_signing_request \<Rightarrow> bool" where
  "request_typed L r \<longleftrightarrow>
     (let rule = CHANNEL_SIGNING_RULES (cr_transition r) in
      length (cr_requestId r) = 32 \<and> cr_context r = sr_context rule \<and> cr_counter r = sr_counter rule
      \<and> 0 \<le> cr_commitmentNumber r \<and> cr_commitmentNumber r \<le> MAX_SIGNING_SLOT_NUMBER
      \<and> (cr_context r = ANNOUNCEMENT \<longrightarrow> cr_commitmentNumber r = 0)
      \<and> isCompressedPoint L (fst (cr_keyAggregation r)) \<and> isCompressedPoint L (snd (cr_keyAggregation r))
      \<and> fst (cr_keyAggregation r) \<noteq> snd (cr_keyAggregation r)
      \<and> length (cr_aggNonce r) = 66 \<and> content_kind (cr_content r) = sr_contentKind rule
      \<and> evidence_typed L (cr_evidence r) \<and> (ev_peerPartialSignature (cr_evidence r) \<noteq> None) = sr_peerPartialSignature rule
      \<and> map_option se_forRemote (cr_settlement r) = sr_settlementForRemote rule
      \<and> (\<forall>s \<in> set_option (cr_settlement r). settlement_typed L s))"

lemma prefix_length: "length WIRE_HEX_PREFIX = 2"
  by (simp add: WIRE_HEX_PREFIX_def)

lemma decodeHexBytes_length: "hex_laws L \<Longrightarrow> decodeHexBytes L f n = Inr b \<Longrightarrow> length b = n"
  by (auto simp: decodeHexBytes_def requireHexBytes_def isWireHex_def is_hex_bytes_pattern_def hex_laws_def prefix_length
      bindR_Inr_iff split: if_splits json.splits option.splits)

lemma int_of_hex_nonneg: "0 \<le> int_of_hex s"
proof -
  have "0 \<le> a \<Longrightarrow> 0 \<le> foldl (\<lambda>a c. 16 * a + int (hex_value c)) a s" for a
    by (induction s arbitrary: a) simp_all
  then show ?thesis by (simp add: int_of_hex_def)
qed

lemma decodeUintHex_range: "decodeUintHex f m = Inr v \<Longrightarrow> 0 \<le> v \<and> v \<le> m"
  by (auto simp: decodeUintHex_def Let_def int_of_hex_nonneg split: json.splits if_splits)

lemma decodeUintHexNumber_range: "decodeUintHexNumber f m = Inr v \<Longrightarrow> 0 \<le> v \<and> v \<le> m"
  by (auto simp: decodeUintHexNumber_def bindR_Inr_iff dest: decodeUintHex_range)

lemma decodePubkey_point: "decodePubkey L f = Inr k \<Longrightarrow> isCompressedPoint L k"
  by (auto simp: decodePubkey_def bindR_Inr_iff split: if_splits)

lemma decodeSettlementTlc_typed:
  assumes "hex_laws L" "decodeSettlementTlc L f = Inr t"
  shows "tlc_typed L t"
  using assms(2)
  by (auto simp: decodeSettlementTlc_def bindR_Inr_iff tlc_typed_def decodeHexBytes_length [OF assms(1)]
      dest!: decodeUintHexNumber_range decodeUintHex_range decodePubkey_point)

lemma decodeSettlement_typed:
  assumes "hex_laws L" "decodeSettlement L f forRemote = Inr s"
  shows "settlement_typed L s \<and> se_forRemote s = forRemote"
  using assms(2)
  by (auto simp: decodeSettlement_def bindR_Inr_iff settlement_typed_def mapR_Inr_list_all2 list_all2_conv_all_nth list_all_length
      dest!: decodeUintHex_range decodePubkey_point intro!: decodeSettlementTlc_typed [OF assms(1)] split: if_splits)

lemma decodeEvidence_typed:
  assumes "hex_laws L" "decodeEvidence L f rule = Inr e"
  shows "evidence_typed L e \<and> (ev_peerPartialSignature e \<noteq> None) = sr_peerPartialSignature rule"
  using assms(2)
  by (auto simp: decodeEvidence_def bindR_Inr_iff evidence_typed_def nonceHalves_def Let_def decodeHexBytes_length [OF assms(1)]
      split: if_splits)

lemma decodeSettlementOf_typed:
  assumes "hex_laws L" "decodeSettlementOf L f rule = Inr so"
  shows "map_option se_forRemote so = sr_settlementForRemote rule \<and> (\<forall>s \<in> set_option so. settlement_typed L s)"
  using assms(2)
  by (auto simp: decodeSettlementOf_def bindR_Inr_iff Let_def dest!: decodeSettlement_typed [OF assms(1)] split: if_splits option.splits)

lemma decodeNonceSlot_typed:
  "decodeNonceSlot f rule = Inr (ctx, n) \<Longrightarrow>
   ctx = sr_context rule \<and> 0 \<le> n \<and> n \<le> MAX_SIGNING_SLOT_NUMBER \<and> (ctx = ANNOUNCEMENT \<longrightarrow> n = 0)"
  by (auto simp: decodeNonceSlot_def bindR_Inr_iff dest!: decodeUintHexNumber_range split: if_splits)

lemma decodeKeyAggContext_typed:
  "decodeKeyAggContext L f = Inr ks \<Longrightarrow> isCompressedPoint L (fst ks) \<and> isCompressedPoint L (snd ks) \<and> fst ks \<noteq> snd ks"
  by (auto simp: decodeKeyAggContext_def bindR_Inr_iff Let_def split: if_splits)

lemma decodeAggNonce_length: "hex_laws L \<Longrightarrow> decodeAggNonce L f = Inr b \<Longrightarrow> length b = 66"
  by (auto simp: decodeAggNonce_def bindR_Inr_iff nonceHalves_def Let_def dest: decodeHexBytes_length split: if_splits)

lemma decodeSignableContent_kind: "decodeSignableContent L f rule = Inr c \<Longrightarrow> content_kind c = sr_contentKind rule"
  by (auto simp: decodeSignableContent_def bindR_Inr_iff split: if_splits channel_signing_content_kind.splits)

lemma decodeCounter_rule: "decodeCounter f rule = Inr c \<Longrightarrow> c = sr_counter rule"
  by (auto simp: decodeCounter_def bindR_Inr_iff split: if_splits)

lemma decodeChannelSigningStatus_read: "decodeChannelSigningStatus L f = Inr x \<longleftrightarrow> readChannelSigningStatus L f = Inr x"
  by (auto simp: decodeChannelSigningStatus_def withProtocolError_def split: sum.splits)

text \<open>C38 (type). A request the device reads is well formed: every byte string has its length, every number its range, every
  key is a point, the two funding keys differ, and the nonce purpose, the counter, the content, the peer's partial signature
  and the settlement's view are those of its transition. Nothing past the decoder meets another request.\<close>

theorem read_request_typed:
  assumes "hex_laws L" "decodeChannelSigningStatus L f = Inr (Some r)"
  shows "request_typed L r"
proof -
  from assms(2) have "readChannelSigningStatus L f = Inr (Some r)" by (simp add: decodeChannelSigningStatus_read)
  then show ?thesis
    unfolding readChannelSigningStatus_def
    by (auto simp: bindR_Inr_iff Let_def request_typed_def split: if_splits
        dest!: decodeHexBytes_length [OF assms(1)] decodeNonceSlot_typed decodeCounter_rule decodeKeyAggContext_typed
          decodeAggNonce_length [OF assms(1)] decodeSignableContent_kind decodeEvidence_typed [OF assms(1)]
          decodeSettlementOf_typed [OF assms(1)])
qed

lemma flat_lib_hex_laws: "hex_laws flat_lib"
  using demo_lib_hex_laws by (simp add: hex_laws_def flat_lib_def)

theorem read_request_typed_witness: "request_typed flat_lib flat_request"
  by (rule read_request_typed [OF flat_lib_hex_laws flat_decoded])

section \<open>The signing deadline\<close>

text \<open>The loop keeps the least of the expiries less the reserve, cut at zero.\<close>

definition reserved_expiry :: "int \<Rightarrow> int \<Rightarrow> int" where
  "reserved_expiry reserve e = (if e > reserve then e - reserve else 0)"

lemma deadlineLoop_Some:
  "deadlineLoop reserve (Some d) es = Some (Min (insert d (reserved_expiry reserve ` set es)))"
proof (induction es arbitrary: d)
  case (Cons e es)
  have "Min (insert d (insert c A)) = Min (insert (if c < d then c else d) A)" if "finite A" for c :: int and A
    using that by (cases "A = {}") (auto simp: min_def)
  then show ?case by (auto simp: Cons.IH reserved_expiry_def)
qed simp

lemma deadlineLoop_None:
  "deadlineLoop reserve None es = (if es = [] then None else Some (Min (reserved_expiry reserve ` set es)))"
  by (cases es) (simp_all add: deadlineLoop_Some reserved_expiry_def)

lemma castF64ToU64_range: "0 \<le> castF64ToU64 d \<and> castF64ToU64 d \<le> UINT64_MAX" if "0 < snd d"
proof -
  have "fst d div snd d < 2 ^ 64" if "fst d < 2 ^ 64 * snd d"
  proof (rule ccontr)
    assume "\<not> fst d div snd d < 2 ^ 64"
    then have "2 ^ 64 * snd d \<le> fst d div snd d * snd d" using \<open>0 < snd d\<close> by (intro mult_right_mono) auto
    also have "\<dots> \<le> fst d" using pos_mod_sign [OF \<open>0 < snd d\<close>, of "fst d"] div_mult_mod_eq [of "fst d" "snd d"] by linarith
    finally show False using that by simp
  qed
  moreover have "0 \<le> fst d div snd d" if "0 < fst d" using that \<open>0 < snd d\<close> by (simp add: pos_imp_zdiv_nonneg_iff)
  ultimately show ?thesis by (auto simp: castF64ToU64_def)
qed

lemma roundDouble_denominator: "0 < snd (roundDouble a b)"
  by (simp add: roundDouble_def Let_def)

lemma tlcExpiryDelay_range: "0 \<le> tlcExpiryDelay delay perEpoch \<and> tlcExpiryDelay delay perEpoch \<le> UINT64_MAX"
  unfolding tlcExpiryDelay_def Let_def by (intro castF64ToU64_range roundDouble_denominator)

text \<open>C39 (bounds). The deadline answered for a signature is absent exactly when nothing is pending. Otherwise it is the least
  expiry pending less the delay of the channel, zero once a TLC is inside that delay: within 64 bits and at most every
  pending expiry. The delay, computed in doubles, is within 64 bits for every pinned epoch and network.\<close>

theorem deadline_bounds:
  assumes "list_all (tlc_typed L) ts"
  shows "tlcExpiryDelay delay perEpoch \<in> {0..UINT64_MAX}
    \<and> pendingTlcSignatureDeadline ts delay perEpoch =
        (if ts = [] then None else Some (Min (reserved_expiry (tlcExpiryDelay delay perEpoch) ` ss_expiryMs ` set ts)))
    \<and> (\<forall>d \<in> set_option (pendingTlcSignatureDeadline ts delay perEpoch). d \<in> {0..UINT64_MAX} \<and> (\<forall>t \<in> set ts. d \<le> ss_expiryMs t))"
proof -
  let ?r = "tlcExpiryDelay delay perEpoch"
  have r: "0 \<le> ?r" "?r \<le> UINT64_MAX" using tlcExpiryDelay_range by auto
  have all: "pendingTlcSignatureDeadline ts delay perEpoch =
     (if ts = [] then None else Some (Min (reserved_expiry ?r ` ss_expiryMs ` set ts)))"
    by (simp add: pendingTlcSignatureDeadline_def deadlineLoop_None)
  have each: "0 \<le> reserved_expiry ?r (ss_expiryMs t)" "reserved_expiry ?r (ss_expiryMs t) \<le> ss_expiryMs t" "ss_expiryMs t \<le> UINT64_MAX"
    if "t \<in> set ts" for t
    using that r assms by (auto simp: tlc_typed_def reserved_expiry_def list_all_iff)
  have "d \<in> {0..UINT64_MAX} \<and> (\<forall>t \<in> set ts. d \<le> ss_expiryMs t)" if "pendingTlcSignatureDeadline ts delay perEpoch = Some d" for d
  proof -
    from that all have ne: "ts \<noteq> []" and m: "d = Min (reserved_expiry ?r ` ss_expiryMs ` set ts)" by (auto split: if_splits)
    have "d \<in> reserved_expiry ?r ` ss_expiryMs ` set ts" unfolding m by (rule Min_in) (use ne in simp_all)
    then obtain t where t: "t \<in> set ts" "d = reserved_expiry ?r (ss_expiryMs t)" by auto
    have "d \<le> ss_expiryMs u" if "u \<in> set ts" for u
    proof -
      have "d \<le> reserved_expiry ?r (ss_expiryMs u)" unfolding m by (rule Min_le) (use that in simp_all)
      with each(2) [OF that] show ?thesis by linarith
    qed
    with each [OF t(1)] t(2) show ?thesis by auto
  qed
  with all r show ?thesis by auto
qed

definition pending_tlc :: signing_settlement_tlc where
  "pending_tlc = \<lparr> ss_tlcId = 0, ss_direction = received, ss_hashAlgorithm = CkbHash, ss_amountShannons = 1,
     ss_paymentHash = zero_bytes 32, ss_expiryMs = 10000000, ss_localKeyCommitmentNumber = 1,
     ss_localKeyPubkey = sample_point, ss_remoteTlcPubkey = sample_point \<rparr>"

lemma sample_delay: "tlcExpiryDelay 0x10000000001 14400000 = 9600000"
  by code_simp

text \<open>One epoch of four hours: two thirds of it before the expiry.\<close>

theorem deadline_bounds_witness:
  "pendingTlcSignatureDeadline [pending_tlc] 0x10000000001 14400000 = Some 400000
   \<and> (400000 :: int) \<in> {0..UINT64_MAX} \<and> 400000 \<le> ss_expiryMs pending_tlc"
proof -
  have "list_all (tlc_typed demo_lib) [pending_tlc]" by code_simp
  from deadline_bounds [OF this, of "0x10000000001" 14400000] show ?thesis
    by (simp add: sample_delay reserved_expiry_def pending_tlc_def)
qed

end
