(* ===== verification/OpeningFacts.thy ===== *)
theory OpeningFacts
  imports SdkChecks EngineSample
begin

text \<open>
  The opening of a channel as the device checks it: what it pins is what it asked for, and the funding cell holds
  every shannon of it under the lock of the two funding keys.
\<close>

lemma layoutsReserving_Inr:
  assumes "layoutsReserving closeScript reserve layouts = Inr ls" "layout \<in> set ls"
  shows "layout \<in> set layouts \<and> reservedCkbShannons closeScript layout = Inr reserve"
proof -
  from assms(1) obtain rs where "list_all2 (\<lambda>l p. bindR (reservedCkbShannons closeScript l) (\<lambda>r. Inr (l, r)) = Inr p) layouts rs"
    and ls: "ls = map fst (filter (\<lambda>(l, r). r = reserve) rs)"
    by (auto simp: layoutsReserving_def bindR_Inr_iff mapR_Inr_list_all2)
  then have rs: "list_all2 (\<lambda>l p. fst p = l \<and> reservedCkbShannons closeScript l = Inr (snd p)) layouts rs"
    by (elim list_all2_mono) (auto simp: bindR_Inr_iff)
  from assms(2) ls have "(layout, reserve) \<in> set rs" by auto
  then obtain i where "i < length rs" "rs ! i = (layout, reserve)" by (auto simp: in_set_conv_nth)
  with list_all2_nthD2 [OF rs, of i] list_all2_lengthD [OF rs] show ?thesis by auto
qed

lemma checkOpeningReserves_Inr:
  assumes "checkOpeningReserves userLock context = Inr (a, b)"
  shows "\<exists>layout \<in> set COMMITMENT_LOCK_LAYOUTS. reservedCkbShannons userLock layout = Inr a
    \<and> reservedCkbShannons (tc_remoteShutdownScript context) layout = Inr b"
proof -
  from assms obtain ls both where first: "layoutsReserving userLock a COMMITMENT_LOCK_LAYOUTS = Inr ls"
    and second: "layoutsReserving (tc_remoteShutdownScript context) b ls = Inr both" and "both \<noteq> []"
    by (auto simp: checkOpeningReserves_def rejectOpening_def Let_def bindR_Inr_iff split: if_splits)
  then obtain layout where "layout \<in> set both" by (cases both) auto
  from layoutsReserving_Inr [OF second this] have l: "layout \<in> set ls"
    "reservedCkbShannons (tc_remoteShutdownScript context) layout = Inr b" by simp_all
  from layoutsReserving_Inr [OF first l(1)] l(2) show ?thesis by blast
qed

lemma checkRemoteKey_Inr: "checkRemoteKey L fld key own = Inr u \<longleftrightarrow> isCompressedPoint L key \<and> key \<noteq> own"
  by (auto simp: checkRemoteKey_def rejectOpening_def)

lemma moleculeScript_same: "moleculeScript n s = Inr b \<Longrightarrow> moleculeScript m s' = Inr b \<Longrightarrow> s = s'"
  using script.dec_enc [where path = "''p''" and refuse = "\<lambda>a b. TypeErr a"] by (metis sum.inject(2))

text \<open>The funding cell: no type, no data, exactly the capacity, under the network's lock over the two funding keys.\<close>

definition funds_channel :: "lib \<Rightarrow> sdk_opening_request \<Rightarrow> open_tenant_channel_result \<Rightarrow> bytes \<Rightarrow> int \<Rightarrow> bool" where
  "funds_channel L request result remoteFundingPubkey capacity \<longleftrightarrow>
     (\<exists>out rest more lockArgs. outputs (or_unsignedFundingTx result) = out # rest \<and> outputsData (or_unsignedFundingTx result) = [] # more
       \<and> type_script out = None \<and> capacityShannons out = capacity
       \<and> fundingLockArgs L (sq_fundingPubkey request) remoteFundingPubkey = Inr lockArgs
       \<and> lock out = with_args (sq_fundingLock request) lockArgs)"

lemma checkFundingOutput_Inr:
  assumes "checkFundingOutput L request result capacity = Inr u"
  shows "funds_channel L request result (tc_remoteFundingKey (or_openingContext result)) capacity \<and> capacity \<le> UINT64_MAX
    \<and> tc_remoteFundingKey (or_openingContext result) \<noteq> sq_fundingPubkey request"
proof -
  let ?t = "or_unsignedFundingTx result"
  from assms obtain lockArgs found where *: "0 < length (outputs ?t)" "type_script (outputs ?t ! 0) = None"
      "0 < length (outputsData ?t)" "outputsData ?t ! 0 = []" "capacity \<le> UINT64_MAX"
      "tc_remoteFundingKey (or_openingContext result) \<noteq> sq_fundingPubkey request"
      "fundingLockArgs L (sq_fundingPubkey request) (tc_remoteFundingKey (or_openingContext result)) = Inr lockArgs"
      "moleculeScript ''unsignedFundingTx.outputs[0].lock'' (lock (outputs ?t ! 0)) = Inr found"
      "moleculeScript ''script'' (with_args (sq_fundingLock request) lockArgs) = Inr found"
      "capacityShannons (outputs ?t ! 0) = capacity"
    by (auto simp: checkFundingOutput_def rejectOpening_def Let_def bindR_Inr_iff FUNDING_OUTPUT_INDEX_def checkRemoteKey_Inr
        split: if_splits)
  moreover from *(8,9) have "lock (outputs ?t ! 0) = with_args (sq_fundingLock request) lockArgs" by (rule moleculeScript_same)
  ultimately show ?thesis
    unfolding funds_channel_def by (cases "outputs ?t"; cases "outputsData ?t") auto
qed

lemma reservedCkbShannons_nonneg: "reservedCkbShannons s layout = Inr r \<Longrightarrow> 0 \<le> r"
  by (auto simp: reservedCkbShannons_def bindR_Inr_iff Let_def)

text \<open>C7 The opening pinned is the opening asked for. When the node's answer to an opening passes the check, the channel id is
  fiber's over the device's settlement key and the peer's, neither key of the peer's is the device's own, the delay and the
  fee rate are those asked, both reserves are fiber's under one lock layout, the device's side covers its reserve with exactly
  the amount it funds, and the capacity pinned is the liquid capacity and the two reserves, no shannon more or less, and is what
  the funding cell of the transaction holds under the lock of the two funding keys.\<close>

theorem opening_as_asked:
  assumes "checkTenantOpening L request result = Inr ps"
  shows "\<exists>a b remoteAmount. tenantChannelId L (sq_tlcBasePubkey request) (pt_remoteTlcBasePubkey (op_terms ps)) = Inr (or_channelId result)
    \<and> pt_remoteTlcBasePubkey (op_terms ps) \<noteq> sq_tlcBasePubkey request \<and> pt_remoteFundingPubkey (op_terms ps) \<noteq> sq_fundingPubkey request
    \<and> pt_commitmentDelayEpoch (op_terms ps) = sq_commitmentDelayEpoch request
    \<and> pt_commitmentFeeRate (op_terms ps) = sq_commitmentFeeRate request
    \<and> (\<exists>layout \<in> set COMMITMENT_LOCK_LAYOUTS. reservedCkbShannons (sq_userLock request) layout = Inr a
         \<and> reservedCkbShannons (pt_remoteCloseScript (op_terms ps)) layout = Inr b)
    \<and> 0 \<le> a \<and> a \<le> bigInt (sq_fundedShannons request) \<and> 0 \<le> b \<and> b \<le> remoteAmount \<and> bigInt (pt_remoteReservedCkbShannons (op_terms ps)) = b
    \<and> bigInt (op_fundingCapacityShannons ps) = bigInt (sq_fundedShannons request) + remoteAmount
    \<and> bigInt (op_fundingCapacityShannons ps) = bigInt (pt_liquidCapacityShannons (op_terms ps)) + a + b
    \<and> bigInt (op_fundingCapacityShannons ps) \<le> UINT64_MAX
    \<and> funds_channel L request result (pt_remoteFundingPubkey (op_terms ps)) (bigInt (op_fundingCapacityShannons ps))"
proof -
  let ?c = "or_openingContext result"
  let ?rem = "bigInt (tc_remoteAmountShannons ?c)" and ?loc = "bigInt (sq_fundedShannons request)"
  from assms obtain a b u v where *: "checkTenantChannelId L request result = Inr u"
      "tc_commitmentDelayEpoch ?c = sq_commitmentDelayEpoch request" "tc_commitmentFeeRate ?c = sq_commitmentFeeRate request"
      "checkOpeningReserves (sq_userLock request) ?c = Inr (a, b)" "a \<le> ?loc" "b \<le> ?rem"
      "checkFundingOutput L request result (?loc + ?rem) = Inr v"
      "op_terms ps = \<lparr> pt_commitmentFeeRate = tc_commitmentFeeRate ?c, pt_remoteReservedCkbShannons = toString b,
          pt_liquidCapacityShannons = toString (?loc + ?rem - a - b), pt_remoteCloseScript = tc_remoteShutdownScript ?c,
          pt_remoteFundingPubkey = tc_remoteFundingKey ?c, pt_remoteTlcBasePubkey = tc_remoteSettlementKey ?c,
          pt_commitmentDelayEpoch = tc_commitmentDelayEpoch ?c \<rparr>"
      "op_fundingCapacityShannons ps = toString (?loc + ?rem)"
    by (auto simp: checkTenantOpening_def rejectOpening_def Let_def bindR_Inr_iff split: if_splits)
  from checkOpeningReserves_Inr [OF *(4)] reservedCkbShannons_nonneg have r: "0 \<le> a" "0 \<le> b" by blast+
  from *(1) have "tenantChannelId L (sq_tlcBasePubkey request) (tc_remoteSettlementKey ?c) = Inr (or_channelId result)"
      "tc_remoteSettlementKey ?c \<noteq> sq_tlcBasePubkey request"
    by (auto simp: checkTenantChannelId_def rejectOpening_def Let_def bindR_Inr_iff checkRemoteKey_Inr split: if_splits)
  with * r checkFundingOutput_Inr [OF *(7)] checkOpeningReserves_Inr [OF *(4)] show ?thesis
    by (intro exI [of _ a] exI [of _ b] exI [of _ ?rem]) simp
qed

text \<open>An opening that passes.\<close>

definition asked_opening :: sdk_opening_request where
  "asked_opening = \<lparr> sq_fundedShannons = ''20000000000'', sq_userLock = sample_script, sq_commitmentDelayEpoch = 1,
     sq_commitmentFeeRate = 1000, sq_fundingPubkey = sample_point, sq_tlcBasePubkey = sample_point, sq_fundingLock = sample_template \<rparr>"

definition answered_opening :: open_tenant_channel_result where
  "answered_opening =
     (let peer = 3 # zero_bytes 32 in
      \<lparr> or_channelId = projr (tenantChannelId demo_lib sample_point peer),
        or_unsignedFundingTx = \<lparr> tx_version = 0, cellDeps = [], headerDeps = [], inputs = [],
          outputs = [\<lparr> capacityShannons = 30000000000,
                       lock = with_args sample_template (projr (fundingLockArgs demo_lib sample_point peer)), type_script = None \<rparr>],
          outputsData = [[]], witnesses = [] \<rparr>,
        or_openingContext = \<lparr> tc_remoteFundingKey = peer, tc_remoteSettlementKey = peer, tc_remoteShutdownScript = sample_script,
          tc_commitmentDelayEpoch = 1, tc_commitmentFeeRate = 1000, tc_localAmountShannons = ''20000000000'',
          tc_remoteAmountShannons = ''10000000000'',
          tc_localReservedCkbShannons = toString (projr (reservedCkbShannons sample_script legacy)),
          tc_remoteReservedCkbShannons = toString (projr (reservedCkbShannons sample_script legacy)) \<rparr> \<rparr>)"

definition pinned_opening :: sdk_opening_pins where
  "pinned_opening = projr (checkTenantOpening demo_lib asked_opening answered_opening)"

lemma opening_passes: "checkTenantOpening demo_lib asked_opening answered_opening = Inr pinned_opening"
proof -
  have "case checkTenantOpening demo_lib asked_opening answered_opening of Inl e \<Rightarrow> False | Inr ps \<Rightarrow> True" by code_simp
  then show ?thesis by (auto simp: pinned_opening_def split: sum.splits)
qed

theorem opening_as_asked_witness:
  "\<exists>a b. pt_commitmentFeeRate (op_terms pinned_opening) = 1000
    \<and> bigInt (op_fundingCapacityShannons pinned_opening) = bigInt (pt_liquidCapacityShannons (op_terms pinned_opening)) + a + b
    \<and> funds_channel demo_lib asked_opening answered_opening (pt_remoteFundingPubkey (op_terms pinned_opening))
        (bigInt (op_fundingCapacityShannons pinned_opening))"
  using opening_as_asked [OF opening_passes] by (auto simp: asked_opening_def)

end
