(* ===== verification/AllocatorFacts.thy ===== *)
theory AllocatorFacts
  imports SdkRecords
begin

text \<open>
  The indexes the device derives channel keys and preimages from are never allocated twice, whatever the clock does.
\<close>

definition allocator_key :: "string \<Rightarrow> string" where
  "allocator_key kind = ALLOCATOR_KEY_PREFIX @ kind"

definition last_index :: "string \<Rightarrow> storage \<Rightarrow> int option res" where
  "last_index kind st = readRecord (allocator_key kind) LAST_INDEX_FORMAT st"

lemma allocate_result:
  assumes "allocate kind candidate st = (r, st')"
  shows "(\<forall>k. k \<noteq> allocator_key kind \<longrightarrow> st' k = st k)
    \<and> (case r of Inl e \<Rightarrow> st' = st
       | Inr i \<Rightarrow> candidate \<le> i \<and> last_index kind st' = Inr (Some i) \<and> (\<forall>j. last_index kind st = Inr (Some j) \<longrightarrow> j < i))"
proof -
  let ?key = "allocator_key kind"
  obtain x st1 where u: "updateRecord ?key LAST_INDEX_FORMAT (\<lambda>n. Inr (Some (nextIndex candidate n))) st = (x, st1)" by fastforce
  have fmt: "rf_is LAST_INDEX_FORMAT i \<Longrightarrow> rf_belongsAt LAST_INDEX_FORMAT ?key i \<Longrightarrow>
      last_index kind (writeRecord ?key LAST_INDEX_FORMAT i st) = Inr (Some i)" for i
    unfolding last_index_def by (rule last_index.read_write)
  have nxt: "candidate \<le> nextIndex candidate n \<and> (\<forall>j. n = Some j \<longrightarrow> j < nextIndex candidate n)" for n
    by (cases n) (auto simp: nextIndex_def)
  have fresh: "Some (nextIndex candidate n) \<noteq> n" for n
    using nxt [of n] by (cases n) auto
  show ?thesis
  proof (cases "assertForeignKey ?key")
    case (Inl e)
    with u assms show ?thesis by (auto simp: updateRecord_def bindR_def allocate_def bindS_def allocator_key_def)
  next
    case foreign: (Inr v)
    show ?thesis
    proof (cases "readRecord ?key LAST_INDEX_FORMAT st")
      case (Inl e)
      with foreign u have "x = Inl e" "st1 = st" by (simp_all add: updateRecord_def bindR_def)
      with u assms show ?thesis by (auto simp: allocate_def bindS_def allocator_key_def)
    next
      case (Inr n)
      show ?thesis
      proof (cases "rf_is LAST_INDEX_FORMAT (nextIndex candidate n) \<and> rf_belongsAt LAST_INDEX_FORMAT ?key (nextIndex candidate n)")
        case True
        with foreign Inr u fresh have x: "x = Inr (Some (nextIndex candidate n))" "st1 = writeRecord ?key LAST_INDEX_FORMAT (nextIndex candidate n) st"
          by (auto simp: updateRecord_def bindR_def)
        with u assms have r: "r = Inr (nextIndex candidate n)" "st' = st1"
          by (simp_all add: allocate_def bindS_def allocator_key_def)
        have "last_index kind st' = Inr (Some (nextIndex candidate n))" unfolding r(2) x(2) using fmt True by blast
        moreover have "\<forall>j. last_index kind st = Inr (Some j) \<longrightarrow> j < nextIndex candidate n"
          using nxt [of n] Inr by (auto simp: last_index_def)
        moreover have "\<forall>k. k \<noteq> ?key \<longrightarrow> st' k = st k" unfolding r(2) x(2) by (simp add: writeRecord_def)
        ultimately show ?thesis using nxt [of n] by (simp add: r(1))
      next
        case False
        with foreign Inr u fresh have "x = Inl (TypeErr ''updated record'')" "st1 = st"
          by (auto simp: updateRecord_def bindR_def)
        with u assms show ?thesis by (auto simp: allocate_def bindS_def allocator_key_def)
      qed
    qed
  qed
qed

text \<open>Allocations of both kinds, at any readings of the clock, with any writes elsewhere in between.\<close>

datatype allocation_op = AllocateChannel int | AllocateInvoice int | WriteElsewhere string "stored option"

fun allocation_step :: "allocation_op \<Rightarrow> storage \<Rightarrow> (string \<times> int) list \<times> storage" where
  "allocation_step (AllocateChannel nowMs) st =
     (case allocateChannelIndex nowMs st of (Inl e, st') \<Rightarrow> ([], st') | (Inr i, st') \<Rightarrow> ([(''channel'', i)], st'))"
| "allocation_step (AllocateInvoice nowMs) st =
     (case allocateInvoiceIndex nowMs st of (Inl e, st') \<Rightarrow> ([], st') | (Inr i, st') \<Rightarrow> ([(''invoice'', i)], st'))"
| "allocation_step (WriteElsewhere key t) st =
     ([], if key \<in> {allocator_key ''channel'', allocator_key ''invoice''} then st else st(key := t))"

fun allocated :: "allocation_op list \<Rightarrow> storage \<Rightarrow> (string \<times> int) list" where
  "allocated [] st = []"
| "allocated (op # ops) st = (case allocation_step op st of (is, st') \<Rightarrow> is @ allocated ops st')"

definition allocated_of :: "string \<Rightarrow> allocation_op list \<Rightarrow> storage \<Rightarrow> int list" where
  "allocated_of kind ops st = map snd (filter (\<lambda>p. fst p = kind) (allocated ops st))"

lemma last_index_cong: "st' (allocator_key kind) = st (allocator_key kind) \<Longrightarrow> last_index kind st' = last_index kind st"
  by (simp add: last_index_def readRecord_def)

lemma allocator_key_inj [simp]: "allocator_key a = allocator_key b \<longleftrightarrow> a = b"
  by (simp add: allocator_key_def)

text \<open>What one step answers of a kind is above what was last allocated, and is what is last allocated then.\<close>

lemma allocation_step_last:
  assumes "kind \<in> {''channel'', ''invoice''}" "allocation_step op st = (new, st')"
  shows "(filter (\<lambda>p. fst p = kind) new = [] \<and> last_index kind st' = last_index kind st)
    \<or> (\<exists>i. filter (\<lambda>p. fst p = kind) new = [(kind, i)] \<and> last_index kind st' = Inr (Some i)
        \<and> (\<forall>j. last_index kind st = Inr (Some j) \<longrightarrow> j < i))"
proof -
  have one: ?thesis if m: "m = bindS (liftS (readClock nowMs)) (\<lambda>n. allocate k (f n))" "k \<in> {''channel'', ''invoice''}"
    and step: "(case m st of (Inl e, st') \<Rightarrow> ([], st') | (Inr i, st') \<Rightarrow> ([(k, i)], st')) = (new, st')" for m k nowMs f
  proof (cases "readClock nowMs")
    case (Inl e)
    with m step show ?thesis by (simp add: bindS_def)
  next
    case (Inr n)
    obtain r st1 where r: "allocate k (f n) st = (r, st1)" by fastforce
    with m Inr have ms: "m st = (r, st1)" by (simp add: bindS_def)
    note result = allocate_result [OF r]
    show ?thesis
    proof (cases r)
      case (Inl e)
      with ms step result show ?thesis by simp
    next
      case i: (Inr i)
      with ms step have new: "new = [(k, i)]" "st' = st1" by simp_all
      show ?thesis
      proof (cases "k = kind")
        case True
        with new result i show ?thesis by simp
      next
        case False
        with result new last_index_cong [of st1 kind st] show ?thesis by simp
      qed
    qed
  qed
  show ?thesis
  proof (cases op)
    case (AllocateChannel nowMs)
    show ?thesis by (rule one [of "allocateChannelIndex nowMs" nowMs "''channel''" "\<lambda>n. n div MILLISECONDS_PER_SECOND"])
        (use assms(2) AllocateChannel in \<open>simp_all add: allocateChannelIndex_def\<close>)
  next
    case (AllocateInvoice nowMs)
    show ?thesis by (rule one [of "allocateInvoiceIndex nowMs" nowMs "''invoice''" "\<lambda>n. n"])
        (use assms(2) AllocateInvoice in \<open>simp_all add: allocateInvoiceIndex_def\<close>)
  next
    case (WriteElsewhere key t)
    with assms last_index_cong [of st' kind st] show ?thesis by (auto split: if_splits)
  qed
qed

lemma allocated_above:
  assumes "kind \<in> {''channel'', ''invoice''}"
  shows "sorted_wrt (<) (allocated_of kind ops st) \<and>
    (\<forall>i \<in> set (allocated_of kind ops st). \<forall>j. last_index kind st = Inr (Some j) \<longrightarrow> j < i)"
proof (induction ops arbitrary: st)
  case (Cons op ops)
  obtain new st' where s: "allocation_step op st = (new, st')" by fastforce
  have "allocated_of kind (op # ops) st = map snd (filter (\<lambda>p. fst p = kind) new) @ allocated_of kind ops st'"
    by (simp add: allocated_of_def s)
  note all = this
  note IH = Cons.IH [of st']
  from allocation_step_last [OF assms s] show ?case
  proof (elim disjE exE conjE)
    assume "filter (\<lambda>p. fst p = kind) new = []" "last_index kind st' = last_index kind st"
    with all IH show ?case by simp
  next
    fix i
    assume new: "filter (\<lambda>p. fst p = kind) new = [(kind, i)]" and last: "last_index kind st' = Inr (Some i)"
      and above: "\<forall>j. last_index kind st = Inr (Some j) \<longrightarrow> j < i"
    from IH last have rest: "\<forall>j \<in> set (allocated_of kind ops st'). i < j" by simp
    with above have "\<forall>j \<in> set (allocated_of kind ops st'). \<forall>l. last_index kind st = Inr (Some l) \<longrightarrow> l < j"
      by (meson less_trans)
    with all new rest IH above show ?case by simp
  qed
qed (simp add: allocated_of_def)

text \<open>C9 No index is allocated twice. Whatever the clock answers, forwards, backwards or out of bounds, and whatever else is
  written in between, the channel indexes the device allocates rise strictly, and so do the invoice indexes: no two channels
  share a seed, and no two invoices a preimage.\<close>

theorem indexes_rise: "sorted_wrt (<) (allocated_of ''channel'' ops st) \<and> sorted_wrt (<) (allocated_of ''invoice'' ops st)"
  using allocated_above [of "''channel''" ops st] allocated_above [of "''invoice''" ops st] by simp

end
