(* ===== verification/Spec2Isabelle.thy ===== *)
theory Spec2Isabelle
  imports ClaimFacts EngineFacts PaymentFacts HoldFacts InvoiceFacts DispatchFacts SdkFacts SdkDevice RequestFacts OpeningFacts AllocatorFacts
begin

text \<open>
  A verification development of the Fiber LSP SDK (TypeScript, module root \<^verbatim>\<open>src/\<close>): the device that holds the
  keys of Fiber channels hosted at a liquidity provider. The node runs elsewhere and asks the device for musig2
  partial signatures; the device rebuilds every message it signs, keeps a policy record per channel and per payment
  in the host's storage, and never signs blindly. The node is the adversary of most properties below.

  \<^bold>\<open>Parts of the program and how they interact.\<close>
  A host constructs \<^verbatim>\<open>FiberLspSdk\<close> (\<^verbatim>\<open>sdk\<close>) over its storage, fetch, timer and clock. The facade's calls
  (open, close, list, invoice, transfer) and the five steps of its poller talk to the node through \<^verbatim>\<open>rpc\<close>; what the
  node answers is read strictly by \<^verbatim>\<open>wire\<close>, \<^verbatim>\<open>protocol\<close> and \<^verbatim>\<open>invoice\<close>. A signing status goes to the dispatch of
  \<^verbatim>\<open>signer\<close>, which rebuilds the operation with \<^verbatim>\<open>digest\<close> and \<^verbatim>\<open>derivation\<close>, has it checked and claimed by the
  engine of \<^verbatim>\<open>policy\<close>, and signs only what was claimed. The engine reads and writes records of the store, which
  guards each record both ways. Everything rests on the types, checks and molecule codec of \<^verbatim>\<open>common\<close>.

  \<^bold>\<open>Theories of the model\<close> (definitions keep the names of the source; each opens with what it holds).
  \<^item> \<open>Prelude\<close>: bytes, errors as a sum type, plain objects as association lists, decimal strings, the record \<open>lib\<close> of
    third-party functions, the locales \<open>encoder\<close> and \<open>codec\<close>, the collections \<open>res_simps\<close>, \<open>const_defs\<close>, \<open>bytes_simps\<close>.
  \<^item> \<open>Common\<close>: \<^verbatim>\<open>common/\<close> data types, predicates, assertions, byte order, musig2 nonces. \<open>Molecule\<close>:
    \<^verbatim>\<open>common/utils/molecule*.ts\<close>, the writers and the strict reader.
  \<^item> \<open>Derivation\<close>: \<^verbatim>\<open>derivation/\<close>, fiber's key scheme with the 48-step secret tree and the device's own derivations.
  \<^item> \<open>Transaction\<close>, \<open>Digest\<close>, \<open>Settlement\<close>: \<^verbatim>\<open>digest/\<close>, the transaction serialisation and fees, the messages of a
    commitment, a close, a revocation and an announcement, and the settlement unlock of a watchtower spend.
  \<^item> \<open>Wire\<close>: \<^verbatim>\<open>wire/\<close>. \<open>Protocol\<close>: \<^verbatim>\<open>protocol/\<close>, the two signing statuses.
  \<^item> \<open>PolicyTypes\<close>, \<open>Pins\<close>, \<open>Balance\<close>, \<open>Claims\<close>, \<open>Watchtower\<close>, \<open>Guards\<close>, \<open>Store\<close>, \<open>Engine\<close>: \<^verbatim>\<open>policy/\<close>, the
    records, the pinned values, the balance rule, the decision on a request, the rules of a watchtower spend, the
    guards of stored records, the typed store, and every method of the engine as an action on the storage.
  \<^item> \<open>Coder\<close>, \<open>Bech32m\<close>, \<open>Invoice\<close>: \<^verbatim>\<open>invoice/\<close> and \<^verbatim>\<open>common/utils/utf8.utils.ts\<close>.
  \<^item> \<open>Signer\<close>, \<open>Dispatch\<close>: \<^verbatim>\<open>signer/\<close>, the musig2 steps, material, deadline, identity, preimages, and one delivery of
    a signing status.
  \<^item> \<open>Rpc\<close>: \<^verbatim>\<open>rpc/\<close>, params, results, the envelope and the client.
  \<^item> \<open>SdkChecks\<close>, \<open>SdkRecords\<close>, \<open>SdkFlows\<close>, \<open>SdkSteps\<close>, \<open>SdkPoller\<close>, \<open>SdkDevice\<close>: \<^verbatim>\<open>sdk/\<close>, the checks on answers
    and arguments, the records in the device's store, the calls of the host, the five poll steps, the loop, and the
    instance the constructor wires.

  \<^bold>\<open>State and how it corresponds to the code.\<close>
  The storage is a map from keys to texts, the text of a record being the record under a constructor of its kind: the
  JSON text of a stored record is ideal, its guard is not. An \<open>act\<close> of \<open>Store\<close> is a method on the storage that
  answers or throws, with what it wrote kept; each engine method is one action, as its lane makes it, and an update
  takes the record as stored when it runs. \<open>sdk_world\<close> of \<open>SdkFlows\<close> adds the client, the two sets of hashes in
  progress, and traces of the calls posted, the events and the polls asked for. The clock is a function of the number
  of the reading, \<^verbatim>\<open>run.abandoned\<close> too, and the node is a function of the posted text, which carries the number of
  the call; so a property over all contexts is one over every clock, every abandonment and every node. A call or a
  step runs to its end before the next: overlapping of calls across awaits is modelled only by the order of
  engine methods, which \<open>EngineFacts\<close>, \<open>PaymentFacts\<close>, \<open>HoldFacts\<close> and \<open>DispatchFacts\<close> leave arbitrary. The poller is
  a machine whose events may come in any order.

  \<^bold>\<open>Lemma groups.\<close>
  \<^item> \<open>ClaimFacts\<close>, \<open>BalanceFacts\<close>, \<open>WatchtowerFacts\<close>: one channel's record as a step relation, with the invariants by
    rule induction: sessions per slot, numbers that rise, revocations after replacements, pins that stand, wealth that
    never falls, spends that stay distinct and pay the approved destination.
  \<^item> \<open>EngineRuns\<close>, \<open>EngineFacts\<close>: the locale \<open>storage_preorder\<close> of relations every action keeps, interpreted on frames,
    on the record relation and more; any run of engine methods refines runs of the record relation.
  \<^item> \<open>PaymentFacts\<close>, \<open>HoldFacts\<close>: properties across channels: payments within what the user approved, no hash both a
    payment and an invoice, preimages released only for held amounts.
  \<^item> \<open>DispatchFacts\<close>, \<open>RequestFacts\<close>: a delivery moves the storage as methods of the engine do, signs what it
    rebuilt or a watchtower spend it judged, and answers one signature per nonce; requests are typed and deadlines bounded.
  \<^item> \<open>CoderFacts\<close>, \<open>Bech32mFacts\<close>, \<open>InvoiceFacts\<close>: an invoice has one string; the coder is lossless and always returns.
  \<^item> \<open>OpeningFacts\<close>, \<open>AllocatorFacts\<close>, \<open>SdkFacts\<close>, \<open>SdkPoller\<close>: the opening pinned is the one asked for, indexes never
    repeat, preimages reach the node only for invoices held in time by the host's clock, an asked poll is served. \<open>SdkFacts\<close> uses the locale
    \<open>world_relation\<close>, interpreted on the relation that carries the property.
  \<^item> \<open>Sample\<close>, \<open>WatchtowerSample\<close>, \<open>EngineSample\<close>, \<open>DispatchSample\<close>: a worked example, evaluated by the kernel, on which
    the theorems with hypotheses are applied.

  \<^bold>\<open>Numbers, bounds and termination.\<close>
  Numbers and bigints of JavaScript are \<open>int\<close>, with the range checks of the source; bytes are \<open>8 word\<close>, checksums of
  bech32m \<open>32 word\<close>. Doubles (the coder's shares, the deadline) are fractions of integers rounded half-even to 53 bits.
  Commitment numbers have 48 bits, the coder's data at most 16384 bytes, as the source limits them. Loops that might
  not end are \<open>partial_function (option)\<close>, with \<open>None\<close> for not returning, and are proved to return.

  \<^bold>\<open>What is a parameter.\<close>
  Hashes, curves, hex, BIP32 and key aggregation are fields of the records \<open>lib\<close>, \<open>invoice_curve\<close> and \<open>musig\<close>; fetch,
  JSON.parse and JSON.stringify of the record \<open>host\<close>. No property assumes that a hash has no collisions; laws of hex and of
  lengths are named hypotheses where needed, and the witnesses instantiate them. The host's signer of funding inputs is an
  argument. Run-time kind checks and version tags hold by types; strings are Latin-1 char lists, texts of invoices code
  points; objects used as maps keep insertion order; identity comparisons under the store's guards are comparisons of
  values; sorting is stable. A refusal keeps its code and a short label of the rule, an \<^verbatim>\<open>SdkError\<close> its code; messages of
  other errors are shortened to the name they start with.

  \<^bold>\<open>Not modelled.\<close>
  Barrel and interface files carry no code. The default timer and fetch read the runtime's globals: I/O of the host.
  Defensive copies are values. A tick that outlives a stop does nothing but end, so the poller machine
  keeps the live tick only. That the host's effects are callable and its options an object is a check of kinds, which
  types replace. The proofs cover no cryptographic strength: that a partial signature reveals no key is the library's.
\<close>

end
